(* ===== verification/GoStrings.thy ===== *)
theory GoStrings
  imports Prelude
begin

text \<open>
  What the service uses of Go's \<open>unicode/utf8\<close> and \<open>strings\<close> packages. A Go string is a sequence
  of bytes, which is exactly a HOL \<open>string\<close> (a list of 8-bit characters), so \<open>len(s)\<close> is
  \<open>length s\<close>. Functions of the standard library keep their Go names.
\<close>

section \<open>UTF-8\<close>

definition byte :: "char \<Rightarrow> nat" where
  "byte c = of_char c"

definition utf8_cont :: "char \<Rightarrow> bool" where
  "utf8_cont c \<longleftrightarrow> 128 \<le> byte c \<and> byte c < 192"

text \<open>
  The number of bytes of the well-formed sequence at the head of a string; 0 where there is none
  (the empty string, a stray continuation byte, an overlong form, a surrogate, a value above
  U+10FFFF or a truncated sequence).
\<close>

fun utf8_len :: "string \<Rightarrow> nat" where
  "utf8_len [] = 0"
| "utf8_len (c # cs) =
     (let b = byte c in
      if b < 128 then 1
      else if 194 \<le> b \<and> b < 224 then
        (case cs of c1 # _ \<Rightarrow> if utf8_cont c1 then 2 else 0 | _ \<Rightarrow> 0)
      else if 224 \<le> b \<and> b < 240 then
        (case cs of c1 # c2 # _ \<Rightarrow>
           if utf8_cont c1 \<and> utf8_cont c2 \<and> (b = 224 \<longrightarrow> 160 \<le> byte c1) \<and> (b = 237 \<longrightarrow> byte c1 < 160)
           then 3 else 0
         | _ \<Rightarrow> 0)
      else if 240 \<le> b \<and> b < 245 then
        (case cs of c1 # c2 # c3 # _ \<Rightarrow>
           if utf8_cont c1 \<and> utf8_cont c2 \<and> utf8_cont c3
             \<and> (b = 240 \<longrightarrow> 144 \<le> byte c1) \<and> (b = 244 \<longrightarrow> byte c1 < 144)
           then 4 else 0
         | _ \<Rightarrow> 0)
      else 0)"

text \<open>\<open>utf8.DecodeRuneInString\<close>: the rune and its width, (U+FFFD, 1) on an invalid byte and
  (U+FFFD, 0) at the end of the string.\<close>

definition rune_error :: nat where
  "rune_error = 65533"

definition DecodeRune :: "string \<Rightarrow> nat \<times> nat" where
  "DecodeRune s =
     (case utf8_len s of
        0 \<Rightarrow> (rune_error, if s = [] then 0 else 1)
      | Suc 0 \<Rightarrow> (byte (s ! 0), 1)
      | Suc (Suc 0) \<Rightarrow> ((byte (s ! 0) - 192) * 64 + (byte (s ! 1) - 128), 2)
      | Suc (Suc (Suc 0)) \<Rightarrow>
          ((byte (s ! 0) - 224) * 4096 + (byte (s ! 1) - 128) * 64 + (byte (s ! 2) - 128), 3)
      | n \<Rightarrow>
          ((byte (s ! 0) - 240) * 262144 + (byte (s ! 1) - 128) * 4096
             + (byte (s ! 2) - 128) * 64 + (byte (s ! 3) - 128), n))"

text \<open>\<open>utf8.AppendRune\<close>: the bytes of a rune; surrogates and values out of range are written as
  U+FFFD.\<close>

definition EncodeRune :: "nat \<Rightarrow> string" where
  "EncodeRune r =
     (if r < 128 then [char_of r]
      else if r < 2048 then [char_of (192 + r div 64), char_of (128 + r mod 64)]
      else if (55296 \<le> r \<and> r < 57344) \<or> 1114112 \<le> r then map char_of [239, 191, 189 :: nat]
      else if r < 65536 then
        [char_of (224 + r div 4096), char_of (128 + r div 64 mod 64), char_of (128 + r mod 64)]
      else
        [char_of (240 + r div 262144), char_of (128 + r div 4096 mod 64),
         char_of (128 + r div 64 mod 64), char_of (128 + r mod 64)])"

definition replacement :: string where
  "replacement = map char_of [239, 191, 189 :: nat]"

lemma utf8_len_le: "utf8_len s \<le> length s"
  by (cases s) (auto simp: Let_def split: list.splits)

lemma utf8_len_le4: "utf8_len s \<le> 4"
  by (cases s) (auto simp: Let_def split: list.splits)

lemma utf8_len_append: "utf8_len s \<noteq> 0 \<Longrightarrow> utf8_len (s @ t) = utf8_len s"
proof (cases s)
  case Nil
  assume "utf8_len s \<noteq> 0"
  with Nil show ?thesis by simp
next
  case (Cons c cs)
  assume "utf8_len s \<noteq> 0"
  with Cons show ?thesis
    by (cases cs; cases "tl cs"; cases "tl (tl cs)") (simp_all add: Let_def split: if_split_asm)
qed

lemma utf8_len_take_self: "utf8_len (take (utf8_len s) s) = utf8_len s"
proof (cases s)
  case Nil
  then show ?thesis by simp
next
  case (Cons c cs)
  then show ?thesis
    by (cases cs; cases "tl cs"; cases "tl (tl cs)") (auto simp: Let_def)
qed

lemma utf8_len_take: "utf8_len s \<noteq> 0 \<Longrightarrow> utf8_len (take (utf8_len s) s @ t) = utf8_len s"
  using utf8_len_append [of "take (utf8_len s) s" t] by (simp add: utf8_len_take_self)

lemma utf8_len_ascii [simp]: "byte c < 128 \<Longrightarrow> utf8_len (c # cs) = 1"
  by simp

text \<open>A string all of whose bytes belong to well-formed sequences.\<close>

function valid_utf8 :: "string \<Rightarrow> bool" where
  "valid_utf8 s =
     (if s = [] then True else if utf8_len s = 0 then False
      else valid_utf8 (drop (utf8_len s) s))"
  by pat_completeness auto
termination
  by (relation "measure length") auto

declare valid_utf8.simps [simp del]

lemma valid_utf8_Nil [simp]: "valid_utf8 []"
  by (simp add: valid_utf8.simps [of "[]"])

lemma valid_utf8_append: "valid_utf8 s \<Longrightarrow> valid_utf8 t \<Longrightarrow> valid_utf8 (s @ t)"
proof (induction s rule: valid_utf8.induct)
  case (1 s)
  show ?case
  proof (cases "s = []")
    case True
    with "1.prems" show ?thesis by simp
  next
    case False
    with "1.prems" have n: "utf8_len s \<noteq> 0" and v: "valid_utf8 (drop (utf8_len s) s)"
      by (simp_all add: valid_utf8.simps [of s] split: if_splits)
    from 1 False n v have "valid_utf8 (drop (utf8_len s) s @ t)" by blast
    with n show ?thesis
      by (simp add: valid_utf8.simps [of "s @ t"] utf8_len_append utf8_len_le)
  qed
qed

section \<open>Package strings\<close>

definition HasPrefix :: "string \<Rightarrow> string \<Rightarrow> bool" where
  "HasPrefix s p \<longleftrightarrow> prefix p s"

definition HasSuffix :: "string \<Rightarrow> string \<Rightarrow> bool" where
  "HasSuffix s p \<longleftrightarrow> suffix p s"

definition TrimSuffix :: "string \<Rightarrow> string \<Rightarrow> string" where
  "TrimSuffix s p = (if HasSuffix s p then take (length s - length p) s else s)"

text \<open>\<open>strings.Count\<close> of a one-byte separator.\<close>

definition CountByte :: "string \<Rightarrow> char \<Rightarrow> nat" where
  "CountByte s c = count_list s c"

text \<open>\<open>strings.Cut(s, sep)\<close> for a one-byte separator: before, after, found.\<close>

definition Cut :: "string \<Rightarrow> char \<Rightarrow> string \<times> string \<times> bool" where
  "Cut s c = (if c \<in> set s then (takeWhile (\<lambda>x. x \<noteq> c) s, tl (dropWhile (\<lambda>x. x \<noteq> c) s), True)
              else (s, [], False))"

lemma Cut_found: "c \<notin> set a \<Longrightarrow> Cut (a @ c # b) c = (a, b, True)"
proof -
  assume "c \<notin> set a"
  then have n: "\<And>x. x \<in> set a \<Longrightarrow> x \<noteq> c" by blast
  from n have "takeWhile (\<lambda>x. x \<noteq> c) (a @ c # b) = a" by (subst takeWhile_append2) auto
  moreover from n have "dropWhile (\<lambda>x. x \<noteq> c) (a @ c # b) = c # b"
    by (subst dropWhile_append2) auto
  ultimately show ?thesis by (simp add: Cut_def)
qed

lemma Cut_join: "Cut s c = (a, b, True) \<Longrightarrow> s = a @ c # b \<and> c \<notin> set a"
proof -
  assume h: "Cut s c = (a, b, True)"
  then have m: "c \<in> set s" and a: "a = takeWhile (\<lambda>x. x \<noteq> c) s"
    and b: "b = tl (dropWhile (\<lambda>x. x \<noteq> c) s)"
    by (auto simp: Cut_def split: if_splits)
  from m have d: "dropWhile (\<lambda>x. x \<noteq> c) s = c # b"
    by (metis (mono_tags, lifting) b dropWhile_eq_Nil_conv hd_dropWhile list.collapse)
  have "s = a @ dropWhile (\<lambda>x. x \<noteq> c) s" by (simp add: a)
  with d have "s = a @ c # b" by simp
  moreover have "c \<notin> set a" by (auto simp: a dest: set_takeWhileD)
  ultimately show ?thesis by simp
qed

text \<open>
  \<open>strings.TrimSpace\<close>. The white space of \<open>unicode.IsSpace\<close>, each rune as its UTF-8 bytes: the
  ASCII blanks, U+0085, U+00A0, U+1680, U+2000 to U+200A, U+2028, U+2029, U+202F, U+205F, U+3000.
  Trimming from the right looks at the last rune, so it strips the reversed encodings from the
  reversed string.
\<close>

definition go_spaces :: "string list" where
  "go_spaces =
     map (map char_of)
       ([[9], [10], [11], [12], [13], [32], [194, 133], [194, 160], [225, 154, 128]]
        @ map (\<lambda>k. [226, 128, 128 + k]) [0, 1, 2, 3, 4, 5, 6, 7, 8, 9, 10]
        @ [[226, 128, 168], [226, 128, 169], [226, 128, 175], [226, 129, 159], [227, 128, 128 :: nat]])"

definition head_word :: "string list \<Rightarrow> string \<Rightarrow> nat" where
  "head_word ws s = (case find (\<lambda>w. prefix w s) ws of None \<Rightarrow> 0 | Some w \<Rightarrow> length w)"

function strip_words :: "string list \<Rightarrow> string \<Rightarrow> string" where
  "strip_words ws s =
     (if head_word ws s = 0 \<or> s = [] then s else strip_words ws (drop (head_word ws s) s))"
  by pat_completeness auto
termination
  by (relation "measure (\<lambda>(ws, s). length s)") auto

declare strip_words.simps [simp del]

definition TrimLeftSpace :: "string \<Rightarrow> string" where
  "TrimLeftSpace s = strip_words go_spaces s"

definition TrimRightSpace :: "string \<Rightarrow> string" where
  "TrimRightSpace s = rev (strip_words (map rev go_spaces) (rev s))"

definition TrimSpace :: "string \<Rightarrow> string" where
  "TrimSpace s = TrimRightSpace (TrimLeftSpace s)"

lemma strip_words_suffix: "suffix (strip_words ws s) s"
proof (induction ws s rule: strip_words.induct)
  case (1 ws s)
  show ?case
  proof (cases "head_word ws s = 0 \<or> s = []")
    case True
    then show ?thesis by (simp add: strip_words.simps [of ws s])
  next
    case False
    with 1 have "suffix (strip_words ws (drop (head_word ws s) s)) (drop (head_word ws s) s)"
      by simp
    with False show ?thesis
      by (metis strip_words.simps suffix_drop suffix_order.trans)
  qed
qed

lemma strip_words_done: "head_word ws (strip_words ws s) = 0 \<or> strip_words ws s = []"
proof (induction ws s rule: strip_words.induct)
  case (1 ws s)
  show ?case
  proof (cases "head_word ws s = 0 \<or> s = []")
    case True
    then show ?thesis by (simp add: strip_words.simps [of ws s])
  next
    case False
    with 1 show ?thesis by (simp add: strip_words.simps [of ws s])
  qed
qed

lemma strip_words_id: "head_word ws s = 0 \<Longrightarrow> strip_words ws s = s"
  by (simp add: strip_words.simps [of ws s])

lemma strip_words_Nil [simp]: "strip_words ws [] = []"
  by (simp add: strip_words.simps [of ws "[]"])

lemma strip_words_idem: "strip_words ws (strip_words ws s) = strip_words ws s"
  using strip_words_done [of ws s] by (auto simp: strip_words_id)

lemma go_spaces_nonempty: "w \<in> set go_spaces \<Longrightarrow> w \<noteq> []"
  by (auto simp: go_spaces_def)

lemma head_word_0: "\<lbrakk>\<And>w. w \<in> set ws \<Longrightarrow> w \<noteq> []\<rbrakk> \<Longrightarrow>
    head_word ws s = 0 \<longleftrightarrow> (\<forall>w \<in> set ws. \<not> prefix w s)"
  by (auto simp: head_word_def find_None_set split: option.splits dest: find_SomeD)

lemma TrimRightSpace_prefix: "prefix (TrimRightSpace s) s"
  by (metis TrimRightSpace_def rev_rev_ident strip_words_suffix suffix_to_prefix)

text \<open>Trimming twice is trimming once.\<close>

lemma TrimSpace_idem: "TrimSpace (TrimSpace s) = TrimSpace s"
proof -
  let ?l = "TrimLeftSpace s"
  let ?t = "TrimRightSpace ?l"
  have "head_word go_spaces ?t = 0"
  proof (cases "?l = []")
    case True
    then have "?t = []" using TrimRightSpace_prefix [of ?l] by simp
    then show ?thesis by (simp add: head_word_0 go_spaces_nonempty)
  next
    case False
    then have "head_word go_spaces ?l = 0"
      using strip_words_done by (auto simp: TrimLeftSpace_def)
    then have "\<forall>w \<in> set go_spaces. \<not> prefix w ?l"
      by (simp add: head_word_0 go_spaces_nonempty)
    then have "\<forall>w \<in> set go_spaces. \<not> prefix w ?t"
      using TrimRightSpace_prefix prefix_order.trans by blast
    then show ?thesis by (simp add: head_word_0 go_spaces_nonempty)
  qed
  then have l: "TrimLeftSpace ?t = ?t"
    by (simp add: TrimLeftSpace_def strip_words_id)
  have "strip_words (map rev go_spaces) (rev ?t) = rev ?t"
    by (simp add: TrimRightSpace_def strip_words_idem)
  then have "TrimRightSpace ?t = ?t" by (simp add: TrimRightSpace_def)
  with l show ?thesis by (simp add: TrimSpace_def)
qed

text \<open>A text that starts and ends with visible ASCII characters is left as it is.\<close>

definition visible :: "char \<Rightarrow> bool" where
  "visible c \<longleftrightarrow> 33 \<le> byte c \<and> byte c < 127"

lemma go_spaces_ends: "w \<in> set go_spaces \<Longrightarrow> w \<noteq> [] \<and> \<not> visible (hd w) \<and> \<not> visible (last w)"
  by (auto simp: go_spaces_def visible_def byte_def)

lemma strip_words_visible:
  assumes "s = [] \<or> visible (hd s)" and "\<And>w. w \<in> set ws \<Longrightarrow> w \<noteq> [] \<and> \<not> visible (hd w)"
  shows "strip_words ws s = s"
proof (cases s)
  case (Cons c cs)
  have "\<not> prefix w s" if "w \<in> set ws" for w
    using assms Cons that by (cases w) fastforce+
  then have "head_word ws s = 0" using assms(2) by (simp add: head_word_0)
  then show ?thesis by (rule strip_words_id)
qed simp

lemma TrimSpace_visible: "s = [] \<or> visible (hd s) \<and> visible (last s) \<Longrightarrow> TrimSpace s = s"
proof -
  assume s: "s = [] \<or> visible (hd s) \<and> visible (last s)"
  then have "TrimLeftSpace s = s"
    unfolding TrimLeftSpace_def by (intro strip_words_visible) (auto dest: go_spaces_ends)
  moreover have "strip_words (map rev go_spaces) (rev s) = rev s"
    using s by (intro strip_words_visible) (auto simp: hd_rev dest: go_spaces_ends)
  ultimately show ?thesis by (simp add: TrimSpace_def TrimRightSpace_def)
qed

text \<open>
  \<open>strings.ToLower\<close>: an ASCII string is lowered byte by byte; a string with other runes goes
  through \<open>unicode.ToLower\<close>, a table of the Go distribution that is the argument \<open>uni\<close> here.
\<close>

definition ascii_lower :: "char \<Rightarrow> char" where
  "ascii_lower c = (if CHR ''A'' \<le> c \<and> c \<le> CHR ''Z'' then char_of (byte c + 32) else c)"

definition is_ascii :: "string \<Rightarrow> bool" where
  "is_ascii s \<longleftrightarrow> list_all (\<lambda>c. byte c < 128) s"

definition ToLower :: "(string \<Rightarrow> string) \<Rightarrow> string \<Rightarrow> string" where
  "ToLower uni s = (if is_ascii s then map ascii_lower s else uni s)"

text \<open>
  \<open>strings.EqualFold\<close> against an ASCII text (the only use here), and the case-insensitive field
  lookup of \<open>encoding/json\<close>: simple folding maps a letter to its upper case, and two other runes
  fold to ASCII letters, U+017F to \<open>S\<close> and U+212A to \<open>K\<close>.
\<close>

definition ascii_upper :: "char \<Rightarrow> char" where
  "ascii_upper c = (if CHR ''a'' \<le> c \<and> c \<le> CHR ''z'' then char_of (byte c - 32) else c)"

fun fold_ascii :: "string \<Rightarrow> string" where
  "fold_ascii (a # b # c # s) =
     (if [byte a, byte b, byte c] = [226, 132, 170] then CHR ''K'' # fold_ascii s
      else if [byte a, byte b] = [197, 191] then CHR ''S'' # fold_ascii (c # s)
      else ascii_upper a # fold_ascii (b # c # s))"
| "fold_ascii [a, b] =
     (if [byte a, byte b] = [197, 191] then ''S'' else [ascii_upper a, ascii_upper b])"
| "fold_ascii [a] = [ascii_upper a]"
| "fold_ascii [] = []"

definition EqualFold :: "string \<Rightarrow> string \<Rightarrow> bool" where
  "EqualFold s t \<longleftrightarrow> fold_ascii s = fold_ascii t"

text \<open>\<open>strings.Split\<close> on a one-byte separator.\<close>

fun SplitByte :: "string \<Rightarrow> char \<Rightarrow> string list" where
  "SplitByte [] c = [[]]"
| "SplitByte (x # s) c =
     (if x = c then [] # SplitByte s c
      else (case SplitByte s c of [] \<Rightarrow> [[x]] | w # ws \<Rightarrow> (x # w) # ws))"

text \<open>\<open>strings.Trim(s, cutset)\<close> for an ASCII cutset.\<close>

definition TrimSet :: "string \<Rightarrow> string \<Rightarrow> string" where
  "TrimSet s cs = rev (dropWhile (\<lambda>c. c \<in> set cs) (rev (dropWhile (\<lambda>c. c \<in> set cs) s)))"

end
