(* ===== verification/AppError.thy ===== *)
theory AppError
  imports GoStrings
begin

text \<open>
  Package \<open>apperror\<close> and the errors the service passes around. A Go \<open>error\<close> is nil (no value) or
  a \<open>go_error\<close>: an application error, one of the sentinel values compared by \<open>errors.Is\<close>, an
  error wrapped by \<open>fmt.Errorf(...%w)\<close>, or an error of a library known only by its text. The text of
  a wrapping error keeps the fixed part of its format, at most with the name it mentions (without the
  quotes of \<open>%q\<close>): it is logged and never inspected.
\<close>

datatype sentinel =
    ErrNotFound
  | ErrStaleVersion
  | ErrConflict
  | ErrInvalidDefinition
  | ErrNoRows
  | ErrNotGranted
  | ContextCanceled
  | DeadlineExceeded
  | ErrDecisionUnavailable
  | ErrFailed
  | ErrTaken

datatype go_error =
    AppErr (err_code: int) (err_message: string) (err_status: int) (err_cause: "go_error option")
  | Sentinel sentinel
  | Wrap string go_error
  | Plain string

section \<open>Error chains\<close>

text \<open>\<open>errors.Is\<close> and \<open>errors.As\<close> follow \<open>Unwrap\<close>.\<close>

fun errors_is :: "go_error \<Rightarrow> sentinel \<Rightarrow> bool" where
  "errors_is (AppErr c m st cause) s = (case cause of None \<Rightarrow> False | Some e \<Rightarrow> errors_is e s)"
| "errors_is (Sentinel t) s \<longleftrightarrow> t = s"
| "errors_is (Wrap m e) s = errors_is e s"
| "errors_is (Plain m) s = False"

fun errors_as :: "go_error \<Rightarrow> go_error option" where
  "errors_as (AppErr c m st cause) = Some (AppErr c m st cause)"
| "errors_as (Wrap m e) = errors_as e"
| "errors_as _ = None"

section \<open>Codes and constructors\<close>

definition CodeOK :: int where "CodeOK = 0"
definition CodeInvalidArgument :: int where "CodeInvalidArgument = 10001"
definition CodeNotFound :: int where "CodeNotFound = 10004"
definition CodeRequestTimeout :: int where "CodeRequestTimeout = 10008"
definition CodeTooManyRequests :: int where "CodeTooManyRequests = 10029"
definition CodeUnauthorized :: int where "CodeUnauthorized = 20001"
definition CodeForbidden :: int where "CodeForbidden = 20003"
definition CodeConflict :: int where "CodeConflict = 30009"
definition CodeRequestInProgress :: int where "CodeRequestInProgress = 30010"
definition CodeInternal :: int where "CodeInternal = 50000"
definition CodeDependencyUnavailable :: int where "CodeDependencyUnavailable = 50003"

lemmas code_defs = CodeOK_def CodeInvalidArgument_def CodeNotFound_def CodeRequestTimeout_def
  CodeTooManyRequests_def CodeUnauthorized_def CodeForbidden_def CodeConflict_def
  CodeRequestInProgress_def CodeInternal_def CodeDependencyUnavailable_def

definition Invalid :: "string \<Rightarrow> go_error option \<Rightarrow> go_error" where
  "Invalid message err = AppErr CodeInvalidArgument message 400 err"

definition NotFound :: "string \<Rightarrow> go_error" where
  "NotFound message = AppErr CodeNotFound message 404 None"

definition Conflict :: "string \<Rightarrow> go_error option \<Rightarrow> go_error" where
  "Conflict message err = AppErr CodeConflict message 409 err"

definition RequestInProgress :: go_error where
  "RequestInProgress = AppErr CodeRequestInProgress ''request is already processing'' 409 None"

definition Unauthorized :: "string \<Rightarrow> go_error" where
  "Unauthorized message = AppErr CodeUnauthorized message 401 None"

definition Forbidden :: "string \<Rightarrow> go_error" where
  "Forbidden message = AppErr CodeForbidden message 403 None"

definition TooManyRequests :: go_error where
  "TooManyRequests = AppErr CodeTooManyRequests ''too many requests'' 429 None"

definition RequestTimeout :: go_error where
  "RequestTimeout = AppErr CodeRequestTimeout ''request timeout'' 504 None"

definition Unavailable :: "string \<Rightarrow> go_error option \<Rightarrow> go_error" where
  "Unavailable message err = AppErr CodeDependencyUnavailable message 503 err"

definition Internal :: "go_error \<Rightarrow> go_error" where
  "Internal err = AppErr CodeInternal ''internal server error'' 500 (Some err)"

lemmas app_defs = Invalid_def NotFound_def Conflict_def RequestInProgress_def Unauthorized_def
  Forbidden_def TooManyRequests_def RequestTimeout_def Unavailable_def Internal_def

section \<open>What a client can be told\<close>

text \<open>The pairs of application code and HTTP status the constructors produce.\<close>

definition documented_codes :: "(int \<times> int) list" where
  "documented_codes =
     [(CodeInvalidArgument, 400), (CodeNotFound, 404), (CodeRequestTimeout, 504),
      (CodeTooManyRequests, 429), (CodeUnauthorized, 401), (CodeForbidden, 403),
      (CodeConflict, 409), (CodeRequestInProgress, 409), (CodeInternal, 500),
      (CodeDependencyUnavailable, 503)]"

definition is_app :: "go_error \<Rightarrow> bool" where
  "is_app e \<longleftrightarrow> (case e of AppErr c m st cause \<Rightarrow> (c, st) \<in> set documented_codes | _ \<Rightarrow> False)"

lemma is_app_constructors [simp]:
  "is_app (Invalid m e)" "is_app (NotFound m)" "is_app (Conflict m e)" "is_app RequestInProgress"
  "is_app (Unauthorized m)" "is_app (Forbidden m)" "is_app TooManyRequests" "is_app RequestTimeout"
  "is_app (Unavailable m e)" "is_app (Internal x)"
  by (simp_all add: is_app_def app_defs documented_codes_def)

lemma is_app_as: "is_app e \<Longrightarrow> errors_as e = Some e"
  by (cases e) (auto simp: is_app_def)

lemma errors_as_shape: "errors_as e = Some a \<Longrightarrow> \<exists>c m st cause. a = AppErr c m st cause"
  by (induction e rule: errors_as.induct) auto

end
