(* ===== verification/GoFloat.thy ===== *)
theory GoFloat
  imports GoStrings
begin

text \<open>
  The two float64 conversions \<open>encoding/json\<close> makes when a document passes through an \<open>any\<close>:
  \<open>strconv.ParseFloat(s, 64)\<close> on a number literal and \<open>strconv.AppendFloat\<close> with the shortest
  digits that read back as the same value, in the layout of JSON (exponent form below 1e-6 and from
  1e21 on). The arithmetic is exact: a decimal literal is a ratio of natural numbers, rounded once,
  to nearest with ties to even, to a 53-bit significand.
\<close>

text \<open>A finite float64: sign, significand below \<open>2^53\<close>, exponent; the value is
  \<open>mant * 2 powr exp\<close>, with \<open>2^52 \<le> mant\<close> or the exponent -1074 of the subnormals.\<close>

datatype float64 = F64 (f_neg: bool) (f_mant: nat) (f_exp: int)

fun bitlen :: "nat \<Rightarrow> nat" where
  "bitlen n = (if n = 0 then 0 else Suc (bitlen (n div 2)))"

declare bitlen.simps [simp del]

definition round_half_even :: "nat \<Rightarrow> nat \<Rightarrow> nat" where
  "round_half_even n d =
     (let q = n div d; r = n mod d in
      if 2 * r < d then q else if d < 2 * r then Suc q else if even q then q else Suc q)"

definition floor_log2 :: "nat \<Rightarrow> nat \<Rightarrow> int" where
  "floor_log2 num den =
     (let t = int (bitlen num) - int (bitlen den) in
      if den * 2 ^ nat t \<le> num * 2 ^ nat (- t) then t else t - 1)"

text \<open>The nearest float64 of \<open>num / den\<close>; \<open>None\<close> beyond the largest finite value (ParseFloat's
  range error).\<close>

definition round64 :: "bool \<Rightarrow> nat \<Rightarrow> nat \<Rightarrow> float64 option" where
  "round64 neg num den =
     (if num = 0 then Some (F64 neg 0 (- 1074))
      else let k = max (- 1074) (floor_log2 num den - 52);
               q = round_half_even (num * 2 ^ nat (- k)) (den * 2 ^ nat k);
               q' = (if q = 2 ^ 53 then 2 ^ 52 else q);
               k' = (if q = 2 ^ 53 then k + 1 else k)
           in if 971 < k' then None else Some (F64 neg q' k'))"

text \<open>The parts of a number literal: sign, digits without the point, decimal exponent.\<close>

definition literal_parts :: "string \<Rightarrow> bool \<times> nat \<times> int" where
  "literal_parts s =
     (let neg = prefix ''-'' s; s1 = (if neg then tl s else s);
          ip = takeWhile is_digit s1; s2 = dropWhile is_digit s1;
          fp = (if prefix ''.'' s2 then takeWhile is_digit (tl s2) else []);
          s3 = (if prefix ''.'' s2 then dropWhile is_digit (tl s2) else s2);
          s4 = tl s3; s5 = (if prefix ''-'' s4 \<or> prefix ''+'' s4 then tl s4 else s4);
          e = (if s3 = [] then 0
               else if prefix ''-'' s4 then - int (digits_val s5) else int (digits_val s5))
      in (neg, digits_val (ip @ fp), e - int (length fp)))"

definition ParseFloat :: "string \<Rightarrow> float64 option" where
  "ParseFloat s =
     (case literal_parts s of (neg, m, e) \<Rightarrow> round64 neg (m * 10 ^ nat e) (10 ^ nat (- e)))"

section \<open>Shortest decimal digits\<close>

definition f_num :: "float64 \<Rightarrow> nat" where
  "f_num f = f_mant f * 2 ^ nat (f_exp f)"

definition f_den :: "float64 \<Rightarrow> nat" where
  "f_den f = 2 ^ nat (- f_exp f)"

text \<open>The \<open>p\<close> with \<open>10^(p-1) \<le> num/den < 10^p\<close>, for a positive value.\<close>

definition dec_exp :: "nat \<Rightarrow> nat \<Rightarrow> int" where
  "dec_exp num den =
     (if den \<le> num then int (length (nat_str (num div den)))
      else let l = length (nat_str (den div num)) in
        if den = num * 10 ^ (l - 1) then 2 - int l else 1 - int l)"

text \<open>
  With \<open>n\<close> digits, the two decimals around the value are \<open>lo\<close> and \<open>lo + 1\<close>, scaled by
  \<open>10^(p-n)\<close>. The first \<open>n\<close> for which one of them reads back as the value is the shortest length
  (17 digits always do), and the one that reads back and is nearer is printed.
\<close>

fun shortest :: "nat \<Rightarrow> nat \<Rightarrow> int \<Rightarrow> float64 \<Rightarrow> nat \<Rightarrow> nat \<Rightarrow> nat \<times> nat" where
  "shortest num den p f n 0 = (0, n)"
| "shortest num den p f n (Suc fuel) =
     (let up = 10 ^ nat (int n - p); down = 10 ^ nat (p - int n);
          lo = (num * up) div (den * down); r = (num * up) mod (den * down);
          back = (\<lambda>c. round64 False (c * down) up = Some f)
      in if back lo \<and> back (Suc lo)
         then (if 2 * r < den * down \<or> (2 * r = den * down \<and> even lo) then lo else Suc lo, n)
         else if back lo then (lo, n) else if back (Suc lo) then (Suc lo, n)
         else shortest num den p f (Suc n) fuel)"

definition strip_zeros :: "string \<Rightarrow> string" where
  "strip_zeros ds = rev (dropWhile (\<lambda>c. c = CHR ''0'') (rev ds))"

definition int_str :: "int \<Rightarrow> string" where
  "int_str i = (if i < 0 then ''-'' @ nat_str (nat (- i)) else nat_str (nat i))"

text \<open>The digits \<open>ds\<close> and the point position \<open>dp\<close>: the value is \<open>0.ds * 10^dp\<close>.\<close>

definition layout :: "string \<Rightarrow> int \<Rightarrow> string" where
  "layout ds dp =
     (if dp < - 5 \<or> 21 < dp then
        take 1 ds @ (if 1 < length ds then ''.'' @ drop 1 ds else [])
          @ (if dp - 1 < 0 then ''e'' else ''e+'') @ int_str (dp - 1)
      else
        (if 0 < dp then take (nat dp) ds @ replicate (nat dp - length ds) (CHR ''0'') else ''0'')
          @ (if dp < int (length ds)
             then ''.'' @ replicate (nat (- dp)) (CHR ''0'') @ drop (nat dp) ds else []))"

definition FormatFloat :: "float64 \<Rightarrow> string" where
  "FormatFloat f =
     (if f_neg f then ''-'' else []) @
     (if f_mant f = 0 then ''0''
      else let p = dec_exp (f_num f) (f_den f);
               (c, n) = shortest (f_num f) (f_den f) p (F64 False (f_mant f) (f_exp f)) 1 17;
               ds = nat_str c
           in layout (strip_zeros ds) (p + int (length ds) - int n))"

end
