(* ===== verification/GoJson.thy ===== *)
theory GoJson
  imports GoFloat
begin

text \<open>
  What the rule engine uses of Go's \<open>encoding/json\<close>: the grammar of the scanner, as a parser into
  a syntax tree that keeps number literals and the raw bytes of strings; \<open>Compact\<close> with the HTML
  escaping of \<open>json.Marshal\<close>; quoting and unquoting of strings; and decoding into an \<open>any\<close>
  (\<open>goval\<close>) with the encoding of such a value. Its laws are in \<open>JsonLaws\<close>, \<open>JsonText\<close> and
  \<open>JsonQuote\<close>.
\<close>

section \<open>Syntax trees\<close>

datatype json =
    JNull
  | JBool bool
  | JNum string
  | JStr string
  | JArr "json list"
  | JObj "(string \<times> json) list"

definition dquote :: char where "dquote = CHR 0x22"
definition bslash :: char where "bslash = CHR 0x5C"

definition is_ws :: "char \<Rightarrow> bool" where
  "is_ws c \<longleftrightarrow> byte c \<in> {32, 9, 10, 13}"

definition skip_ws :: "string \<Rightarrow> string" where
  "skip_ws s = dropWhile is_ws s"

definition is_hex :: "char \<Rightarrow> bool" where
  "is_hex c \<longleftrightarrow> is_digit c \<or> (CHR ''a'' \<le> c \<and> c \<le> CHR ''f'') \<or> (CHR ''A'' \<le> c \<and> c \<le> CHR ''F'')"

definition hex_val :: "char \<Rightarrow> nat" where
  "hex_val c = (if is_digit c then byte c - 48
                else if CHR ''a'' \<le> c \<and> c \<le> CHR ''f'' then byte c - 87 else byte c - 55)"

definition is_escape :: "char \<Rightarrow> bool" where
  "is_escape c \<longleftrightarrow> c \<in> {dquote, bslash, CHR ''/'', CHR ''b'', CHR ''f'', CHR ''n'', CHR ''r'', CHR ''t''}"

section \<open>The scanner\<close>

text \<open>The bytes of a string up to the closing quote, and what follows it.\<close>

fun scan_string :: "string \<Rightarrow> (string \<times> string) option" where
  "scan_string [] = None"
| "scan_string (c # s) =
     (if c = dquote then Some ([], s)
      else if c = bslash then
        (case s of
           [] \<Rightarrow> None
         | e # s' \<Rightarrow>
             if is_escape e then map_option (apfst (\<lambda>t. c # e # t)) (scan_string s')
             else if e = CHR ''u'' then
               (case s' of
                  h1 # h2 # h3 # h4 # s'' \<Rightarrow>
                    if is_hex h1 \<and> is_hex h2 \<and> is_hex h3 \<and> is_hex h4
                    then map_option (apfst (\<lambda>t. c # e # h1 # h2 # h3 # h4 # t)) (scan_string s'')
                    else None
                | _ \<Rightarrow> None)
             else None)
      else if byte c < 32 then None
      else map_option (apfst (\<lambda>t. c # t)) (scan_string s))"

definition scan_digits :: "string \<Rightarrow> (string \<times> string) option" where
  "scan_digits s = (if takeWhile is_digit s = [] then None
                    else Some (takeWhile is_digit s, dropWhile is_digit s))"

definition scan_int :: "string \<Rightarrow> (string \<times> string) option" where
  "scan_int s = (if prefix ''0'' s then Some (''0'', tl s) else scan_digits s)"

definition scan_frac :: "string \<Rightarrow> (string \<times> string) option" where
  "scan_frac s = (if prefix ''.'' s then map_option (apfst ((@) ''.'')) (scan_digits (tl s))
                  else Some ([], s))"

definition scan_exp :: "string \<Rightarrow> (string \<times> string) option" where
  "scan_exp s =
     (if prefix ''e'' s \<or> prefix ''E'' s then
        (if prefix ''+'' (tl s) \<or> prefix ''-'' (tl s)
         then map_option (apfst ((@) (take 2 s))) (scan_digits (drop 2 s))
         else map_option (apfst ((@) (take 1 s))) (scan_digits (tl s)))
      else Some ([], s))"

definition scan_number :: "string \<Rightarrow> (string \<times> string) option" where
  "scan_number s =
     (let sg = (if prefix ''-'' s then ''-'' else []) in
      case scan_int (drop (length sg) s) of
        None \<Rightarrow> None
      | Some (ip, s1) \<Rightarrow>
          (case scan_frac s1 of
             None \<Rightarrow> None
           | Some (fp, s2) \<Rightarrow>
               (case scan_exp s2 of
                  None \<Rightarrow> None
                | Some (ep, s3) \<Rightarrow> Some (sg @ ip @ fp @ ep, s3))))"

text \<open>The nesting limit of the scanner (\<open>maxNestingDepth\<close>).\<close>

definition max_depth :: nat where
  "max_depth = 10000"

text \<open>
  One value, with its leading white space, and the unread rest. The first argument is fuel, the
  second the nesting still allowed.
\<close>

fun parse_value :: "nat \<Rightarrow> nat \<Rightarrow> string \<Rightarrow> (json \<times> string) option"
and parse_elems :: "nat \<Rightarrow> nat \<Rightarrow> string \<Rightarrow> (json list \<times> string) option"
and parse_members :: "nat \<Rightarrow> nat \<Rightarrow> string \<Rightarrow> ((string \<times> json) list \<times> string) option" where
  "parse_value 0 d s = None"
| "parse_value (Suc n) d s =
     (case skip_ws s of
        [] \<Rightarrow> None
      | c # s1 \<Rightarrow>
          if c = CHR ''{'' then
            (if d = 0 then None
             else if prefix ''}'' (skip_ws s1) then Some (JObj [], tl (skip_ws s1))
             else map_option (apfst JObj) (parse_members n (d - 1) s1))
          else if c = CHR ''['' then
            (if d = 0 then None
             else if prefix '']'' (skip_ws s1) then Some (JArr [], tl (skip_ws s1))
             else map_option (apfst JArr) (parse_elems n (d - 1) s1))
          else if c = dquote then map_option (apfst JStr) (scan_string s1)
          else if prefix ''null'' (c # s1) then Some (JNull, drop 4 (c # s1))
          else if prefix ''true'' (c # s1) then Some (JBool True, drop 4 (c # s1))
          else if prefix ''false'' (c # s1) then Some (JBool False, drop 5 (c # s1))
          else map_option (apfst JNum) (scan_number (c # s1)))"
| "parse_elems 0 d s = None"
| "parse_elems (Suc n) d s =
     (case parse_value n d s of
        None \<Rightarrow> None
      | Some (v, s1) \<Rightarrow>
          (case skip_ws s1 of
             [] \<Rightarrow> None
           | c # s2 \<Rightarrow>
               if c = CHR '']'' then Some ([v], s2)
               else if c = CHR '','' then map_option (apfst ((#) v)) (parse_elems n d s2)
               else None))"
| "parse_members 0 d s = None"
| "parse_members (Suc n) d s =
     (case skip_ws s of
        [] \<Rightarrow> None
      | q # s1 \<Rightarrow>
          if q \<noteq> dquote then None
          else
            (case scan_string s1 of
               None \<Rightarrow> None
             | Some (k, s2) \<Rightarrow>
                 (case skip_ws s2 of
                    [] \<Rightarrow> None
                  | q2 # s3 \<Rightarrow>
                      if q2 \<noteq> CHR '':'' then None
                      else
                        (case parse_value n d s3 of
                           None \<Rightarrow> None
                         | Some (v, s4) \<Rightarrow>
                             (case skip_ws s4 of
                                [] \<Rightarrow> None
                              | c # s5 \<Rightarrow>
                                  if c = CHR ''}'' then Some ([(k, v)], s5)
                                  else if c = CHR '',''
                                  then map_option (apfst ((#) (k, v))) (parse_members n d s5)
                                  else None)))))"

text \<open>\<open>Decoder.Decode\<close> reads one value and leaves the rest; \<open>json.Unmarshal\<close> allows only white
  space after the value. \<open>Decoder.Decode\<close> at the end of the input is \<open>io.EOF\<close>.\<close>

definition decode_first :: "string \<Rightarrow> (json \<times> string) option" where
  "decode_first s = parse_value (2 * length s + 2) max_depth s"

definition at_eof :: "string \<Rightarrow> bool" where
  "at_eof s \<longleftrightarrow> skip_ws s = []"

section \<open>Printing\<close>

fun sep_by :: "string \<Rightarrow> string list \<Rightarrow> string" where
  "sep_by c [] = []"
| "sep_by c [x] = x"
| "sep_by c (x # y # xs) = x @ c @ sep_by c (y # xs)"

fun print_json :: "json \<Rightarrow> string" where
  "print_json JNull = ''null''"
| "print_json (JBool b) = (if b then ''true'' else ''false'')"
| "print_json (JNum t) = t"
| "print_json (JStr t) = dquote # t @ [dquote]"
| "print_json (JArr vs) = CHR ''['' # sep_by '','' (map print_json vs) @ '']''"
| "print_json (JObj kvs) =
     CHR ''{'' # sep_by '','' (map (\<lambda>(k, v). (dquote # k @ [dquote]) @ '':'' @ print_json v) kvs) @ ''}''"

section \<open>Strings\<close>

definition hex_digit :: "nat \<Rightarrow> char" where
  "hex_digit n = (if n < 10 then char_of (48 + n) else char_of (87 + n))"

text \<open>The HTML escaping of \<open>Compact\<close> on the bytes of a string literal: \<open><\<close>, \<open>>\<close>, \<open>&\<close>, U+2028 and
  U+2029.\<close>

fun html_escape :: "string \<Rightarrow> string" where
  "html_escape (c # s) =
     (if byte c \<in> {60, 62, 38}
      then bslash # ''u00'' @ [hex_digit (byte c div 16), hex_digit (byte c mod 16)] @ html_escape s
      else
        (case s of
           b # a # r \<Rightarrow>
             if byte c = 226 \<and> byte b = 128 \<and> (byte a = 168 \<or> byte a = 169)
             then bslash # ''u202'' @ [hex_digit (byte a mod 16)] @ html_escape r
             else c # html_escape s
         | _ \<Rightarrow> c # html_escape s))"
| "html_escape [] = []"

fun escape_json :: "json \<Rightarrow> json" where
  "escape_json (JStr t) = JStr (html_escape t)"
| "escape_json (JArr vs) = JArr (map escape_json vs)"
| "escape_json (JObj kvs) = JObj (map (\<lambda>(k, v). (html_escape k, escape_json v)) kvs)"
| "escape_json v = v"

text \<open>The bytes a literal stands for (\<open>unquoteBytes\<close>). An unpaired surrogate and an invalid byte
  become U+FFFD.\<close>

definition hex4 :: "string \<Rightarrow> nat" where
  "hex4 s = foldl (\<lambda>n c. 16 * n + hex_val c) 0 (take 4 s)"

definition getu4 :: "string \<Rightarrow> nat option" where
  "getu4 s = (if 6 \<le> length s \<and> prefix (bslash # ''u'') s \<and> list_all is_hex (take 4 (drop 2 s))
              then Some (hex4 (drop 2 s)) else None)"

definition is_surrogate :: "nat \<Rightarrow> bool" where
  "is_surrogate r \<longleftrightarrow> 55296 \<le> r \<and> r < 57344"

text \<open>\<open>utf16.DecodeRune\<close>; \<open>None\<close> is the replacement character it returns on a bad pair.\<close>

definition decode_pair :: "nat \<Rightarrow> nat \<Rightarrow> nat option" where
  "decode_pair r1 r2 =
     (if 55296 \<le> r1 \<and> r1 < 56320 \<and> 56320 \<le> r2 \<and> r2 < 57344
      then Some ((r1 - 55296) * 1024 + (r2 - 56320) + 65536) else None)"

definition unescape :: "char \<Rightarrow> char" where
  "unescape e = (if e = CHR ''b'' then CHR 0x08 else if e = CHR ''f'' then CHR 0x0C
                 else if e = CHR ''n'' then CHR 0x0A else if e = CHR ''r'' then CHR 0x0D
                 else if e = CHR ''t'' then CHR 0x09 else e)"

text \<open>The runes and the width of a \<open>\u\<close> escape at the head of the string.\<close>

definition unescape_u :: "string \<Rightarrow> string \<times> nat" where
  "unescape_u s =
     (let rr = hex4 (drop 2 s) in
      if is_surrogate rr then
        (case getu4 (drop 6 s) of
           None \<Rightarrow> (replacement, 6)
         | Some rr1 \<Rightarrow>
             (case decode_pair rr rr1 of
                None \<Rightarrow> (replacement, 6)
              | Some r \<Rightarrow> (EncodeRune r, 12)))
      else (EncodeRune rr, 6))"

text \<open>The first step of \<open>unquoteBytes\<close> on a non-empty string: the bytes written and the bytes
  read.\<close>

definition unquote_step :: "string \<Rightarrow> string \<times> nat" where
  "unquote_step s =
     (if hd s = bslash then
        (if tl s \<noteq> [] \<and> hd (tl s) = CHR ''u'' then unescape_u s
         else (map unescape (take 1 (tl s)), 2))
      else if byte (hd s) < 128 then (take 1 s, 1)
      else if utf8_len s = 0 then (replacement, 1)
      else (take (utf8_len s) s, utf8_len s))"

lemma unescape_u_pos: "0 < snd (unescape_u s)"
  by (simp add: unescape_u_def Let_def split: option.splits)

lemma unquote_step_pos: "0 < snd (unquote_step s)"
  by (simp add: unquote_step_def unescape_u_pos)

function unquote :: "string \<Rightarrow> string" where
  "unquote s = (if s = [] then [] else fst (unquote_step s) @ unquote (drop (snd (unquote_step s)) s))"
  by pat_completeness auto
termination
  by (relation "measure length") (auto simp: unquote_step_pos)

declare unquote.simps [simp del]

text \<open>The encoder's \<open>appendString\<close> with HTML escaping, without the enclosing quotes.\<close>

definition quote_step :: "string \<Rightarrow> string \<times> nat" where
  "quote_step s =
     (let b = byte (hd s) in
      if b < 128 then
        ((if hd s = dquote \<or> hd s = bslash then [bslash, hd s]
          else if b = 8 then [bslash, CHR ''b''] else if b = 12 then [bslash, CHR ''f'']
          else if b = 10 then [bslash, CHR ''n''] else if b = 13 then [bslash, CHR ''r'']
          else if b = 9 then [bslash, CHR ''t'']
          else if b < 32 \<or> b \<in> {60, 62, 38}
          then bslash # ''u00'' @ [hex_digit (b div 16), hex_digit (b mod 16)]
          else [hd s]), 1)
      else if utf8_len s = 0 then (bslash # ''ufffd'', 1)
      else if DecodeRune s = (8232, 3) \<or> DecodeRune s = (8233, 3)
      then (bslash # ''u202'' @ [hex_digit (fst (DecodeRune s) mod 16)], 3)
      else (take (utf8_len s) s, utf8_len s))"

lemma quote_step_pos: "0 < snd (quote_step s)"
  by (simp add: quote_step_def Let_def)

function quote :: "string \<Rightarrow> string" where
  "quote s = (if s = [] then [] else fst (quote_step s) @ quote (drop (snd (quote_step s)) s))"
  by pat_completeness auto
termination
  by (relation "measure length") (auto simp: quote_step_pos)

declare quote.simps [simp del]

section \<open>Values of type any\<close>

text \<open>A \<open>map[string]any\<close> is kept as an association list with increasing keys, the order in which
  the encoder prints it.\<close>

datatype goval =
    GNil
  | GBool bool
  | GFloat float64
  | GString string
  | GSlice "goval list"
  | GMap "(string \<times> goval) list"

fun map_put :: "string \<Rightarrow> 'a \<Rightarrow> (string \<times> 'a) list \<Rightarrow> (string \<times> 'a) list" where
  "map_put k v [] = [(k, v)]"
| "map_put k v ((k', v') # m) =
     (if k = k' then (k, v) # m else if k < k' then (k, v) # (k', v') # m
      else (k', v') # map_put k v m)"

text \<open>Decoding into an \<open>any\<close>; \<open>None\<close> where a number is out of the range of float64. A repeated key
  overwrites.\<close>

fun decode_any :: "json \<Rightarrow> goval option" where
  "decode_any JNull = Some GNil"
| "decode_any (JBool b) = Some (GBool b)"
| "decode_any (JNum t) = map_option GFloat (ParseFloat t)"
| "decode_any (JStr t) = Some (GString (unquote t))"
| "decode_any (JArr vs) =
     (let ds = map decode_any vs in
      if None \<in> set ds then None else Some (GSlice (map the ds)))"
| "decode_any (JObj kvs) =
     (let ds = map (\<lambda>(k, v). (unquote k, decode_any v)) kvs in
      if None \<in> snd ` set ds then None
      else Some (GMap (fold (\<lambda>(k, v) m. map_put k (the v) m) ds [])))"

text \<open>\<open>json.Marshal\<close> of such a value.\<close>

fun marshal_any :: "goval \<Rightarrow> string" where
  "marshal_any GNil = ''null''"
| "marshal_any (GBool b) = (if b then ''true'' else ''false'')"
| "marshal_any (GFloat f) = FormatFloat f"
| "marshal_any (GString t) = dquote # quote t @ [dquote]"
| "marshal_any (GSlice vs) = CHR ''['' # sep_by '','' (map marshal_any vs) @ '']''"
| "marshal_any (GMap kvs) =
     CHR ''{'' # sep_by '','' (map (\<lambda>(k, v). (dquote # quote k @ [dquote]) @ '':'' @ marshal_any v) kvs) @ ''}''"

end
