(* ===== verification/RuleModel.thy ===== *)
theory RuleModel
  imports AppError GoJson
begin

text \<open>
  The data of package \<open>rule\<close> (\<open>model.go\<close>), the messages of \<open>proto.go\<close>, and the structures of
  \<open>engine.go\<close> that carry no behaviour. Times are microseconds since the epoch. The embedded
  \<open>Audit\<close> struct is a field of the records that embed it.
\<close>

record Audit =
  Version :: int
  CreatedAt :: int
  UpdatedAt :: int
  CreatedBy :: string
  UpdatedBy :: string

record RuleSet =
  rs_ID :: string
  rs_TenantID :: string
  rs_ApplicationID :: string
  rs_Code :: string
  rs_Name :: string
  rs_Description :: string
  rs_Status :: string
  rs_PublishedVersionNumber :: int
  rs_Audit :: Audit

record RuleVersion =
  rv_ID :: string
  rv_TenantID :: string
  rv_ApplicationID :: string
  rv_RuleSetID :: string
  rv_VersionNumber :: int
  rv_Status :: string
  rv_DefinitionJSON :: string
  rv_Checksum :: string
  rv_IdempotencyKey :: string
  rv_PublishedAt :: "int option"
  rv_Audit :: Audit

record 'a Page =
  Items :: "'a list"
  Total :: int
  PageNumber :: int
  PageSize :: int

record EvaluationInput =
  in_TenantID :: string
  in_ApplicationID :: string
  in_RuleSetID :: string
  in_RuleSetCode :: string
  in_VersionNumber :: int
  in_FactsJSON :: string

record OutboxEvent =
  ob_ID :: string
  ob_Subject :: string
  ob_Envelope :: string
  ob_AvailableAt :: int
  ob_CreatedAt :: int
  ob_UpdatedAt :: int
  ob_CreatedBy :: string
  ob_UpdatedBy :: string

record Evaluation =
  Matched :: bool
  MatchedRule :: string
  ResultJSON :: string

text \<open>\<open>BatchEvaluationResult\<close>: an error, or an evaluation with its version.\<close>

record BatchEvaluationResult =
  be_Index :: nat
  be_Outcome :: "go_error + Evaluation \<times> RuleVersion"

record ValidationIssue =
  Path :: string
  Code :: string
  Message :: string

section \<open>Protobuf messages\<close>

record PbRuleSet =
  pb_Id :: string
  pb_TenantId :: string
  pb_ApplicationId :: string
  pb_Code :: string
  pb_Name :: string
  pb_Description :: string
  pb_Status :: string
  pb_PublishedVersionNumber :: int
  pb_Version :: int
  pb_CreatedAt :: int
  pb_UpdatedAt :: int
  pb_CreatedBy :: string
  pb_UpdatedBy :: string

record PbRuleVersion =
  pv_Id :: string
  pv_TenantId :: string
  pv_ApplicationId :: string
  pv_RuleSetId :: string
  pv_VersionNumber :: int
  pv_Status :: string
  pv_DefinitionJson :: string
  pv_Checksum :: string
  pv_Version :: int
  pv_CreatedAt :: int
  pv_UpdatedAt :: int
  pv_CreatedBy :: string
  pv_UpdatedBy :: string
  pv_PublishedAt :: "int option"

definition ToProtoRuleSet :: "RuleSet \<Rightarrow> PbRuleSet" where
  "ToProtoRuleSet value =
     \<lparr>pb_Id = rs_ID value, pb_TenantId = rs_TenantID value, pb_ApplicationId = rs_ApplicationID value,
      pb_Code = rs_Code value, pb_Name = rs_Name value, pb_Description = rs_Description value,
      pb_Status = rs_Status value, pb_PublishedVersionNumber = rs_PublishedVersionNumber value,
      pb_Version = Version (rs_Audit value), pb_CreatedAt = CreatedAt (rs_Audit value),
      pb_UpdatedAt = UpdatedAt (rs_Audit value), pb_CreatedBy = CreatedBy (rs_Audit value),
      pb_UpdatedBy = UpdatedBy (rs_Audit value)\<rparr>"

definition ToProtoRuleVersion :: "RuleVersion \<Rightarrow> PbRuleVersion" where
  "ToProtoRuleVersion value =
     \<lparr>pv_Id = rv_ID value, pv_TenantId = rv_TenantID value, pv_ApplicationId = rv_ApplicationID value,
      pv_RuleSetId = rv_RuleSetID value, pv_VersionNumber = rv_VersionNumber value,
      pv_Status = rv_Status value, pv_DefinitionJson = rv_DefinitionJSON value,
      pv_Checksum = rv_Checksum value, pv_Version = Version (rv_Audit value),
      pv_CreatedAt = CreatedAt (rv_Audit value), pv_UpdatedAt = UpdatedAt (rv_Audit value),
      pv_CreatedBy = CreatedBy (rv_Audit value), pv_UpdatedBy = UpdatedBy (rv_Audit value),
      pv_PublishedAt = rv_PublishedAt value\<rparr>"

section \<open>Request context\<close>

text \<open>The caller put in the context by the authentication middleware, and the state of the context
  when an evaluation starts (\<open>ctx.Err()\<close>).\<close>

datatype principal_type = TypeServiceAccount | TypeSystem | TypeOther string

record principal =
  p_ID :: string
  p_Type :: principal_type
  p_TenantID :: string

record ctx =
  ctx_principal :: "principal option"
  ctx_err :: "go_error option"

end
