(* ===== verification/RuleRepository.thy ===== *)
theory RuleRepository
  imports RuleModel
begin

text \<open>
  \<open>internal/rule/repository.go\<close> and \<open>internal/database/transaction.go\<close> over an explicit database: the
  three tables as lists of rows, each SQL statement as the function it computes, the uniqueness and
  foreign-key constraints of the migrations, and a transaction as a function on the tables whose
  effect is kept on commit and dropped on rollback. What the database server and the driver decide
  is the argument \<open>dbenv\<close>: an error of a statement, of \<open>BEGIN\<close>, \<open>COMMIT\<close> or \<open>ROLLBACK\<close>, whether a
  failed commit was applied, how a JSON column prints what was stored (\<open>sql_json\<close>), and the text
  functions and collation of the server. Text equality is that of PostgreSQL (exact bytes).
\<close>

section \<open>The database\<close>

record OutboxRow =
  or_event :: OutboxEvent
  or_attempts :: nat
  or_published_at :: "int option"
  or_last_error :: string
  or_version :: int

record rule_db =
  rule_sets :: "RuleSet list"
  rule_versions :: "RuleVersion list"
  rule_outbox_events :: "OutboxRow list"

datatype statement =
    InsertRuleSet | UpdateRuleSetRow | SelectRuleSet | CountRuleSets | SelectRuleSets
  | LockRuleSet | SelectByKey | SelectNextNumber | InsertRuleVersion
  | SelectRuleVersion | CountRuleVersions | SelectRuleVersions
  | PublishVersionRow | PublishSetRow | InsertOutbox

record dbenv =
  db_enabled :: bool
  begin_error :: "go_error option"
  commit_error :: "go_error option"
  commit_kept :: bool
  rollback_error :: "go_error option"
  stmt_error :: "statement \<Rightarrow> go_error option"
  rows_error :: "statement \<Rightarrow> go_error option"
  constraint_error :: go_error
  offset_error :: go_error
  sql_json :: "string \<Rightarrow> string"
  sql_lower :: "string \<Rightarrow> string"
  sql_like :: "string \<Rightarrow> string \<Rightarrow> bool"
  sql_code_le :: "string \<Rightarrow> string \<Rightarrow> bool"

text \<open>\<open>Transactor.Within\<close>. The text of a rollback failure wraps the rollback error only.\<close>

definition Within ::
  "dbenv \<Rightarrow> (rule_db \<Rightarrow> (go_error + 'a) \<times> rule_db) \<Rightarrow> rule_db \<Rightarrow> (go_error + 'a) \<times> rule_db" where
  "Within E fn db =
     (if \<not> db_enabled E then (Inl (Plain ''begin transaction: database is disabled''), db)
      else
        (case begin_error E of
           Some err \<Rightarrow> (Inl (Wrap ''begin transaction'' err), db)
         | None \<Rightarrow>
             (case fn db of
                (Inl err, db') \<Rightarrow>
                  (case rollback_error E of
                     Some rollbackErr \<Rightarrow> (Inl (Wrap ''rollback transaction after'' rollbackErr), db)
                   | None \<Rightarrow> (Inl err, db))
              | (Inr x, db') \<Rightarrow>
                  (case commit_error E of
                     Some err \<Rightarrow> (Inl (Wrap ''commit transaction'' err), if commit_kept E then db' else db)
                   | None \<Rightarrow> (Inr x, db')))))"

section \<open>Statements\<close>

definition same_set :: "RuleVersion \<Rightarrow> string \<Rightarrow> string \<Rightarrow> string \<Rightarrow> bool" where
  "same_set v tenantID applicationID ruleSetID \<longleftrightarrow>
     rv_TenantID v = tenantID \<and> rv_ApplicationID v = applicationID \<and> rv_RuleSetID v = ruleSetID"

definition in_app :: "RuleSet \<Rightarrow> string \<Rightarrow> string \<Rightarrow> bool" where
  "in_app r tenantID applicationID \<longleftrightarrow> rs_TenantID r = tenantID \<and> rs_ApplicationID r = applicationID"

text \<open>\<open>GetContext\<close> of the first row of a query: \<open>sql.ErrNoRows\<close> where there is none.\<close>

definition get_row :: "dbenv \<Rightarrow> statement \<Rightarrow> ('a \<Rightarrow> bool) \<Rightarrow> 'a list \<Rightarrow> go_error + 'a" where
  "get_row E st P rows =
     (case stmt_error E st of
        Some err \<Rightarrow> Inl err
      | None \<Rightarrow> (case find P rows of None \<Rightarrow> Inl (Sentinel ErrNoRows) | Some r \<Rightarrow> Inr r))"

definition notFound :: "go_error + 'a \<Rightarrow> go_error + 'a" where
  "notFound r =
     (case r of
        Inl err \<Rightarrow> if errors_is err ErrNoRows then Inl (Sentinel ErrNotFound) else Inl err
      | Inr x \<Rightarrow> Inr x)"

text \<open>\<open>ExecContext\<close> of an update, then \<open>optimistic\<close>: no affected row is a stale version.\<close>

definition exec_update ::
  "dbenv \<Rightarrow> statement \<Rightarrow> ('a \<Rightarrow> bool) \<Rightarrow> ('a \<Rightarrow> 'a) \<Rightarrow> 'a list \<Rightarrow> (go_error + nat) \<times> 'a list" where
  "exec_update E st P f rows =
     (case stmt_error E st of
        Some err \<Rightarrow> (Inl err, rows)
      | None \<Rightarrow> (Inr (count_where P rows), update_where P f rows))"

definition optimistic :: "dbenv \<Rightarrow> statement \<Rightarrow> go_error + nat \<Rightarrow> go_error + unit" where
  "optimistic E st result =
     (case result of
        Inl err \<Rightarrow> Inl err
      | Inr rows \<Rightarrow>
          (case rows_error E st of
             Some err \<Rightarrow> Inl err
           | None \<Rightarrow> if rows = 0 then Inl (Sentinel ErrStaleVersion) else Inr ()))"

fun insert_by :: "('a \<Rightarrow> 'a \<Rightarrow> bool) \<Rightarrow> 'a \<Rightarrow> 'a list \<Rightarrow> 'a list" where
  "insert_by le x [] = [x]"
| "insert_by le x (y # ys) = (if le x y then x # y # ys else y # insert_by le x ys)"

definition order_by :: "('a \<Rightarrow> 'a \<Rightarrow> bool) \<Rightarrow> 'a list \<Rightarrow> 'a list" where
  "order_by le xs = foldr (insert_by le) xs []"

text \<open>\<open>LIMIT ? OFFSET ?\<close>; a negative offset is an error of the server.\<close>

definition page_of :: "dbenv \<Rightarrow> int \<Rightarrow> int \<Rightarrow> 'a list \<Rightarrow> go_error + 'a list" where
  "page_of E limit offset rows =
     (if limit < 0 \<or> offset < 0 then Inl (offset_error E)
      else Inr (take (nat limit) (drop (nat offset) rows)))"

section \<open>Rule sets\<close>

definition sql_CreateRuleSet :: "dbenv \<Rightarrow> RuleSet \<Rightarrow> rule_db \<Rightarrow> (go_error + unit) \<times> rule_db" where
  "sql_CreateRuleSet E value db =
     (case stmt_error E InsertRuleSet of
        Some err \<Rightarrow> (Inl err, db)
      | None \<Rightarrow>
          if \<exists>r \<in> set (rule_sets db). rs_ID r = rs_ID value \<or>
               (in_app r (rs_TenantID value) (rs_ApplicationID value) \<and> rs_Code r = rs_Code value)
          then (Inl (constraint_error E), db)
          else (Inr (), db\<lparr>rule_sets := rule_sets db @ [value]\<rparr>))"

definition bump_set :: "string \<Rightarrow> string \<Rightarrow> string \<Rightarrow> int \<Rightarrow> string \<Rightarrow> RuleSet \<Rightarrow> RuleSet" where
  "bump_set name description status at actor r =
     r\<lparr>rs_Name := name, rs_Description := description, rs_Status := status,
       rs_Audit := (rs_Audit r)\<lparr>Version := Version (rs_Audit r) + 1, UpdatedAt := at, UpdatedBy := actor\<rparr>\<rparr>"

definition sql_UpdateRuleSet :: "dbenv \<Rightarrow> RuleSet \<Rightarrow> int \<Rightarrow> rule_db \<Rightarrow> (go_error + unit) \<times> rule_db" where
  "sql_UpdateRuleSet E value expected db =
     (case exec_update E UpdateRuleSetRow
             (\<lambda>r. in_app r (rs_TenantID value) (rs_ApplicationID value) \<and> rs_ID r = rs_ID value \<and>
                  Version (rs_Audit r) = expected)
             (bump_set (rs_Name value) (rs_Description value) (rs_Status value)
                (UpdatedAt (rs_Audit value)) (UpdatedBy (rs_Audit value)))
             (rule_sets db) of
        (result, rows) \<Rightarrow> (optimistic E UpdateRuleSetRow result, db\<lparr>rule_sets := rows\<rparr>))"

definition sql_GetRuleSet :: "dbenv \<Rightarrow> string \<Rightarrow> string \<Rightarrow> string \<Rightarrow> string \<Rightarrow> rule_db \<Rightarrow> go_error + RuleSet" where
  "sql_GetRuleSet E tenantID applicationID ident code db =
     notFound (get_row E SelectRuleSet
       (if TrimSpace ident = []
        then (\<lambda>r. in_app r tenantID applicationID \<and> rs_Code r = code)
        else (\<lambda>r. in_app r tenantID applicationID \<and> rs_ID r = ident))
       (rule_sets db))"

definition set_filter :: "dbenv \<Rightarrow> (string \<Rightarrow> string) \<Rightarrow> string \<Rightarrow> string \<Rightarrow> string \<Rightarrow> string \<Rightarrow> RuleSet \<Rightarrow> bool" where
  "set_filter E uni tenantID applicationID status keyword r \<longleftrightarrow>
     in_app r tenantID applicationID \<and> (status \<noteq> [] \<longrightarrow> rs_Status r = status) \<and>
     (keyword \<noteq> [] \<longrightarrow>
        (let like = ''%'' @ ToLower uni keyword @ ''%'' in
         sql_like E (sql_lower E (rs_Code r)) like \<or> sql_like E (sql_lower E (rs_Name r)) like))"

definition sql_ListRuleSets ::
  "dbenv \<Rightarrow> (string \<Rightarrow> string) \<Rightarrow> string \<Rightarrow> string \<Rightarrow> string \<Rightarrow> string \<Rightarrow> int \<Rightarrow> int \<Rightarrow> rule_db
     \<Rightarrow> go_error + RuleSet list \<times> int" where
  "sql_ListRuleSets E uni tenantID applicationID status keyword limit offset db =
     (let rows = filter (set_filter E uni tenantID applicationID status keyword) (rule_sets db) in
      case stmt_error E CountRuleSets of
        Some err \<Rightarrow> Inl err
      | None \<Rightarrow>
          (case stmt_error E SelectRuleSets of
             Some err \<Rightarrow> Inl err
           | None \<Rightarrow>
               (case page_of E limit offset (order_by (\<lambda>r s. sql_code_le E (rs_Code r) (rs_Code s)) rows) of
                  Inl err \<Rightarrow> Inl err
                | Inr items \<Rightarrow> Inr (items, int (length rows)))))"

section \<open>Rule versions\<close>

definition next_number :: "RuleVersion list \<Rightarrow> int" where
  "next_number rows = foldr max (map rv_VersionNumber rows) 0 + 1"

text \<open>\<open>INSERT INTO rule_versions\<close>: the primary key, the foreign key and the two unique keys.\<close>

definition insert_version :: "dbenv \<Rightarrow> RuleVersion \<Rightarrow> rule_db \<Rightarrow> (go_error + unit) \<times> rule_db" where
  "insert_version E value db =
     (case stmt_error E InsertRuleVersion of
        Some err \<Rightarrow> (Inl err, db)
      | None \<Rightarrow>
          if (\<exists>v \<in> set (rule_versions db). rv_ID v = rv_ID value \<or>
                (same_set v (rv_TenantID value) (rv_ApplicationID value) (rv_RuleSetID value) \<and>
                 (rv_VersionNumber v = rv_VersionNumber value \<or>
                  rv_IdempotencyKey v = rv_IdempotencyKey value))) \<or>
             (\<forall>r \<in> set (rule_sets db). rs_ID r \<noteq> rv_RuleSetID value)
          then (Inl (constraint_error E), db)
          else (Inr (), db\<lparr>rule_versions := rule_versions db @
                  [value\<lparr>rv_DefinitionJSON := sql_json E (rv_DefinitionJSON value)\<rparr>]\<rparr>))"

definition sql_CreateRuleVersion ::
  "dbenv \<Rightarrow> RuleVersion \<Rightarrow> int \<Rightarrow> rule_db \<Rightarrow> (go_error + RuleVersion \<times> bool) \<times> rule_db" where
  "sql_CreateRuleVersion E value expectedRuleSetVersion db =
     (case notFound (get_row E LockRuleSet
             (\<lambda>r. in_app r (rv_TenantID value) (rv_ApplicationID value) \<and> rs_ID r = rv_RuleSetID value)
             (rule_sets db)) of
        Inl err \<Rightarrow> (Inl err, db)
      | Inr ruleSet \<Rightarrow>
          (let mine = (\<lambda>v. same_set v (rv_TenantID value) (rv_ApplicationID value) (rv_RuleSetID value)) in
           case get_row E SelectByKey (\<lambda>v. mine v \<and> rv_IdempotencyKey v = rv_IdempotencyKey value)
                  (rule_versions db) of
             Inr existing \<Rightarrow>
               if rv_Checksum existing \<noteq> rv_Checksum value then (Inl (Sentinel ErrConflict), db)
               else (Inr (existing, False), db)
           | Inl err \<Rightarrow>
               if \<not> errors_is err ErrNoRows then (Inl err, db)
               else if Version (rs_Audit ruleSet) \<noteq> expectedRuleSetVersion \<or> rs_Status ruleSet = ''disabled''
               then (Inl (Sentinel ErrStaleVersion), db)
               else
                 (case stmt_error E SelectNextNumber of
                    Some err \<Rightarrow> (Inl err, db)
                  | None \<Rightarrow>
                      (let value' = value\<lparr>rv_VersionNumber :=
                             next_number (filter mine (rule_versions db))\<rparr> in
                       case insert_version E value' db of
                         (Inl err, db') \<Rightarrow> (Inl err, db')
                       | (Inr u, db') \<Rightarrow> (Inr (value', True), db')))))"

definition sql_GetRuleVersion ::
  "dbenv \<Rightarrow> string \<Rightarrow> string \<Rightarrow> string \<Rightarrow> string \<Rightarrow> int \<Rightarrow> rule_db \<Rightarrow> go_error + RuleVersion" where
  "sql_GetRuleVersion E tenantID applicationID ruleSetID ident versionNumber db =
     notFound (get_row E SelectRuleVersion
       (if TrimSpace ident = []
        then (\<lambda>v. same_set v tenantID applicationID ruleSetID \<and> rv_VersionNumber v = versionNumber)
        else (\<lambda>v. same_set v tenantID applicationID ruleSetID \<and> rv_ID v = ident))
       (rule_versions db))"

definition sql_ListRuleVersions ::
  "dbenv \<Rightarrow> string \<Rightarrow> string \<Rightarrow> string \<Rightarrow> string \<Rightarrow> int \<Rightarrow> int \<Rightarrow> rule_db
     \<Rightarrow> go_error + RuleVersion list \<times> int" where
  "sql_ListRuleVersions E tenantID applicationID ruleSetID status limit offset db =
     (let rows = filter (\<lambda>v. same_set v tenantID applicationID ruleSetID \<and>
                   (status \<noteq> [] \<longrightarrow> rv_Status v = status)) (rule_versions db) in
      case stmt_error E CountRuleVersions of
        Some err \<Rightarrow> Inl err
      | None \<Rightarrow>
          (case stmt_error E SelectRuleVersions of
             Some err \<Rightarrow> Inl err
           | None \<Rightarrow>
               (case page_of E limit offset
                       (order_by (\<lambda>v w. rv_VersionNumber w \<le> rv_VersionNumber v) rows) of
                  Inl err \<Rightarrow> Inl err
                | Inr items \<Rightarrow> Inr (items, int (length rows)))))"

definition publish_version_row :: "RuleVersion \<Rightarrow> RuleVersion \<Rightarrow> RuleVersion" where
  "publish_version_row version v =
     v\<lparr>rv_Status := ''published'', rv_PublishedAt := rv_PublishedAt version,
       rv_Audit := (rv_Audit v)\<lparr>Version := Version (rv_Audit v) + 1,
         UpdatedAt := UpdatedAt (rv_Audit version), UpdatedBy := UpdatedBy (rv_Audit version)\<rparr>\<rparr>"

definition publish_set_row :: "RuleSet \<Rightarrow> RuleVersion \<Rightarrow> RuleSet \<Rightarrow> RuleSet" where
  "publish_set_row ruleSet version r =
     r\<lparr>rs_Status := ''active'', rs_PublishedVersionNumber := rv_VersionNumber version,
       rs_Audit := (rs_Audit r)\<lparr>Version := Version (rs_Audit r) + 1,
         UpdatedAt := UpdatedAt (rs_Audit ruleSet), UpdatedBy := UpdatedBy (rs_Audit ruleSet)\<rparr>\<rparr>"

definition sql_PublishRuleVersion ::
  "dbenv \<Rightarrow> RuleSet \<Rightarrow> RuleVersion \<Rightarrow> int \<Rightarrow> int \<Rightarrow> rule_db \<Rightarrow> (go_error + unit) \<times> rule_db" where
  "sql_PublishRuleVersion E ruleSet version expectedRuleSetVersion expectedVersion db =
     (case exec_update E PublishVersionRow
             (\<lambda>v. same_set v (rv_TenantID version) (rv_ApplicationID version) (rv_RuleSetID version) \<and>
                  rv_ID v = rv_ID version \<and> rv_Status v = ''draft'' \<and>
                  Version (rv_Audit v) = expectedVersion)
             (publish_version_row version) (rule_versions db) of
        (result, versions) \<Rightarrow>
          (case optimistic E PublishVersionRow result of
             Inl err \<Rightarrow> (Inl err, db\<lparr>rule_versions := versions\<rparr>)
           | Inr u \<Rightarrow>
               (case exec_update E PublishSetRow
                       (\<lambda>r. in_app r (rs_TenantID ruleSet) (rs_ApplicationID ruleSet) \<and>
                            rs_ID r = rs_ID ruleSet \<and> Version (rs_Audit r) = expectedRuleSetVersion)
                       (publish_set_row ruleSet version) (rule_sets db) of
                  (result2, sets) \<Rightarrow>
                    (optimistic E PublishSetRow result2,
                     db\<lparr>rule_versions := versions, rule_sets := sets\<rparr>))))"

definition sql_AddOutbox :: "dbenv \<Rightarrow> OutboxEvent \<Rightarrow> rule_db \<Rightarrow> (go_error + unit) \<times> rule_db" where
  "sql_AddOutbox E value db =
     (case stmt_error E InsertOutbox of
        Some err \<Rightarrow> (Inl err, db)
      | None \<Rightarrow>
          if \<exists>o' \<in> set (rule_outbox_events db). ob_ID (or_event o') = ob_ID value
          then (Inl (constraint_error E), db)
          else (Inr (), db\<lparr>rule_outbox_events := rule_outbox_events db @
                  [\<lparr>or_event = value, or_attempts = 0, or_published_at = None, or_last_error = [],
                    or_version = 1\<rparr>]\<rparr>))"

end
