(* ===== verification/GoSha256.thy ===== *)
theory GoSha256
  imports GoStrings "HOL-Library.Word"
begin

text \<open>
  \<open>crypto/sha256.Sum256\<close> and \<open>encoding/hex.EncodeToString\<close>: the compression function of FIPS 180-4
  on 32-bit words, folded over the 64-byte blocks of the padded message. The checksum of a rule
  definition is the hexadecimal digest, always 64 characters.
\<close>

unbundle bit_operations_syntax

definition sha_k :: "32 word list" where
  "sha_k =
     [1116352408, 1899447441, 3049323471, 3921009573, 961987163, 1508970993,
      2453635748, 2870763221, 3624381080, 310598401, 607225278, 1426881987,
      1925078388, 2162078206, 2614888103, 3248222580, 3835390401, 4022224774,
      264347078, 604807628, 770255983, 1249150122, 1555081692, 1996064986,
      2554220882, 2821834349, 2952996808, 3210313671, 3336571891, 3584528711,
      113926993, 338241895, 666307205, 773529912, 1294757372, 1396182291,
      1695183700, 1986661051, 2177026350, 2456956037, 2730485921, 2820302411,
      3259730800, 3345764771, 3516065817, 3600352804, 4094571909, 275423344,
      430227734, 506948616, 659060556, 883997877, 958139571, 1322822218,
      1537002063, 1747873779, 1955562222, 2024104815, 2227730452, 2361852424,
      2428436474, 2756734187, 3204031479, 3329325298]"

definition sha_init :: "32 word list" where
  "sha_init = [1779033703, 3144134277, 1013904242, 2773480762, 1359893119, 2600822924, 528734635, 1541459225]"

definition sha_ch :: "32 word \<Rightarrow> 32 word \<Rightarrow> 32 word \<Rightarrow> 32 word" where
  "sha_ch x y z = (x AND y) XOR (NOT x AND z)"

definition sha_maj :: "32 word \<Rightarrow> 32 word \<Rightarrow> 32 word \<Rightarrow> 32 word" where
  "sha_maj x y z = (x AND y) XOR (x AND z) XOR (y AND z)"

definition big0 :: "32 word \<Rightarrow> 32 word" where
  "big0 x = word_rotr 2 x XOR word_rotr 13 x XOR word_rotr 22 x"

definition big1 :: "32 word \<Rightarrow> 32 word" where
  "big1 x = word_rotr 6 x XOR word_rotr 11 x XOR word_rotr 25 x"

definition small0 :: "32 word \<Rightarrow> 32 word" where
  "small0 x = word_rotr 7 x XOR word_rotr 18 x XOR drop_bit 3 x"

definition small1 :: "32 word \<Rightarrow> 32 word" where
  "small1 x = word_rotr 17 x XOR word_rotr 19 x XOR drop_bit 10 x"

text \<open>The message schedule, kept newest first while it grows to 64 words.\<close>

fun sha_extend :: "nat \<Rightarrow> 32 word list \<Rightarrow> 32 word list" where
  "sha_extend 0 ws = ws"
| "sha_extend (Suc n) ws =
     sha_extend n ((small1 (ws ! 1) + ws ! 6 + small0 (ws ! 14) + ws ! 15) # ws)"

fun be_words :: "nat list \<Rightarrow> 32 word list" where
  "be_words (a # b # c # d # bs) =
     of_nat (a * 16777216 + b * 65536 + c * 256 + d) # be_words bs"
| "be_words _ = []"

definition sha_schedule :: "nat list \<Rightarrow> 32 word list" where
  "sha_schedule block = rev (sha_extend 48 (rev (be_words block)))"

fun sha_round :: "32 word list \<Rightarrow> 32 word \<times> 32 word \<Rightarrow> 32 word list" where
  "sha_round [a, b, c, d, e, f, g, h] (k, w) =
     (let t1 = h + big1 e + sha_ch e f g + k + w;
          t2 = big0 a + sha_maj a b c
      in [t1 + t2, a, b, c, d + t1, e, f, g])"
| "sha_round st kw = st"

definition sha_block :: "32 word list \<Rightarrow> nat list \<Rightarrow> 32 word list" where
  "sha_block st block = map2 (+) st (foldl sha_round st (zip sha_k (sha_schedule block)))"

fun be_bytes :: "nat \<Rightarrow> nat \<Rightarrow> nat list" where
  "be_bytes 0 x = []"
| "be_bytes (Suc n) x = be_bytes n (x div 256) @ [x mod 256]"

definition sha_pad :: "nat list \<Rightarrow> nat list" where
  "sha_pad bs =
     bs @ [128] @ replicate ((119 - length bs mod 64) mod 64) 0 @ be_bytes 8 (8 * length bs)"

fun sha_blocks :: "nat \<Rightarrow> 32 word list \<Rightarrow> nat list \<Rightarrow> 32 word list" where
  "sha_blocks 0 st bs = st"
| "sha_blocks (Suc n) st bs = sha_blocks n (sha_block st (take 64 bs)) (drop 64 bs)"

definition Sum256 :: "string \<Rightarrow> nat list" where
  "Sum256 s =
     (let m = sha_pad (map byte s) in
      concat (map (\<lambda>w. be_bytes 4 (unat w)) (sha_blocks (length m div 64) sha_init m)))"

definition hex_char :: "nat \<Rightarrow> char" where
  "hex_char n = (if n < 10 then char_of (48 + n) else char_of (87 + n))"

definition EncodeToString :: "nat list \<Rightarrow> string" where
  "EncodeToString bs = concat (map (\<lambda>b. [hex_char (b div 16), hex_char (b mod 16)]) bs)"

definition sha256_hex :: "string \<Rightarrow> string" where
  "sha256_hex s = EncodeToString (Sum256 s)"

section \<open>Lengths\<close>

lemma length_be_bytes [simp]: "length (be_bytes n x) = n"
  by (induction n arbitrary: x) simp_all

lemma length_sha_round: "length (sha_round st kw) = length st"
  by (induction st kw rule: sha_round.induct) (simp_all add: Let_def)

lemma length_sha_rounds: "length (foldl sha_round st kws) = length st"
  by (induction kws arbitrary: st) (simp_all add: length_sha_round)

lemma length_sha_block: "length (sha_block st b) = length st"
  by (simp add: sha_block_def length_sha_rounds)

lemma length_sha_blocks: "length (sha_blocks n st bs) = length st"
  by (induction n arbitrary: st bs) (simp_all add: length_sha_block)

lemma length_concat_map_const: "(\<And>x. x \<in> set xs \<Longrightarrow> length (f x) = k) \<Longrightarrow> length (concat (map f xs)) = k * length xs"
  by (induction xs) auto

lemma pad_arith:
  "n = 64 * q + r \<Longrightarrow> r < 64 \<Longrightarrow>
     Suc (n + ((if r \<le> 55 then 55 - r else 119 - r) + 8)) = 64 * (if r \<le> 55 then q + 1 else q + (2::nat))"
  by auto

lemma sha_pad_blocks: "length (sha_pad bs) mod 64 = 0"
proof -
  let ?r = "length bs mod 64" and ?q = "length bs div 64"
  have r: "?r < 64" and n: "length bs = 64 * ?q + ?r" by simp_all
  have "(119 - ?r) mod 64 = (if ?r \<le> 55 then 55 - ?r else 119 - ?r)"
  proof (cases "?r \<le> 55")
    case True
    then have "119 - ?r = 64 + (55 - ?r)" by linarith
    moreover have "55 - ?r < 64" by linarith
    ultimately have "(119 - ?r) mod 64 = 55 - ?r" by (metis mod_add_self1 mod_less)
    with True show ?thesis by simp
  next
    case False
    then have "119 - ?r < 64" by linarith
    then have "(119 - ?r) mod 64 = 119 - ?r" by (rule mod_less)
    with False show ?thesis by simp
  qed
  with pad_arith [OF n r] have "length (sha_pad bs) = 64 * (if ?r \<le> 55 then ?q + 1 else ?q + 2)"
    by (simp add: sha_pad_def)
  then show ?thesis by simp
qed

text \<open>A checksum has 64 characters.\<close>

lemma length_sha256_hex: "length (sha256_hex s) = 64"
proof -
  have "length (Sum256 s) = 4 * length (sha_blocks (length (sha_pad (map byte s)) div 64) sha_init (sha_pad (map byte s)))"
    unfolding Sum256_def Let_def by (rule length_concat_map_const) simp
  then have "length (Sum256 s) = 32" by (simp add: length_sha_blocks sha_init_def)
  moreover have "length (EncodeToString (Sum256 s)) = 2 * length (Sum256 s)"
    unfolding EncodeToString_def by (rule length_concat_map_const) simp
  ultimately show ?thesis by (simp add: sha256_hex_def)
qed

end
