(* ===== verification/RuleEngine.thy ===== *)
theory RuleEngine
  imports RuleModel GoSha256
begin

text \<open>
  \<open>internal/rule/engine.go\<close>: decoding, validating and compiling a rule definition, and evaluating
  a compiled definition on a document of facts. The CEL library is a parameter (\<open>cel_engine\<close>): its
  environment, compiler, type checker and interpreter. The text of a decoding error is a parameter
  as well.
\<close>

section \<open>The expression engine\<close>

datatype cel_value = CelBool bool | CelOther string

record ('c, 'p) cel_engine =
  cel_new_env :: "go_error option"
  cel_compile :: "string \<Rightarrow> string + 'c"
  cel_is_bool :: "'c \<Rightarrow> bool"
  cel_program :: "'c \<Rightarrow> string + 'p"
  cel_eval :: "ctx \<Rightarrow> 'p \<Rightarrow> goval \<Rightarrow> go_error + cel_value"
  json_error_text :: "string \<Rightarrow> string"

definition maxDefinitionBytes :: nat where "maxDefinitionBytes = 262144"
definition maxFactsBytes :: nat where "maxFactsBytes = 262144"
definition maxRules :: nat where "maxRules = 100"
definition maxExpressionBytes :: nat where "maxExpressionBytes = 4096"

section \<open>Definitions\<close>

text \<open>A \<open>json.RawMessage\<close> is the syntax tree of its text, and \<open>None\<close> when it is empty: the code only
  tests it for emptiness, unmarshals it and marshals it.\<close>

record DefinitionRule =
  dr_Name :: string
  dr_Condition :: string
  dr_Result :: "json option"

record Definition =
  def_Rules :: "DefinitionRule list"
  def_DefaultResult :: "json option"

record 'p compiledRule =
  cr_name :: string
  cr_program :: 'p
  cr_result :: string

record 'p CompiledDefinition =
  cd_rules :: "'p compiledRule list"
  cd_defaultResult :: string
  cd_canonicalJSON :: string
  cd_checksum :: string

section \<open>Decoding into the structs\<close>

text \<open>
  \<open>Decoder.Decode\<close> with \<open>DisallowUnknownFields\<close>. A key selects a field by its exact name, else by
  its case-folded name; a null leaves a string or a struct as it is; \<open>None\<close> is a decoding error.
  A repeated \<open>rules\<close> key decodes into the elements of the slice that is already there, so the
  decoder carries the slots of the backing array: they keep what a longer, earlier array left.
\<close>

fun fold_option :: "('a \<Rightarrow> 'b \<Rightarrow> 'b option) \<Rightarrow> 'a list \<Rightarrow> 'b \<Rightarrow> 'b option" where
  "fold_option f [] b = Some b"
| "fold_option f (x # xs) b = (case f x b of None \<Rightarrow> None | Some b' \<Rightarrow> fold_option f xs b')"

definition field_of :: "string list \<Rightarrow> string \<Rightarrow> string option" where
  "field_of names key =
     (if key \<in> set names then Some key else find (\<lambda>n. fold_ascii n = fold_ascii key) names)"

fun decode_string :: "string \<Rightarrow> json \<Rightarrow> string option" where
  "decode_string old JNull = Some old"
| "decode_string old (JStr t) = Some (unquote t)"
| "decode_string old _ = None"

definition decode_rule_member :: "string \<times> json \<Rightarrow> DefinitionRule \<Rightarrow> DefinitionRule option" where
  "decode_rule_member kv r =
     (case kv of (k, v) \<Rightarrow>
        (case field_of [''name'', ''condition'', ''result''] (unquote k) of
           None \<Rightarrow> None
         | Some f \<Rightarrow>
             if f = ''name'' then map_option (\<lambda>s. r\<lparr>dr_Name := s\<rparr>) (decode_string (dr_Name r) v)
             else if f = ''condition''
             then map_option (\<lambda>s. r\<lparr>dr_Condition := s\<rparr>) (decode_string (dr_Condition r) v)
             else Some (r\<lparr>dr_Result := Some v\<rparr>)))"

fun decode_rule :: "json \<Rightarrow> DefinitionRule \<Rightarrow> DefinitionRule option" where
  "decode_rule JNull r = Some r"
| "decode_rule (JObj kvs) r = fold_option decode_rule_member kvs r"
| "decode_rule _ r = None"

definition zero_rule :: DefinitionRule where
  "zero_rule = \<lparr>dr_Name = [], dr_Condition = [], dr_Result = None\<rparr>"

fun decode_slots :: "json list \<Rightarrow> DefinitionRule list \<Rightarrow> DefinitionRule list option" where
  "decode_slots [] slots = Some []"
| "decode_slots (v # vs) slots =
     (case decode_rule v (case slots of [] \<Rightarrow> zero_rule | r # _ \<Rightarrow> r) of
        None \<Rightarrow> None
      | Some r \<Rightarrow> map_option ((#) r) (decode_slots vs (tl slots)))"

record decoder =
  dec_definition :: Definition
  dec_slots :: "DefinitionRule list"

fun decode_rules :: "json \<Rightarrow> decoder \<Rightarrow> decoder option" where
  "decode_rules JNull d = Some (d\<lparr>dec_definition := (dec_definition d)\<lparr>def_Rules := []\<rparr>, dec_slots := []\<rparr>)"
| "decode_rules (JArr vs) d =
     (if vs = [] then Some (d\<lparr>dec_definition := (dec_definition d)\<lparr>def_Rules := []\<rparr>, dec_slots := []\<rparr>)
      else map_option
        (\<lambda>rs. d\<lparr>dec_definition := (dec_definition d)\<lparr>def_Rules := rs\<rparr>,
               dec_slots := rs @ drop (length vs) (dec_slots d)\<rparr>)
        (decode_slots vs (dec_slots d)))"
| "decode_rules _ d = None"

definition decode_member :: "string \<times> json \<Rightarrow> decoder \<Rightarrow> decoder option" where
  "decode_member kv d =
     (case kv of (k, v) \<Rightarrow>
        (case field_of [''rules'', ''default_result''] (unquote k) of
           None \<Rightarrow> None
         | Some f \<Rightarrow>
             if f = ''rules'' then decode_rules v d
             else Some (d\<lparr>dec_definition := (dec_definition d)\<lparr>def_DefaultResult := Some v\<rparr>\<rparr>)))"

definition zero_definition :: Definition where
  "zero_definition = \<lparr>def_Rules = [], def_DefaultResult = None\<rparr>"

fun decode_definition :: "json \<Rightarrow> Definition option" where
  "decode_definition JNull = Some zero_definition"
| "decode_definition (JObj kvs) =
     map_option dec_definition
       (fold_option decode_member kvs \<lparr>dec_definition = zero_definition, dec_slots = []\<rparr>)"
| "decode_definition _ = None"

section \<open>Validation\<close>

definition validJSONObject :: "json option \<Rightarrow> bool" where
  "validJSONObject raw =
     (case raw of Some (JObj kvs) \<Rightarrow> decode_any (JObj kvs) \<noteq> None | _ \<Rightarrow> False)"

definition canonicalJSON :: "json option \<Rightarrow> string" where
  "canonicalJSON raw =
     (case raw of
        None \<Rightarrow> ''{}''
      | Some v \<Rightarrow> (case decode_any v of None \<Rightarrow> ''{}'' | Some value \<Rightarrow> marshal_any value))"

definition issue :: "string \<Rightarrow> string \<Rightarrow> string \<Rightarrow> ValidationIssue" where
  "issue path code message = \<lparr>Path = path, Code = code, Message = message\<rparr>"

definition rule_path :: "nat \<Rightarrow> string \<Rightarrow> string" where
  "rule_path index field = ''$.rules['' @ nat_str index @ ''].'' @ field"

fun validate_rules :: "nat \<Rightarrow> string list \<Rightarrow> DefinitionRule list \<Rightarrow> ValidationIssue list" where
  "validate_rules index seen [] = []"
| "validate_rules index seen (item # items) =
     (let name = TrimSpace (dr_Name item) in
      (if name = [] then [issue (rule_path index ''name'') ''required'' ''name is required'']
       else if name \<in> set seen
       then [issue (rule_path index ''name'') ''duplicate'' ''rule names must be unique''] else []) @
      (if TrimSpace (dr_Condition item) = [] \<or> maxExpressionBytes < length (dr_Condition item)
       then [issue (rule_path index ''condition'') ''invalid_size''
               ''condition must be between 1 and 4096 bytes''] else []) @
      (if \<not> validJSONObject (dr_Result item)
       then [issue (rule_path index ''result'') ''invalid_result'' ''result must be a JSON object''] else []) @
      validate_rules (Suc index) (name # seen) items)"

definition validateShape :: "Definition \<Rightarrow> ValidationIssue list" where
  "validateShape d =
     (if def_Rules d = [] \<or> maxRules < length (def_Rules d)
      then [issue ''$.rules'' ''invalid_count'' ''rules must contain between 1 and 100 items''] else []) @
     validate_rules 0 [] (def_Rules d) @
     (if \<not> validJSONObject (def_DefaultResult d)
      then [issue ''$.default_result'' ''invalid_result'' ''default_result must be a JSON object''] else [])"

section \<open>Compilation\<close>

text \<open>\<open>json.Marshal\<close> of a \<open>Definition\<close>: the fields in the order of the structs, the raw messages
  compacted with HTML escaping.\<close>

definition quoted :: "string \<Rightarrow> string" where
  "quoted s = dquote # quote s @ [dquote]"

definition marshal_raw :: "json option \<Rightarrow> string" where
  "marshal_raw raw = (case raw of None \<Rightarrow> ''null'' | Some v \<Rightarrow> print_json (escape_json v))"

definition marshal_rule :: "DefinitionRule \<Rightarrow> string" where
  "marshal_rule r =
     ''{'' @ quoted ''name'' @ '':'' @ quoted (dr_Name r) @ '','' @
     quoted ''condition'' @ '':'' @ quoted (dr_Condition r) @ '','' @
     quoted ''result'' @ '':'' @ marshal_raw (dr_Result r) @ ''}''"

definition marshal_definition :: "Definition \<Rightarrow> string" where
  "marshal_definition d =
     ''{'' @ quoted ''rules'' @ '':['' @ sep_by '','' (map marshal_rule (def_Rules d)) @ ''],'' @
     quoted ''default_result'' @ '':'' @ marshal_raw (def_DefaultResult d) @ ''}''"

text \<open>One rule: an issue, or the compiled rule.\<close>

definition compile_rule ::
  "('c, 'p) cel_engine \<Rightarrow> nat \<Rightarrow> DefinitionRule \<Rightarrow> ValidationIssue + 'p compiledRule" where
  "compile_rule eng index item =
     (case cel_compile eng (dr_Condition item) of
        Inl text \<Rightarrow> Inl (issue (rule_path index ''condition'') ''invalid_expression'' text)
      | Inr ast \<Rightarrow>
          if \<not> cel_is_bool eng ast
          then Inl (issue (rule_path index ''condition'') ''invalid_result_type'' ''condition must return bool'')
          else
            (case cel_program eng ast of
               Inl text \<Rightarrow> Inl (issue (rule_path index ''condition'') ''invalid_program'' text)
             | Inr program \<Rightarrow>
                 Inr \<lparr>cr_name = dr_Name item, cr_program = program,
                      cr_result = canonicalJSON (dr_Result item)\<rparr>))"

fun compile_rules ::
  "('c, 'p) cel_engine \<Rightarrow> nat \<Rightarrow> DefinitionRule list \<Rightarrow> ValidationIssue list \<times> 'p compiledRule list" where
  "compile_rules eng index [] = ([], [])"
| "compile_rules eng index (item # items) =
     (case compile_rules eng (Suc index) items of
        (issues, rules) \<Rightarrow>
          (case compile_rule eng index item of
             Inl i \<Rightarrow> (i # issues, rules)
           | Inr r \<Rightarrow> (issues, r # rules)))"

definition CompileDefinition ::
  "('c, 'p) cel_engine \<Rightarrow> string \<Rightarrow> ValidationIssue list + 'p CompiledDefinition" where
  "CompileDefinition eng raw =
     (if raw = [] \<or> maxDefinitionBytes < length raw
      then Inl [issue ''$'' ''invalid_size'' ''definition must be between 1 byte and 256 KiB'']
      else
        (case decode_first raw of
           None \<Rightarrow> Inl [issue ''$'' ''invalid_json'' (json_error_text eng raw)]
         | Some (v, rest) \<Rightarrow>
             (case decode_definition v of
                None \<Rightarrow> Inl [issue ''$'' ''invalid_json'' (json_error_text eng raw)]
              | Some d \<Rightarrow>
                  if \<not> at_eof rest
                  then Inl [issue ''$'' ''multiple_values'' ''definition must contain one JSON value'']
                  else if validateShape d \<noteq> [] then Inl (validateShape d)
                  else if cel_new_env eng \<noteq> None
                  then Inl [issue ''$'' ''engine_error'' ''initialize CEL environment'']
                  else
                    (case compile_rules eng 0 (def_Rules d) of
                       (issues, rules) \<Rightarrow>
                         if issues \<noteq> [] then Inl issues
                         else
                           (let canonical = marshal_definition d in
                            Inr \<lparr>cd_rules = rules,
                                 cd_defaultResult = canonicalJSON (def_DefaultResult d),
                                 cd_canonicalJSON = canonical,
                                 cd_checksum = sha256_hex canonical\<rparr>)))))"

section \<open>Evaluation\<close>

text \<open>The facts are the first JSON value of the text; it must be an object.\<close>

definition decode_facts :: "string \<Rightarrow> goval option" where
  "decode_facts s =
     (case decode_first s of
        Some (JObj kvs, rest) \<Rightarrow> decode_any (JObj kvs)
      | _ \<Rightarrow> None)"

fun eval_rules ::
  "('c, 'p) cel_engine \<Rightarrow> ctx \<Rightarrow> goval \<Rightarrow> 'p compiledRule list \<Rightarrow> string \<Rightarrow> go_error + Evaluation" where
  "eval_rules eng c facts [] dflt = Inr \<lparr>Matched = False, MatchedRule = [], ResultJSON = dflt\<rparr>"
| "eval_rules eng c facts (item # items) dflt =
     (case cel_eval eng c (cr_program item) facts of
        Inl err \<Rightarrow> Inl (Wrap ''evaluate rule'' err)
      | Inr (CelOther t) \<Rightarrow> Inl (Plain ''evaluate rule: condition returned a non-bool'')
      | Inr (CelBool b) \<Rightarrow>
          if b then Inr \<lparr>Matched = True, MatchedRule = cr_name item, ResultJSON = cr_result item\<rparr>
          else eval_rules eng c facts items dflt)"

definition EvaluateDefinition ::
  "('c, 'p) cel_engine \<Rightarrow> ctx \<Rightarrow> 'p CompiledDefinition \<Rightarrow> string \<Rightarrow> go_error + Evaluation" where
  "EvaluateDefinition eng c definition factsJSON =
     (case ctx_err c of
        Some err \<Rightarrow> Inl err
      | None \<Rightarrow>
          if factsJSON = [] \<or> maxFactsBytes < length factsJSON
          then Inl (Wrap ''facts must be between 1 byte and 256 KiB'' (Sentinel ErrInvalidDefinition))
          else
            (case decode_facts factsJSON of
               None \<Rightarrow> Inl (Wrap ''facts must be a JSON object'' (Sentinel ErrInvalidDefinition))
             | Some facts \<Rightarrow>
                 eval_rules eng c facts (cd_rules definition) (cd_defaultResult definition)))"

end
