(* ===== verification/RuleService.thy ===== *)
theory RuleService
  imports RuleRepository RuleEngine
begin

text \<open>
  \<open>internal/rule/service.go\<close>: every operation of the service as a function on its state, which is the
  database and the process-wide cache of compiled definitions (\<open>sync.Map\<close>). A call that fails returns
  its error and no value: both transports look at the value only when the error is nil. What a call
  takes from outside (clock, UUIDs, the application service, the expression engine, the event
  library, Unicode tables) is its environment. Reads and the transaction of a mutation are separate
  functions (\<open>prepare\<close>, \<open>commit\<close>) so that the development can interleave other calls between them; the
  two reads of \<open>PublishRuleVersion\<close>, \<open>GetRuleSet\<close> and \<open>Evaluate\<close> (the rule set, then a version of it) see
  the same tables.
\<close>

record Metadata =
  md_EventID :: string
  md_EventType :: string
  md_AggregateID :: string
  md_AggregateType :: string
  md_TenantID :: string
  md_ApplicationID :: string
  md_SchemaVersion :: int
  md_ActorID :: string
  md_OccurredAt :: int

record ('c, 'p) svc_env =
  e_db :: dbenv
  e_engine :: "('c, 'p) cel_engine"
  e_uni :: "string \<Rightarrow> string"
  e_now :: int
  e_uuid :: string
  e_event_uuid :: string
  e_verify :: "string \<Rightarrow> string \<Rightarrow> go_error option"
  e_envelope :: "Metadata \<Rightarrow> PbRuleSet \<times> PbRuleVersion \<Rightarrow> go_error + string"
  e_event_id :: "string \<Rightarrow> string"
  e_marshal :: "string \<Rightarrow> go_error + string"

record 'p svc_state =
  s_db :: rule_db
  s_compiled :: "string \<Rightarrow> 'p CompiledDefinition option"

section \<open>Early returns\<close>

definition andThen :: "'e + 'a \<Rightarrow> ('a \<Rightarrow> 's \<Rightarrow> ('e + 'b) \<times> 's) \<Rightarrow> 's \<Rightarrow> ('e + 'b) \<times> 's" where
  "andThen r k s = (case r of Inl e \<Rightarrow> (Inl e, s) | Inr x \<Rightarrow> k x s)"

definition require :: "bool \<Rightarrow> go_error \<Rightarrow> go_error + unit" where
  "require b err = (if b then Inr () else Inl err)"

definition map_error :: "('e \<Rightarrow> 'f) \<Rightarrow> 'e + 'a \<Rightarrow> 'f + 'a" where
  "map_error f r = (case r of Inl e \<Rightarrow> Inl (f e) | Inr x \<Rightarrow> Inr x)"

section \<open>Helpers\<close>

definition authorize :: "ctx \<Rightarrow> string \<Rightarrow> go_error + string" where
  "authorize c tenantID =
     (case ctx_principal c of
        None \<Rightarrow> Inl (Unauthorized ''authenticated actor is required'')
      | Some actor \<Rightarrow>
          if p_Type actor \<noteq> TypeServiceAccount \<and> p_Type actor \<noteq> TypeSystem \<and>
             (p_TenantID actor = [] \<or> p_TenantID actor \<noteq> TrimSpace tenantID)
          then Inl (AppErr CodeForbidden ''tenant access denied'' 403 None)
          else Inr (p_ID actor))"

definition verifyApplication :: "('c, 'p) svc_env \<Rightarrow> string \<Rightarrow> string \<Rightarrow> go_error + unit" where
  "verifyApplication E tenantID applicationID =
     (if TrimSpace applicationID = [] then Inl (Invalid ''application_id is required'' None)
      else
        (case e_verify E (TrimSpace tenantID) (TrimSpace applicationID) of
           None \<Rightarrow> Inr ()
         | Some err \<Rightarrow>
             if errors_is err ErrNotGranted
             then Inl (AppErr CodeForbidden ''application access denied'' 403 (Some err))
             else Inl (Unavailable ''application authorization is unavailable'' (Some err))))"

text \<open>\<open>^[a-z][a-z0-9._-]{1,127}$\<close>\<close>

definition lower_letter :: "char \<Rightarrow> bool" where
  "lower_letter c \<longleftrightarrow> CHR ''a'' \<le> c \<and> c \<le> CHR ''z''"

definition code_char :: "char \<Rightarrow> bool" where
  "code_char c \<longleftrightarrow> lower_letter c \<or> is_digit c \<or> c \<in> {CHR ''.'', CHR ''_'', CHR ''-''}"

definition ruleCodePattern :: "string \<Rightarrow> bool" where
  "ruleCodePattern code \<longleftrightarrow>
     (case code of
        [] \<Rightarrow> False
      | c # cs \<Rightarrow> lower_letter c \<and> 1 \<le> length cs \<and> length cs \<le> 127 \<and> list_all code_char cs)"

definition newAudit :: "string \<Rightarrow> int \<Rightarrow> Audit" where
  "newAudit actorID now =
     \<lparr>Version = 1, CreatedAt = now, UpdatedAt = now, CreatedBy = actorID, UpdatedBy = actorID\<rparr>"

definition normalizePage :: "int \<Rightarrow> int \<Rightarrow> int \<times> int" where
  "normalizePage page pageSize =
     (if page < 1 then 1 else page,
      if pageSize < 1 then 20 else if 200 < pageSize then 200 else pageSize)"

definition translate :: "go_error \<Rightarrow> go_error" where
  "translate err =
     (if errors_as err \<noteq> None then err
      else if errors_is err ErrNotFound then NotFound ''rule resource not found''
      else if errors_is err ErrStaleVersion \<or> errors_is err ErrConflict
      then Conflict ''rule resource conflict'' (Some err)
      else Internal err)"

text \<open>A transaction of the service: the tables change, the cache does not.\<close>

definition run_tx ::
  "('c, 'p) svc_env \<Rightarrow> (rule_db \<Rightarrow> (go_error + 'a) \<times> rule_db) \<Rightarrow> 'p svc_state
     \<Rightarrow> (go_error + 'a) \<times> 'p svc_state" where
  "run_tx E fn s =
     (case Within (e_db E) fn (s_db s) of (r, db) \<Rightarrow> (map_error translate r, s\<lparr>s_db := db\<rparr>))"

definition store_compiled :: "string \<Rightarrow> 'p CompiledDefinition \<Rightarrow> 'p svc_state \<Rightarrow> 'p svc_state" where
  "store_compiled checksum compiled s = s\<lparr>s_compiled := (s_compiled s)(checksum \<mapsto> compiled)\<rparr>"

section \<open>Rule sets\<close>

definition new_rule_set ::
  "('c, 'p) svc_env \<Rightarrow> string \<Rightarrow> string \<Rightarrow> string \<Rightarrow> string \<Rightarrow> string \<Rightarrow> string \<Rightarrow> RuleSet" where
  "new_rule_set E actorID tenantID applicationID code name description =
     \<lparr>rs_ID = e_uuid E, rs_TenantID = tenantID, rs_ApplicationID = applicationID,
      rs_Code = code, rs_Name = name, rs_Description = TrimSpace description,
      rs_Status = ''draft'', rs_PublishedVersionNumber = 0, rs_Audit = newAudit actorID (e_now E)\<rparr>"

definition CreateRuleSet ::
  "('c, 'p) svc_env \<Rightarrow> ctx \<Rightarrow> string \<Rightarrow> string \<Rightarrow> string \<Rightarrow> string \<Rightarrow> string \<Rightarrow> 'p svc_state
     \<Rightarrow> (go_error + RuleSet) \<times> 'p svc_state" where
  "CreateRuleSet E c tenantID0 applicationID0 code0 name0 description =
     andThen (authorize c tenantID0) (\<lambda>actorID.
       (let tenantID = TrimSpace tenantID0; applicationID = TrimSpace applicationID0;
            code = ToLower (e_uni E) (TrimSpace code0); name = TrimSpace name0 in
        andThen (require (tenantID \<noteq> [] \<and> applicationID \<noteq> [] \<and> ruleCodePattern code \<and> name \<noteq> [])
          (Invalid ''tenant_id, application_id, valid code, and name are required'' None)) (\<lambda>_.
        andThen (verifyApplication E tenantID applicationID) (\<lambda>_ s.
          (let value = new_rule_set E actorID tenantID applicationID code name description in
           case run_tx E (sql_CreateRuleSet (e_db E) value) s of
             (r, s') \<Rightarrow> (map_sum id (\<lambda>_. value) r, s'))))))"

text \<open>\<open>UpdateRuleSet\<close>: the checks and the read, then the guarded update.\<close>

definition update_prepare ::
  "('c, 'p) svc_env \<Rightarrow> ctx \<Rightarrow> string \<Rightarrow> string \<Rightarrow> string \<Rightarrow> string \<Rightarrow> string \<Rightarrow> string \<Rightarrow> int \<Rightarrow> 'p svc_state
     \<Rightarrow> (go_error + RuleSet) \<times> 'p svc_state" where
  "update_prepare E c tenantID applicationID0 id0 name0 description status0 expected =
     andThen (authorize c tenantID) (\<lambda>actorID.
       (let status = ToLower (e_uni E) (TrimSpace status0); name = TrimSpace name0 in
        andThen (require (id0 \<noteq> [] \<and> name \<noteq> [] \<and> 1 \<le> expected \<and>
            status \<in> {''draft'', ''active'', ''disabled''})
          (Invalid ''id, name, valid status, and positive version are required'' None)) (\<lambda>_.
        (let applicationID = TrimSpace applicationID0 in
         andThen (require (applicationID \<noteq> []) (Invalid ''application_id is required'' None)) (\<lambda>_.
         andThen (verifyApplication E tenantID applicationID) (\<lambda>_ s.
         andThen (map_error translate
             (sql_GetRuleSet (e_db E) (TrimSpace tenantID) applicationID (TrimSpace id0) [] (s_db s)))
           (\<lambda>value s. (Inr (value\<lparr>rs_Name := name, rs_Description := TrimSpace description,
              rs_Status := status,
              rs_Audit := (rs_Audit value)\<lparr>Version := i64 (expected + 1), UpdatedAt := e_now E,
                UpdatedBy := actorID\<rparr>\<rparr>), s)) s))))))"

definition update_commit ::
  "('c, 'p) svc_env \<Rightarrow> int \<Rightarrow> RuleSet \<Rightarrow> 'p svc_state \<Rightarrow> (go_error + RuleSet) \<times> 'p svc_state" where
  "update_commit E expected value s =
     (case run_tx E (sql_UpdateRuleSet (e_db E) value expected) s of
        (r, s') \<Rightarrow> (map_sum id (\<lambda>_. value) r, s'))"

definition UpdateRuleSet ::
  "('c, 'p) svc_env \<Rightarrow> ctx \<Rightarrow> string \<Rightarrow> string \<Rightarrow> string \<Rightarrow> string \<Rightarrow> string \<Rightarrow> string \<Rightarrow> int \<Rightarrow> 'p svc_state
     \<Rightarrow> (go_error + RuleSet) \<times> 'p svc_state" where
  "UpdateRuleSet E c tenantID applicationID id0 name description status expected s =
     (case update_prepare E c tenantID applicationID id0 name description status expected s of
        (Inl e, s') \<Rightarrow> (Inl e, s')
      | (Inr value, s') \<Rightarrow> update_commit E expected value s')"

definition GetRuleSet ::
  "('c, 'p) svc_env \<Rightarrow> ctx \<Rightarrow> string \<Rightarrow> string \<Rightarrow> string \<Rightarrow> string \<Rightarrow> 'p svc_state
     \<Rightarrow> (go_error + RuleSet \<times> RuleVersion option) \<times> 'p svc_state" where
  "GetRuleSet E c tenantID applicationID id0 code =
     andThen (authorize c tenantID) (\<lambda>_.
     andThen (verifyApplication E tenantID applicationID) (\<lambda>_ s.
     andThen (map_error translate
         (sql_GetRuleSet (e_db E) (TrimSpace tenantID) (TrimSpace applicationID) (TrimSpace id0)
            (ToLower (e_uni E) (TrimSpace code)) (s_db s))) (\<lambda>value s.
       if rs_PublishedVersionNumber value = 0 then (Inr (value, None), s)
       else
         (map_sum translate (\<lambda>published. (value, Some published))
            (sql_GetRuleVersion (e_db E) (rs_TenantID value) (rs_ApplicationID value) (rs_ID value) []
               (rs_PublishedVersionNumber value) (s_db s)), s)) s))"

definition ListRuleSets ::
  "('c, 'p) svc_env \<Rightarrow> ctx \<Rightarrow> string \<Rightarrow> string \<Rightarrow> string \<Rightarrow> string \<Rightarrow> int \<Rightarrow> int \<Rightarrow> 'p svc_state
     \<Rightarrow> (go_error + RuleSet Page) \<times> 'p svc_state" where
  "ListRuleSets E c tenantID applicationID status keyword page0 pageSize0 =
     andThen (authorize c tenantID) (\<lambda>_.
     andThen (verifyApplication E tenantID applicationID) (\<lambda>_ s.
       (let (page, pageSize) = normalizePage page0 pageSize0 in
        (map_sum translate (\<lambda>(items, total). \<lparr>Items = items, Total = total, PageNumber = page, PageSize = pageSize\<rparr>)
           (sql_ListRuleSets (e_db E) (e_uni E) (TrimSpace tenantID) (TrimSpace applicationID)
              (ToLower (e_uni E) (TrimSpace status)) (TrimSpace keyword)
              pageSize (i64 ((page - 1) * pageSize)) (s_db s)), s))))"

section \<open>Rule versions\<close>

definition new_version ::
  "('c, 'p) svc_env \<Rightarrow> string \<Rightarrow> string \<Rightarrow> string \<Rightarrow> string \<Rightarrow> 'p CompiledDefinition \<Rightarrow> string \<Rightarrow> RuleVersion" where
  "new_version E actorID tenantID applicationID ruleSetID compiled idempotencyKey =
     \<lparr>rv_ID = e_uuid E, rv_TenantID = TrimSpace tenantID, rv_ApplicationID = TrimSpace applicationID,
      rv_RuleSetID = TrimSpace ruleSetID, rv_VersionNumber = 0, rv_Status = ''draft'',
      rv_DefinitionJSON = cd_canonicalJSON compiled, rv_Checksum = cd_checksum compiled,
      rv_IdempotencyKey = TrimSpace idempotencyKey, rv_PublishedAt = None,
      rv_Audit = newAudit actorID (e_now E)\<rparr>"

definition CreateRuleVersion ::
  "('c, 'p) svc_env \<Rightarrow> ctx \<Rightarrow> string \<Rightarrow> string \<Rightarrow> string \<Rightarrow> string \<Rightarrow> string \<Rightarrow> int \<Rightarrow> 'p svc_state
     \<Rightarrow> (go_error + RuleVersion \<times> bool) \<times> 'p svc_state" where
  "CreateRuleVersion E c tenantID applicationID ruleSetID definitionJSON idempotencyKey expectedRuleSetVersion =
     andThen (authorize c tenantID) (\<lambda>actorID.
     andThen (verifyApplication E tenantID applicationID) (\<lambda>_.
     andThen (require (TrimSpace ruleSetID \<noteq> [] \<and> TrimSpace idempotencyKey \<noteq> [] \<and>
         length idempotencyKey \<le> 191 \<and> 1 \<le> expectedRuleSetVersion)
       (Invalid ''rule_set_id, idempotency_key, and positive rule_set_version are required'' None)) (\<lambda>_.
     andThen (map_error (\<lambda>issues. Invalid ''invalid rule definition''
         (Some (Plain (Path (hd issues) @ '': '' @ Message (hd issues)))))
         (CompileDefinition (e_engine E) definitionJSON)) (\<lambda>compiled s.
       (let value = new_version E actorID tenantID applicationID ruleSetID compiled idempotencyKey in
        case run_tx E (sql_CreateRuleVersion (e_db E) value expectedRuleSetVersion) s of
          (Inl e, s') \<Rightarrow> (Inl e, s')
        | (Inr (value', created), s') \<Rightarrow>
            (Inr (value', created), store_compiled (rv_Checksum value') compiled s'))))))"

definition ValidateRuleVersion ::
  "('c, 'p) svc_env \<Rightarrow> ctx \<Rightarrow> string \<Rightarrow> string \<Rightarrow> string \<Rightarrow> 'p svc_state
     \<Rightarrow> (go_error + string \<times> ValidationIssue list) \<times> 'p svc_state" where
  "ValidateRuleVersion E c tenantID applicationID definitionJSON =
     andThen (authorize c tenantID) (\<lambda>_.
     andThen (verifyApplication E tenantID applicationID) (\<lambda>_ s.
       (case CompileDefinition (e_engine E) definitionJSON of
          Inl issues \<Rightarrow> (Inr ([], issues), s)
        | Inr compiled \<Rightarrow> (Inr (cd_checksum compiled, []), s))))"

text \<open>\<open>PublishRuleVersion\<close>: the checks, the two reads and the recompilation give a plan; the plan is
  committed in one transaction with its outbox event.\<close>

record 'p publish_plan =
  pl_ruleSet :: RuleSet
  pl_version :: RuleVersion
  pl_compiled :: "'p CompiledDefinition"
  pl_actor :: string

text \<open>The stored definition must still compile, to the stored checksum.\<close>

definition recompile :: "('c, 'p) cel_engine \<Rightarrow> RuleVersion \<Rightarrow> go_error + 'p CompiledDefinition" where
  "recompile eng version =
     (case CompileDefinition eng (rv_DefinitionJSON version) of
        Inr compiled \<Rightarrow>
          if cd_checksum compiled = rv_Checksum version then Inr compiled
          else Inl (Conflict ''stored rule definition failed validation'' None)
      | Inl issues \<Rightarrow> Inl (Conflict ''stored rule definition failed validation'' None))"

definition publish_prepare ::
  "('c, 'p) svc_env \<Rightarrow> ctx \<Rightarrow> string \<Rightarrow> string \<Rightarrow> string \<Rightarrow> string \<Rightarrow> int \<Rightarrow> int \<Rightarrow> 'p svc_state
     \<Rightarrow> (go_error + 'p publish_plan) \<times> 'p svc_state" where
  "publish_prepare E c tenantID applicationID ruleSetID versionID ruleSetExpected versionExpected =
     andThen (authorize c tenantID) (\<lambda>actorID.
     andThen (verifyApplication E tenantID applicationID) (\<lambda>_.
     andThen (require (1 \<le> ruleSetExpected \<and> 1 \<le> versionExpected)
       (Invalid ''positive rule set and rule version versions are required'' None)) (\<lambda>_ s.
     andThen (map_error translate
         (sql_GetRuleSet (e_db E) tenantID applicationID ruleSetID [] (s_db s))) (\<lambda>ruleSet s.
     andThen (map_error translate
         (sql_GetRuleVersion (e_db E) tenantID applicationID ruleSetID versionID 0 (s_db s))) (\<lambda>version.
     andThen (require (rv_Status version = ''draft'')
       (Conflict ''only draft rule versions can be published'' None)) (\<lambda>_.
     andThen (recompile (e_engine E) version) (\<lambda>compiled s.
       (let now = e_now E;
            version' = version\<lparr>rv_Status := ''published'', rv_PublishedAt := Some now,
              rv_Audit := (rv_Audit version)\<lparr>Version := i64 (versionExpected + 1), UpdatedAt := now,
                UpdatedBy := actorID\<rparr>\<rparr>;
            ruleSet' = ruleSet\<lparr>rs_Status := ''active'', rs_PublishedVersionNumber := rv_VersionNumber version',
              rs_Audit := (rs_Audit ruleSet)\<lparr>Version := i64 (ruleSetExpected + 1), UpdatedAt := now,
                UpdatedBy := actorID\<rparr>\<rparr>
        in (Inr \<lparr>pl_ruleSet = ruleSet', pl_version = version', pl_compiled = compiled,
                 pl_actor = actorID\<rparr>, s))))) s) s)))"

definition addEvent ::
  "('c, 'p) svc_env \<Rightarrow> RuleSet \<Rightarrow> RuleVersion \<Rightarrow> string \<Rightarrow> int \<Rightarrow> rule_db \<Rightarrow> (go_error + unit) \<times> rule_db" where
  "addEvent E ruleSet version actorID at db =
     (case e_envelope E
             \<lparr>md_EventID = e_event_uuid E, md_EventType = ''platform.rule.v1.RuleVersionPublished'',
              md_AggregateID = rs_ID ruleSet, md_AggregateType = ''rule_set'',
              md_TenantID = rs_TenantID ruleSet, md_ApplicationID = rs_ApplicationID ruleSet,
              md_SchemaVersion = 1, md_ActorID = actorID, md_OccurredAt = at\<rparr>
             (ToProtoRuleSet ruleSet, ToProtoRuleVersion version) of
        Inl err \<Rightarrow> (Inl err, db)
      | Inr envelope \<Rightarrow>
          (case e_marshal E envelope of
             Inl err \<Rightarrow> (Inl err, db)
           | Inr encoded \<Rightarrow>
               sql_AddOutbox (e_db E)
                 \<lparr>ob_ID = e_event_id E envelope, ob_Subject = ''platform.rule.rule-version.published.v1'',
                  ob_Envelope = encoded, ob_AvailableAt = at, ob_CreatedAt = at, ob_UpdatedAt = at,
                  ob_CreatedBy = actorID, ob_UpdatedBy = actorID\<rparr> db))"

definition publish_tx ::
  "('c, 'p) svc_env \<Rightarrow> int \<Rightarrow> int \<Rightarrow> 'p publish_plan \<Rightarrow> rule_db \<Rightarrow> (go_error + unit) \<times> rule_db" where
  "publish_tx E ruleSetExpected versionExpected plan db =
     (case sql_PublishRuleVersion (e_db E) (pl_ruleSet plan) (pl_version plan) ruleSetExpected
             versionExpected db of
        (Inl err, db') \<Rightarrow> (Inl err, db')
      | (Inr u, db') \<Rightarrow>
          addEvent E (pl_ruleSet plan) (pl_version plan) (pl_actor plan)
            (UpdatedAt (rv_Audit (pl_version plan))) db')"

definition publish_commit ::
  "('c, 'p) svc_env \<Rightarrow> int \<Rightarrow> int \<Rightarrow> 'p publish_plan \<Rightarrow> 'p svc_state
     \<Rightarrow> (go_error + RuleSet \<times> RuleVersion) \<times> 'p svc_state" where
  "publish_commit E ruleSetExpected versionExpected plan s =
     (case run_tx E (publish_tx E ruleSetExpected versionExpected plan) s of
        (Inl e, s') \<Rightarrow> (Inl e, s')
      | (Inr u, s') \<Rightarrow>
          (Inr (pl_ruleSet plan, pl_version plan),
           store_compiled (rv_Checksum (pl_version plan)) (pl_compiled plan) s'))"

definition PublishRuleVersion ::
  "('c, 'p) svc_env \<Rightarrow> ctx \<Rightarrow> string \<Rightarrow> string \<Rightarrow> string \<Rightarrow> string \<Rightarrow> int \<Rightarrow> int \<Rightarrow> 'p svc_state
     \<Rightarrow> (go_error + RuleSet \<times> RuleVersion) \<times> 'p svc_state" where
  "PublishRuleVersion E c tenantID applicationID ruleSetID versionID ruleSetExpected versionExpected s =
     (case publish_prepare E c tenantID applicationID ruleSetID versionID ruleSetExpected versionExpected s of
        (Inl e, s') \<Rightarrow> (Inl e, s')
      | (Inr plan, s') \<Rightarrow> publish_commit E ruleSetExpected versionExpected plan s')"

definition ListRuleVersions ::
  "('c, 'p) svc_env \<Rightarrow> ctx \<Rightarrow> string \<Rightarrow> string \<Rightarrow> string \<Rightarrow> string \<Rightarrow> int \<Rightarrow> int \<Rightarrow> 'p svc_state
     \<Rightarrow> (go_error + RuleVersion Page) \<times> 'p svc_state" where
  "ListRuleVersions E c tenantID applicationID ruleSetID status page0 pageSize0 =
     andThen (authorize c tenantID) (\<lambda>_.
     andThen (verifyApplication E tenantID applicationID) (\<lambda>_ s.
       (let (page, pageSize) = normalizePage page0 pageSize0 in
        (map_sum translate (\<lambda>(items, total). \<lparr>Items = items, Total = total, PageNumber = page, PageSize = pageSize\<rparr>)
           (sql_ListRuleVersions (e_db E) (TrimSpace tenantID) (TrimSpace applicationID)
              (TrimSpace ruleSetID) (ToLower (e_uni E) (TrimSpace status))
              pageSize (i64 ((page - 1) * pageSize)) (s_db s)), s))))"

definition GetRuleVersion ::
  "('c, 'p) svc_env \<Rightarrow> ctx \<Rightarrow> string \<Rightarrow> string \<Rightarrow> string \<Rightarrow> string \<Rightarrow> 'p svc_state
     \<Rightarrow> (go_error + RuleVersion) \<times> 'p svc_state" where
  "GetRuleVersion E c tenantID applicationID ruleSetID id0 =
     andThen (authorize c tenantID) (\<lambda>_.
     andThen (verifyApplication E tenantID applicationID) (\<lambda>_ s.
       (map_error translate
          (sql_GetRuleVersion (e_db E) (TrimSpace tenantID) (TrimSpace applicationID)
             (TrimSpace ruleSetID) (TrimSpace id0) 0 (s_db s)), s)))"

section \<open>Evaluation\<close>

text \<open>\<open>Load\<close>, else compile and check, then \<open>LoadOrStore\<close>.\<close>

definition compiledDefinition ::
  "('c, 'p) svc_env \<Rightarrow> RuleVersion \<Rightarrow> 'p svc_state \<Rightarrow> (go_error + 'p CompiledDefinition) \<times> 'p svc_state" where
  "compiledDefinition E version s =
     (case s_compiled s (rv_Checksum version) of
        Some cached \<Rightarrow> (Inr cached, s)
      | None \<Rightarrow>
          (case CompileDefinition (e_engine E) (rv_DefinitionJSON version) of
             Inl issues \<Rightarrow> (Inl (Plain ''published definition checksum or validation mismatch''), s)
           | Inr compiled \<Rightarrow>
               if cd_checksum compiled \<noteq> rv_Checksum version
               then (Inl (Plain ''published definition checksum or validation mismatch''), s)
               else (Inr compiled, store_compiled (rv_Checksum version) compiled s)))"

definition Evaluate ::
  "('c, 'p) svc_env \<Rightarrow> ctx \<Rightarrow> string \<Rightarrow> string \<Rightarrow> string \<Rightarrow> string \<Rightarrow> int \<Rightarrow> string \<Rightarrow> 'p svc_state
     \<Rightarrow> (go_error + Evaluation \<times> RuleVersion) \<times> 'p svc_state" where
  "Evaluate E c tenantID applicationID ruleSetID ruleSetCode versionNumber0 factsJSON =
     andThen (authorize c tenantID) (\<lambda>_.
     andThen (verifyApplication E tenantID applicationID) (\<lambda>_ s.
     andThen (map_error translate
         (sql_GetRuleSet (e_db E) (TrimSpace tenantID) (TrimSpace applicationID) (TrimSpace ruleSetID)
            (ToLower (e_uni E) (TrimSpace ruleSetCode)) (s_db s))) (\<lambda>ruleSet.
     andThen (require (rs_Status ruleSet = ''active'') (Conflict ''rule set is not active'' None)) (\<lambda>_ s.
       (let versionNumber = (if versionNumber0 = 0 then rs_PublishedVersionNumber ruleSet else versionNumber0) in
     andThen (map_error translate
         (sql_GetRuleVersion (e_db E) (rs_TenantID ruleSet) (rs_ApplicationID ruleSet) (rs_ID ruleSet) []
            versionNumber (s_db s))) (\<lambda>version.
     andThen (require (rv_Status version = ''published'') (Conflict ''rule version is not published'' None)) (\<lambda>_ s.
       (case compiledDefinition E version s of
          (Inl err, s') \<Rightarrow> (Inl (Internal err), s')
        | (Inr compiled, s') \<Rightarrow>
            (case EvaluateDefinition (e_engine E) c compiled factsJSON of
               Inl err \<Rightarrow>
                 (Inl (if errors_is err ErrInvalidDefinition then Invalid ''invalid facts'' (Some err)
                       else Internal err), s')
             | Inr evaluation \<Rightarrow> (Inr (evaluation, version), s'))))) s))) s))"

text \<open>\<open>BatchEvaluate\<close>: the items are evaluated one after the other, each in its own environment.\<close>

fun evaluate_all ::
  "(nat \<Rightarrow> ('c, 'p) svc_env) \<Rightarrow> ctx \<Rightarrow> nat \<Rightarrow> EvaluationInput list \<Rightarrow> 'p svc_state
     \<Rightarrow> BatchEvaluationResult list \<times> 'p svc_state" where
  "evaluate_all E c index [] s = ([], s)"
| "evaluate_all E c index (input # inputs) s =
     (case Evaluate (E index) c (in_TenantID input) (in_ApplicationID input) (in_RuleSetID input)
             (in_RuleSetCode input) (in_VersionNumber input) (in_FactsJSON input) s of
        (outcome, s') \<Rightarrow>
          (case evaluate_all E c (Suc index) inputs s' of
             (results, s'') \<Rightarrow> (\<lparr>be_Index = index, be_Outcome = outcome\<rparr> # results, s'')))"

definition BatchEvaluate ::
  "(nat \<Rightarrow> ('c, 'p) svc_env) \<Rightarrow> ctx \<Rightarrow> EvaluationInput list \<Rightarrow> 'p svc_state
     \<Rightarrow> (go_error + BatchEvaluationResult list) \<times> 'p svc_state" where
  "BatchEvaluate E c inputs s =
     (if inputs = [] \<or> 100 < length inputs
      then (Inl (Invalid ''requests must contain between 1 and 100 items'' None), s)
      else (case evaluate_all E c 0 inputs s of (results, s') \<Rightarrow> (Inr results, s')))"

end
