(* ===== verification/RepositoryLaws.thy ===== *)
theory RepositoryLaws
  imports RuleService
begin

text \<open>
  The contract of the repository and its transactions: what a transaction can do to the tables, what
  each read returns and what each statement changes. The invariant of the tables is in
  \<open>DbInvariant\<close>, optimistic locking in \<open>OptimisticLocking\<close>.
\<close>

section \<open>Transactions\<close>

text \<open>A transaction leaves the tables as they were, or as its body left them when it succeeded.\<close>

lemma Within_db:
  "Within E fn db = (r, db') \<Longrightarrow> db' = db \<or> (\<exists>x. fn db = (Inr x, db'))"
  by (auto simp: Within_def split: if_splits option.splits prod.splits sum.splits)

lemma Within_Inr: "Within E fn db = (Inr x, db') \<Longrightarrow> fn db = (Inr x, db')"
  by (auto simp: Within_def split: if_splits option.splits prod.splits sum.splits)

lemma Within_Inl:
  "Within E fn db = (Inl e, db') \<Longrightarrow> commit_error E = None \<or> \<not> commit_kept E \<Longrightarrow> db' = db"
  by (auto simp: Within_def split: if_splits option.splits prod.splits sum.splits)

lemma run_tx_db:
  "run_tx E fn s = (r, s') \<Longrightarrow>
     s_compiled s' = s_compiled s \<and> (s_db s' = s_db s \<or> (\<exists>x. fn (s_db s) = (Inr x, s_db s')))"
  by (cases "Within (e_db E) fn (s_db s)") (auto simp: run_tx_def dest: Within_db)

lemma run_tx_Inr:
  "run_tx E fn s = (Inr x, s') \<Longrightarrow> fn (s_db s) = (Inr x, s_db s') \<and> s_compiled s' = s_compiled s"
  by (cases "Within (e_db E) fn (s_db s)")
    (auto simp: run_tx_def map_error_def split: sum.splits dest: Within_Inr)

lemma run_tx_Inl:
  "run_tx E fn s = (Inl e, s') \<Longrightarrow> commit_error (e_db E) = None \<or> \<not> commit_kept (e_db E) \<Longrightarrow> s' = s"
  by (cases "Within (e_db E) fn (s_db s)")
    (auto simp: run_tx_def map_error_def split: sum.splits dest: Within_Inl)

section \<open>Reads\<close>

lemma get_row_Inr: "get_row E st P rows = Inr r \<Longrightarrow> r \<in> set rows \<and> P r"
  by (auto simp: get_row_def split: option.splits dest: find_SomeD)

lemma notFound_Inr [simp]: "notFound x = Inr r \<longleftrightarrow> x = Inr r"
  by (auto simp: notFound_def split: sum.splits)

lemma sql_GetRuleSet_Inr:
  "sql_GetRuleSet E t a i code db = Inr r \<Longrightarrow>
     r \<in> set (rule_sets db) \<and> in_app r t a \<and> (if TrimSpace i = [] then rs_Code r = code else rs_ID r = i)"
  by (auto simp: sql_GetRuleSet_def dest: get_row_Inr split: if_splits)

lemma sql_GetRuleVersion_Inr:
  "sql_GetRuleVersion E t a s i n db = Inr v \<Longrightarrow>
     v \<in> set (rule_versions db) \<and> same_set v t a s \<and>
     (if TrimSpace i = [] then rv_VersionNumber v = n else rv_ID v = i)"
  by (auto simp: sql_GetRuleVersion_def dest: get_row_Inr split: if_splits)

section \<open>Updates\<close>

lemma optimistic_Inr: "optimistic E st r = Inr u \<Longrightarrow> \<exists>n. r = Inr n \<and> 0 < n"
  by (auto simp: optimistic_def split: sum.splits option.splits if_splits)

lemma exec_optimistic_Inr:
  assumes "exec_update E st P f rows = (res, rows')" and "optimistic E st res = Inr u"
  shows "rows' = update_where P f rows" and "\<exists>r \<in> set rows. P r"
  using assms optimistic_Inr [OF assms(2)]
  by (auto simp: exec_update_def count_where_pos split: option.splits)

definition set_key :: "string \<times> string \<times> string \<Rightarrow> RuleSet \<Rightarrow> bool" where
  "set_key k r \<longleftrightarrow> (rs_TenantID r, rs_ApplicationID r, rs_ID r) = k"

definition set_id :: "RuleSet \<Rightarrow> string \<times> string \<times> string" where
  "set_id r = (rs_TenantID r, rs_ApplicationID r, rs_ID r)"

lemma sql_UpdateRuleSet_Inr:
  assumes "sql_UpdateRuleSet E value expected db = (Inr u, db')"
  shows "db' = db\<lparr>rule_sets := update_where
            (\<lambda>r. set_key (set_id value) r \<and> Version (rs_Audit r) = expected)
            (bump_set (rs_Name value) (rs_Description value) (rs_Status value)
                (UpdatedAt (rs_Audit value)) (UpdatedBy (rs_Audit value))) (rule_sets db)\<rparr>"
    and "\<exists>r \<in> set (rule_sets db). set_key (set_id value) r \<and> Version (rs_Audit r) = expected"
proof -
  have p: "(\<lambda>r. in_app r (rs_TenantID value) (rs_ApplicationID value) \<and> rs_ID r = rs_ID value \<and>
      Version (rs_Audit r) = expected) = (\<lambda>r. set_key (set_id value) r \<and> Version (rs_Audit r) = expected)"
    by (auto simp: in_app_def set_key_def set_id_def)
  obtain res rows where e: "exec_update E UpdateRuleSetRow
      (\<lambda>r. set_key (set_id value) r \<and> Version (rs_Audit r) = expected)
      (bump_set (rs_Name value) (rs_Description value) (rs_Status value)
                (UpdatedAt (rs_Audit value)) (UpdatedBy (rs_Audit value))) (rule_sets db) = (res, rows)"
    by (meson surj_pair)
  with assms have o': "optimistic E UpdateRuleSetRow res = Inr u" and d: "db' = db\<lparr>rule_sets := rows\<rparr>"
    unfolding sql_UpdateRuleSet_def p by auto
  from exec_optimistic_Inr [OF e o'] d show
    "db' = db\<lparr>rule_sets := update_where
            (\<lambda>r. set_key (set_id value) r \<and> Version (rs_Audit r) = expected)
            (bump_set (rs_Name value) (rs_Description value) (rs_Status value)
                (UpdatedAt (rs_Audit value)) (UpdatedBy (rs_Audit value))) (rule_sets db)\<rparr>"
    "\<exists>r \<in> set (rule_sets db). set_key (set_id value) r \<and> Version (rs_Audit r) = expected"
    by auto
qed

definition version_row :: "RuleVersion \<Rightarrow> int \<Rightarrow> RuleVersion \<Rightarrow> bool" where
  "version_row version expected v \<longleftrightarrow>
     same_set v (rv_TenantID version) (rv_ApplicationID version) (rv_RuleSetID version) \<and>
     rv_ID v = rv_ID version \<and> rv_Status v = ''draft'' \<and> Version (rv_Audit v) = expected"

lemma sql_PublishRuleVersion_Inr:
  assumes "sql_PublishRuleVersion E ruleSet version re ve db = (Inr u, db')"
  shows "db' = db\<lparr>rule_versions := update_where (version_row version ve) (publish_version_row version) (rule_versions db),
           rule_sets := update_where (\<lambda>r. set_key (set_id ruleSet) r \<and> Version (rs_Audit r) = re)
             (publish_set_row ruleSet version) (rule_sets db)\<rparr>"
    and "\<exists>v \<in> set (rule_versions db). version_row version ve v"
    and "\<exists>r \<in> set (rule_sets db). set_key (set_id ruleSet) r \<and> Version (rs_Audit r) = re"
proof -
  have pv: "(\<lambda>v. same_set v (rv_TenantID version) (rv_ApplicationID version) (rv_RuleSetID version) \<and>
      rv_ID v = rv_ID version \<and> rv_Status v = ''draft'' \<and> Version (rv_Audit v) = ve) = version_row version ve"
    by (auto simp: version_row_def)
  have ps: "(\<lambda>r. in_app r (rs_TenantID ruleSet) (rs_ApplicationID ruleSet) \<and> rs_ID r = rs_ID ruleSet \<and>
      Version (rs_Audit r) = re) = (\<lambda>r. set_key (set_id ruleSet) r \<and> Version (rs_Audit r) = re)"
    by (auto simp: in_app_def set_key_def set_id_def)
  obtain res vs where v: "exec_update E PublishVersionRow (version_row version ve)
      (publish_version_row version) (rule_versions db) = (res, vs)" by (meson surj_pair)
  obtain res2 ss where s: "exec_update E PublishSetRow (\<lambda>r. set_key (set_id ruleSet) r \<and> Version (rs_Audit r) = re)
      (publish_set_row ruleSet version) (rule_sets db) = (res2, ss)" by (meson surj_pair)
  from assms have o1: "\<exists>w. optimistic E PublishVersionRow res = Inr w"
    unfolding sql_PublishRuleVersion_def pv ps by (simp add: v s split: sum.splits)
  with assms have o2: "optimistic E PublishSetRow res2 = Inr u"
    and d: "db' = db\<lparr>rule_versions := vs, rule_sets := ss\<rparr>"
    unfolding sql_PublishRuleVersion_def pv ps by (auto simp: v s)
  from o1 obtain w where "optimistic E PublishVersionRow res = Inr w" ..
  from exec_optimistic_Inr [OF v this] exec_optimistic_Inr [OF s o2] d show
    "db' = db\<lparr>rule_versions := update_where (version_row version ve) (publish_version_row version) (rule_versions db),
           rule_sets := update_where (\<lambda>r. set_key (set_id ruleSet) r \<and> Version (rs_Audit r) = re)
             (publish_set_row ruleSet version) (rule_sets db)\<rparr>"
    "\<exists>v \<in> set (rule_versions db). version_row version ve v"
    "\<exists>r \<in> set (rule_sets db). set_key (set_id ruleSet) r \<and> Version (rs_Audit r) = re"
    by auto
qed

lemma sql_AddOutbox_Inr:
  "sql_AddOutbox E value db = (Inr u, db') \<Longrightarrow>
     db' = db\<lparr>rule_outbox_events := rule_outbox_events db @
       [\<lparr>or_event = value, or_attempts = 0, or_published_at = None, or_last_error = [], or_version = 1\<rparr>]\<rparr> \<and>
     ob_ID value \<notin> (\<lambda>x. ob_ID (or_event x)) ` set (rule_outbox_events db)"
  by (auto simp: sql_AddOutbox_def split: option.splits if_splits)

lemma addEvent_Inr:
  assumes "addEvent E rs v actor at db = (Inr u, db')"
  shows "\<exists>ev. db' = db\<lparr>rule_outbox_events := rule_outbox_events db @
       [\<lparr>or_event = ev, or_attempts = 0, or_published_at = None, or_last_error = [], or_version = 1\<rparr>]\<rparr> \<and>
     ob_ID ev \<notin> (\<lambda>x. ob_ID (or_event x)) ` set (rule_outbox_events db) \<and>
     ob_Subject ev = ''platform.rule.rule-version.published.v1''"
  using assms by (auto simp: addEvent_def split: sum.splits dest!: sql_AddOutbox_Inr)

lemma sql_CreateRuleSet_Inr:
  "sql_CreateRuleSet E value db = (Inr u, db') \<Longrightarrow>
     db' = db\<lparr>rule_sets := rule_sets db @ [value]\<rparr> \<and>
     (\<forall>r \<in> set (rule_sets db). rs_ID r \<noteq> rs_ID value \<and>
        (rs_TenantID r, rs_ApplicationID r, rs_Code r) \<noteq> (rs_TenantID value, rs_ApplicationID value, rs_Code value))"
  by (auto simp: sql_CreateRuleSet_def in_app_def split: option.splits if_splits)

text \<open>The two outcomes of a successful \<open>CreateRuleVersion\<close>: a replay, or a new last row.\<close>

definition stored :: "dbenv \<Rightarrow> RuleVersion \<Rightarrow> RuleVersion" where
  "stored E v = v\<lparr>rv_DefinitionJSON := sql_json E (rv_DefinitionJSON v)\<rparr>"

definition versions_of :: "string \<Rightarrow> string \<Rightarrow> string \<Rightarrow> rule_db \<Rightarrow> RuleVersion list" where
  "versions_of t a s db = filter (\<lambda>v. same_set v t a s) (rule_versions db)"

definition mine :: "RuleVersion \<Rightarrow> rule_db \<Rightarrow> RuleVersion list" where
  "mine value db = versions_of (rv_TenantID value) (rv_ApplicationID value) (rv_RuleSetID value) db"

lemma sql_CreateRuleVersion_cases:
  assumes "sql_CreateRuleVersion E value expected db = (Inr (v, created), db')"
  obtains
    (replay) "\<not> created" "db' = db" "v \<in> set (mine value db)"
      "rv_IdempotencyKey v = rv_IdempotencyKey value" "rv_Checksum v = rv_Checksum value"
  | (new) r where created "v = value\<lparr>rv_VersionNumber := next_number (mine value db)\<rparr>"
      "db' = db\<lparr>rule_versions := rule_versions db @ [stored E v]\<rparr>"
      "r \<in> set (rule_sets db)" "in_app r (rv_TenantID value) (rv_ApplicationID value)"
      "rs_ID r = rv_RuleSetID value" "Version (rs_Audit r) = expected" "rs_Status r \<noteq> ''disabled''"
      "rv_ID value \<notin> rv_ID ` set (rule_versions db)"
      "rv_IdempotencyKey value \<notin> rv_IdempotencyKey ` set (mine value db)"
proof -
  let ?m = "\<lambda>v. same_set v (rv_TenantID value) (rv_ApplicationID value) (rv_RuleSetID value)"
  from assms obtain r where r0: "get_row E LockRuleSet
      (\<lambda>r. in_app r (rv_TenantID value) (rv_ApplicationID value) \<and> rs_ID r = rv_RuleSetID value)
      (rule_sets db) = Inr r"
    unfolding sql_CreateRuleVersion_def by (cases "get_row E LockRuleSet
      (\<lambda>r. in_app r (rv_TenantID value) (rv_ApplicationID value) \<and> rs_ID r = rv_RuleSetID value)
      (rule_sets db)") (auto simp: notFound_def split: if_splits)
  note r = get_row_Inr [OF r0]
  show thesis
  proof (cases "get_row E SelectByKey (\<lambda>v. ?m v \<and> rv_IdempotencyKey v = rv_IdempotencyKey value) (rule_versions db)")
    case (Inr existing)
    with assms r0 have "rv_Checksum existing = rv_Checksum value" "v = existing" "\<not> created" "db' = db"
      unfolding sql_CreateRuleVersion_def by (auto simp: notFound_def split: if_splits)
    with replay get_row_Inr [OF Inr] show ?thesis by (auto simp: mine_def versions_of_def)
  next
    case (Inl err)
    define value' where "value' = value\<lparr>rv_VersionNumber := next_number (filter ?m (rule_versions db))\<rparr>"
    from assms r0 Inl have c: "errors_is err ErrNoRows" "Version (rs_Audit r) = expected"
      "rs_Status r \<noteq> ''disabled''" "stmt_error E SelectNextNumber = None"
      unfolding sql_CreateRuleVersion_def by (auto simp: notFound_def Let_def split: if_splits option.splits)
    obtain res db2 where iv: "insert_version E value' db = (res, db2)" by (cases "insert_version E value' db")
    from assms r0 Inl c iv have o': "\<exists>u. res = Inr u" "v = value'" "created" "db' = db2"
      unfolding sql_CreateRuleVersion_def
      by (auto simp: notFound_def Let_def value'_def split: sum.splits)
    with iv have "db' = db\<lparr>rule_versions := rule_versions db @ [stored E v]\<rparr>"
      and n: "\<forall>x \<in> set (rule_versions db). rv_ID x \<noteq> rv_ID value' \<and>
        (?m x \<longrightarrow> rv_IdempotencyKey x \<noteq> rv_IdempotencyKey value')"
      by (auto simp: insert_version_def stored_def value'_def split: option.splits if_splits)
    moreover have "v = value\<lparr>rv_VersionNumber := next_number (mine value db)\<rparr>"
      using o' by (simp add: value'_def mine_def versions_of_def)
    moreover have "rv_ID value \<notin> rv_ID ` set (rule_versions db)"
      "rv_IdempotencyKey value \<notin> rv_IdempotencyKey ` set (mine value db)"
      using n by (auto simp: value'_def mine_def versions_of_def)
    ultimately show ?thesis using o' r c by (intro new [of r]) simp_all
  qed
qed

end
