(* ===== verification/DbInvariant.thy ===== *)
theory DbInvariant
  imports RepositoryLaws
begin

text \<open>
  The invariant of the three tables and its preservation by every transaction body of the service.
\<close>

definition set_row_ok :: "RuleSet \<Rightarrow> bool" where
  "set_row_ok r \<longleftrightarrow>
     ruleCodePattern (rs_Code r) \<and> rs_Name r \<noteq> [] \<and> TrimSpace (rs_TenantID r) = rs_TenantID r \<and>
     1 \<le> Version (rs_Audit r) \<and> rs_Status r \<in> {''draft'', ''active'', ''disabled''}"

definition sets_ok :: "rule_db \<Rightarrow> bool" where
  "sets_ok db \<longleftrightarrow>
     distinct (map rs_ID (rule_sets db)) \<and>
     distinct (map (\<lambda>r. (rs_TenantID r, rs_ApplicationID r, rs_Code r)) (rule_sets db)) \<and>
     (\<forall>r \<in> set (rule_sets db). set_row_ok r)"

definition owned :: "rule_db \<Rightarrow> RuleVersion \<Rightarrow> bool" where
  "owned db v \<longleftrightarrow> (\<exists>r \<in> set (rule_sets db). rs_ID r = rv_RuleSetID v \<and> in_app r (rv_TenantID v) (rv_ApplicationID v))"

definition version_row_ok :: "RuleVersion \<Rightarrow> bool" where
  "version_row_ok v \<longleftrightarrow> rv_Status v \<in> {''draft'', ''published''} \<and>
     (rv_Status v = ''published'' \<longleftrightarrow> rv_PublishedAt v \<noteq> None)"

text \<open>The numbers 1 to \<open>n\<close>.\<close>

primrec numbers :: "nat \<Rightarrow> int list" where
  "numbers 0 = []"
| "numbers (Suc n) = numbers n @ [int (Suc n)]"

definition versions_ok :: "rule_db \<Rightarrow> bool" where
  "versions_ok db \<longleftrightarrow>
     distinct (map rv_ID (rule_versions db)) \<and>
     (\<forall>v \<in> set (rule_versions db). owned db v \<and> version_row_ok v) \<and>
     (\<forall>t a s. map rv_VersionNumber (versions_of t a s db) = numbers (length (versions_of t a s db)) \<and>
        distinct (map rv_IdempotencyKey (versions_of t a s db)))"

definition is_published :: "RuleVersion \<Rightarrow> bool" where
  "is_published v \<longleftrightarrow> rv_Status v = ''published''"

definition published_ok :: "rule_db \<Rightarrow> bool" where
  "published_ok db \<longleftrightarrow>
     (\<forall>r \<in> set (rule_sets db). rs_PublishedVersionNumber r = 0 \<or>
        (\<exists>v \<in> set (versions_of (rs_TenantID r) (rs_ApplicationID r) (rs_ID r) db).
           rv_VersionNumber v = rs_PublishedVersionNumber r \<and> is_published v))"

definition outbox_ok :: "rule_db \<Rightarrow> bool" where
  "outbox_ok db \<longleftrightarrow>
     length (rule_outbox_events db) = count_where is_published (rule_versions db) \<and>
     distinct (map (\<lambda>x. ob_ID (or_event x)) (rule_outbox_events db))"

definition db_ok :: "rule_db \<Rightarrow> bool" where
  "db_ok db \<longleftrightarrow> sets_ok db \<and> versions_ok db \<and> published_ok db \<and> outbox_ok db"

definition empty_db :: rule_db where
  "empty_db = \<lparr>rule_sets = [], rule_versions = [], rule_outbox_events = []\<rparr>"

lemma empty_db_ok: "db_ok empty_db"
  by (simp add: db_ok_def sets_ok_def versions_ok_def published_ok_def outbox_ok_def empty_db_def
      versions_of_def count_where_def)

lemma versions_ok_mono:
  assumes "versions_ok db" and "rule_versions db' = rule_versions db" and "\<And>v. owned db v \<Longrightarrow> owned db' v"
  shows "versions_ok db'"
proof -
  have "versions_of t a s db' = versions_of t a s db" for t a s
    by (simp add: versions_of_def assms(2))
  then show ?thesis using assms unfolding versions_ok_def by simp
qed

section \<open>Creating a rule set\<close>

lemma sql_CreateRuleSet_ok:
  assumes "db_ok db" and "sql_CreateRuleSet E value db = (Inr u, db')"
    and "ruleCodePattern (rs_Code value)" "rs_Name value \<noteq> []" "TrimSpace (rs_TenantID value) = rs_TenantID value"
    and "rs_Status value = ''draft''" "rs_PublishedVersionNumber value = 0" "Version (rs_Audit value) = 1"
  shows "db_ok db'"
proof -
  from sql_CreateRuleSet_Inr [OF assms(2)] have d: "db' = db\<lparr>rule_sets := rule_sets db @ [value]\<rparr>"
    and f: "\<forall>r \<in> set (rule_sets db). rs_ID r \<noteq> rs_ID value \<and>
        (rs_TenantID r, rs_ApplicationID r, rs_Code r) \<noteq> (rs_TenantID value, rs_ApplicationID value, rs_Code value)"
    by auto
  have v: "versions_of t a s db' = versions_of t a s db" for t a s by (simp add: d versions_of_def)
  have "set_row_ok value" using assms(3-8) by (simp add: set_row_ok_def)
  moreover have "sets_ok db" using assms(1) by (simp add: db_ok_def)
  ultimately have "sets_ok db'" using f by (auto simp: sets_ok_def d)
  moreover have "versions_ok db'"
  proof (rule versions_ok_mono [of db])
    show "versions_ok db" using assms(1) by (simp add: db_ok_def)
  qed (auto simp: owned_def d)
  moreover have "published_ok db'"
    using assms(1,7) unfolding db_ok_def published_ok_def v by (simp add: d)
  moreover have "outbox_ok db'" using assms(1) by (simp add: db_ok_def outbox_ok_def d)
  ultimately show ?thesis by (simp add: db_ok_def)
qed

section \<open>Changing a row of a rule set\<close>

text \<open>An update of rule sets that keeps the identity and the code of every row, gives it a legal
  status and a larger version, keeps the invariant as soon as the published numbers stay right.\<close>

lemma update_sets_ok:
  assumes "sets_ok db" and "db' = db\<lparr>rule_sets := update_where P f (rule_sets db)\<rparr>"
    and "\<And>r. set_id (f r) = set_id r \<and> rs_Code (f r) = rs_Code r \<and>
       Version (rs_Audit (f r)) = Version (rs_Audit r) + 1 \<and> rs_Status (f r) \<in> {''draft'', ''active'', ''disabled''}"
    and "\<And>r. rs_Name r \<noteq> [] \<Longrightarrow> rs_Name (f r) \<noteq> []"
  shows "sets_ok db'"
proof -
  have i: "rs_ID (f r) = rs_ID r" "rs_TenantID (f r) = rs_TenantID r" "rs_ApplicationID (f r) = rs_ApplicationID r"
    "rs_Code (f r) = rs_Code r" "Version (rs_Audit (f r)) = Version (rs_Audit r) + 1"
    "rs_Status (f r) \<in> {''draft'', ''active'', ''disabled''}" for r
    using assms(3) [of r] by (simp_all add: set_id_def)
  have m: "map rs_ID (rule_sets db') = map rs_ID (rule_sets db)"
    "map (\<lambda>r. (rs_TenantID r, rs_ApplicationID r, rs_Code r)) (rule_sets db') =
     map (\<lambda>r. (rs_TenantID r, rs_ApplicationID r, rs_Code r)) (rule_sets db)"
    using i by (simp_all add: assms(2) update_where_def)
  have "\<forall>r \<in> set (rule_sets db'). set_row_ok r"
  proof
    fix r assume "r \<in> set (rule_sets db')"
    then obtain q where q: "q \<in> set (rule_sets db)" "r = (if P q then f q else q)"
      by (auto simp: assms(2) set_update_where)
    with assms(1) have "set_row_ok q" by (simp add: sets_ok_def)
    with q(2) i [of q] assms(4) [of q] show "set_row_ok r"
      by (cases "P q") (simp_all add: set_row_ok_def)
  qed
  with assms(1) show ?thesis unfolding sets_ok_def m by blast
qed

lemma owned_update:
  assumes "db' = db\<lparr>rule_sets := update_where P f (rule_sets db)\<rparr>" and "\<And>r. set_id (f r) = set_id r"
  shows "owned db v \<Longrightarrow> owned db' v"
proof -
  assume "owned db v"
  then obtain r where r: "r \<in> set (rule_sets db)" "rs_ID r = rv_RuleSetID v"
    "in_app r (rv_TenantID v) (rv_ApplicationID v)" by (auto simp: owned_def)
  let ?r = "if P r then f r else r"
  have "?r \<in> set (rule_sets db')" using r(1) by (auto simp: assms(1) set_update_where)
  moreover have "set_id ?r = set_id r" by (simp add: assms(2))
  then have "rs_ID ?r = rv_RuleSetID v" "in_app ?r (rv_TenantID v) (rv_ApplicationID v)"
    using r(2,3) by (simp_all add: set_id_def in_app_def del: if_image_distrib)
  ultimately show ?thesis unfolding owned_def by blast
qed

lemma bump_set_simps [simp]:
  "set_id (bump_set n d st at' ac r) = set_id r" "rs_Code (bump_set n d st at' ac r) = rs_Code r"
  "rs_PublishedVersionNumber (bump_set n d st at' ac r) = rs_PublishedVersionNumber r"
  "Version (rs_Audit (bump_set n d st at' ac r)) = Version (rs_Audit r) + 1"
  "rs_Status (bump_set n d st at' ac r) = st" "rs_Name (bump_set n d st at' ac r) = n"
  by (simp_all add: bump_set_def set_id_def)

lemma publish_set_simps [simp]:
  "set_id (publish_set_row rs v r) = set_id r" "rs_Code (publish_set_row rs v r) = rs_Code r"
  "rs_PublishedVersionNumber (publish_set_row rs v r) = rv_VersionNumber v"
  "Version (rs_Audit (publish_set_row rs v r)) = Version (rs_Audit r) + 1"
  "rs_Status (publish_set_row rs v r) = ''active''" "rs_Name (publish_set_row rs v r) = rs_Name r"
  by (simp_all add: publish_set_row_def set_id_def)

lemma set_id_fields: "set_id r = set_id q \<Longrightarrow> rs_ID r = rs_ID q \<and> rs_TenantID r = rs_TenantID q \<and> rs_ApplicationID r = rs_ApplicationID q"
  by (simp add: set_id_def)

lemma sql_UpdateRuleSet_ok:
  assumes "db_ok db" and "sql_UpdateRuleSet E value expected db = (Inr u, db')"
    and "rs_Name value \<noteq> []" "rs_Status value \<in> {''draft'', ''active'', ''disabled''}"
  shows "db_ok db'"
proof -
  let ?P = "\<lambda>r. set_key (set_id value) r \<and> Version (rs_Audit r) = expected"
  let ?f = "bump_set (rs_Name value) (rs_Description value) (rs_Status value)
                (UpdatedAt (rs_Audit value)) (UpdatedBy (rs_Audit value))"
  note d = sql_UpdateRuleSet_Inr(1) [OF assms(2)]
  have v: "versions_of t a s db' = versions_of t a s db" for t a s by (simp add: d versions_of_def)
  have "sets_ok db'"
    using assms by (intro update_sets_ok [OF _ d]) (simp_all add: db_ok_def)
  moreover have "versions_ok db'"
  proof (rule versions_ok_mono [of db])
    show "versions_ok db" using assms(1) by (simp add: db_ok_def)
  qed (use owned_update [OF d] in \<open>simp_all add: d\<close>)
  moreover have "published_ok db'"
    unfolding published_ok_def v
  proof
    fix r assume "r \<in> set (rule_sets db')"
    then obtain q where q: "q \<in> set (rule_sets db)" "r = (if ?P q then ?f q else q)"
      by (auto simp: d set_update_where)
    then have "set_id r = set_id q" "rs_PublishedVersionNumber r = rs_PublishedVersionNumber q"
      by (cases "?P q"; simp)+
    with q(1) assms(1) set_id_fields [of r q] show "rs_PublishedVersionNumber r = 0 \<or>
        (\<exists>v \<in> set (versions_of (rs_TenantID r) (rs_ApplicationID r) (rs_ID r) db).
           rv_VersionNumber v = rs_PublishedVersionNumber r \<and> is_published v)"
      unfolding db_ok_def published_ok_def by simp
  qed
  moreover have "outbox_ok db'" using assms(1) by (simp add: db_ok_def outbox_ok_def d)
  ultimately show ?thesis by (simp add: db_ok_def)
qed

section \<open>Creating a version\<close>

lemma foldr_max_snoc: "foldr max (xs @ [y]) z = max (foldr max xs z) (y :: int)"
  by (induction xs) auto

lemma foldr_max_numbers: "foldr max (numbers n) 0 = int n"
proof (induction n)
  case (Suc n)
  show ?case unfolding numbers.simps foldr_max_snoc Suc.IH by simp
qed simp

lemma next_number_upto:
  "map rv_VersionNumber vs = numbers (length vs) \<Longrightarrow> next_number vs = int (length vs) + 1"
  unfolding next_number_def by (simp only: foldr_max_numbers)

lemma stored_simps [simp]:
  "rv_ID (stored E v) = rv_ID v" "rv_VersionNumber (stored E v) = rv_VersionNumber v"
  "rv_IdempotencyKey (stored E v) = rv_IdempotencyKey v" "rv_Status (stored E v) = rv_Status v"
  "rv_PublishedAt (stored E v) = rv_PublishedAt v" "same_set (stored E v) = same_set v"
  "rv_RuleSetID (stored E v) = rv_RuleSetID v" "rv_TenantID (stored E v) = rv_TenantID v"
  "rv_ApplicationID (stored E v) = rv_ApplicationID v" "rv_Checksum (stored E v) = rv_Checksum v"
  by (auto simp: stored_def same_set_def fun_eq_iff)

lemma sql_CreateRuleVersion_ok:
  assumes "db_ok db" and "sql_CreateRuleVersion E value expected db = (Inr (v, created), db')"
    and "rv_Status value = ''draft''" "rv_PublishedAt value = None"
  shows "db_ok db'"
  using assms(2)
proof (cases rule: sql_CreateRuleVersion_cases)
  case replay
  with assms(1) show ?thesis by simp
next
  case (new r)
  have vs: "versions_of t a s db' = (if same_set value t a s then versions_of t a s db @ [stored E v] else versions_of t a s db)"
    for t a s using new(2) by (simp add: new(3) versions_of_def same_set_def)
  have m: "versions_of t a s db = mine value db" if "same_set value t a s" for t a s
    using that by (simp add: mine_def same_set_def)
  have n: "map rv_VersionNumber (versions_of t a s db) = numbers (length (versions_of t a s db))
     \<and> distinct (map rv_IdempotencyKey (versions_of t a s db))" for t a s
    using assms(1) by (simp add: db_ok_def versions_ok_def)
  have num: "rv_VersionNumber v = int (length (mine value db)) + 1"
    using new(2) n by (simp add: next_number_upto mine_def)
  have nk: "map rv_VersionNumber (versions_of t a s db') = numbers (length (versions_of t a s db'))
     \<and> distinct (map rv_IdempotencyKey (versions_of t a s db'))" for t a s
  proof (cases "same_set value t a s")
    case False
    with n [of t a s] show ?thesis unfolding vs by simp
  next
    case True
    with n [of t a s] num new(10) new(2) m [OF True] show ?thesis unfolding vs by auto
  qed
  have own: "owned db' x" if "owned db x" for x using that by (simp add: owned_def new(3))
  have "owned db' (stored E v)"
    using new(4,5,6) new(2) by (auto simp: owned_def new(3))
  moreover have "version_row_ok (stored E v)"
    using assms(3,4) new(2) by (simp add: version_row_ok_def)
  moreover have "versions_ok db" using assms(1) by (simp add: db_ok_def)
  ultimately have "versions_ok db'"
    using own new(9) new(2) nk unfolding versions_ok_def by (auto simp: new(3))
  moreover have "published_ok db'"
    using assms(1) unfolding db_ok_def published_ok_def vs by (auto simp: new(3))
  moreover have "sets_ok db'" using assms(1) by (simp add: db_ok_def sets_ok_def new(3))
  moreover have "outbox_ok db'"
    using assms(1,3) new(2) by (simp add: db_ok_def outbox_ok_def new(3) count_where_def is_published_def)
  ultimately show ?thesis by (simp add: db_ok_def)
qed

section \<open>Publishing\<close>

lemma publish_row_simps [simp]:
  "rv_ID (publish_version_row w v) = rv_ID v" "rv_VersionNumber (publish_version_row w v) = rv_VersionNumber v"
  "rv_IdempotencyKey (publish_version_row w v) = rv_IdempotencyKey v"
  "rv_Status (publish_version_row w v) = ''published''"
  "rv_PublishedAt (publish_version_row w v) = rv_PublishedAt w" "same_set (publish_version_row w v) = same_set v"
  "rv_RuleSetID (publish_version_row w v) = rv_RuleSetID v" "rv_TenantID (publish_version_row w v) = rv_TenantID v"
  "rv_ApplicationID (publish_version_row w v) = rv_ApplicationID v"
  "rv_Checksum (publish_version_row w v) = rv_Checksum v"
  "rv_DefinitionJSON (publish_version_row w v) = rv_DefinitionJSON v"
  by (auto simp: publish_version_row_def same_set_def fun_eq_iff)

lemma filter_update_where:
  "(\<And>x. Q (f x) = Q x) \<Longrightarrow> filter Q (update_where P f xs) = update_where P f (filter Q xs)"
  by (induction xs) (auto simp: update_where_def)

text \<open>One row changes from draft to published, so the number of published versions grows by one.\<close>

lemma count_publish:
  assumes "distinct (map rv_ID vs)" and "v \<in> set vs" and "version_row w e v"
  shows "count_where is_published (update_where (version_row w e) (publish_version_row w) vs) =
    Suc (count_where is_published vs)"
  using assms
proof (induction vs)
  case (Cons x vs)
  show ?case
  proof (cases "version_row w e x")
    case True
    then have "rv_ID w \<notin> rv_ID ` set vs" using Cons.prems(1) by (simp add: version_row_def)
    then have "\<not> version_row w e y" if "y \<in> set vs" for y
      using that by (metis image_eqI version_row_def)
    then have "update_where (version_row w e) (publish_version_row w) vs = vs"
      by (simp add: update_where_def map_idI)
    with True show ?thesis
      by (simp add: count_where_def update_where_def is_published_def version_row_def)
  next
    case False
    with Cons show ?thesis by (auto simp: count_where_def update_where_def)
  qed
qed simp

text \<open>A plan is coherent with the tables: it names a stored version by its number.\<close>

definition plan_ok :: "RuleSet \<Rightarrow> RuleVersion \<Rightarrow> rule_db \<Rightarrow> bool" where
  "plan_ok rs w db \<longleftrightarrow>
     set_id rs = (rv_TenantID w, rv_ApplicationID w, rv_RuleSetID w) \<and> rv_PublishedAt w \<noteq> None \<and>
     (\<exists>v \<in> set (rule_versions db). rv_ID v = rv_ID w \<and>
        same_set v (rv_TenantID w) (rv_ApplicationID w) (rv_RuleSetID w) \<and> rv_VersionNumber v = rv_VersionNumber w)"

lemma publish_tx_Inr:
  assumes "publish_tx E re ve plan db = (Inr u, db')"
  defines "w \<equiv> pl_version plan" and "rs \<equiv> pl_ruleSet plan"
  obtains ev v r where
    "db' = db\<lparr>rule_versions := update_where (version_row w ve) (publish_version_row w) (rule_versions db),
        rule_sets := update_where (\<lambda>r. set_key (set_id rs) r \<and> Version (rs_Audit r) = re)
          (publish_set_row rs w) (rule_sets db),
        rule_outbox_events := rule_outbox_events db @
          [\<lparr>or_event = ev, or_attempts = 0, or_published_at = None, or_last_error = [], or_version = 1\<rparr>]\<rparr>"
    "ob_ID ev \<notin> (\<lambda>x. ob_ID (or_event x)) ` set (rule_outbox_events db)"
    "ob_Subject ev = ''platform.rule.rule-version.published.v1''"
    "v \<in> set (rule_versions db)" "version_row w ve v"
    "r \<in> set (rule_sets db)" "set_key (set_id rs) r" "Version (rs_Audit r) = re"
proof -
  obtain res db1 where p: "sql_PublishRuleVersion (e_db E) rs w re ve db = (res, db1)"
    by (meson surj_pair)
  with assms obtain x where x: "res = Inr x" by (cases res) (auto simp: publish_tx_def)
  note s = sql_PublishRuleVersion_Inr [OF p [unfolded x]]
  from assms p x have "addEvent E rs w (pl_actor plan) (UpdatedAt (rv_Audit w)) db1 = (Inr u, db')"
    by (simp add: publish_tx_def)
  from addEvent_Inr [OF this] obtain ev where "db' = db1\<lparr>rule_outbox_events := rule_outbox_events db1 @
       [\<lparr>or_event = ev, or_attempts = 0, or_published_at = None, or_last_error = [], or_version = 1\<rparr>]\<rparr>"
     "ob_ID ev \<notin> (\<lambda>x. ob_ID (or_event x)) ` set (rule_outbox_events db1)"
     "ob_Subject ev = ''platform.rule.rule-version.published.v1''" by blast
  moreover from s(2,3) obtain v r where "v \<in> set (rule_versions db)" "version_row w ve v"
    "r \<in> set (rule_sets db)" "set_key (set_id rs) r" "Version (rs_Audit r) = re" by blast
  ultimately show thesis using s(1) by (intro that [of ev v r]) simp_all
qed

lemma publish_tx_ok:
  assumes "db_ok db" and "publish_tx E re ve plan db = (Inr u, db')"
    and "plan_ok (pl_ruleSet plan) (pl_version plan) db"
  shows "db_ok db'"
proof -
  define w where "w = pl_version plan"
  define rs where "rs = pl_ruleSet plan"
  from publish_tx_Inr [OF assms(2)] obtain ev v r where
    d: "db' = db\<lparr>rule_versions := update_where (version_row w ve) (publish_version_row w) (rule_versions db),
        rule_sets := update_where (\<lambda>r. set_key (set_id rs) r \<and> Version (rs_Audit r) = re)
          (publish_set_row rs w) (rule_sets db),
        rule_outbox_events := rule_outbox_events db @
          [\<lparr>or_event = ev, or_attempts = 0, or_published_at = None, or_last_error = [], or_version = 1\<rparr>]\<rparr>"
    and ev: "ob_ID ev \<notin> (\<lambda>x. ob_ID (or_event x)) ` set (rule_outbox_events db)"
    and v: "v \<in> set (rule_versions db)" "version_row w ve v"
    and r: "r \<in> set (rule_sets db)" "set_key (set_id rs) r" "Version (rs_Audit r) = re"
    unfolding w_def rs_def by blast
  from assms(3) have pl: "set_id rs = (rv_TenantID w, rv_ApplicationID w, rv_RuleSetID w)" "rv_PublishedAt w \<noteq> None"
    and "\<exists>v' \<in> set (rule_versions db). rv_ID v' = rv_ID w \<and> rv_VersionNumber v' = rv_VersionNumber w"
    by (auto simp: plan_ok_def w_def rs_def)
  then obtain v' where v': "v' \<in> set (rule_versions db)" "rv_ID v' = rv_ID w" "rv_VersionNumber v' = rv_VersionNumber w"
    by blast
  have dist: "distinct (map rv_ID (rule_versions db))" using assms(1) by (simp add: db_ok_def versions_ok_def)
  have "v' = v" using distinct_map_eq [OF dist v'(1) v(1)] v'(2) v(2) by (simp add: version_row_def)
  with v' have num: "rv_VersionNumber v = rv_VersionNumber w" by simp
  let ?up = "update_where (version_row w ve) (publish_version_row w)"
  have vs: "versions_of t a s db' = ?up (versions_of t a s db)" for t a s
    by (simp add: d versions_of_def filter_update_where)
  define db1 where "db1 = db\<lparr>rule_sets := update_where (\<lambda>r. set_key (set_id rs) r \<and> Version (rs_Audit r) = re)
          (publish_set_row rs w) (rule_sets db)\<rparr>"
  have own: "owned db x \<Longrightarrow> owned db' x" for x
    using owned_update [OF db1_def, of x] by (simp add: owned_def db1_def d)
  have "sets_ok db1" using assms(1) by (intro update_sets_ok [OF _ db1_def]) (simp_all add: db_ok_def)
  then have "sets_ok db'" by (simp add: sets_ok_def db1_def d)
  moreover have "versions_ok db'"
    unfolding versions_ok_def
  proof (intro conjI allI)
    show "distinct (map rv_ID (rule_versions db'))"
      using dist by (simp add: d map_update_where)
    show "\<forall>x \<in> set (rule_versions db'). owned db' x \<and> version_row_ok x"
    proof
      fix x assume "x \<in> set (rule_versions db')"
      then obtain y where y: "y \<in> set (rule_versions db)" "x = (if version_row w ve y then publish_version_row w y else y)"
        by (auto simp: d set_update_where)
      then have "owned db y" "version_row_ok y" using assms(1) by (auto simp: db_ok_def versions_ok_def)
      then show "owned db' x \<and> version_row_ok x"
        using y(2) own [of y] pl(2)
        by (cases "version_row w ve y") (simp_all add: owned_def version_row_ok_def [of "publish_version_row w y"])
    qed
    fix t a s
    have "map rv_VersionNumber (versions_of t a s db) = numbers (length (versions_of t a s db))
       \<and> distinct (map rv_IdempotencyKey (versions_of t a s db))"
      using assms(1) by (simp add: db_ok_def versions_ok_def)
    then show "map rv_VersionNumber (versions_of t a s db') = numbers (length (versions_of t a s db'))"
      and "distinct (map rv_IdempotencyKey (versions_of t a s db'))"
      unfolding vs by (simp_all add: map_update_where)
  qed
  moreover have "published_ok db'"
    unfolding published_ok_def vs
  proof
    fix x assume "x \<in> set (rule_sets db')"
    then obtain y where y: "y \<in> set (rule_sets db)"
      "x = (if set_key (set_id rs) y \<and> Version (rs_Audit y) = re then publish_set_row rs w y else y)"
      by (auto simp: d set_update_where)
    have keep: "\<exists>v \<in> set (?up vs). rv_VersionNumber v = n \<and> is_published v"
      if "\<exists>v \<in> set vs. rv_VersionNumber v = n \<and> is_published v" for vs n
    proof -
      from that obtain z where z: "z \<in> set vs" "rv_VersionNumber z = n" "is_published z" by blast
      then have "z \<in> set (?up vs)" by (force simp: set_update_where version_row_def is_published_def)
      with z show ?thesis by blast
    qed
    show "rs_PublishedVersionNumber x = 0 \<or>
        (\<exists>v \<in> set (?up (versions_of (rs_TenantID x) (rs_ApplicationID x) (rs_ID x) db)).
           rv_VersionNumber v = rs_PublishedVersionNumber x \<and> is_published v)"
    proof (cases "set_key (set_id rs) y \<and> Version (rs_Audit y) = re")
      case False
      then have "x = y" using y(2) by auto
      moreover have "rs_PublishedVersionNumber y = 0 \<or> (\<exists>v \<in> set (versions_of (rs_TenantID y)
          (rs_ApplicationID y) (rs_ID y) db). rv_VersionNumber v = rs_PublishedVersionNumber y \<and> is_published v)"
        using y(1) assms(1) unfolding db_ok_def published_ok_def by blast
      ultimately show ?thesis using keep by blast
    next
      case True
      with y(2) have x: "set_id x = set_id y" "rs_PublishedVersionNumber x = rv_VersionNumber w" by simp_all
      from True pl(1) have "set_id y = (rv_TenantID w, rv_ApplicationID w, rv_RuleSetID w)"
        by (simp add: set_key_def set_id_def)
      with x(1) have k: "rs_TenantID x = rv_TenantID w" "rs_ApplicationID x = rv_ApplicationID w" "rs_ID x = rv_RuleSetID w"
        by (simp_all add: set_id_def)
      have "publish_version_row w v \<in> set (?up (versions_of (rv_TenantID w) (rv_ApplicationID w) (rv_RuleSetID w) db))"
        using v by (force simp: set_update_where versions_of_def version_row_def)
      moreover have "rv_VersionNumber (publish_version_row w v) = rs_PublishedVersionNumber x"
        "is_published (publish_version_row w v)"
        using num x(2) by (simp_all add: is_published_def)
      ultimately show ?thesis unfolding k by blast
    qed
  qed
  moreover have "outbox_ok db'"
    using assms(1) count_publish [OF dist v] ev by (simp add: db_ok_def outbox_ok_def d)
  ultimately show ?thesis by (simp add: db_ok_def)
qed

end
