(* ===== verification/JsonLaws.thy ===== *)
theory JsonLaws
  imports GoJson
begin

text \<open>
  The laws of the JSON model: what the parser accepts is well formed, parsing inverts printing,
  the fuel of the parser is enough for every input, HTML escaping changes nothing a reader of the
  document can observe, and unquoting inverts quoting.
\<close>

section \<open>Tokens\<close>

definition wf_raw :: "string \<Rightarrow> bool" where
  "wf_raw t \<longleftrightarrow> scan_string (t @ [dquote]) = Some (t, [])"

lemma scan_string_sound:
  "scan_string s = Some (t, r) \<Longrightarrow>
     s = t @ dquote # r \<and> (\<forall>r'. scan_string (t @ dquote # r') = Some (t, r'))"
proof (induction s arbitrary: t r rule: scan_string.induct)
  case 1
  then show ?case by simp
next
  case (2 c s)
  consider (q) "c = dquote" | (b) "c = bslash" "c \<noteq> dquote" | (o) "c \<noteq> bslash" "c \<noteq> dquote"
    by blast
  then show ?case
  proof cases
    case q
    with "2.prems" show ?thesis by auto
  next
    case o
    with "2.prems" obtain t' where t: "t = c # t'" "scan_string s = Some (t', r)"
      and n: "\<not> byte c < 32"
      by (auto split: if_splits)
    from "2.IH"(3) [OF o(2,1) n t(2)] o n t(1) show ?thesis by simp
  next
    case b
    then obtain e s' where s: "s = e # s'" using "2.prems" by (cases s) auto
    show ?thesis
    proof (cases "is_escape e")
      case True
      with "2.prems" b s obtain t' where t: "t = c # e # t'" "scan_string s' = Some (t', r)"
        by auto
      from "2.IH"(1) [OF b(2) b(1) s True t(2)] b s t(1) True show ?thesis by simp
    next
      case False
      then have u: "e = CHR ''u''" using "2.prems" b s by (auto split: if_splits)
      then obtain h1 h2 h3 h4 s'' where s': "s' = h1 # h2 # h3 # h4 # s''"
        using "2.prems" b s False by (auto split: list.splits)
      with "2.prems" b s u False have h: "is_hex h1 \<and> is_hex h2 \<and> is_hex h3 \<and> is_hex h4"
        by (auto split: if_splits)
      with "2.prems" b s u s' False obtain t' where
        t: "t = c # e # h1 # h2 # h3 # h4 # t'" "scan_string s'' = Some (t', r)"
        by auto
      have "s'' = t' @ dquote # r \<and> (\<forall>r'. scan_string (t' @ dquote # r') = Some (t', r'))"
        using "2.IH"(2) b s False u s' h t(2) by metis
      with b s u s' h False t(1) show ?thesis by simp
    qed
  qed
qed

lemma wf_rawI: "scan_string s = Some (t, r) \<Longrightarrow> wf_raw t"
  using scan_string_sound unfolding wf_raw_def by blast

lemma wf_raw_scan: "wf_raw t \<Longrightarrow> scan_string (t @ dquote # r) = Some (t, r)"
  using scan_string_sound unfolding wf_raw_def by blast

text \<open>Numbers: what follows a literal must not extend it.\<close>

definition num_stop :: "string \<Rightarrow> bool" where
  "num_stop r \<longleftrightarrow> (case r of [] \<Rightarrow> True | c # _ \<Rightarrow> \<not> is_digit c \<and> c \<noteq> CHR ''.'' \<and> c \<noteq> CHR ''e'' \<and> c \<noteq> CHR ''E'')"

definition wf_num :: "string \<Rightarrow> bool" where
  "wf_num t \<longleftrightarrow> scan_number t = Some (t, [])"

definition no_digit :: "string \<Rightarrow> bool" where
  "no_digit r \<longleftrightarrow> r = [] \<or> \<not> is_digit (hd r)"

lemma no_digit_append: "no_digit (s @ r) \<longleftrightarrow> (if s = [] then no_digit r else \<not> is_digit (hd s))"
  by (simp add: no_digit_def)

lemma scan_digits_again:
  assumes "scan_digits s = Some (t, r)"
  shows "s = t @ r" and "t \<noteq> []" and "no_digit r' \<Longrightarrow> scan_digits (t @ r') = Some (t, r')"
proof -
  have t: "t = takeWhile is_digit s" "t \<noteq> []" and r: "r = dropWhile is_digit s"
    using assms by (auto simp: scan_digits_def split: if_splits)
  then show "s = t @ r" and "t \<noteq> []" by simp_all
  assume n: "no_digit r'"
  have d: "\<forall>x \<in> set t. is_digit x" using t(1) by (auto dest: set_takeWhileD)
  have "takeWhile is_digit r' = [] \<and> dropWhile is_digit r' = r'"
    using n by (cases r') (simp_all add: no_digit_def)
  with d have "takeWhile is_digit (t @ r') = t \<and> dropWhile is_digit (t @ r') = r'"
    by simp
  with t(2) show "scan_digits (t @ r') = Some (t, r')" by (simp add: scan_digits_def)
qed

lemma scan_int_again:
  assumes "scan_int s = Some (t, r)"
  shows "s = t @ r" and "t \<noteq> []" and "\<not> prefix ''-'' t"
    and "no_digit r' \<Longrightarrow> scan_int (t @ r') = Some (t, r')"
proof -
  show "s = t @ r" and ne: "t \<noteq> []"
    using assms scan_digits_again(1,2) [of s t r]
    by (cases s; simp add: scan_int_def split: if_splits; fastforce)+
  show "scan_int (t @ r') = Some (t, r')" if n: "no_digit r'"
  proof (cases "prefix ''0'' s")
    case True
    with assms have "t = ''0''" by (simp add: scan_int_def)
    then show ?thesis by (simp add: scan_int_def)
  next
    case False
    with assms have d: "scan_digits s = Some (t, r)" by (simp add: scan_int_def)
    with False scan_digits_again(1,2) [OF d] have "\<not> prefix ''0'' (t @ r')"
      by (cases t) auto
    with scan_digits_again(3) [OF d n] show ?thesis by (simp add: scan_int_def)
  qed
  show "\<not> prefix ''-'' t"
  proof (cases "prefix ''0'' s")
    case True
    with assms show ?thesis by (auto simp: scan_int_def)
  next
    case False
    with assms have "t = takeWhile is_digit s" by (auto simp: scan_int_def scan_digits_def split: if_splits)
    with ne have "is_digit (hd t)" by (metis hd_in_set set_takeWhileD)
    then show ?thesis by (cases t) (auto simp: is_digit_def)
  qed
qed

lemma scan_frac_again:
  assumes "scan_frac s = Some (t, r)"
  shows "s = t @ r" and "t = [] \<or> hd t = CHR ''.''"
    and "no_digit r' \<Longrightarrow> (t = [] \<Longrightarrow> \<not> prefix ''.'' r') \<Longrightarrow> scan_frac (t @ r') = Some (t, r')"
proof -
  show "s = t @ r" and "t = [] \<or> hd t = CHR ''.''"
    using assms by (cases s; auto simp: scan_frac_def scan_digits_again(1) split: if_splits)+
  assume n: "no_digit r'" and p: "t = [] \<Longrightarrow> \<not> prefix ''.'' r'"
  show "scan_frac (t @ r') = Some (t, r')"
  proof (cases "prefix ''.'' s")
    case False
    with assms p show ?thesis by (simp add: scan_frac_def)
  next
    case True
    with assms obtain t' where "t = ''.'' @ t'" "scan_digits (tl s) = Some (t', r)"
      by (auto simp: scan_frac_def)
    with scan_digits_again(3) [OF this(2) n] show ?thesis by (simp add: scan_frac_def)
  qed
qed

lemma scan_exp_again:
  assumes "scan_exp s = Some (t, r)"
  shows "s = t @ r" and "t = [] \<or> hd t = CHR ''e'' \<or> hd t = CHR ''E''"
    and "no_digit r' \<Longrightarrow> (t = [] \<Longrightarrow> \<not> prefix ''e'' r' \<and> \<not> prefix ''E'' r') \<Longrightarrow>
         scan_exp (t @ r') = Some (t, r')"
proof -
  have *: "s = t @ r \<and> (t = [] \<or> hd t = CHR ''e'' \<or> hd t = CHR ''E'') \<and>
     (no_digit r' \<longrightarrow> (t = [] \<longrightarrow> \<not> prefix ''e'' r' \<and> \<not> prefix ''E'' r') \<longrightarrow> scan_exp (t @ r') = Some (t, r'))"
  proof (cases "prefix ''e'' s \<or> prefix ''E'' s")
    case False
    with assms show ?thesis by (simp add: scan_exp_def)
  next
    case True
    then obtain c s' where s: "s = c # s'" and c: "c = CHR ''e'' \<or> c = CHR ''E''"
      by (cases s) auto
    show ?thesis
    proof (cases "prefix ''+'' s' \<or> prefix ''-'' s'")
      case True
      then obtain g s'' where s': "s' = g # s''" and g: "g = CHR ''+'' \<or> g = CHR ''-''"
        by (cases s') auto
      with assms s c obtain t' where t: "t = c # g # t'" and d: "scan_digits s'' = Some (t', r)"
        by (auto simp: scan_exp_def)
      from t c g scan_digits_again(1) [OF d] scan_digits_again(3) [OF d] s s' show ?thesis
        by (auto simp: scan_exp_def)
    next
      case False
      with assms s c obtain t' where t: "t = c # t'" and d: "scan_digits s' = Some (t', r)"
        by (auto simp: scan_exp_def)
      have "\<not> (prefix ''+'' (t' @ r') \<or> prefix ''-'' (t' @ r'))"
        using False scan_digits_again(1,2) [OF d] by (cases t') auto
      with t c scan_digits_again(1) [OF d] scan_digits_again(3) [OF d] s show ?thesis
        by (auto simp: scan_exp_def)
    qed
  qed
  then show "s = t @ r" and "t = [] \<or> hd t = CHR ''e'' \<or> hd t = CHR ''E''" by simp_all
  show "scan_exp (t @ r') = Some (t, r')"
    if "no_digit r'" "t = [] \<Longrightarrow> \<not> prefix ''e'' r' \<and> \<not> prefix ''E'' r'"
    using * that by blast
qed

lemma num_stopD:
  "num_stop r \<Longrightarrow> no_digit r \<and> \<not> prefix ''.'' r \<and> \<not> prefix ''e'' r \<and> \<not> prefix ''E'' r"
  by (cases r) (auto simp: num_stop_def no_digit_def)

lemma scan_number_parts:
  assumes "scan_number s = Some (t, r)" and "sg = (if prefix ''-'' s then ''-'' else [])"
  obtains ip s1 fp s2 ep where
    "scan_int (drop (length sg) s) = Some (ip, s1)" "scan_frac s1 = Some (fp, s2)"
    "scan_exp s2 = Some (ep, r)" "t = sg @ ip @ fp @ ep" "s = sg @ drop (length sg) s"
proof -
  have "s = sg @ drop (length sg) s" by (cases s) (simp_all add: assms(2))
  with assms(1) that show ?thesis
    unfolding scan_number_def Let_def assms(2) [symmetric]
    by (simp split: option.split_asm prod.split_asm)
qed

lemma scan_number_again:
  assumes "scan_number s = Some (t, r)"
  shows "s = t @ r" and "t \<noteq> []" and "num_stop r' \<Longrightarrow> scan_number (t @ r') = Some (t, r')"
proof -
  define sg where "sg = (if prefix ''-'' s then ''-'' else [])"
  from scan_number_parts [OF assms sg_def] obtain ip s1 fp s2 ep where
    i: "scan_int (drop (length sg) s) = Some (ip, s1)" and f: "scan_frac s1 = Some (fp, s2)"
    and e: "scan_exp s2 = Some (ep, r)" and t: "t = sg @ ip @ fp @ ep"
    and s: "s = sg @ drop (length sg) s" .
  note i' = scan_int_again [OF i] and f' = scan_frac_again [OF f] and e' = scan_exp_again [OF e]
  from s i'(1) f'(1) e'(1) t show "s = t @ r" by simp
  from i'(2) t show "t \<noteq> []" by simp
  assume n: "num_stop r'"
  have n0: "no_digit r'" "\<not> prefix ''.'' r'" "\<not> prefix ''e'' r'" "\<not> prefix ''E'' r'"
    using num_stopD [OF n] by simp_all
  have ne: "no_digit (ep @ r')"
    using e'(2) n0(1) by (auto simp: no_digit_append is_digit_def)
  have nf: "no_digit (fp @ ep @ r')"
    using f'(2) ne by (auto simp: no_digit_append is_digit_def)
  have ed: "\<not> prefix ''.'' (ep @ r')"
    using e'(2) n0(2) by (cases ep) auto
  have "(if prefix ''-'' (t @ r') then ''-'' else []) = sg"
    using i'(2,3) t by (cases ip) (auto simp: sg_def)
  then show "scan_number (t @ r') = Some (t, r')"
    using i'(4) [OF nf] f'(3) [OF ne ed] e'(3) [OF n0(1)] n0(3,4) t
    by (simp add: scan_number_def)
qed

lemma wf_numI: "scan_number s = Some (t, r) \<Longrightarrow> wf_num t"
  using scan_number_again(3) [where r' = "[]"] by (simp add: wf_num_def num_stop_def)

lemma wf_num_scan: "wf_num t \<Longrightarrow> num_stop r \<Longrightarrow> scan_number (t @ r) = Some (t, r)"
  using scan_number_again(3) unfolding wf_num_def by blast

section \<open>The parser\<close>

fun wf_json :: "json \<Rightarrow> bool" where
  "wf_json (JNum t) \<longleftrightarrow> wf_num t"
| "wf_json (JStr t) \<longleftrightarrow> wf_raw t"
| "wf_json (JArr vs) \<longleftrightarrow> list_all wf_json vs"
| "wf_json (JObj kvs) \<longleftrightarrow> list_all (\<lambda>(k, v). wf_raw k \<and> wf_json v) kvs"
| "wf_json v \<longleftrightarrow> True"

fun json_depth :: "json \<Rightarrow> nat" where
  "json_depth (JArr vs) = Suc (foldr max (map json_depth vs) 0)"
| "json_depth (JObj kvs) = Suc (foldr max (map (\<lambda>(k, v). json_depth v) kvs) 0)"
| "json_depth v = 0"

lemma foldr_max_le: "foldr max (xs :: nat list) 0 \<le> n \<longleftrightarrow> (\<forall>x \<in> set xs. x \<le> n)"
  by (induction xs) auto

lemma skip_ws_length: "length (skip_ws s) \<le> length s"
  by (simp add: skip_ws_def length_dropWhile_le)

lemma skip_ws_Cons_length: "skip_ws s = c # r \<Longrightarrow> Suc (length r) \<le> length s"
  using skip_ws_length [of s] by simp

lemma scan_string_length: "scan_string s = Some (t, r) \<Longrightarrow> length r < length s"
  using scan_string_sound by fastforce

lemma scan_number_length: "scan_number s = Some (t, r) \<Longrightarrow> length r < length s"
proof -
  assume h: "scan_number s = Some (t, r)"
  from scan_number_again(1,2) [OF h] show ?thesis by simp
qed

lemma prefix_tl_length: "prefix [c] s \<Longrightarrow> length (tl s) < length s"
  by (cases s) auto

text \<open>The ways a parse succeeds.\<close>

lemma parse_valueE:
  assumes "parse_value (Suc n) d s = Some (v, r)"
  obtains
    (empty_obj) s1 where "skip_ws s = CHR ''{'' # s1" "d \<noteq> 0" "prefix ''}'' (skip_ws s1)"
      "v = JObj []" "r = tl (skip_ws s1)"
  | (obj) s1 kvs where "skip_ws s = CHR ''{'' # s1" "d \<noteq> 0" "\<not> prefix ''}'' (skip_ws s1)"
      "parse_members n (d - 1) s1 = Some (kvs, r)" "v = JObj kvs"
  | (empty_arr) s1 where "skip_ws s = CHR ''['' # s1" "d \<noteq> 0" "prefix '']'' (skip_ws s1)"
      "v = JArr []" "r = tl (skip_ws s1)"
  | (arr) s1 vs where "skip_ws s = CHR ''['' # s1" "d \<noteq> 0" "\<not> prefix '']'' (skip_ws s1)"
      "parse_elems n (d - 1) s1 = Some (vs, r)" "v = JArr vs"
  | (str) s1 t where "skip_ws s = dquote # s1" "scan_string s1 = Some (t, r)" "v = JStr t"
  | (null) "skip_ws s = ''null'' @ r" "v = JNull"
  | (bool) b where "skip_ws s = (if b then ''true'' else ''false'') @ r" "v = JBool b"
  | (num) t where "scan_number (skip_ws s) = Some (t, r)" "v = JNum t"
proof -
  obtain c s1 where s: "skip_ws s = c # s1" using assms by (cases "skip_ws s") auto
  note e = assms [simplified s parse_value.simps list.case]
  consider "c = CHR ''{''" | "c = CHR ''[''" "c \<noteq> CHR ''{''"
    | "c = dquote" "c \<noteq> CHR ''{''" "c \<noteq> CHR ''[''"
    | "c \<noteq> CHR ''{''" "c \<noteq> CHR ''[''" "c \<noteq> dquote" by blast
  then show thesis
  proof cases
    case 1
    with e s empty_obj obj show ?thesis by (auto split: if_splits)
  next
    case 2
    with e s empty_arr arr show ?thesis by (auto split: if_splits)
  next
    case 3
    with e s str show ?thesis by auto
  next
    case 4
    have pd: "prefix p x \<Longrightarrow> k = length p \<Longrightarrow> x = p @ drop k x" for p x :: string and k
      by (auto elim: prefixE)
    show ?thesis
    proof (cases "prefix ''null'' (c # s1)")
      case True
      from e have "v = JNull" "r = drop 4 (c # s1)"
        by (simp_all only: 4 True if_False if_True option.inject prod.inject)
      with null s pd [OF True, of 4] show ?thesis unfolding \<open>r = _\<close> s by fastforce
    next
      case nn: False
      show ?thesis
      proof (cases "prefix ''true'' (c # s1)")
        case True
        from e have "v = JBool True" "r = drop 4 (c # s1)"
          by (simp_all only: 4 nn True if_False if_True option.inject prod.inject)
        with bool [of True] s pd [OF True, of 4] show ?thesis unfolding \<open>r = _\<close> s by fastforce
      next
        case nt: False
        show ?thesis
        proof (cases "prefix ''false'' (c # s1)")
          case True
          from e have "v = JBool False" "r = drop 5 (c # s1)"
            by (simp_all only: 4 nn nt True if_False if_True option.inject prod.inject)
          with bool [of False] s pd [OF True, of 5] show ?thesis unfolding \<open>r = _\<close> s by fastforce
        next
          case nf: False
          from e have "map_option (apfst JNum) (scan_number (c # s1)) = Some (v, r)"
            by (simp only: 4 nn nt nf if_False)
          with num s show ?thesis by auto
        qed
      qed
    qed
  qed
qed

lemma parse_elemsE:
  assumes "parse_elems (Suc n) d s = Some (vs, r)"
  obtains
    (one) v s1 where "parse_value n d s = Some (v, s1)" "skip_ws s1 = CHR '']'' # r" "vs = [v]"
  | (more) v s1 s2 ws where "parse_value n d s = Some (v, s1)" "skip_ws s1 = CHR '','' # s2"
      "parse_elems n d s2 = Some (ws, r)" "vs = v # ws"
proof -
  from assms obtain v s1 where v: "parse_value n d s = Some (v, s1)"
    by (cases "parse_value n d s") auto
  with assms obtain c s2 where c: "skip_ws s1 = c # s2" by (cases "skip_ws s1") auto
  from assms v c one more show thesis by (auto split: if_splits)
qed

lemma parse_membersE:
  assumes "parse_members (Suc n) d s = Some (kvs, r)"
  obtains
    (one) s1 k s2 s3 v s4 where "skip_ws s = dquote # s1" "scan_string s1 = Some (k, s2)"
      "skip_ws s2 = CHR '':'' # s3" "parse_value n d s3 = Some (v, s4)"
      "skip_ws s4 = CHR ''}'' # r" "kvs = [(k, v)]"
  | (more) s1 k s2 s3 v s4 s5 ws where "skip_ws s = dquote # s1" "scan_string s1 = Some (k, s2)"
      "skip_ws s2 = CHR '':'' # s3" "parse_value n d s3 = Some (v, s4)"
      "skip_ws s4 = CHR '','' # s5" "parse_members n d s5 = Some (ws, r)" "kvs = (k, v) # ws"
proof -
  from assms obtain q s1 where q: "skip_ws s = q # s1" by (cases "skip_ws s") auto
  with assms have q': "q = dquote" by (auto split: if_splits)
  with assms q obtain k s2 where k: "scan_string s1 = Some (k, s2)"
    by (cases "scan_string s1") auto
  with assms q q' obtain q2 s3 where q2: "skip_ws s2 = q2 # s3" by (cases "skip_ws s2") auto
  with assms q q' k have q2': "q2 = CHR '':''" by (auto split: if_splits)
  with assms q q' k q2 obtain v s4 where v: "parse_value n d s3 = Some (v, s4)"
    by (cases "parse_value n d s3") auto
  with assms q q' k q2 q2' obtain c s5 where c: "skip_ws s4 = c # s5" by (cases "skip_ws s4") auto
  from assms q q' k q2 q2' v c one more show thesis by (auto split: if_splits)
qed

text \<open>Every parse consumes input.\<close>

lemma parse_length:
  shows parse_value_length: "parse_value n d s = Some (v, r) \<Longrightarrow> length r < length s"
    and parse_elems_length: "parse_elems n d s = Some (vs, r) \<Longrightarrow> length r < length s"
    and parse_members_length: "parse_members n d s = Some (kvs, r) \<Longrightarrow> length r < length s"
proof (induction n arbitrary: d s v vs kvs r)
  case (Suc n)
  have m: "skip_ws s = c # s1 \<Longrightarrow> prefix [x] (skip_ws s1) \<Longrightarrow> length (tl (skip_ws s1)) < length s"
    for c x s1 s
    using prefix_tl_length [of x "skip_ws s1"] skip_ws_length [of s1]
      skip_ws_Cons_length [of s c s1] by simp
  {
    case 1
    then show ?case
    proof (cases rule: parse_valueE)
      case (num t)
      with scan_number_length [OF num(1)] skip_ws_length [of s] show ?thesis by simp
    next
      case null
      with skip_ws_length [of s] show ?thesis by simp
    next
      case (bool b)
      with skip_ws_length [of s] show ?thesis by (cases b) simp_all
    next
      case (obj s1 kvs)
      with Suc.IH(3) [OF obj(4)] skip_ws_Cons_length [OF obj(1)] show ?thesis by simp
    next
      case (arr s1 vs)
      with Suc.IH(2) [OF arr(4)] skip_ws_Cons_length [OF arr(1)] show ?thesis by simp
    next
      case (str s1 t)
      with scan_string_length [OF str(2)] skip_ws_Cons_length [OF str(1)] show ?thesis by simp
    next
      case (empty_obj s1)
      with m [OF empty_obj(1,3)] show ?thesis by simp
    next
      case (empty_arr s1)
      with m [OF empty_arr(1,3)] show ?thesis by simp
    qed
  next
    case 2
    then show ?case
    proof (cases rule: parse_elemsE)
      case (one v s1)
      with Suc.IH(1) [OF one(1)] skip_ws_Cons_length [OF one(2)] show ?thesis by simp
    next
      case (more v s1 s2 ws)
      with Suc.IH(1) [OF more(1)] Suc.IH(2) [OF more(3)] skip_ws_Cons_length [OF more(2)]
      show ?thesis by simp
    qed
  next
    case 3
    then show ?case
    proof (cases rule: parse_membersE)
      case (one s1 k s2 s3 v s4)
      with Suc.IH(1) [OF one(4)] scan_string_length [OF one(2)] skip_ws_Cons_length [OF one(1)]
        skip_ws_Cons_length [OF one(3)] skip_ws_Cons_length [OF one(5)] show ?thesis by simp
    next
      case (more s1 k s2 s3 v s4 s5 ws)
      with Suc.IH(1) [OF more(4)] Suc.IH(3) [OF more(6)] scan_string_length [OF more(2)]
        skip_ws_Cons_length [OF more(1)] skip_ws_Cons_length [OF more(3)]
        skip_ws_Cons_length [OF more(5)] show ?thesis by simp
    qed
  }
qed simp_all

text \<open>What is parsed is well formed and nested at most as deep as allowed.\<close>

lemma parse_sound:
  shows parse_value_sound: "parse_value n d s = Some (v, r) \<Longrightarrow> wf_json v \<and> json_depth v \<le> d"
    and parse_elems_sound:
      "parse_elems n d s = Some (vs, r) \<Longrightarrow> \<forall>v \<in> set vs. wf_json v \<and> json_depth v \<le> d"
    and parse_members_sound:
      "parse_members n d s = Some (kvs, r) \<Longrightarrow>
         \<forall>(k, v) \<in> set kvs. wf_raw k \<and> wf_json v \<and> json_depth v \<le> d"
proof (induction n arbitrary: d s v vs kvs r)
  case (Suc n)
  {
    case 1
    then show ?case
    proof (cases rule: parse_valueE)
      case (obj s1 kvs)
      with Suc.IH(3) [OF obj(4)] show ?thesis by (cases d) (auto simp: foldr_max_le list_all_iff)
    next
      case (arr s1 vs)
      with Suc.IH(2) [OF arr(4)] show ?thesis by (cases d) (auto simp: foldr_max_le list_all_iff)
    qed (simp_all add: wf_rawI wf_numI)
  next
    case 2
    then show ?case
    proof (cases rule: parse_elemsE)
      case (one v s1)
      with Suc.IH(1) [OF one(1)] show ?thesis by simp
    next
      case (more v s1 s2 ws)
      with Suc.IH(1) [OF more(1)] Suc.IH(2) [OF more(3)] show ?thesis by simp
    qed
  next
    case 3
    then show ?case
    proof (cases rule: parse_membersE)
      case (one s1 k s2 s3 v s4)
      with Suc.IH(1) [OF one(4)] wf_rawI [OF one(2)] show ?thesis by simp
    next
      case (more s1 k s2 s3 v s4 s5 ws)
      with Suc.IH(1) [OF more(4)] wf_rawI [OF more(2)] Suc.IH(3) [OF more(6)] show ?thesis by simp
    qed
  }
qed simp_all

text \<open>Fuel: any two amounts that are at least the bound give the same answer, so a failure of
  \<open>decode_first\<close> is a syntax error of the input and never the fuel running out.\<close>

lemma parse_fuel:
  shows parse_value_fuel: "2 * length s + 1 \<le> n \<Longrightarrow> 2 * length s + 1 \<le> m \<Longrightarrow>
            parse_value n d s = parse_value m d s"
    and parse_elems_fuel: "2 * length s + 2 \<le> n \<Longrightarrow> 2 * length s + 2 \<le> m \<Longrightarrow>
            parse_elems n d s = parse_elems m d s"
    and parse_members_fuel: "2 * length s + 2 \<le> n \<Longrightarrow> 2 * length s + 2 \<le> m \<Longrightarrow>
            parse_members n d s = parse_members m d s"
proof (induction n arbitrary: d s m)
  case (Suc n)
  {
    case 1
    then obtain m' where m: "m = Suc m'" by (cases m) auto
    show ?case
    proof (cases "skip_ws s")
      case Nil
      with m show ?thesis by simp
    next
      case (Cons c s1)
      with skip_ws_Cons_length [OF Cons] 1 m
      have "parse_elems n (d - 1) s1 = parse_elems m' (d - 1) s1"
        and "parse_members n (d - 1) s1 = parse_members m' (d - 1) s1"
        by (auto intro!: Suc.IH(2,3))
      with Cons m show ?thesis by (simp only: parse_value.simps list.case)
    qed
  next
    case 2
    then obtain m' where m: "m = Suc m'" by (cases m) auto
    have v: "parse_value n d s = parse_value m' d s"
      using 2 m by (auto intro!: Suc.IH(1))
    show ?case
    proof (cases "parse_value m' d s")
      case None
      with m v show ?thesis by simp
    next
      case (Some p)
      obtain w s1 where p: "p = (w, s1)" by (cases p)
      have e: "parse_elems n d s2 = parse_elems m' d s2" if "skip_ws s1 = c # s2" for c s2
        using parse_value_length [OF Some [unfolded p]] skip_ws_Cons_length [OF that] 2 m
        by (auto intro!: Suc.IH(2))
      with m v Some p show ?thesis by (auto split: list.split)
    qed
  next
    case 3
    then obtain m' where m: "m = Suc m'" by (cases m) auto
    have v: "parse_value n d s3 = parse_value m' d s3" if "length s3 < length s" for s3
      using 3 m that by (auto intro!: Suc.IH(1))
    have e: "parse_members n d s5 = parse_members m' d s5" if "length s5 < length s" for s5
      using 3 m that by (auto intro!: Suc.IH(3))
    show ?case
    proof (cases "skip_ws s")
      case Nil
      with m show ?thesis by simp
    next
      case (Cons q s1)
      note l1 = skip_ws_Cons_length [OF Cons]
      show ?thesis
      proof (cases "scan_string s1")
        case None
        with m Cons show ?thesis by simp
      next
        case (Some p)
        obtain k s2 where p: "p = (k, s2)" by (cases p)
        note l2 = scan_string_length [OF Some [unfolded p]]
        show ?thesis
        proof (cases "skip_ws s2")
          case Nil
          with m Cons Some p show ?thesis by simp
        next
          case (Cons q2 s3)
          note l3 = skip_ws_Cons_length [OF Cons]
          have v': "parse_value n d s3 = parse_value m' d s3" using l1 l2 l3 by (intro v) simp
          show ?thesis
          proof (cases "parse_value m' d s3")
            case None
            with m \<open>skip_ws s = q # s1\<close> Some p Cons v' show ?thesis by simp
          next
            case (Some p2)
            obtain w s4 where p2: "p2 = (w, s4)" by (cases p2)
            note l4 = parse_value_length [OF Some [unfolded p2]]
            have "parse_members n d s5 = parse_members m' d s5" if "skip_ws s4 = c # s5" for c s5
              using skip_ws_Cons_length [OF that] l1 l2 l3 l4 by (intro e) simp
            with m \<open>skip_ws s = q # s1\<close> \<open>scan_string s1 = Some p\<close> p Cons v' Some p2
            show ?thesis by (auto split: list.split)
          qed
        qed
      qed
    qed
  }
qed simp_all

section \<open>Parsing inverts printing\<close>

lemma wf_num_hd: "wf_num t \<Longrightarrow> \<exists>c t'. t = c # t' \<and> (c = CHR ''-'' \<or> is_digit c)"
proof -
  assume w: "wf_num t"
  define sg where "sg = (if prefix ''-'' t then ''-'' else [])"
  from scan_number_parts [OF w [unfolded wf_num_def] sg_def] obtain ip s1 fp s2 ep where
    i: "scan_int (drop (length sg) t) = Some (ip, s1)" and t: "t = sg @ ip @ fp @ ep" .
  have "ip \<noteq> [] \<and> is_digit (hd ip)"
  proof (cases "prefix ''0'' (drop (length sg) t)")
    case True
    with i show ?thesis by (auto simp: scan_int_def is_digit_def)
  next
    case False
    with i have "ip = takeWhile is_digit (drop (length sg) t)" "ip \<noteq> []"
      by (auto simp: scan_int_def scan_digits_def split: if_splits)
    then show ?thesis by (metis hd_in_set set_takeWhileD)
  qed
  with t show ?thesis by (cases ip) (auto simp: sg_def split: if_splits)
qed

lemma digit_no_token:
  "is_digit c \<Longrightarrow> \<not> is_ws c \<and> c \<noteq> dquote \<and> c \<noteq> CHR ''{'' \<and> c \<noteq> CHR ''['' \<and> c \<noteq> CHR '']''
     \<and> c \<noteq> CHR ''}'' \<and> c \<noteq> CHR ''n'' \<and> c \<noteq> CHR ''t'' \<and> c \<noteq> CHR ''f''"
  by (cases "is_ws c") (auto simp: is_digit_def is_ws_def byte_def dquote_def less_eq_char_def)

lemma print_json_hd:
  "wf_json v \<Longrightarrow> \<exists>c t. print_json v = c # t \<and> \<not> is_ws c \<and> c \<noteq> CHR '']''"
proof (cases v)
  case (JNum t)
  assume "wf_json v"
  with JNum obtain c t' where "t = c # t'" "c = CHR ''-'' \<or> is_digit c"
    by (metis wf_json.simps(1) wf_num_hd)
  with JNum digit_no_token [of c] show ?thesis by (auto simp: is_ws_def byte_def)
qed (auto simp: is_ws_def byte_def dquote_def)

lemma skip_ws_print: "wf_json v \<Longrightarrow> skip_ws (print_json v @ r) = print_json v @ r"
  using print_json_hd [of v] by (auto simp: skip_ws_def)

lemma skip_ws_head: "\<not> is_ws c \<Longrightarrow> skip_ws (c # r) = c # r"
  by (simp add: skip_ws_def)

lemma not_ws [simp]: "\<not> is_ws (CHR '','')" "\<not> is_ws (CHR '']'')" "\<not> is_ws (CHR ''}'')"
    "\<not> is_ws (CHR ''{'')" "\<not> is_ws (CHR ''['')" "\<not> is_ws (CHR '':'')" "\<not> is_ws dquote"
  by (simp_all add: is_ws_def byte_def dquote_def)

lemma num_stop_token [simp]: "num_stop (CHR '','' # r)" "num_stop (CHR '']'' # r)" "num_stop (CHR ''}'' # r)"
    "num_stop []"
  by (simp_all add: num_stop_def is_digit_def less_eq_char_def)

definition parses :: "json \<Rightarrow> bool" where
  "parses v \<longleftrightarrow> (\<forall>n d r. json_depth v \<le> d \<longrightarrow> num_stop r \<longrightarrow> 2 * length (print_json v) + 1 \<le> n \<longrightarrow>
     parse_value n d (print_json v @ r) = Some (v, r))"

lemma parsesD:
  "parses v \<Longrightarrow> json_depth v \<le> d \<Longrightarrow> num_stop r \<Longrightarrow> 2 * length (print_json v) + 1 \<le> n \<Longrightarrow>
     parse_value n d (print_json v @ r) = Some (v, r)"
  by (simp add: parses_def)

lemma parse_elems_print:
  assumes "vs \<noteq> []" and "\<forall>v \<in> set vs. parses v \<and> json_depth v \<le> d"
    and "2 * length (sep_by '','' (map print_json vs)) + 2 \<le> n"
  shows "parse_elems n d (sep_by '','' (map print_json vs) @ '']'' @ r) = Some (vs, r)"
  using assms
proof (induction vs arbitrary: n)
  case (Cons v vs)
  then obtain n' where n: "n = Suc n'" by (cases n) auto
  from Cons.prems have p: "parses v" "json_depth v \<le> d" by auto
  show ?case
  proof (cases vs)
    case Nil
    have "parse_value n' d (print_json v @ CHR '']'' # r) = Some (v, CHR '']'' # r)"
      using Cons.prems(3) n Nil by (intro parsesD p) auto
    with Nil n show ?thesis by (simp add: skip_ws_head)
  next
    case (Cons w ws)
    let ?r = "CHR '','' # sep_by '','' (map print_json vs) @ '']'' @ r"
    have "parse_value n' d (print_json v @ ?r) = Some (v, ?r)"
      using Cons.prems(3) n Cons by (intro parsesD p) auto
    moreover have "parse_elems n' d (sep_by '','' (map print_json vs) @ '']'' @ r) = Some (vs, r)"
      using Cons.prems n Cons by (intro Cons.IH) auto
    ultimately show ?thesis using n Cons by (simp add: skip_ws_head)
  qed
qed simp

lemma parse_members_print:
  assumes "kvs \<noteq> []" and "\<forall>(k, v) \<in> set kvs. wf_raw k \<and> wf_json v \<and> parses v \<and> json_depth v \<le> d"
    and "2 * length (sep_by '','' (map (\<lambda>(k, v). (dquote # k @ [dquote]) @ '':'' @ print_json v) kvs)) + 2 \<le> n"
  shows "parse_members n d
           (sep_by '','' (map (\<lambda>(k, v). (dquote # k @ [dquote]) @ '':'' @ print_json v) kvs) @ ''}'' @ r)
         = Some (kvs, r)"
  using assms
proof (induction kvs arbitrary: n)
  case (Cons kv kvs)
  then obtain n' where n: "n = Suc n'" by (cases n) auto
  obtain k v where kv: "kv = (k, v)" by (cases kv)
  from Cons.prems kv have p: "parses v" "json_depth v \<le> d" and k: "wf_raw k" by auto
  let ?p = "\<lambda>kvs. sep_by '','' (map (\<lambda>(k, v). (dquote # k @ [dquote]) @ '':'' @ print_json v) kvs)"
  show ?case
  proof (cases kvs)
    case Nil
    have "parse_value n' d (print_json v @ CHR ''}'' # r) = Some (v, CHR ''}'' # r)"
      using Cons.prems(3) n Nil kv by (intro parsesD p) auto
    with Nil n kv show ?thesis by (simp add: skip_ws_head wf_raw_scan [OF k])
  next
    case (Cons w ws)
    let ?r = "CHR '','' # ?p kvs @ ''}'' @ r"
    have "parse_value n' d (print_json v @ ?r) = Some (v, ?r)"
      using Cons.prems(3) n Cons kv by (intro parsesD p) (auto split: prod.split_asm)
    moreover have "parse_members n' d (?p kvs @ ''}'' @ r) = Some (kvs, r)"
      using Cons.prems n Cons kv by (intro Cons.IH) (auto split: prod.split_asm)
    ultimately show ?thesis using n Cons kv by (simp add: skip_ws_head wf_raw_scan [OF k])
  qed
qed simp

lemma sep_by_hd: "\<exists>t. sep_by c (x # xs) = x @ t"
  by (cases xs) auto

lemma sep_by_members_hd:
  "kvs \<noteq> [] \<Longrightarrow>
     \<exists>t. sep_by '','' (map (\<lambda>(k, v). (dquote # k @ [dquote]) @ '':'' @ print_json v) kvs) @ r = dquote # t"
proof (cases kvs)
  case (Cons kv kvs')
  obtain k v where kv: "kv = (k, v)" by (cases kv)
  show ?thesis
    using sep_by_hd [of "'',''" "(dquote # k @ [dquote]) @ '':'' @ print_json v"
        "map (\<lambda>(k, v). (dquote # k @ [dquote]) @ '':'' @ print_json v) kvs'"] Cons kv by auto
qed simp

lemma parsesI:
  assumes "\<And>n d r. json_depth v \<le> d \<Longrightarrow> num_stop r \<Longrightarrow> 2 * length (print_json v) \<le> n \<Longrightarrow>
     parse_value (Suc n) d (print_json v @ r) = Some (v, r)"
  shows "parses v"
  unfolding parses_def
proof (intro allI impI)
  fix n d r assume "json_depth v \<le> d" "num_stop r" "2 * length (print_json v) + 1 \<le> n"
  then show "parse_value n d (print_json v @ r) = Some (v, r)"
    using assms [of d r "n - 1"] by (cases n) auto
qed

lemma parses_wf: "wf_json v \<Longrightarrow> parses v"
proof (induction v)
  case (JNum t)
  show ?case unfolding parses_def
  proof (intro allI impI)
    fix n d r assume s: "num_stop r" and n: "2 * length (print_json (JNum t)) + 1 \<le> n"
    then obtain n' where n': "n = Suc n'" by (cases n) auto
    from JNum have "wf_num t" by simp
    then obtain c t' where t: "t = c # t'" and c: "c = CHR ''-'' \<or> is_digit c"
      using wf_num_hd by blast
    have "\<not> is_ws c" "c \<noteq> dquote" "c \<noteq> CHR ''{''" "c \<noteq> CHR ''[''" "c \<noteq> CHR ''n''" "c \<noteq> CHR ''t''" "c \<noteq> CHR ''f''"
      using c digit_no_token [of c] by (auto simp: is_ws_def byte_def dquote_def)
    moreover have "scan_number (t @ r) = Some (t, r)" using JNum s by (simp add: wf_num_scan)
    ultimately show "parse_value n d (print_json (JNum t) @ r) = Some (JNum t, r)"
      using n' t by (auto simp: skip_ws_head)
  qed
next
  case (JArr vs)
  show ?case unfolding parses_def
  proof (intro allI impI)
    fix n d r assume d: "json_depth (JArr vs) \<le> d" and s: "num_stop r"
      and n: "2 * length (print_json (JArr vs)) + 1 \<le> n"
    then obtain n' where n': "n = Suc n'" by (cases n) auto
    have dd: "\<forall>v \<in> set vs. json_depth v \<le> d - 1"
      using d by (cases d) (auto simp: foldr_max_le)
    show "parse_value n d (print_json (JArr vs) @ r) = Some (JArr vs, r)"
    proof (cases vs)
      case Nil
      with d n' show ?thesis by (simp add: skip_ws_head)
    next
      case (Cons v ws)
      then have ne: "vs \<noteq> []" by simp
      let ?s = "sep_by '','' (map print_json vs) @ '']'' @ r"
      from JArr have w: "wf_json v" using Cons by simp
      obtain c t where "print_json v = c # t" "\<not> is_ws c" "c \<noteq> CHR '']''"
        using print_json_hd [OF w] by blast
      then have "\<exists>t. ?s = c # t" "\<not> is_ws c" "c \<noteq> CHR '']''"
        using sep_by_hd [of "'',''" "print_json v" "map print_json ws"] Cons by auto
      then have "skip_ws ?s = ?s \<and> \<not> prefix '']'' ?s" by (auto simp: skip_ws_head)
      moreover have "parse_elems n' (d - 1) ?s = Some (vs, r)"
        using JArr dd n n' ne by (intro parse_elems_print) (auto simp: list_all_iff)
      ultimately show ?thesis using n' d by (simp add: skip_ws_head)
    qed
  qed
next
  case (JObj kvs)
  show ?case unfolding parses_def
  proof (intro allI impI)
    fix n d r assume d: "json_depth (JObj kvs) \<le> d" and s: "num_stop r"
      and n: "2 * length (print_json (JObj kvs)) + 1 \<le> n"
    then obtain n' where n': "n = Suc n'" by (cases n) auto
    have dd: "\<forall>(k, v) \<in> set kvs. json_depth v \<le> d - 1"
      using d by (cases d) (auto simp: foldr_max_le)
    show "parse_value n d (print_json (JObj kvs) @ r) = Some (JObj kvs, r)"
    proof (cases "kvs = []")
      case True
      with d n' show ?thesis by (simp add: skip_ws_head)
    next
      case False
      let ?s = "sep_by '','' (map (\<lambda>(k, v). (dquote # k @ [dquote]) @ '':'' @ print_json v) kvs) @ ''}'' @ r"
      have "skip_ws ?s = ?s \<and> \<not> prefix ''}'' ?s"
        using sep_by_members_hd [OF False, of "''}'' @ r"] by (auto simp: skip_ws_head dquote_def is_ws_def byte_def)
      moreover have "parse_members n' (d - 1) ?s = Some (kvs, r)"
        using JObj dd n n' False by (intro parse_members_print) (fastforce simp: list_all_iff)+
      ultimately show ?thesis using n' d by (simp add: skip_ws_head)
    qed
  qed
next
  case JNull
  show ?case by (rule parsesI) (simp add: skip_ws_def is_ws_def byte_def dquote_def)
next
  case (JBool b)
  show ?case by (rule parsesI) (cases b; simp add: skip_ws_def is_ws_def byte_def dquote_def)
next
  case (JStr t)
  then show ?case
    by (intro parsesI) (simp add: skip_ws_head wf_raw_scan; simp add: dquote_def)
qed

lemma decode_first_print:
  assumes "wf_json v" and "json_depth v \<le> max_depth" and "num_stop r"
  shows "decode_first (print_json v @ r) = Some (v, r)"
  unfolding decode_first_def using assms by (intro parsesD parses_wf) auto

lemma decode_first_sound:
  "decode_first s = Some (v, r) \<Longrightarrow> wf_json v \<and> json_depth v \<le> max_depth \<and> length r < length s"
  unfolding decode_first_def using parse_value_sound parse_value_length by blast

end
