(* ===== verification/JsonText.thy ===== *)
theory JsonText
  imports JsonLaws
begin

text \<open>
  The laws of JSON string literals: what the encoder writes is a well-formed literal, reading it
  back gives the original text (for valid UTF-8, which every decoded string is), and the HTML
  escaping of \<open>json.Marshal\<close> is idempotent, keeps literals well formed and does not change the
  text they stand for.
\<close>

section \<open>Shapes of a well-formed literal\<close>

lemma bslash_dquote [simp]: "bslash \<noteq> dquote" "dquote \<noteq> bslash"
  by (simp_all add: bslash_def dquote_def)

lemma is_hex_no: "is_hex c \<Longrightarrow> c \<noteq> dquote"
  by (auto simp: is_hex_def is_digit_def dquote_def less_eq_char_def)

lemma wf_raw_Nil [simp]: "wf_raw []"
  by (simp add: wf_raw_def)

lemma map_apfst_eq: "map_option (apfst ((#) c)) p = Some (c # t, r) \<longleftrightarrow> p = Some (t, r)"
  by (cases p) auto

lemma wf_raw_plain: "c \<noteq> bslash \<Longrightarrow> wf_raw (c # s) \<longleftrightarrow> c \<noteq> dquote \<and> 32 \<le> byte c \<and> wf_raw s"
  by (auto simp: wf_raw_def map_apfst_eq)

lemma map_apfst_eq2: "map_option (apfst (\<lambda>t. c # e # t)) p = Some (c # e # t, r) \<longleftrightarrow> p = Some (t, r)"
  by (cases p) auto

lemma wf_raw_esc: "is_escape e \<Longrightarrow> wf_raw (bslash # e # s) \<longleftrightarrow> wf_raw s"
  by (auto simp: wf_raw_def map_apfst_eq2)

lemma not_escape_u [simp]: "\<not> is_escape (CHR ''u'')"
  by (simp add: is_escape_def bslash_def dquote_def)

lemma map_apfst_eq6:
  "map_option (apfst (\<lambda>t. c # e # a # b # f # g # t)) p = Some (c # e # a # b # f # g # t, r)
     \<longleftrightarrow> p = Some (t, r)"
  by (cases p) auto

lemma wf_raw_u4: "wf_raw (bslash # CHR ''u'' # a # b # c # d # s) \<longleftrightarrow>
    is_hex a \<and> is_hex b \<and> is_hex c \<and> is_hex d \<and> wf_raw s"
  by (auto simp: wf_raw_def map_apfst_eq6)

lemma is_hex_dquote [simp]: "\<not> is_hex dquote"
  using is_hex_no by blast

lemma length_ge4: "4 \<le> length s \<Longrightarrow> \<exists>a b c d r. s = a # b # c # d # r"
  by (simp add: numeral_eq_Suc Suc_le_length_iff) blast

lemma wf_raw_bslash:
  assumes "wf_raw (bslash # s)"
  obtains (esc) e s' where "s = e # s'" "is_escape e" "wf_raw s'"
    | (u) a b c d s' where "s = CHR ''u'' # a # b # c # d # s'" "is_hex a" "is_hex b" "is_hex c"
        "is_hex d" "wf_raw s'"
proof -
  from assms obtain e s' where s: "s = e # s'"
    by (cases s) (auto simp: wf_raw_def is_escape_def split: if_splits)
  show thesis
  proof (cases "is_escape e")
    case True
    with assms s esc show ?thesis by (simp add: wf_raw_esc)
  next
    case False
    with assms s have e: "e = CHR ''u''" by (auto simp: wf_raw_def split: if_splits)
    have "4 \<le> length s'"
    proof (rule ccontr)
      assume "\<not> 4 \<le> length s'"
      then consider "s' = []" | a where "s' = [a]" | a b where "s' = [a, b]" | a b c where "s' = [a, b, c]"
        by (cases s'; cases "tl s'"; cases "tl (tl s')"; cases "tl (tl (tl s'))") auto
      then show False using assms s e by cases (auto simp: wf_raw_def split: if_splits)
    qed
    then obtain a b c d s'' where "s' = a # b # c # d # s''" using length_ge4 by blast
    with assms s e u show ?thesis by (simp add: wf_raw_u4)
  qed
qed

lemma wf_raw_append_iff: "wf_raw s \<Longrightarrow> wf_raw (s @ t) \<longleftrightarrow> wf_raw t"
proof (induction "length s" arbitrary: s rule: less_induct)
  case less
  show ?case
  proof (cases s)
    case (Cons c s')
    show ?thesis
    proof (cases "c = bslash")
      case False
      with less Cons show ?thesis by (auto simp: wf_raw_plain)
    next
      case True
      with less.prems Cons have "wf_raw (bslash # s')" by simp
      then show ?thesis
      proof (cases rule: wf_raw_bslash)
        case (esc e s'')
        with less.hyps [of s''] Cons True show ?thesis by (simp add: wf_raw_esc)
      next
        case (u a b c d s'')
        with less.hyps [of s''] Cons True show ?thesis by (simp add: wf_raw_u4)
      qed
    qed
  qed simp
qed

section \<open>Bytes\<close>

lemma byte_char_of: "byte (char_of n) = n mod 256"
  by (simp add: byte_def)

lemma char_of_byte [simp]: "char_of (byte c) = c"
  by (simp add: byte_def)

lemma byte_less: "byte c < 256"
  using of_char_mod_256 [of c, where 'a = nat] by (metis byte_def mod_less_divisor zero_less_numeral)

lemma byte_inject: "byte c = byte d \<longleftrightarrow> c = d"
  by (simp add: byte_def)

lemma bslash_plain [simp]: "byte bslash = 92" "byte dquote = 34"
  by (simp_all add: bslash_def dquote_def byte_def)

lemma utf8_len_Cons_ge2: "128 \<le> byte c \<Longrightarrow> utf8_len (c # s) \<noteq> 0 \<Longrightarrow> 2 \<le> utf8_len (c # s)"
  by (auto simp: Let_def split: list.splits if_splits)

text \<open>The length of a sequence depends on the continuation bytes that follow its first byte.\<close>

lemma utf8_len_cont: "utf8_len (c # takeWhile utf8_cont s) = utf8_len (c # s)"
  by (cases s; cases "tl s"; cases "tl (tl s)") (simp_all add: Let_def)

lemma utf8_len_cont_eq:
  "takeWhile utf8_cont s = takeWhile utf8_cont t \<Longrightarrow> utf8_len (c # s) = utf8_len (c # t)"
  by (metis utf8_len_cont)

lemma utf8_tail_cont:
  "128 \<le> byte c \<Longrightarrow> \<forall>x \<in> set (take (utf8_len (c # s) - 1) s). utf8_cont x"
  by (cases s; cases "tl s"; cases "tl (tl s)") (simp_all add: Let_def)

lemma EncodeRune_ascii: "r < 128 \<Longrightarrow> EncodeRune r = [char_of r]"
  by (simp add: EncodeRune_def)

lemma valid_utf8_step: "utf8_len s \<noteq> 0 \<Longrightarrow> valid_utf8 (take (utf8_len s) s)"
  by (subst valid_utf8.simps) (simp add: utf8_len_take_self)

lemma valid_utf8_ascii: "byte c < 128 \<Longrightarrow> valid_utf8 [c]"
  by (subst valid_utf8.simps) simp

lemma valid_replacement: "valid_utf8 replacement"
  by (subst valid_utf8.simps) (simp add: replacement_def byte_def utf8_cont_def)

lemma valid_whole: "utf8_len s = length s \<Longrightarrow> valid_utf8 s"
  by (subst valid_utf8.simps) simp

lemma mod_64_diff: "(n::nat) div 64 = q \<Longrightarrow> n mod 64 = n - 64 * q"
  by (metis minus_mult_div_eq_mod)

lemma div_64_64: "(r::nat) div 4096 = r div 64 div 64" "(r::nat) div 262144 = r div 4096 div 64"
  by (simp_all flip: div_mult2_eq)

lemma valid_EncodeRune: "valid_utf8 (EncodeRune r)"
proof -
  consider "r < 128" | "128 \<le> r" "r < 2048" | "2048 \<le> r" "55296 \<le> r" "r < 57344"
    | "2048 \<le> r" "r < 65536" "\<not> (55296 \<le> r \<and> r < 57344)"
    | "65536 \<le> r" "r < 1114112" | "1114112 \<le> r" by linarith
  then show ?thesis
  proof cases
    case 1
    then show ?thesis by (simp add: EncodeRune_ascii valid_utf8_ascii byte_char_of)
  next
    case 2
    then have "2 \<le> r div 64" "r div 64 < 32" by (auto simp: less_mult_imp_div_less)
    with 2 show ?thesis
      by (intro valid_whole) (simp add: EncodeRune_def byte_char_of utf8_cont_def)
  next
    case 3
    then have "EncodeRune r = replacement" by (simp add: EncodeRune_def replacement_def)
    then show ?thesis by (simp add: valid_replacement)
  next
    case 4
    then have k: "r div 4096 < 16" by (auto simp: less_mult_imp_div_less)
    have a: "32 \<le> r div 64 mod 64" if "r div 4096 = 0"
      using mod_64_diff [OF that [unfolded div_64_64]] div_le_mono [OF 4(1), of 64] by simp
    have b: "r div 64 mod 64 < 32" if q: "r div 4096 = 13"
    proof -
      have "r < 57344" using q dividend_less_div_times [of 4096 r] by simp
      with 4 have "r < 55296" by linarith
      then have "r div 64 < 864" by (auto simp: less_mult_imp_div_less)
      then show ?thesis using mod_64_diff [OF q [unfolded div_64_64]] by simp
    qed
    from 4 k a b show ?thesis
      by (intro valid_whole) (simp add: EncodeRune_def byte_char_of utf8_cont_def)
  next
    case 5
    then have k: "r div 262144 < 5" by (auto simp: less_mult_imp_div_less)
    have a: "16 \<le> r div 4096 mod 64" if "r div 262144 = 0"
      using mod_64_diff [OF that [unfolded div_64_64(2)]] div_le_mono [OF 5(1), of 4096] by simp
    have b: "r div 4096 mod 64 < 16" if q: "r div 262144 = 4"
    proof -
      have "r div 4096 < 272" using 5 by (auto simp: less_mult_imp_div_less)
      then show ?thesis using mod_64_diff [OF q [unfolded div_64_64(2)]] by simp
    qed
    from 5 k a b show ?thesis
      by (intro valid_whole) (simp add: EncodeRune_def byte_char_of utf8_cont_def)
  next
    case 6
    then have "EncodeRune r = replacement" by (simp add: EncodeRune_def replacement_def)
    then show ?thesis by (simp add: valid_replacement)
  qed
qed

section \<open>Unquoting\<close>

text \<open>The first token of a well-formed literal and the rest.\<close>

lemma unquote_Nil [simp]: "unquote [] = []"
  by (simp add: unquote.simps [of "[]"])

lemma unquote_unfold:
  "s \<noteq> [] \<Longrightarrow> unquote_step s = (out, length p) \<Longrightarrow> s = p @ r \<Longrightarrow> unquote s = out @ unquote r"
  by (subst unquote.simps) auto

lemma cont_plain: "utf8_cont c \<Longrightarrow> 128 \<le> byte c \<and> c \<noteq> bslash \<and> c \<noteq> dquote"
  by (auto simp: utf8_cont_def)

lemma wf_raw_cont: "\<forall>x \<in> set w. utf8_cont x \<Longrightarrow> wf_raw w"
  by (induction w) (auto simp: wf_raw_plain dest: cont_plain)

lemma take4: "hex4 (a # b # c # d # s) = hex4 [a, b, c, d]"
  by (simp add: hex4_def)

lemma if_Some_eq: "((if P then Some v else None) = Some r) \<longleftrightarrow> P \<and> v = r"
  by simp

lemma getu4_shape:
  assumes "getu4 s = Some r"
  shows "\<exists>a b c d s'. s = bslash # CHR ''u'' # a # b # c # d # s' \<and> r = hex4 [a, b, c, d]"
proof -
  have l: "6 \<le> length s" and p: "prefix (bslash # ''u'') s" and r: "r = hex4 (drop 2 s)"
    using assms [unfolded getu4_def if_Some_eq] by simp_all
  from p obtain x where x: "s = bslash # CHR ''u'' # x" by (auto elim: prefixE)
  with l have "4 \<le> length x" by simp
  then obtain a b c d s' where "x = a # b # c # d # s'" using length_ge4 by blast
  with x r take4 [of a b c d s'] have "s = bslash # CHR ''u'' # a # b # c # d # s' \<and> r = hex4 [a, b, c, d]"
    by simp
  then show ?thesis by blast
qed

text \<open>Case analysis on the head of a well-formed literal, as unquoting reads it.\<close>

lemma wf_raw_tokens [consumes 1, case_names Nil esc u pair plain bad seq]:
  assumes "wf_raw t"
    and "P []"
    and "\<And>e s. is_escape e \<Longrightarrow> wf_raw s \<Longrightarrow> P s \<Longrightarrow> P (bslash # e # s)"
    and "\<And>a b c d s. list_all is_hex [a, b, c, d] \<Longrightarrow> wf_raw s \<Longrightarrow> P s \<Longrightarrow>
      \<not> is_surrogate (hex4 [a, b, c, d]) \<or> (case getu4 s of None \<Rightarrow> True | Some r1 \<Rightarrow> decode_pair (hex4 [a, b, c, d]) r1 = None) \<Longrightarrow>
      P (bslash # CHR ''u'' # a # b # c # d # s)"
    and "\<And>a b c d e f g h s r. list_all is_hex [a, b, c, d, e, f, g, h] \<Longrightarrow> wf_raw s \<Longrightarrow> P s \<Longrightarrow>
      is_surrogate (hex4 [a, b, c, d]) \<Longrightarrow> decode_pair (hex4 [a, b, c, d]) (hex4 [e, f, g, h]) = Some r \<Longrightarrow>
      P (bslash # CHR ''u'' # a # b # c # d # bslash # CHR ''u'' # e # f # g # h # s)"
    and "\<And>c s. c \<noteq> bslash \<Longrightarrow> c \<noteq> dquote \<Longrightarrow> 32 \<le> byte c \<Longrightarrow> byte c < 128 \<Longrightarrow> wf_raw s \<Longrightarrow> P s \<Longrightarrow> P (c # s)"
    and "\<And>c s. 128 \<le> byte c \<Longrightarrow> utf8_len (c # s) = 0 \<Longrightarrow> wf_raw s \<Longrightarrow> P s \<Longrightarrow> P (c # s)"
    and "\<And>c w s. 128 \<le> byte c \<Longrightarrow> \<forall>x \<in> set w. utf8_cont x \<Longrightarrow> utf8_len (c # w) = Suc (length w) \<Longrightarrow>
      wf_raw s \<Longrightarrow> P s \<Longrightarrow> P (c # w @ s)"
  shows "P t"
  using assms(1)
proof (induction "length t" arbitrary: t rule: less_induct)
  case less
  show ?case
  proof (cases t)
    case (Cons c t')
    consider "c = bslash" | "c \<noteq> bslash" "byte c < 128" | "c \<noteq> bslash" "128 \<le> byte c" by linarith
    then show ?thesis
    proof cases
      case 2
      with less.prems Cons less.hyps [of t'] show ?thesis
        by (simp add: wf_raw_plain assms(6))
    next
      case 3
      with less.prems Cons have w: "wf_raw t'" by (simp add: wf_raw_plain)
      show ?thesis
      proof (cases "utf8_len t = 0")
        case True
        with 3 w Cons less.hyps [of t'] show ?thesis by (simp add: assms(7))
      next
        case False
        define k where "k = utf8_len t - 1"
        with False Cons utf8_len_le [of t] have k: "utf8_len t = Suc k" "k \<le> length t'" by auto
        have cs: "\<forall>x \<in> set (take k t'). utf8_cont x"
          using utf8_tail_cont [of c t'] 3 Cons k by simp
        have l: "utf8_len (c # take k t') = Suc (length (take k t'))"
          using utf8_len_take_self [of t] Cons k by simp
        have "wf_raw (take k t')" using cs by (rule wf_raw_cont)
        then have "wf_raw (drop k t')" using w by (metis append_take_drop_id wf_raw_append_iff)
        moreover have "P (drop k t')" using less.hyps [of "drop k t'"] Cons calculation by simp
        ultimately have "P (c # take k t' @ drop k t')" using 3 cs l by (intro assms(8)) auto
        with Cons show ?thesis by simp
      qed
    next
      case 1
      with less.prems Cons have "wf_raw (bslash # t')" by simp
      then show ?thesis
      proof (cases rule: wf_raw_bslash)
        case (esc e s')
        with less.hyps [of s'] Cons 1 show ?thesis by (simp add: assms(3))
      next
        case (u a b c' d s')
        show ?thesis
        proof (cases "\<not> is_surrogate (hex4 [a, b, c', d]) \<or> (case getu4 s' of None \<Rightarrow> True | Some r1 \<Rightarrow> decode_pair (hex4 [a, b, c', d]) r1 = None)")
          case True
          with u less.hyps [of s'] Cons 1 show ?thesis by (simp add: assms(4))
        next
          case False
          then obtain r1 r where g: "getu4 s' = Some r1" "decode_pair (hex4 [a, b, c', d]) r1 = Some r"
            and sg: "is_surrogate (hex4 [a, b, c', d])" by (auto split: option.splits)
          from getu4_shape [OF g(1)] obtain e f i h s'' where
            s'': "s' = bslash # CHR ''u'' # e # f # i # h # s''" and r1: "r1 = hex4 [e, f, i, h]"
            by blast
          from u(6) s'' have h: "list_all is_hex [a, b, c', d, e, f, i, h]" and w: "wf_raw s''"
            using u(2-5) by (simp_all add: wf_raw_u4)
          have "P s''" using less.hyps [of s''] Cons u(1) s'' w by simp
          with assms(5) [OF h w _ sg] g(2) r1 have
            "P (bslash # CHR ''u'' # a # b # c' # d # bslash # CHR ''u'' # e # f # i # h # s'')"
            by blast
          with Cons 1 u(1) s'' show ?thesis by simp
        qed
      qed
    qed
  qed (simp add: assms(2))
qed

section \<open>HTML escaping\<close>

declare html_escape.simps(1) [simp del]

lemma html_escape_plain: "byte c \<noteq> 226 \<Longrightarrow> byte c \<notin> {60, 62, 38} \<Longrightarrow> html_escape (c # s) = c # html_escape s"
  by (subst html_escape.simps) (simp split: list.split)

lemma html_escape_226:
  "byte c = 226 \<Longrightarrow> \<not> (\<exists>b a r. s = b # a # r \<and> byte b = 128 \<and> (byte a = 168 \<or> byte a = 169)) \<Longrightarrow>
     html_escape (c # s) = c # html_escape s"
  by (subst html_escape.simps) (auto split: list.split)

lemma html_escape_sep:
  "byte c = 226 \<Longrightarrow> byte b = 128 \<Longrightarrow> byte a = 168 \<or> byte a = 169 \<Longrightarrow>
     html_escape (c # b # a # s) = bslash # ''u202'' @ [hex_digit (byte a mod 16)] @ html_escape s"
  by (subst html_escape.simps) simp

lemma html_escape_lt:
  "byte c \<in> {60, 62, 38} \<Longrightarrow>
     html_escape (c # s) = bslash # ''u00'' @ [hex_digit (byte c div 16), hex_digit (byte c mod 16)] @ html_escape s"
  by (subst html_escape.simps) simp

lemma hex_plain: "is_hex c \<Longrightarrow> byte c \<noteq> 226 \<and> byte c \<notin> {60, 62, 38} \<and> byte c < 128"
  by (auto simp: is_hex_def is_digit_def byte_def less_eq_char_def)

lemma html_escape_hex: "is_hex c \<Longrightarrow> html_escape (c # s) = c # html_escape s"
  using hex_plain html_escape_plain by blast

lemma html_escape_esc:
  "html_escape (bslash # s) = bslash # html_escape s"
  "html_escape (CHR ''u'' # s) = CHR ''u'' # html_escape s"
  "is_escape e \<Longrightarrow> html_escape (e # s) = e # html_escape s"
  by (auto intro!: html_escape_plain simp: is_escape_def) (simp_all add: byte_def)

lemma html_escape_cont: "\<forall>x \<in> set w. utf8_cont x \<Longrightarrow> html_escape (w @ s) = w @ html_escape s"
  by (induction w) (auto simp: html_escape_plain utf8_cont_def)

lemma takeWhile_cont_html: "takeWhile utf8_cont (html_escape s) = takeWhile utf8_cont s"
proof (induction s)
  case (Cons c s)
  have nb: "\<not> utf8_cont bslash" by (simp add: utf8_cont_def)
  show ?case
  proof (cases "utf8_cont c")
    case True
    then have "html_escape (c # s) = c # html_escape s" by (intro html_escape_plain) (auto simp: utf8_cont_def)
    with Cons show ?thesis by simp
  next
    case False
    have "hd (html_escape (c # s)) \<in> {c, bslash} \<and> html_escape (c # s) \<noteq> []"
      by (subst html_escape.simps, simp split: list.split)+
    with False nb show ?thesis by (cases "html_escape (c # s)") auto
  qed
qed simp

text \<open>An ordinary multi-byte sequence is copied.\<close>

definition is_sep :: "string \<Rightarrow> bool" where
  "is_sep s \<longleftrightarrow> length s = 3 \<and> byte (s ! 0) = 226 \<and> byte (s ! 1) = 128 \<and> (byte (s ! 2) = 168 \<or> byte (s ! 2) = 169)"

lemma seq_226: "byte c = 226 \<Longrightarrow> utf8_len (c # w) = Suc (length w) \<Longrightarrow> length w = 2"
  by (cases w; cases "tl w") (auto simp: Let_def split: if_splits)

lemma html_escape_seq:
  assumes "128 \<le> byte c" and "\<forall>x \<in> set w. utf8_cont x" and "utf8_len (c # w) = Suc (length w)"
  shows "html_escape (c # w @ s) =
    (if is_sep (c # w) then bslash # ''u202'' @ [hex_digit (byte (w ! 1) mod 16)] else c # w) @ html_escape s"
proof (cases "byte c = 226")
  case False
  with assms(1) have "html_escape (c # w @ s) = c # html_escape (w @ s)"
    by (intro html_escape_plain) auto
  with False html_escape_cont [OF assms(2)] show ?thesis by (simp add: is_sep_def)
next
  case True
  with seq_226 [OF True assms(3)] obtain b a where w: "w = [b, a]"
    by (cases w; cases "tl w") auto
  show ?thesis
  proof (cases "is_sep (c # w)")
    case True
    with \<open>byte c = 226\<close> w html_escape_sep [of c b a s] show ?thesis by (simp add: is_sep_def)
  next
    case False
    with \<open>byte c = 226\<close> w have "html_escape (c # w @ s) = c # html_escape (w @ s)"
      by (intro html_escape_226) (auto simp: is_sep_def)
    with False html_escape_cont [OF assms(2)] show ?thesis by simp
  qed
qed

text \<open>A byte that starts no sequence is copied, and still starts none.\<close>

lemma html_escape_bad:
  assumes "128 \<le> byte c" and "utf8_len (c # s) = 0"
  shows "html_escape (c # s) = c # html_escape s" and "utf8_len (c # html_escape s) = 0"
proof -
  show "utf8_len (c # html_escape s) = 0"
    using assms(2) utf8_len_cont_eq [OF takeWhile_cont_html, of c s] by simp
  show "html_escape (c # s) = c # html_escape s"
  proof (cases "byte c = 226")
    case False
    with assms(1) show ?thesis by (intro html_escape_plain) auto
  next
    case True
    with assms(2) show ?thesis by (intro html_escape_226) (auto simp: utf8_cont_def)
  qed
qed

lemma hex_digit_hex: "n < 16 \<Longrightarrow> is_hex (hex_digit n)"
  by (auto simp: hex_digit_def is_hex_def is_digit_def less_eq_char_def)

lemma hex_digit_val: "n < 16 \<Longrightarrow> hex_val (hex_digit n) = n"
  by (auto simp: hex_digit_def hex_val_def is_digit_def less_eq_char_def byte_def)

lemma is_hex_02 [simp]: "is_hex (CHR ''0'')" "is_hex (CHR ''2'')"
  by (simp_all add: is_hex_def is_digit_def less_eq_char_def)

lemma html_escape_idem: "html_escape (html_escape s) = html_escape s"
proof (induction "length s" arbitrary: s rule: less_induct)
  case less
  show ?case
  proof (cases s)
    case (Cons c s')
    consider "byte c \<in> {60, 62, 38}" | "byte c \<noteq> 226" "byte c \<notin> {60, 62, 38}"
      | b a r where "byte c = 226" "s' = b # a # r" "byte b = 128" "byte a = 168 \<or> byte a = 169"
      | "byte c = 226" "\<not> (\<exists>b a r. s' = b # a # r \<and> byte b = 128 \<and> (byte a = 168 \<or> byte a = 169))"
      by blast
    then show ?thesis
    proof cases
      case 1
      have "is_hex (hex_digit (byte c div 16))" "is_hex (hex_digit (byte c mod 16))"
        using 1 by (auto intro: hex_digit_hex)
      with less [of s'] Cons html_escape_lt [OF 1] show ?thesis
        by (simp add: html_escape_esc html_escape_hex hex_digit_hex)
    next
      case 2
      with less [of s'] Cons show ?thesis by (simp add: html_escape_plain)
    next
      case 3
      have "is_hex (hex_digit (byte a mod 16))" by (rule hex_digit_hex) simp
      with less [of r] Cons 3 html_escape_sep [OF 3(1,3,4), of r] show ?thesis
        by (simp add: html_escape_esc html_escape_hex)
    next
      case 4
      have "\<not> (\<exists>b a r. html_escape s' = b # a # r \<and> byte b = 128 \<and> (byte a = 168 \<or> byte a = 169))"
      proof
        assume "\<exists>b a r. html_escape s' = b # a # r \<and> byte b = 128 \<and> (byte a = 168 \<or> byte a = 169)"
        then obtain b a r where e: "html_escape s' = b # a # r" "byte b = 128" "byte a = 168 \<or> byte a = 169"
          by blast
        then have "takeWhile utf8_cont s' = b # a # takeWhile utf8_cont r"
          using takeWhile_cont_html [of s'] by (auto simp: utf8_cont_def)
        then obtain r' where "s' = b # a # r'"
          by (cases s'; cases "tl s'") (auto split: if_splits)
        with e 4(2) show False by blast
      qed
      with less [of s'] Cons 4 show ?thesis by (simp add: html_escape_226)
    qed
  qed simp
qed

end
