(* ===== verification/JsonQuote.thy ===== *)
theory JsonQuote
  imports JsonText
begin

text \<open>Reading, escaping and writing JSON literals: how the three operations of the model compose.\<close>

lemma wf_raw_hex2: "is_hex a \<Longrightarrow> is_hex b \<Longrightarrow> wf_raw (bslash # ''u00'' @ [a, b] @ s) \<longleftrightarrow> wf_raw s"
  by (simp add: wf_raw_u4)

lemma wf_raw_seq: "128 \<le> byte c \<Longrightarrow> \<forall>x \<in> set w. utf8_cont x \<Longrightarrow> wf_raw (c # w @ s) \<longleftrightarrow> wf_raw s"
proof -
  assume c: "128 \<le> byte c" and w: "\<forall>x \<in> set w. utf8_cont x"
  then have "c \<noteq> bslash" "c \<noteq> dquote" by auto
  with c w show ?thesis
    using wf_raw_append_iff [of w s] wf_raw_cont [of w] by (simp add: wf_raw_plain)
qed

lemma hex_digits_byte: "is_hex (hex_digit (byte c div 16))" "is_hex (hex_digit (n mod 16))"
  using byte_less [of c] by (auto intro!: hex_digit_hex)

section \<open>One step of reading\<close>

lemma unquote_esc: "is_escape e \<Longrightarrow> unquote (bslash # e # s) = unescape e # unquote s"
  by (subst unquote.simps) (auto simp: unquote_step_def)

lemma unquote_plain: "c \<noteq> bslash \<Longrightarrow> byte c < 128 \<Longrightarrow> unquote (c # s) = c # unquote s"
  by (subst unquote.simps) (auto simp: unquote_step_def)

lemma unquote_bad: "128 \<le> byte c \<Longrightarrow> utf8_len (c # s) = 0 \<Longrightarrow> unquote (c # s) = replacement @ unquote s"
  by (subst unquote.simps) (auto simp: unquote_step_def simp del: utf8_len.simps)

lemma unquote_seq:
  assumes "128 \<le> byte c" and "utf8_len (c # w) = Suc (length w)"
  shows "unquote (c # w @ s) = c # w @ unquote s"
proof -
  have "utf8_len ((c # w) @ s) = Suc (length w)" using utf8_len_append [of "c # w" s] assms(2) by simp
  with assms(1) show ?thesis
    by (subst unquote.simps) (auto simp: unquote_step_def simp del: utf8_len.simps)
qed

lemma unquote_u:
  assumes "\<not> is_surrogate (hex4 [a, b, c, d])"
  shows "unquote (bslash # CHR ''u'' # a # b # c # d # s) = EncodeRune (hex4 [a, b, c, d]) @ unquote s"
  by (subst unquote.simps)
    (simp add: unquote_step_def unescape_u_def take4 [of a b c d s] assms)

lemma unquote_lone:
  assumes "is_surrogate (hex4 [a, b, c, d])"
    and "case getu4 s of None \<Rightarrow> True | Some r1 \<Rightarrow> decode_pair (hex4 [a, b, c, d]) r1 = None"
  shows "unquote (bslash # CHR ''u'' # a # b # c # d # s) = replacement @ unquote s"
  using assms(2) by (subst unquote.simps)
    (simp add: unquote_step_def unescape_u_def take4 [of a b c d s] assms(1) split: option.splits)

lemma getu4_u:
  "list_all is_hex [a, b, c, d] \<Longrightarrow> getu4 (bslash # CHR ''u'' # a # b # c # d # s) = Some (hex4 [a, b, c, d])"
  by (simp add: getu4_def take4 [of a b c d s])

lemma unquote_pair:
  assumes "is_surrogate (hex4 [a, b, c, d])" and "list_all is_hex [e, f, g, h]"
    and "decode_pair (hex4 [a, b, c, d]) (hex4 [e, f, g, h]) = Some r"
  shows "unquote (bslash # CHR ''u'' # a # b # c # d # bslash # CHR ''u'' # e # f # g # h # s) =
    EncodeRune r @ unquote s"
proof -
  let ?t = "bslash # CHR ''u'' # a # b # c # d # bslash # CHR ''u'' # e # f # g # h # s"
  have "unescape_u ?t = (EncodeRune r, 12)"
    unfolding unescape_u_def using getu4_u [OF assms(2), of s] assms(1,3)
    by (simp add: take4 [of a b c d "bslash # CHR ''u'' # e # f # g # h # s"])
  then have "unquote_step ?t = (EncodeRune r, 12)" by (simp add: unquote_step_def)
  then show ?thesis by (subst unquote.simps) simp
qed

section \<open>Reading\<close>

text \<open>Every text read from a document is valid UTF-8.\<close>

lemma valid_utf8_Cons: "byte c < 128 \<Longrightarrow> valid_utf8 s \<Longrightarrow> valid_utf8 (c # s)"
  using valid_utf8_append [OF valid_utf8_ascii, of c s] by simp

lemma unescape_ascii: "is_escape e \<Longrightarrow> byte (unescape e) < 128"
  unfolding is_escape_def
  by (elim insertE) (simp_all add: unescape_def byte_def bslash_def dquote_def)

lemma valid_unquote: "wf_raw t \<Longrightarrow> valid_utf8 (unquote t)"
proof (induction rule: wf_raw_tokens)
  case (esc e s)
  then show ?case by (simp add: unquote_esc valid_utf8_Cons unescape_ascii)
next
  case (u a b c d s)
  then show ?case
    by (cases "is_surrogate (hex4 [a, b, c, d])")
      (simp_all add: unquote_lone unquote_u valid_utf8_append valid_replacement valid_EncodeRune)
next
  case (pair a b c d e f g h s r)
  then show ?case by (simp add: unquote_pair valid_utf8_append valid_EncodeRune)
next
  case (plain c s)
  then show ?case by (simp add: unquote_plain valid_utf8_Cons)
next
  case (bad c s)
  then show ?case by (simp add: unquote_bad valid_utf8_append valid_replacement del: utf8_len.simps)
next
  case (seq c w s)
  have "valid_utf8 (c # w)" using seq(3) by (intro valid_whole) simp
  with seq show ?case using valid_utf8_append [of "c # w" "unquote s"] by (simp add: unquote_seq del: utf8_len.simps)
qed simp

section \<open>HTML escaping\<close>

lemma html_escape_u:
  "list_all is_hex [a, b, c, d] \<Longrightarrow> html_escape (bslash # CHR ''u'' # a # b # c # d # s) =
     bslash # CHR ''u'' # a # b # c # d # html_escape s"
  by (simp add: html_escape_esc html_escape_hex)

lemma wf_html_escape: "wf_raw t \<Longrightarrow> wf_raw (html_escape t)"
proof (induction rule: wf_raw_tokens)
  case (esc e s)
  then show ?case by (simp add: html_escape_esc wf_raw_esc)
next
  case (u a b c d s)
  then show ?case by (simp add: html_escape_u wf_raw_u4)
next
  case (pair a b c d e f g h s r)
  then show ?case by (simp add: html_escape_u wf_raw_u4)
next
  case (plain c s)
  show ?case
  proof (cases "byte c \<in> {60, 62, 38}")
    case True
    show ?thesis
      unfolding html_escape_lt [OF True] using plain hex_digits_byte by (simp add: wf_raw_u4)
  next
    case False
    with plain show ?thesis by (simp add: html_escape_plain wf_raw_plain)
  qed
next
  case (bad c s)
  then have "c \<noteq> bslash" "c \<noteq> dquote" by auto
  with bad show ?case by (simp add: html_escape_bad wf_raw_plain del: utf8_len.simps)
next
  case (seq c w s)
  then show ?case
    using hex_digits_byte(2) wf_raw_seq [of c w "html_escape s"]
    by (simp add: html_escape_seq wf_raw_u4 del: utf8_len.simps)
qed simp

lemma hex4_hex2: "n < 256 \<Longrightarrow> hex4 [CHR ''0'', CHR ''0'', hex_digit (n div 16), hex_digit (n mod 16)] = n"
  by (simp add: hex4_def hex_digit_val less_mult_imp_div_less) (simp add: hex_val_def is_digit_def byte_def less_eq_char_def)

lemma hex4_202: "n < 16 \<Longrightarrow> hex4 [CHR ''2'', CHR ''0'', CHR ''2'', hex_digit n] = 8224 + n"
  by (simp add: hex4_def hex_digit_val) (simp add: hex_val_def is_digit_def byte_def less_eq_char_def)

lemma unquote_hex2:
  assumes "byte c < 128"
  shows "unquote (bslash # CHR ''u'' # CHR ''0'' # CHR ''0'' # hex_digit (byte c div 16) # hex_digit (byte c mod 16) # s)
    = c # unquote s"
  using hex4_hex2 [of "byte c"] byte_less [of c] assms
  by (subst unquote_u) (simp_all add: is_surrogate_def EncodeRune_ascii)

text \<open>The bytes of U+2028 and U+2029.\<close>

lemma sep_bytes:
  assumes "is_sep s"
  shows "EncodeRune (8224 + byte (s ! 2) mod 16) = s"
proof -
  from assms have l: "length s = 3" by (simp add: is_sep_def)
  then obtain a b c where s: "s = [a, b, c]" by (auto simp: numeral_eq_Suc length_Suc_conv)
  with assms have "a = char_of (226::nat)" "b = char_of (128::nat)"
    and "c = char_of (168::nat) \<or> c = char_of (169::nat)"
    by (auto simp: is_sep_def simp flip: byte_inject) (simp_all add: byte_char_of)
  with s show ?thesis by (auto simp: EncodeRune_def byte_char_of)
qed

lemma unquote_202:
  assumes "is_sep (c # w)"
  shows "unquote (bslash # CHR ''u'' # CHR ''2'' # CHR ''0'' # CHR ''2'' # hex_digit (byte (w ! 1) mod 16) # s)
    = c # w @ unquote s"
proof -
  let ?k = "byte (w ! 1) mod 16"
  have k: "?k < 16" by simp
  then have "\<not> is_surrogate (8224 + ?k)" by (simp add: is_surrogate_def)
  moreover have "EncodeRune (8224 + ?k) = c # w" using sep_bytes [OF assms] by simp
  ultimately show ?thesis
    using unquote_u [of "CHR ''2''" "CHR ''0''" "CHR ''2''" "hex_digit ?k" s]
    unfolding hex4_202 [OF k] by simp
qed

text \<open>What follows an unpaired surrogate stays no low surrogate.\<close>

lemma getu4_html_escape:
  assumes "wf_raw s" and "case getu4 s of None \<Rightarrow> True | Some r1 \<Rightarrow> decode_pair r r1 = None"
  shows "case getu4 (html_escape s) of None \<Rightarrow> True | Some r1 \<Rightarrow> decode_pair r r1 = None"
proof -
  have low: "n < 56320 \<Longrightarrow> decode_pair r n = None" for n by (simp add: decode_pair_def)
  have no: "c \<noteq> bslash \<Longrightarrow> getu4 (c # x) = None" for c x by (simp add: getu4_def)
  from assms show ?thesis
  proof (cases s)
    case (Cons c s')
    show ?thesis
    proof (cases "c = bslash")
      case True
      with assms Cons have "wf_raw (bslash # s')" by simp
      then show ?thesis
      proof (cases rule: wf_raw_bslash)
        case (esc e x)
        from esc(2) have "e \<noteq> CHR ''u''" by auto
        with Cons True esc show ?thesis by (simp add: html_escape_esc getu4_def)
      next
        case (u a b c d x)
        with Cons True assms(2) show ?thesis
          by (simp add: html_escape_u getu4_u)
      qed
    next
      case False
      consider "byte c \<in> {60, 62, 38}" | "byte c \<notin> {60, 62, 38}" "byte c \<noteq> 226"
        | b a x where "byte c = 226" "s' = b # a # x" "byte b = 128" "byte a = 168 \<or> byte a = 169"
        | "byte c = 226" "\<not> (\<exists>b a r. s' = b # a # r \<and> byte b = 128 \<and> (byte a = 168 \<or> byte a = 169))"
        by blast
      then show ?thesis
      proof cases
        case 1
        with Cons html_escape_lt [OF 1, of s'] hex_digits_byte hex4_hex2 [of "byte c"] byte_less [of c]
        show ?thesis by (simp add: getu4_u low)
      next
        case 2
        with Cons False show ?thesis by (simp add: html_escape_plain no)
      next
        case 3
        with Cons html_escape_sep [OF 3(1,3,4), of x] hex_digits_byte(2) hex4_202 [of "byte a mod 16"]
        show ?thesis by (simp add: getu4_u low)
      next
        case 4
        with Cons False show ?thesis by (simp add: html_escape_226 no)
      qed
    qed
  qed simp
qed

lemma unquote_html_escape: "wf_raw t \<Longrightarrow> unquote (html_escape t) = unquote t"
proof (induction rule: wf_raw_tokens)
  case (esc e s)
  then show ?case by (simp add: html_escape_esc unquote_esc)
next
  case (u a b c d s)
  then show ?case
    using getu4_html_escape [OF u(2)]
    by (cases "is_surrogate (hex4 [a, b, c, d])")
      (simp_all add: html_escape_u unquote_lone unquote_u)
next
  case (pair a b c d e f g h s r)
  then show ?case by (simp add: html_escape_u unquote_pair)
next
  case (plain c s)
  show ?case
  proof (cases "byte c \<in> {60, 62, 38}")
    case True
    show ?thesis
      unfolding html_escape_lt [OF True] using plain by (simp add: unquote_hex2 unquote_plain)
  next
    case False
    with plain show ?thesis by (simp add: html_escape_plain unquote_plain)
  qed
next
  case (bad c s)
  then show ?case by (simp add: html_escape_bad unquote_bad del: utf8_len.simps)
next
  case (seq c w s)
  then show ?case
    using unquote_202 [of c w "html_escape s"]
    by (simp add: html_escape_seq unquote_seq del: utf8_len.simps)
qed simp

section \<open>Writing\<close>

lemma valid_utf8_tokens [consumes 1, case_names Nil ascii seq]:
  assumes "valid_utf8 t" and "P []"
    and "\<And>c s. byte c < 128 \<Longrightarrow> valid_utf8 s \<Longrightarrow> P s \<Longrightarrow> P (c # s)"
    and "\<And>c w s. 128 \<le> byte c \<Longrightarrow> \<forall>x \<in> set w. utf8_cont x \<Longrightarrow> utf8_len (c # w) = Suc (length w) \<Longrightarrow>
      valid_utf8 s \<Longrightarrow> P s \<Longrightarrow> P (c # w @ s)"
  shows "P t"
  using assms(1)
proof (induction t rule: valid_utf8.induct)
  case (1 t)
  show ?case
  proof (cases t)
    case Nil
    with assms(2) show ?thesis by simp
  next
    case (Cons c t')
    with "1.prems" have n: "utf8_len t \<noteq> 0" and v: "valid_utf8 (drop (utf8_len t) t)"
      using valid_utf8.simps [of t] by (simp_all split: if_splits del: utf8_len.simps)
    with 1 Cons have p: "P (drop (utf8_len t) t)" by simp
    show ?thesis
    proof (cases "byte c < 128")
      case True
      with Cons v p assms(3) show ?thesis by simp
    next
      case False
      define k where "k = utf8_len t - 1"
      with n Cons utf8_len_le [of t] have k: "utf8_len t = Suc k" "k \<le> length t'" by auto
      have "\<forall>x \<in> set (take k t'). utf8_cont x"
        using utf8_tail_cont [of c t'] False Cons k by (simp del: utf8_len.simps)
      moreover have "utf8_len (c # take k t') = Suc (length (take k t'))"
        using utf8_len_take_self [of t] Cons k by (simp del: utf8_len.simps)
      ultimately have "P (c # take k t' @ drop k t')"
        using False v p k Cons by (intro assms(4)) (auto simp del: utf8_len.simps)
      with Cons show ?thesis by simp
    qed
  qed
qed

definition quote_byte :: "char \<Rightarrow> string" where
  "quote_byte c = fst (quote_step [c])"

lemma quote_Nil [simp]: "quote [] = []"
  by (simp add: quote.simps [of "[]"])

lemma quote_ascii: "byte c < 128 \<Longrightarrow> quote (c # s) = quote_byte c @ quote s"
  by (subst quote.simps) (simp add: quote_byte_def quote_step_def Let_def)

lemma byte3_unique:
  assumes "y < 64" and "z < (64::nat)" and "k = 8232 \<or> k = 8233"
  shows "x * 4096 + y * 64 + z = k \<longleftrightarrow> x = 2 \<and> y = 0 \<and> z = k - 8192"
proof
  assume h: "x * 4096 + y * 64 + z = k"
  then have "x = 2" using assms by (cases "x \<le> 1"; cases "3 \<le> x"; linarith)
  moreover from this have "y = 0" using h assms by (cases y) auto
  ultimately show "x = 2 \<and> y = 0 \<and> z = k - 8192" using h assms by auto
qed (use assms in auto)

lemma DecodeRune_sep:
  assumes "utf8_len [c, b, a] = 3"
  shows "DecodeRune (c # b # a # s) = (k, 3) \<and> (k = 8232 \<or> k = 8233) \<longleftrightarrow>
    is_sep [c, b, a] \<and> k = 8224 + byte a mod 16"
proof -
  have r: "utf8_cont b" "utf8_cont a" "224 \<le> byte c" "byte c < 240"
    using assms by (auto simp: Let_def split: if_splits)
  then have l: "byte b - 128 < 64" "byte a - 128 < 64" by (auto simp: utf8_cont_def)
  have u: "utf8_len (c # b # a # s) = 3" using utf8_len_append [of "[c, b, a]" s] assms by simp
  then have "DecodeRune (c # b # a # s) = ((byte c - 224) * 4096 + (byte b - 128) * 64 + (byte a - 128), 3)"
    by (simp add: DecodeRune_def numeral_3_eq_3 del: utf8_len.simps)
  then have d: "DecodeRune (c # b # a # s) = (k, 3) \<and> (k = 8232 \<or> k = 8233) \<longleftrightarrow>
      (k = 8232 \<or> k = 8233) \<and> byte c - 224 = 2 \<and> byte b - 128 = 0 \<and> byte a - 128 = k - 8192"
    using byte3_unique [OF l, of k "byte c - 224"] by auto
  have "byte c - 224 = 2 \<longleftrightarrow> byte c = 226" "byte b - 128 = 0 \<longleftrightarrow> byte b = 128"
    "byte a - 128 = 40 \<longleftrightarrow> byte a = 168" "byte a - 128 = 41 \<longleftrightarrow> byte a = 169"
    using r by (auto simp: utf8_cont_def)
  then show ?thesis unfolding d by (auto simp: is_sep_def)
qed

lemma DecodeRune_width: "snd (DecodeRune s) = (if s = [] then 0 else max 1 (utf8_len s))"
proof (cases "s = []")
  case True
  then show ?thesis by (simp add: DecodeRune_def)
next
  case False
  with utf8_len_le4 [of s] show ?thesis by (auto simp: DecodeRune_def split: nat.split)
qed

lemma quote_seq:
  assumes "128 \<le> byte c" and "\<forall>x \<in> set w. utf8_cont x" and "utf8_len (c # w) = Suc (length w)"
  shows "quote (c # w @ s) =
    (if is_sep (c # w) then bslash # ''u202'' @ [hex_digit (byte (w ! 1) mod 16)] else c # w) @ quote s"
proof -
  have u: "utf8_len (c # w @ s) = Suc (length w)"
    using utf8_len_append [of "c # w" s] assms(3) by (simp del: utf8_len.simps)
  show ?thesis
  proof (cases "length w = 2")
    case False
    then have "snd (DecodeRune (c # w @ s)) \<noteq> 3" by (simp add: DecodeRune_width u del: utf8_len.simps)
    then have "quote_step (c # w @ s) = (c # w, Suc (length w))"
      using assms(1) by (auto simp: quote_step_def u simp del: utf8_len.simps)
    with False show ?thesis by (subst quote.simps) (simp add: is_sep_def)
  next
    case True
    then obtain b a where w: "w = [b, a]" by (auto simp: numeral_eq_Suc length_Suc_conv)
    have u3: "utf8_len [c, b, a] = 3" using assms(3) w by simp
    note d = DecodeRune_sep [OF u3, of s]
    show ?thesis
    proof (cases "is_sep (c # w)")
      case True
      then have e: "DecodeRune (c # b # a # s) = (8224 + byte a mod 16, 3)"
        and "8224 + byte a mod 16 = 8232 \<or> 8224 + byte a mod 16 = 8233"
        using d [of "8224 + byte a mod 16"] w by auto
      then have "quote_step (c # w @ s) = (bslash # ''u202'' @ [hex_digit (byte a mod 16)], 3)"
        using assms(1) u w by (auto simp: quote_step_def e simp del: utf8_len.simps)
      with True w show ?thesis by (subst quote.simps) simp
    next
      case False
      then have "\<not> (DecodeRune (c # w @ s) = (8232, 3) \<or> DecodeRune (c # w @ s) = (8233, 3))"
        using d [of 8232] d [of 8233] w by auto
      then have "quote_step (c # w @ s) = (c # w, Suc (length w))"
        using assms(1) by (simp add: quote_step_def u del: utf8_len.simps)
      with False show ?thesis by (subst quote.simps) simp
    qed
  qed
qed

text \<open>What the encoder writes for an ASCII byte.\<close>

lemma quote_controls:
  "quote_byte (CHR 0x08) = [bslash, CHR ''b''] \<and> is_escape (CHR ''b'') \<and> unescape (CHR ''b'') = CHR 0x08"
  "quote_byte (CHR 0x0C) = [bslash, CHR ''f''] \<and> is_escape (CHR ''f'') \<and> unescape (CHR ''f'') = CHR 0x0C"
  "quote_byte (CHR 0x0A) = [bslash, CHR ''n''] \<and> is_escape (CHR ''n'') \<and> unescape (CHR ''n'') = CHR 0x0A"
  "quote_byte (CHR 0x0D) = [bslash, CHR ''r''] \<and> is_escape (CHR ''r'') \<and> unescape (CHR ''r'') = CHR 0x0D"
  "quote_byte (CHR 0x09) = [bslash, CHR ''t''] \<and> is_escape (CHR ''t'') \<and> unescape (CHR ''t'') = CHR 0x09"
  by (simp_all add: quote_byte_def quote_step_def byte_def dquote_def bslash_def is_escape_def unescape_def)

lemma quote_byte_cases:
  assumes "byte c < 128"
  obtains (esc) e where "quote_byte c = [bslash, e]" "is_escape e" "unescape e = c"
    | (hex) "quote_byte c = bslash # ''u00'' @ [hex_digit (byte c div 16), hex_digit (byte c mod 16)]"
    | (plain) "quote_byte c = [c]" "c \<noteq> bslash" "c \<noteq> dquote" "32 \<le> byte c" "byte c \<notin> {60, 62, 38}"
proof -
  have e: "byte c = 8 \<Longrightarrow> c = CHR 0x08" "byte c = 12 \<Longrightarrow> c = CHR 0x0C" "byte c = 10 \<Longrightarrow> c = CHR 0x0A"
    "byte c = 13 \<Longrightarrow> c = CHR 0x0D" "byte c = 9 \<Longrightarrow> c = CHR 0x09"
    by (simp_all flip: byte_inject) (simp_all add: byte_def)
  consider "c = dquote \<or> c = bslash" | "byte c \<in> {8, 12, 10, 13, 9}"
    | "c \<noteq> dquote" "c \<noteq> bslash" "byte c \<notin> {8, 12, 10, 13, 9}" by blast
  then show thesis
  proof cases
    case 1
    then have "quote_byte c = [bslash, c]" "is_escape c" "unescape c = c"
      by (auto simp: quote_byte_def quote_step_def is_escape_def unescape_def)
        (simp_all add: dquote_def bslash_def)
    then show ?thesis by (rule esc)
  next
    case 2
    then consider "c = CHR 0x08" | "c = CHR 0x0C" | "c = CHR 0x0A" | "c = CHR 0x0D" | "c = CHR 0x09"
      using e by blast
    then obtain x where "quote_byte c = [bslash, x]" "is_escape x" "unescape x = c"
      using quote_controls by cases metis+
    then show ?thesis by (rule esc)
  next
    case 3
    show ?thesis
    proof (cases "byte c < 32 \<or> byte c \<in> {60, 62, 38}")
      case True
      with 3 assms show ?thesis by (intro hex) (auto simp: quote_byte_def quote_step_def Let_def)
    next
      case False
      with 3 assms show ?thesis by (intro plain) (auto simp: quote_byte_def quote_step_def Let_def)
    qed
  qed
qed

lemma wf_quote_byte: "byte c < 128 \<Longrightarrow> wf_raw (quote_byte c @ s) \<longleftrightarrow> wf_raw s"
  by (rule quote_byte_cases [of c]) (simp_all add: wf_raw_esc wf_raw_u4 wf_raw_plain hex_digits_byte)

lemma html_quote_byte: "byte c < 128 \<Longrightarrow> html_escape (quote_byte c @ s) = quote_byte c @ html_escape s"
  by (rule quote_byte_cases [of c])
    (auto simp: html_escape_esc html_escape_hex html_escape_plain hex_digits_byte)

lemma unquote_quote_byte: "byte c < 128 \<Longrightarrow> unquote (quote_byte c @ s) = c # unquote s"
  by (rule quote_byte_cases [of c]) (simp_all add: unquote_esc unquote_hex2 unquote_plain)

text \<open>A written literal is well formed, needs no escaping, and reads back as the text.\<close>

lemma wf_quote: "valid_utf8 s \<Longrightarrow> wf_raw (quote s)"
proof (induction rule: valid_utf8_tokens)
  case (ascii c s)
  then show ?case by (simp add: quote_ascii wf_quote_byte)
next
  case (seq c w s)
  then show ?case
    using hex_digits_byte(2) wf_raw_seq [of c w "quote s"]
    by (simp add: quote_seq wf_raw_u4 del: utf8_len.simps)
qed simp

lemma html_quote: "valid_utf8 s \<Longrightarrow> html_escape (quote s) = quote s"
proof (induction rule: valid_utf8_tokens)
  case (ascii c s)
  then show ?case by (simp add: quote_ascii html_quote_byte)
next
  case (seq c w s)
  then show ?case
    using html_escape_seq [of c w "quote s"] hex_digits_byte(2) [of "byte (w ! 1)"]
    by (simp add: quote_seq html_escape_u del: utf8_len.simps)
qed simp

lemma unquote_quote: "valid_utf8 s \<Longrightarrow> unquote (quote s) = s"
proof (induction rule: valid_utf8_tokens)
  case (ascii c s)
  then show ?case by (simp add: quote_ascii unquote_quote_byte)
next
  case (seq c w s)
  then show ?case
    using unquote_202 [of c w "quote s"]
    by (simp add: quote_seq unquote_seq del: utf8_len.simps)
qed simp

section \<open>Documents\<close>

lemma wf_escape_json: "wf_json v \<Longrightarrow> wf_json (escape_json v)"
  by (induction v rule: wf_json.induct) (auto simp: list_all_iff wf_html_escape)

lemma escape_json_idem: "escape_json (escape_json v) = escape_json v"
  by (induction v rule: escape_json.induct) (auto simp: html_escape_idem)

lemma depth_escape_json: "json_depth (escape_json v) = json_depth v"
proof (induction v rule: escape_json.induct)
  case (2 vs)
  then have "map (json_depth \<circ> escape_json) vs = map json_depth vs" by simp
  then show ?case by (simp only: escape_json.simps json_depth.simps list.map_comp)
next
  case (3 kvs)
  then have "map (\<lambda>(k, v). json_depth v) (map (\<lambda>(k, v). (html_escape k, escape_json v)) kvs)
      = map (\<lambda>(k, v). json_depth v) kvs" by auto
  then show ?case by (simp only: escape_json.simps json_depth.simps)
qed simp_all

lemma decode_any_escape: "wf_json v \<Longrightarrow> decode_any (escape_json v) = decode_any v"
proof (induction v rule: wf_json.induct)
  case (3 vs)
  then have "map decode_any (map escape_json vs) = map decode_any vs"
    by (auto simp: list_all_iff)
  then show ?case by (simp only: escape_json.simps decode_any.simps)
next
  case (4 kvs)
  then have "map (\<lambda>(k, v). (unquote k, decode_any v)) (map (\<lambda>(k, v). (html_escape k, escape_json v)) kvs)
      = map (\<lambda>(k, v). (unquote k, decode_any v)) kvs"
    by (fastforce simp: list_all_iff unquote_html_escape)
  then show ?case by (simp only: escape_json.simps decode_any.simps)
qed (simp_all add: unquote_html_escape)

end
