(* ===== verification/Fixtures.thy ===== *)
theory Fixtures
  imports RuleEngine JsonQuote
begin

text \<open>
  Concrete inputs on which the theorems of the development are applied: an expression engine whose
  conditions are the two words \<open>yes\<close> and \<open>no\<close>, a rule definition with two rules, its syntax tree,
  and what it compiles to.
\<close>

definition demo_engine :: "(string, string) cel_engine" where
  "demo_engine =
     \<lparr>cel_new_env = None, cel_compile = Inr, cel_is_bool = (\<lambda>ast. True), cel_program = Inr,
      cel_eval = (\<lambda>c p facts. Inr (CelBool (p = ''yes''))), json_error_text = (\<lambda>s. ''unexpected'')\<rparr>"

definition backquoted :: "string \<Rightarrow> string" where
  "backquoted s = map (\<lambda>c. if c = CHR 0x60 then dquote else c) s"

definition demo_raw :: string where
  "demo_raw = backquoted
     (''{`rules`:[{`name`:`a`,`condition`:`no`,`result`:{}},'' @
      ''{`name`:`b`,`condition`:`yes`,`result`:{`v`:true}}],`default_result`:{}}'')"

definition demo_ast :: json where
  "demo_ast = JObj
     [(''rules'', JArr
        [JObj [(''name'', JStr ''a''), (''condition'', JStr ''no''), (''result'', JObj [])],
         JObj [(''name'', JStr ''b''), (''condition'', JStr ''yes''), (''result'', JObj [(''v'', JBool True)])]]),
      (''default_result'', JObj [])]"

definition demo_definition :: Definition where
  "demo_definition =
     \<lparr>def_Rules =
        [\<lparr>dr_Name = ''a'', dr_Condition = ''no'', dr_Result = Some (JObj [])\<rparr>,
         \<lparr>dr_Name = ''b'', dr_Condition = ''yes'', dr_Result = Some (JObj [(''v'', JBool True)])\<rparr>],
      def_DefaultResult = Some (JObj [])\<rparr>"

definition demo_result :: string where
  "demo_result = backquoted ''{`v`:true}''"

definition demo_compiled :: "string CompiledDefinition" where
  "demo_compiled =
     \<lparr>cd_rules =
        [\<lparr>cr_name = ''a'', cr_program = ''no'', cr_result = ''{}''\<rparr>,
         \<lparr>cr_name = ''b'', cr_program = ''yes'', cr_result = demo_result\<rparr>],
      cd_defaultResult = ''{}'', cd_canonicalJSON = demo_raw, cd_checksum = sha256_hex demo_raw\<rparr>"

lemma demo_print: "print_json demo_ast = demo_raw"
  by code_simp

lemma demo_wf: "wf_json demo_ast" "json_depth demo_ast \<le> max_depth"
  by (simp_all add: demo_ast_def max_depth_def wf_raw_plain bslash_def dquote_def byte_def)

lemma demo_decode: "decode_first demo_raw = Some (demo_ast, [])"
  using decode_first_print [OF demo_wf, of "[]"] by (simp add: demo_print)

lemma demo_definition: "decode_definition demo_ast = Some demo_definition"
  by code_simp

lemma demo_trims: "TrimSpace ''a'' = ''a''" "TrimSpace ''b'' = ''b''" "TrimSpace ''no'' = ''no''" "TrimSpace ''yes'' = ''yes''"
  by (simp_all add: TrimSpace_visible visible_def byte_def)

lemma demo_shape: "validateShape demo_definition = []"
  by (simp add: validateShape_def demo_definition_def maxRules_def maxExpressionBytes_def
      demo_trims validJSONObject_def)

lemma demo_marshal: "marshal_definition demo_definition = demo_raw"
  by code_simp

lemma demo_results: "canonicalJSON (Some (JObj [])) = ''{}''"
    "canonicalJSON (Some (JObj [(''v'', JBool True)])) = demo_result"
  by code_simp+

lemma demo_size: "length demo_raw = 124" "demo_raw \<noteq> []"
  by code_simp+

lemma demo_compiles: "CompileDefinition demo_engine demo_raw = Inr demo_compiled"
proof -
  have "compile_rules demo_engine 0 (def_Rules demo_definition) = ([], cd_rules demo_compiled)"
    by (simp add: demo_engine_def demo_definition_def compile_rule_def demo_results demo_compiled_def)
  moreover have "canonicalJSON (def_DefaultResult demo_definition) = ''{}''" "cel_new_env demo_engine = None"
    by (simp_all add: demo_definition_def demo_results demo_engine_def)
  ultimately show ?thesis
    by (simp add: CompileDefinition_def demo_size maxDefinitionBytes_def demo_decode demo_definition
      at_eof_def skip_ws_def demo_shape demo_marshal) (simp add: demo_compiled_def)
qed

definition demo_ctx :: ctx where
  "demo_ctx = \<lparr>ctx_principal = Some \<lparr>p_ID = ''u'', p_Type = TypeOther ''user'', p_TenantID = ''t''\<rparr>,
     ctx_err = None\<rparr>"

lemma demo_facts: "decode_facts ''{}'' = Some (GMap [])"
  by code_simp

lemma demo_evaluates: "EvaluateDefinition demo_engine demo_ctx demo_compiled ''{}'' =
    Inr \<lparr>Matched = True, MatchedRule = ''b'', ResultJSON = demo_result\<rparr>"
  by (simp add: EvaluateDefinition_def demo_ctx_def maxFactsBytes_def demo_facts demo_compiled_def
      demo_engine_def)

end
