(* ===== verification/EngineLaws.thy ===== *)
theory EngineLaws
  imports Fixtures
begin

text \<open>
  What the rule engine promises: a compiled definition has the documented shape, its canonical text
  compiles to the same compiled definition again, a refusal always carries an issue, and an
  evaluation returns the first rule that matches.
\<close>

section \<open>Compilation, inverted\<close>

lemma compile_InrE:
  assumes "CompileDefinition eng raw = Inr c"
  obtains v rest d rules where
    "raw \<noteq> []" "length raw \<le> maxDefinitionBytes" "decode_first raw = Some (v, rest)"
    "decode_definition v = Some d" "at_eof rest" "validateShape d = []" "cel_new_env eng = None"
    "compile_rules eng 0 (def_Rules d) = ([], rules)"
    "c = \<lparr>cd_rules = rules, cd_defaultResult = canonicalJSON (def_DefaultResult d),
          cd_canonicalJSON = marshal_definition d, cd_checksum = sha256_hex (marshal_definition d)\<rparr>"
  using assms that unfolding CompileDefinition_def Let_def
  by (simp split: if_splits option.split_asm prod.split_asm)

lemma compile_InrI:
  assumes "raw \<noteq> []" "length raw \<le> maxDefinitionBytes" "decode_first raw = Some (v, rest)"
    "decode_definition v = Some d" "at_eof rest" "validateShape d = []" "cel_new_env eng = None"
    "compile_rules eng 0 (def_Rules d) = ([], rules)"
  shows "CompileDefinition eng raw =
    Inr \<lparr>cd_rules = rules, cd_defaultResult = canonicalJSON (def_DefaultResult d),
         cd_canonicalJSON = marshal_definition d, cd_checksum = sha256_hex (marshal_definition d)\<rparr>"
  using assms by (simp add: CompileDefinition_def Let_def)

text \<open>A refused definition always comes with at least one issue, so the callers that test the
  issues before they use the compiled value never use a nil one.\<close>

lemma refused_has_issue: "CompileDefinition eng raw \<noteq> Inl []"
  by (simp add: CompileDefinition_def Let_def split: option.split prod.split)

section \<open>Shape\<close>

definition rule_ok :: "DefinitionRule \<Rightarrow> bool" where
  "rule_ok r \<longleftrightarrow> TrimSpace (dr_Name r) \<noteq> [] \<and> TrimSpace (dr_Condition r) \<noteq> [] \<and>
     length (dr_Condition r) \<le> maxExpressionBytes \<and> validJSONObject (dr_Result r)"

lemma validate_rules_ok:
  "validate_rules i seen rs = [] \<longleftrightarrow>
     list_all rule_ok rs \<and> distinct (map (\<lambda>r. TrimSpace (dr_Name r)) rs) \<and>
     set seen \<inter> (\<lambda>r. TrimSpace (dr_Name r)) ` set rs = {}"
  by (induction i seen rs rule: validate_rules.induct) (auto simp: rule_ok_def Let_def)

lemma validateShape_ok:
  "validateShape d = [] \<longleftrightarrow>
     def_Rules d \<noteq> [] \<and> length (def_Rules d) \<le> maxRules \<and> list_all rule_ok (def_Rules d) \<and>
     distinct (map (\<lambda>r. TrimSpace (dr_Name r)) (def_Rules d)) \<and> validJSONObject (def_DefaultResult d)"
  by (auto simp: validateShape_def validate_rules_ok)

text \<open>What it means that every rule compiled.\<close>

definition compiles_to :: "('c, 'p) cel_engine \<Rightarrow> DefinitionRule \<Rightarrow> 'p compiledRule \<Rightarrow> bool" where
  "compiles_to eng item r \<longleftrightarrow>
     (\<exists>ast. cel_compile eng (dr_Condition item) = Inr ast \<and> cel_is_bool eng ast \<and>
            cel_program eng ast = Inr (cr_program r)) \<and>
     cr_name r = dr_Name item \<and> cr_result r = canonicalJSON (dr_Result item)"

lemma compile_rule_Inr: "compile_rule eng i item = Inr r \<longleftrightarrow> compiles_to eng item r"
  by (auto simp: compile_rule_def compiles_to_def split: sum.splits)

lemma compile_rules_ok:
  "compile_rules eng i items = ([], rules) \<longleftrightarrow> list_all2 (compiles_to eng) items rules"
proof (induction eng i items arbitrary: rules rule: compile_rules.induct)
  case (2 eng i item items)
  obtain iss rs where c: "compile_rules eng (Suc i) items = (iss, rs)"
    by (cases "compile_rules eng (Suc i) items")
  show ?case
  proof (cases "compile_rule eng i item")
    case (Inl x)
    then have "\<not> compiles_to eng item r" for r using compile_rule_Inr [of eng i item r] by simp
    with c Inl show ?thesis by (auto simp: list_all2_Cons1)
  next
    case (Inr r)
    then have r: "compiles_to eng item r' \<longleftrightarrow> r' = r" for r'
      using compile_rule_Inr [of eng i item r'] by auto
    with c Inr "2.IH" show ?thesis by (auto simp: list_all2_Cons1)
  qed
qed auto

text \<open>A result is an object, stored as the text that \<open>json.Marshal\<close> gives for its value.\<close>

definition object_result :: "json option \<Rightarrow> string \<Rightarrow> bool" where
  "object_result raw text \<longleftrightarrow>
     (\<exists>kvs m. raw = Some (JObj kvs) \<and> decode_any (JObj kvs) = Some (GMap m) \<and> text = marshal_any (GMap m))"

lemma decode_object: "decode_any (JObj kvs) = Some x \<Longrightarrow> \<exists>m. x = GMap m"
  by (auto simp: Let_def split: if_splits)

lemma object_result_canonical: "validJSONObject raw \<Longrightarrow> object_result raw (canonicalJSON raw)"
  using decode_object
  by (fastforce simp: validJSONObject_def canonicalJSON_def object_result_def simp del: decode_any.simps marshal_any.simps
      split: option.splits json.splits)

text \<open>What a rule of the document and the compiled rule in its place have to do with each other.\<close>

definition faithful_rule :: "('c, 'p) cel_engine \<Rightarrow> DefinitionRule \<Rightarrow> 'p compiledRule \<Rightarrow> bool" where
  "faithful_rule eng item r \<longleftrightarrow>
     cr_name r = dr_Name item \<and> TrimSpace (dr_Name item) \<noteq> [] \<and>
     TrimSpace (dr_Condition item) \<noteq> [] \<and> length (dr_Condition item) \<le> 4096 \<and>
     (\<exists>ast. cel_compile eng (dr_Condition item) = Inr ast \<and> cel_is_bool eng ast \<and>
        cel_program eng ast = Inr (cr_program r)) \<and>
     object_result (dr_Result item) (cr_result r)"

lemma compiled_faithful: "compiles_to eng item r \<Longrightarrow> rule_ok item \<Longrightarrow> faithful_rule eng item r"
  by (simp add: compiles_to_def rule_ok_def faithful_rule_def object_result_canonical maxExpressionBytes_def)

text \<open>C14. A definition that compiles is one JSON document with between 1 and 100 rules, and its compiled
  rules are those of the document, one for one and in its order: each keeps the name, which is not
  blank and differs from the other names after trimming, runs the program of its condition, which is
  at most 4096 bytes long and type-checked as a boolean, and has for result the canonical text of its
  result, an object; the default result is the canonical text of an object too; and the checksum is
  the 64-digit SHA-256 of the canonical text of the document.\<close>

theorem compiled_shape:
  assumes "CompileDefinition eng raw = Inr c"
  shows "\<exists>v rest d. decode_first raw = Some (v, rest) \<and> at_eof rest \<and> decode_definition v = Some d \<and>
    1 \<le> length (def_Rules d) \<and> length (def_Rules d) \<le> 100 \<and>
    distinct (map (\<lambda>item. TrimSpace (dr_Name item)) (def_Rules d)) \<and>
    list_all2 (faithful_rule eng) (def_Rules d) (cd_rules c) \<and>
    object_result (def_DefaultResult d) (cd_defaultResult c) \<and>
    cd_canonicalJSON c = marshal_definition d \<and>
    cd_checksum c = sha256_hex (cd_canonicalJSON c) \<and> length (cd_checksum c) = 64"
proof -
  from assms obtain v rest d where doc: "decode_first raw = Some (v, rest)" "at_eof rest" "decode_definition v = Some d"
    and shape: "validateShape d = []" and r: "compile_rules eng 0 (def_Rules d) = ([], cd_rules c)"
    and s: "cd_canonicalJSON c = marshal_definition d" "cd_checksum c = sha256_hex (marshal_definition d)"
      "cd_defaultResult c = canonicalJSON (def_DefaultResult d)"
    by (rule compile_InrE) auto
  note ok = shape [unfolded validateShape_ok]
  then have "list_all rule_ok (def_Rules d)" by blast
  moreover from r have "list_all2 (compiles_to eng) (def_Rules d) (cd_rules c)" by (simp add: compile_rules_ok)
  ultimately have "list_all2 (faithful_rule eng) (def_Rules d) (cd_rules c)"
    by (simp add: list_all2_conv_all_nth list_all_length compiled_faithful)
  with doc ok s show ?thesis
    by (intro exI [of _ v] exI [of _ rest] exI [of _ d])
      (simp add: maxRules_def length_sha256_hex Suc_le_eq object_result_canonical)
qed

lemma compiled_shape_witness:
  "map cr_name (cd_rules demo_compiled) = [''a'', ''b''] \<and> object_result (Some (JObj [])) (cd_defaultResult demo_compiled) \<and>
   list_all2 (faithful_rule demo_engine) (def_Rules demo_definition) (cd_rules demo_compiled)"
proof -
  from compiled_shape [OF demo_compiles] have "object_result (def_DefaultResult demo_definition) (cd_defaultResult demo_compiled)"
    "list_all2 (faithful_rule demo_engine) (def_Rules demo_definition) (cd_rules demo_compiled)"
    by (auto simp: demo_decode demo_definition)
  then show ?thesis by (simp add: demo_definition_def) (simp add: demo_compiled_def)
qed

section \<open>Decoding keeps texts readable\<close>

text \<open>Every string of a decoded definition is valid UTF-8 and every raw message is a well-formed
  tree that leaves room for the three levels around it.\<close>

definition raw_ok :: "nat \<Rightarrow> json option \<Rightarrow> bool" where
  "raw_ok n raw \<longleftrightarrow> (case raw of None \<Rightarrow> True | Some v \<Rightarrow> wf_json v \<and> json_depth v + n \<le> max_depth)"

definition rule_read :: "DefinitionRule \<Rightarrow> bool" where
  "rule_read r \<longleftrightarrow> valid_utf8 (dr_Name r) \<and> valid_utf8 (dr_Condition r) \<and> raw_ok 3 (dr_Result r)"

definition json_ok :: "nat \<Rightarrow> json \<Rightarrow> bool" where
  "json_ok n v \<longleftrightarrow> wf_json v \<and> json_depth v + n \<le> max_depth"

lemma member_foldr_max: "x \<in> set xs \<Longrightarrow> x \<le> foldr max xs (0 :: nat)"
  using foldr_max_le [of xs "foldr max xs 0"] by blast

lemma json_ok_obj: "json_ok n (JObj kvs) \<Longrightarrow> (k, v) \<in> set kvs \<Longrightarrow> wf_raw k \<and> json_ok (Suc n) v"
  using member_foldr_max [of "json_depth v" "map (\<lambda>(k, v). json_depth v) kvs"]
  by (force simp: json_ok_def list_all_iff)

lemma json_ok_arr: "json_ok n (JArr vs) \<Longrightarrow> v \<in> set vs \<Longrightarrow> json_ok (Suc n) v"
  using member_foldr_max [of "json_depth v" "map json_depth vs"]
  by (auto simp: json_ok_def list_all_iff)

lemma fold_option_inv:
  "fold_option f xs b = Some b' \<Longrightarrow> P b \<Longrightarrow>
     (\<And>x b b'. x \<in> set xs \<Longrightarrow> P b \<Longrightarrow> f x b = Some b' \<Longrightarrow> P b') \<Longrightarrow> P b'"
proof (induction xs arbitrary: b)
  case (Cons x xs)
  then obtain c where c: "f x b = Some c" "fold_option f xs c = Some b'"
    by (auto split: option.split_asm)
  with Cons.prems have "P c" by (meson list.set_intros(1))
  with Cons c(2) show ?case by (meson list.set_intros(2))
qed simp

lemma decode_string_read:
  "decode_string old v = Some s \<Longrightarrow> valid_utf8 old \<Longrightarrow> json_ok n v \<Longrightarrow> valid_utf8 s"
  by (cases v) (auto simp: json_ok_def valid_unquote)

lemma decode_rule_member_read:
  "decode_rule_member (k, v) r = Some r' \<Longrightarrow> rule_read r \<Longrightarrow> json_ok 3 v \<Longrightarrow> rule_read r'"
  by (auto simp: decode_rule_member_def rule_read_def raw_ok_def json_ok_def
      split: option.split_asm if_split_asm intro: decode_string_read [where n = 3, unfolded json_ok_def])

lemma decode_rule_read: "decode_rule v r = Some r' \<Longrightarrow> rule_read r \<Longrightarrow> json_ok 2 v \<Longrightarrow> rule_read r'"
proof (cases v)
  case (JObj kvs)
  assume "decode_rule v r = Some r'" "rule_read r" and j: "json_ok 2 v"
  then show ?thesis
  proof (simp add: JObj, elim fold_option_inv)
    fix kv r r' assume "kv \<in> set kvs" "rule_read r" "decode_rule_member kv r = Some r'"
    moreover from this have "json_ok 3 (snd kv)"
      using json_ok_obj [of 2 kvs "fst kv" "snd kv"] j JObj by simp
    ultimately show "rule_read r'" using decode_rule_member_read [of "fst kv" "snd kv"] by simp
  qed
qed simp_all

lemma zero_rule_read: "rule_read zero_rule"
  by (simp add: rule_read_def zero_rule_def raw_ok_def)

lemma decode_slots_read:
  "decode_slots vs slots = Some rs \<Longrightarrow> list_all rule_read slots \<Longrightarrow> \<forall>v \<in> set vs. json_ok 2 v \<Longrightarrow>
     list_all rule_read rs"
proof (induction vs slots arbitrary: rs rule: decode_slots.induct)
  case (2 v vs slots)
  then obtain r rs' where r: "decode_rule v (case slots of [] \<Rightarrow> zero_rule | r # _ \<Rightarrow> r) = Some r"
    and rs': "decode_slots vs (tl slots) = Some rs'" and rs: "rs = r # rs'"
    by (auto split: option.split_asm)
  have "rule_read (case slots of [] \<Rightarrow> zero_rule | r # _ \<Rightarrow> r)"
    using "2.prems"(2) zero_rule_read by (cases slots) simp_all
  with r "2.prems"(3) have "rule_read r" by (auto intro: decode_rule_read)
  moreover have "list_all rule_read (tl slots)" using "2.prems"(2) by (cases slots) simp_all
  with "2.IH" [OF r rs'] "2.prems"(3) have "list_all rule_read rs'" by simp
  ultimately show ?case using rs by simp
qed simp

definition decoder_ok :: "decoder \<Rightarrow> bool" where
  "decoder_ok d \<longleftrightarrow> list_all rule_read (def_Rules (dec_definition d)) \<and> list_all rule_read (dec_slots d) \<and>
     raw_ok 1 (def_DefaultResult (dec_definition d))"

lemma decode_rules_ok:
  "decode_rules v d = Some d' \<Longrightarrow> decoder_ok d \<Longrightarrow> json_ok 1 v \<Longrightarrow> decoder_ok d'"
proof (cases v)
  case (JArr vs)
  assume a: "decode_rules v d = Some d'" "decoder_ok d" "json_ok 1 v"
  show ?thesis
  proof (cases "vs = []")
    case True
    with a JArr show ?thesis by (auto simp: decoder_ok_def)
  next
    case False
    with a JArr obtain rs where rs: "decode_slots vs (dec_slots d) = Some rs"
      and d': "d' = d\<lparr>dec_definition := (dec_definition d)\<lparr>def_Rules := rs\<rparr>,
               dec_slots := rs @ drop (length vs) (dec_slots d)\<rparr>" by auto
    have "list_all rule_read rs"
      using decode_slots_read [OF rs] a JArr json_ok_arr [of 1 vs] by (simp add: decoder_ok_def numeral_2_eq_2)
    then show ?thesis using a d' by (auto simp: decoder_ok_def list_all_iff dest: in_set_dropD)
  qed
qed (auto simp: decoder_ok_def)

lemma decode_member_ok:
  "decode_member (k, v) d = Some d' \<Longrightarrow> decoder_ok d \<Longrightarrow> json_ok 1 v \<Longrightarrow> decoder_ok d'"
  by (auto simp: decode_member_def split: option.split_asm if_split_asm dest: decode_rules_ok)
    (auto simp: decoder_ok_def raw_ok_def json_ok_def)

lemma decode_definition_read:
  assumes "decode_definition v = Some d" and "json_ok 0 v"
  shows "list_all rule_read (def_Rules d) \<and> raw_ok 1 (def_DefaultResult d)"
proof (cases v)
  case (JObj kvs)
  with assms(1) obtain dd where dd: "fold_option decode_member kvs
      \<lparr>dec_definition = zero_definition, dec_slots = []\<rparr> = Some dd" and d: "d = dec_definition dd" by auto
  have "decoder_ok dd"
  proof (rule fold_option_inv [OF dd])
    show "decoder_ok \<lparr>dec_definition = zero_definition, dec_slots = []\<rparr>"
      by (simp add: decoder_ok_def zero_definition_def raw_ok_def)
    fix kv x y assume "kv \<in> set kvs" "decoder_ok x" "decode_member kv x = Some y"
    moreover from this have "json_ok 1 (snd kv)"
      using json_ok_obj [of 0 kvs "fst kv" "snd kv"] assms(2) JObj by simp
    ultimately show "decoder_ok y" using decode_member_ok [of "fst kv" "snd kv"] by simp
  qed
  with d show ?thesis by (simp add: decoder_ok_def)
qed (use assms in \<open>auto simp: zero_definition_def raw_ok_def\<close>)

section \<open>The canonical text\<close>

text \<open>The syntax tree the canonical text is the printing of.\<close>

definition raw_json :: "json option \<Rightarrow> json" where
  "raw_json raw = (case raw of None \<Rightarrow> JNull | Some v \<Rightarrow> escape_json v)"

definition rule_json :: "DefinitionRule \<Rightarrow> json" where
  "rule_json r = JObj [(quote ''name'', JStr (quote (dr_Name r))),
     (quote ''condition'', JStr (quote (dr_Condition r))), (quote ''result'', raw_json (dr_Result r))]"

definition definition_json :: "Definition \<Rightarrow> json" where
  "definition_json d = JObj [(quote ''rules'', JArr (map rule_json (def_Rules d))),
     (quote ''default_result'', raw_json (def_DefaultResult d))]"

lemma print_raw_json: "print_json (raw_json raw) = marshal_raw raw"
  by (simp add: raw_json_def marshal_raw_def split: option.split)

lemma print_rule_json: "print_json (rule_json r) = marshal_rule r"
  by (simp add: rule_json_def marshal_rule_def quoted_def print_raw_json)

lemma print_definition_json: "print_json (definition_json d) = marshal_definition d"
  by (simp add: definition_json_def marshal_definition_def quoted_def print_raw_json
      print_rule_json comp_def)

lemma valid_utf8_ascii_list: "list_all (\<lambda>c. byte c < 128) s \<Longrightarrow> valid_utf8 s"
  by (induction s) (simp_all add: valid_utf8_Cons)

lemma field_names_valid: "valid_utf8 ''name''" "valid_utf8 ''condition''" "valid_utf8 ''result''"
    "valid_utf8 ''rules''" "valid_utf8 ''default_result''"
  by (rule valid_utf8_ascii_list, simp add: byte_def)+

lemma raw_json_ok: "raw_ok n raw \<Longrightarrow> n \<le> max_depth \<Longrightarrow> json_ok n (raw_json raw)"
  by (auto simp: raw_ok_def raw_json_def json_ok_def wf_escape_json depth_escape_json split: option.split_asm)

lemma rule_json_ok:
  assumes "rule_read r"
  shows "json_ok 2 (rule_json r)"
proof -
  have "json_ok 3 (raw_json (dr_Result r))"
    using assms by (intro raw_json_ok) (simp_all add: rule_read_def max_depth_def)
  then show ?thesis
    using assms by (simp add: rule_read_def json_ok_def rule_json_def wf_quote field_names_valid)
qed

lemma definition_json_ok:
  assumes "list_all rule_read (def_Rules d)" and "raw_ok 1 (def_DefaultResult d)"
  shows "wf_json (definition_json d) \<and> json_depth (definition_json d) \<le> max_depth"
proof -
  have r: "\<forall>r \<in> set (def_Rules d). json_ok 2 (rule_json r)"
    using assms(1) rule_json_ok by (simp add: list_all_iff)
  have "json_ok 1 (raw_json (def_DefaultResult d))"
    using assms(2) by (intro raw_json_ok) (simp_all add: max_depth_def)
  moreover have "foldr max (map json_depth (map rule_json (def_Rules d))) 0 \<le> max_depth - 2"
    using r by (auto simp: foldr_max_le json_ok_def)
  moreover have "list_all wf_json (map rule_json (def_Rules d))"
    using r by (simp add: list_all_iff json_ok_def)
  ultimately show ?thesis
    by (simp add: definition_json_def json_ok_def wf_quote field_names_valid max_depth_def)
qed

text \<open>Decoding it gives the definition back, with escaped raw messages.\<close>

definition escape_rule :: "DefinitionRule \<Rightarrow> DefinitionRule" where
  "escape_rule r = r\<lparr>dr_Result := Some (raw_json (dr_Result r))\<rparr>"

definition escape_definition :: "Definition \<Rightarrow> Definition" where
  "escape_definition d =
     \<lparr>def_Rules = map escape_rule (def_Rules d), def_DefaultResult = Some (raw_json (def_DefaultResult d))\<rparr>"

lemma decode_rule_json: "rule_read r \<Longrightarrow> decode_rule (rule_json r) zero_rule = Some (escape_rule r)"
  by (cases r) (simp add: rule_json_def decode_rule_member_def field_of_def unquote_quote
      field_names_valid rule_read_def escape_rule_def zero_rule_def)

lemma decode_slots_json:
  "list_all rule_read rs \<Longrightarrow> decode_slots (map rule_json rs) [] = Some (map escape_rule rs)"
  by (induction rs) (simp_all add: decode_rule_json)

lemma decode_definition_json:
  assumes "list_all rule_read (def_Rules d)" and "def_Rules d \<noteq> []"
  shows "decode_definition (definition_json d) = Some (escape_definition d)"
  using assms by (simp add: definition_json_def decode_member_def field_of_def unquote_quote
      field_names_valid decode_slots_json zero_definition_def escape_definition_def)

lemma valid_raw_json: "validJSONObject raw \<Longrightarrow> raw_ok n raw \<Longrightarrow> validJSONObject (Some (raw_json raw))"
proof -
  assume v: "validJSONObject raw" and r: "raw_ok n raw"
  then obtain kvs where k: "raw = Some (JObj kvs)" and d: "decode_any (JObj kvs) \<noteq> None"
    by (auto simp: validJSONObject_def split: option.split_asm json.split_asm)
  from r k have "wf_json (JObj kvs)" by (simp add: raw_ok_def)
  with d have "decode_any (escape_json (JObj kvs)) \<noteq> None" by (simp only: decode_any_escape not_False_eq_True)
  with k show ?thesis by (simp add: validJSONObject_def raw_json_def)
qed

lemma canonical_raw_json: "raw_ok n raw \<Longrightarrow> validJSONObject raw \<Longrightarrow> canonicalJSON (Some (raw_json raw)) = canonicalJSON raw"
  by (auto simp: raw_ok_def raw_json_def canonicalJSON_def decode_any_escape validJSONObject_def
      split: option.split_asm simp del: decode_any.simps)

lemma marshal_escape_raw: "marshal_raw (Some (raw_json raw)) = marshal_raw raw"
  by (simp add: marshal_raw_def raw_json_def escape_json_idem split: option.split)

lemma marshal_escape_rule: "marshal_rule (escape_rule r) = marshal_rule r"
  by (simp add: marshal_rule_def escape_rule_def marshal_escape_raw)

lemma marshal_escape: "marshal_definition (escape_definition d) = marshal_definition d"
  by (simp add: marshal_definition_def escape_definition_def marshal_escape_raw
      marshal_escape_rule comp_def)

text \<open>What a compiled definition says is a function of its canonical text.\<close>

lemma canonical_form:
  assumes "CompileDefinition eng raw = Inr c"
  obtains v d where "decode_first (cd_canonicalJSON c) = Some (v, [])" "decode_definition v = Some d"
    "validateShape d = []" "cel_new_env eng = None" "compile_rules eng 0 (def_Rules d) = ([], cd_rules c)"
    "marshal_definition d = cd_canonicalJSON c" "cd_defaultResult c = canonicalJSON (def_DefaultResult d)"
    "cd_checksum c = sha256_hex (cd_canonicalJSON c)"
proof -
  from assms obtain v rest d rules where v: "decode_first raw = Some (v, rest)"
    and d: "decode_definition v = Some d" and s: "validateShape d = []" and e: "cel_new_env eng = None"
    and r: "compile_rules eng 0 (def_Rules d) = ([], rules)"
    and c: "c = \<lparr>cd_rules = rules, cd_defaultResult = canonicalJSON (def_DefaultResult d),
          cd_canonicalJSON = marshal_definition d, cd_checksum = sha256_hex (marshal_definition d)\<rparr>"
    by (rule compile_InrE)
  note ok = s [unfolded validateShape_ok]
  have read: "list_all rule_read (def_Rules d)" "raw_ok 1 (def_DefaultResult d)"
    using decode_definition_read [OF d] decode_first_sound [OF v] by (simp_all add: json_ok_def)
  let ?d = "escape_definition d"
  have "decode_first (marshal_definition d) = Some (definition_json d, [])"
    using decode_first_print [of "definition_json d" "[]"] definition_json_ok [OF read]
    by (simp add: print_definition_json)
  moreover have "list_all rule_ok (map escape_rule (def_Rules d))"
    using ok read(1) by (auto simp: list_all_iff rule_ok_def escape_rule_def rule_read_def intro: valid_raw_json)
  then have "validateShape ?d = []"
    using ok read(2) unfolding validateShape_ok escape_definition_def
    by (auto simp: comp_def escape_rule_def intro: valid_raw_json)
  moreover have "list_all2 (compiles_to eng) (map escape_rule (def_Rules d)) rules"
    using r [unfolded compile_rules_ok] ok read(1) unfolding list_all2_map1
    by (auto simp: compiles_to_def escape_rule_def list_all_iff rule_read_def rule_ok_def canonical_raw_json
        elim!: list.rel_mono_strong)
  then have "compile_rules eng 0 (def_Rules ?d) = ([], rules)"
    by (simp add: compile_rules_ok escape_definition_def)
  moreover have "canonicalJSON (def_DefaultResult ?d) = canonicalJSON (def_DefaultResult d)"
    using canonical_raw_json [OF read(2)] ok by (simp add: escape_definition_def)
  ultimately show thesis
    using decode_definition_json [OF read(1)] ok e c
    by (intro that [of "definition_json d" ?d]) (simp_all add: marshal_escape)
qed

lemma canonical_unique:
  assumes "CompileDefinition eng raw = Inr c" and "CompileDefinition eng raw' = Inr c'"
    and "cd_canonicalJSON c = cd_canonicalJSON c'"
  shows "c = c'"
proof -
  from assms(1) obtain v d where 1: "decode_first (cd_canonicalJSON c) = Some (v, [])" "decode_definition v = Some d"
    "compile_rules eng 0 (def_Rules d) = ([], cd_rules c)" "cd_defaultResult c = canonicalJSON (def_DefaultResult d)"
    "cd_checksum c = sha256_hex (cd_canonicalJSON c)"
    by (rule canonical_form) blast
  from assms(2) obtain v' d' where 2: "decode_first (cd_canonicalJSON c') = Some (v', [])" "decode_definition v' = Some d'"
    "compile_rules eng 0 (def_Rules d') = ([], cd_rules c')" "cd_defaultResult c' = canonicalJSON (def_DefaultResult d')"
    "cd_checksum c' = sha256_hex (cd_canonicalJSON c')"
    by (rule canonical_form) blast
  from 1 2 assms(3) show ?thesis by (cases c; cases c') simp
qed

lemma canonical_fixed:
  assumes "CompileDefinition eng raw = Inr c" and "length (cd_canonicalJSON c) \<le> 262144"
  shows "CompileDefinition eng (cd_canonicalJSON c) = Inr c"
proof -
  from assms(1) obtain v d where f: "decode_first (cd_canonicalJSON c) = Some (v, [])" "decode_definition v = Some d"
    "validateShape d = []" "cel_new_env eng = None" "compile_rules eng 0 (def_Rules d) = ([], cd_rules c)"
    "marshal_definition d = cd_canonicalJSON c" "cd_defaultResult c = canonicalJSON (def_DefaultResult d)"
    "cd_checksum c = sha256_hex (cd_canonicalJSON c)"
    by (rule canonical_form)
  have "cd_canonicalJSON c \<noteq> []" by (simp add: f(6) [symmetric] marshal_definition_def)
  with assms(2) show ?thesis
    using compile_InrI [OF _ _ f(1,2) _ f(3-5)] f(6-8)
    by (cases c) (simp add: maxDefinitionBytes_def at_eof_def skip_ws_def)
qed

text \<open>C9. The canonical text is a fixed point: compiling it again gives the same rules, results,
  canonical text and checksum, so a stored version recompiles to what was created (as long as the
  canonical text, which HTML escaping may lengthen, still has at most 256 KiB).\<close>

theorem canonical_recompiles:
  assumes "CompileDefinition eng raw = Inr c" and "length (cd_canonicalJSON c) \<le> 262144"
  shows "CompileDefinition eng (cd_canonicalJSON c) = Inr c"
  by (rule canonical_fixed [OF assms])

lemma canonical_recompiles_witness:
  "CompileDefinition demo_engine (cd_canonicalJSON demo_compiled) = Inr demo_compiled"
  by (rule canonical_recompiles [OF demo_compiles]) (simp add: demo_compiled_def demo_size)

section \<open>Evaluation\<close>

lemma eval_rules_Inr:
  "eval_rules eng c facts items dflt = Inr ev \<longleftrightarrow>
     (\<exists>i < length items. (\<forall>j < i. cel_eval eng c (cr_program (items ! j)) facts = Inr (CelBool False)) \<and>
        cel_eval eng c (cr_program (items ! i)) facts = Inr (CelBool True) \<and>
        ev = \<lparr>Matched = True, MatchedRule = cr_name (items ! i), ResultJSON = cr_result (items ! i)\<rparr>) \<or>
     ((\<forall>j < length items. cel_eval eng c (cr_program (items ! j)) facts = Inr (CelBool False)) \<and>
        ev = \<lparr>Matched = False, MatchedRule = [], ResultJSON = dflt\<rparr>)"
proof (induction items)
  case (Cons item items)
  show ?case
    by (cases "cel_eval eng c (cr_program item) facts")
      (auto simp: Cons.IH Ex_less_Suc2 All_less_Suc2 split: cel_value.split)
qed auto

text \<open>C10. First match wins: an evaluation that succeeds reports the first rule, in document order,
  whose condition holds of the facts, all earlier conditions having been evaluated to false; and the
  default result exactly when every condition is false. The facts had between 1 byte and 256 KiB and
  start with a JSON object.\<close>

theorem evaluate_first_match:
  "EvaluateDefinition eng c definition factsJSON = Inr ev \<longleftrightarrow>
     ctx_err c = None \<and> 0 < length factsJSON \<and> length factsJSON \<le> 262144 \<and>
     (\<exists>facts. decode_facts factsJSON = Some facts \<and>
       (let rules = cd_rules definition; holds = (\<lambda>i. cel_eval eng c (cr_program (rules ! i)) facts) in
        (\<exists>i < length rules. (\<forall>j < i. holds j = Inr (CelBool False)) \<and> holds i = Inr (CelBool True) \<and>
           ev = \<lparr>Matched = True, MatchedRule = cr_name (rules ! i), ResultJSON = cr_result (rules ! i)\<rparr>) \<or>
        ((\<forall>j < length rules. holds j = Inr (CelBool False)) \<and>
           ev = \<lparr>Matched = False, MatchedRule = [], ResultJSON = cd_defaultResult definition\<rparr>)))"
  unfolding EvaluateDefinition_def Let_def
  by (auto simp: maxFactsBytes_def eval_rules_Inr not_less split: option.split)

lemma evaluate_first_match_witness:
  "\<exists>i < length (cd_rules demo_compiled). cr_name (cd_rules demo_compiled ! i) = ''b'' \<and>
     (\<forall>j < i. cel_eval demo_engine demo_ctx (cr_program (cd_rules demo_compiled ! j)) (GMap []) = Inr (CelBool False))"
proof -
  from evaluate_first_match [THEN iffD1, OF demo_evaluates] obtain i where
    "i < length (cd_rules demo_compiled)"
    "\<forall>j < i. cel_eval demo_engine demo_ctx (cr_program (cd_rules demo_compiled ! j)) (GMap []) = Inr (CelBool False)"
    "''b'' = cr_name (cd_rules demo_compiled ! i)"
    by (auto simp: Let_def demo_facts)
  then show ?thesis by auto
qed

end
