(* ===== verification/ServiceLaws.thy ===== *)
theory ServiceLaws
  imports DbInvariant EngineLaws
begin

text \<open>
  What each operation of the service does to its state, seen from outside: the state it leaves when it
  fails, and the statements that ran when it succeeds. These are the inversion rules the properties of
  the lifecycle are proved with.
\<close>

section \<open>Control flow\<close>

lemma andThen_simps [simp]: "andThen (Inl e) k s = (Inl e, s)" "andThen (Inr x) k s = k x s"
  by (simp_all add: andThen_def)

lemma andThen_cases:
  "andThen r k s = (out, s') \<Longrightarrow> (\<exists>e. r = Inl e \<and> out = Inl e \<and> s' = s) \<or> (\<exists>x. r = Inr x \<and> k x s = (out, s'))"
  by (cases r) auto

lemma andThen_Inr: "andThen r k s = (Inr y, s') \<longleftrightarrow> (\<exists>x. r = Inr x \<and> k x s = (Inr y, s'))"
  by (cases r) auto

lemma require_Inr [simp]: "require b e = Inr u \<longleftrightarrow> b"
  by (simp add: require_def)

lemma map_error_Inr [simp]: "map_error f r = Inr x \<longleftrightarrow> r = Inr x"
  by (auto simp: map_error_def split: sum.splits)

lemma map_sum_Inr: "map_sum f g r = Inr y \<longleftrightarrow> (\<exists>x. r = Inr x \<and> y = g x)"
    "Inr y = map_sum f g r \<longleftrightarrow> (\<exists>x. r = Inr x \<and> y = g x)"
  by (cases r; auto)+

text \<open>The shape of a state change: the cache as it was, the tables as they were or as a body left them.\<close>

definition ran :: "(rule_db \<Rightarrow> (go_error + 'a) \<times> rule_db) \<Rightarrow> 'p svc_state \<Rightarrow> 'p svc_state \<Rightarrow> bool" where
  "ran fn s s' \<longleftrightarrow> (\<exists>x. fn (s_db s) = (Inr x, s_db s')) \<and> s_compiled s' = s_compiled s"

lemma svc_state_eq: "s_db s' = s_db s \<Longrightarrow> s_compiled s' = s_compiled s \<Longrightarrow> s' = (s :: 'p svc_state)"
  by simp

lemma run_tx_cases: "run_tx E fn s = (r, s') \<Longrightarrow> s' = s \<or> ran fn s s'"
  using run_tx_db [of E fn s r s'] svc_state_eq [of s' s] by (auto simp: ran_def)

lemma authorize_Inr: "authorize c t = Inr actor \<Longrightarrow> \<exists>p. ctx_principal c = Some p \<and> actor = p_ID p \<and>
    (p_Type p = TypeServiceAccount \<or> p_Type p = TypeSystem \<or> p_TenantID p = TrimSpace t \<and> p_TenantID p \<noteq> [])"
  by (auto simp: authorize_def split: option.splits if_splits)

section \<open>Rule sets\<close>

definition new_set :: "RuleSet \<Rightarrow> bool" where
  "new_set value \<longleftrightarrow> ruleCodePattern (rs_Code value) \<and> rs_Name value \<noteq> [] \<and>
     TrimSpace (rs_TenantID value) = rs_TenantID value \<and> rs_Status value = ''draft'' \<and>
     rs_PublishedVersionNumber value = 0 \<and> Version (rs_Audit value) = 1"

lemma CreateRuleSet_run:
  assumes "CreateRuleSet E c t a code name d s = (r, s')"
  shows "(s' = s \<and> (\<exists>e. r = Inl e)) \<or>
    (\<exists>actor x r2. authorize c t = Inr actor \<and> verifyApplication E (TrimSpace t) (TrimSpace a) = Inr () \<and>
       x = new_rule_set E actor (TrimSpace t) (TrimSpace a) (ToLower (e_uni E) (TrimSpace code)) (TrimSpace name) d \<and>
       new_set x \<and> run_tx E (sql_CreateRuleSet (e_db E) x) s = (r2, s') \<and> r = map_sum id (\<lambda>_. x) r2)"
proof -
  consider (fail) e where "r = Inl e" "s' = s"
    | (go) actor x where "authorize c t = Inr actor" "verifyApplication E (TrimSpace t) (TrimSpace a) = Inr ()"
       "x = new_rule_set E actor (TrimSpace t) (TrimSpace a) (ToLower (e_uni E) (TrimSpace code)) (TrimSpace name) d"
       "ruleCodePattern (ToLower (e_uni E) (TrimSpace code))" "TrimSpace name \<noteq> []"
       "(case run_tx E (sql_CreateRuleSet (e_db E) x) s of (r, s2) \<Rightarrow> (map_sum id (\<lambda>_. x) r, s2)) = (r, s')"
    using assms unfolding CreateRuleSet_def Let_def
    by (elim andThen_cases [elim_format] disjE exE conjE) simp_all
  then show ?thesis
  proof cases
    case go
    then have n: "new_set x" by (simp add: new_set_def new_rule_set_def newAudit_def TrimSpace_idem)
    obtain r2 s2 where "run_tx E (sql_CreateRuleSet (e_db E) x) s = (r2, s2)" by (meson surj_pair)
    with go(6) have "run_tx E (sql_CreateRuleSet (e_db E) x) s = (r2, s')" "r = map_sum id (\<lambda>_. x) r2" by simp_all
    with go(1-3) n show ?thesis by blast
  qed blast
qed

lemma CreateRuleSet_cases:
  "CreateRuleSet E c t a code name d s = (r, s') \<Longrightarrow>
     s' = s \<or> (\<exists>x. new_set x \<and> ran (sql_CreateRuleSet (e_db E) x) s s')"
  using CreateRuleSet_run [of E c t a code name d s r s'] run_tx_cases by blast

lemma CreateRuleSet_Inr:
  assumes "CreateRuleSet E c t a code name d s = (Inr x, s')"
  shows "sql_CreateRuleSet (e_db E) x (s_db s) = (Inr (), s_db s')" and "new_set x"
    and "rs_TenantID x = TrimSpace t" and "rs_ApplicationID x = TrimSpace a"
    and "rs_ID x = e_uuid E" and "s_compiled s' = s_compiled s"
  using CreateRuleSet_run [OF assms]
  by (auto simp: map_sum_Inr new_rule_set_def dest!: run_tx_Inr)

definition legal_update :: "RuleSet \<Rightarrow> bool" where
  "legal_update value \<longleftrightarrow> rs_Name value \<noteq> [] \<and> rs_Status value \<in> {''draft'', ''active'', ''disabled''}"

lemma update_prepare_cases:
  "update_prepare E c t a i name d st e s = (r, s') \<Longrightarrow> s' = s"
  unfolding update_prepare_def Let_def
  by (elim andThen_cases [elim_format] disjE exE conjE; simp)

lemma update_prepare_Inr:
  "update_prepare E c t a i name d st e s = (Inr value, s') \<Longrightarrow>
     legal_update value \<and> 1 \<le> e \<and> Version (rs_Audit value) = i64 (e + 1) \<and>
     (\<exists>r \<in> set (rule_sets (s_db s)). set_id value = set_id r \<and> rs_TenantID r = TrimSpace t)"
proof -
  assume "update_prepare E c t a i name d st e s = (Inr value, s')"
  then obtain actor r where r: "sql_GetRuleSet (e_db E) (TrimSpace t) (TrimSpace a) (TrimSpace i) [] (s_db s) = Inr r"
    and l: "TrimSpace name \<noteq> []" "1 \<le> e" "ToLower (e_uni E) (TrimSpace st) \<in> {''draft'', ''active'', ''disabled''}"
    and v: "value = r\<lparr>rs_Name := TrimSpace name, rs_Description := TrimSpace d,
        rs_Status := ToLower (e_uni E) (TrimSpace st),
        rs_Audit := (rs_Audit r)\<lparr>Version := i64 (e + 1), UpdatedAt := e_now E, UpdatedBy := actor\<rparr>\<rparr>"
    unfolding update_prepare_def Let_def by (auto simp: andThen_Inr)
  have "r \<in> set (rule_sets (s_db s))" "rs_TenantID r = TrimSpace t"
    using sql_GetRuleSet_Inr [OF r] by (simp_all add: in_app_def)
  moreover have "set_id value = set_id r" by (simp add: v set_id_def)
  moreover have "legal_update value" "Version (rs_Audit value) = i64 (e + 1)"
    using l by (simp_all add: v legal_update_def)
  ultimately show ?thesis using l(2) by blast
qed

lemma update_commit_cases:
  "update_commit E e value s = (r, s') \<Longrightarrow> s' = s \<or> ran (sql_UpdateRuleSet (e_db E) value e) s s'"
  unfolding update_commit_def by (auto split: prod.splits dest!: run_tx_cases)

lemma update_commit_Inr:
  "update_commit E e value s = (Inr value', s') \<Longrightarrow>
     value' = value \<and> sql_UpdateRuleSet (e_db E) value e (s_db s) = (Inr (), s_db s') \<and> s_compiled s' = s_compiled s"
  unfolding update_commit_def by (auto simp: map_sum_Inr split: prod.splits dest!: run_tx_Inr)

section \<open>Versions\<close>

lemma CreateRuleVersion_run:
  assumes "CreateRuleVersion E c t a rsid def key expected s = (r, s')"
  shows "(s' = s \<and> (\<exists>e. r = Inl e)) \<or>
    (\<exists>actor compiled x r2 s2. authorize c t = Inr actor \<and> verifyApplication E t a = Inr () \<and>
       CompileDefinition (e_engine E) def = Inr compiled \<and> TrimSpace rsid \<noteq> [] \<and> TrimSpace key \<noteq> [] \<and> 1 \<le> expected \<and>
       x = new_version E actor t a rsid compiled key \<and>
       run_tx E (sql_CreateRuleVersion (e_db E) x expected) s = (r2, s2) \<and>
       ((\<exists>e. r2 = Inl e \<and> r = Inl e \<and> s' = s2) \<or>
        (\<exists>v created. r2 = Inr (v, created) \<and> r = Inr (v, created) \<and> s' = store_compiled (rv_Checksum v) compiled s2)))"
proof -
  consider (fail) e where "r = Inl e" "s' = s"
    | (go) actor compiled x where "authorize c t = Inr actor" "verifyApplication E t a = Inr ()"
        "CompileDefinition (e_engine E) def = Inr compiled" "TrimSpace rsid \<noteq> []" "TrimSpace key \<noteq> []" "1 \<le> expected"
        "x = new_version E actor t a rsid compiled key"
        "(case run_tx E (sql_CreateRuleVersion (e_db E) x expected) s of
          (Inl e, s2) \<Rightarrow> (Inl e, s2)
        | (Inr (v, created), s2) \<Rightarrow> (Inr (v, created), store_compiled (rv_Checksum v) compiled s2)) = (r, s')"
    using assms unfolding CreateRuleVersion_def Let_def
    by (elim andThen_cases [elim_format] disjE exE conjE) simp_all
  then show ?thesis
  proof cases
    case go
    obtain r2 s2 where run: "run_tx E (sql_CreateRuleVersion (e_db E) x expected) s = (r2, s2)" by (meson surj_pair)
    with go(8) have "(\<exists>e. r2 = Inl e \<and> r = Inl e \<and> s' = s2) \<or>
        (\<exists>v created. r2 = Inr (v, created) \<and> r = Inr (v, created) \<and> s' = store_compiled (rv_Checksum v) compiled s2)"
      by (cases r2) auto
    with go(1-7) run show ?thesis by blast
  qed blast
qed

lemma new_version_simps [simp]:
  "rv_Status (new_version E ac t a i cd k) = ''draft''" "rv_PublishedAt (new_version E ac t a i cd k) = None"
  "rv_Checksum (new_version E ac t a i cd k) = cd_checksum cd"
  "rv_DefinitionJSON (new_version E ac t a i cd k) = cd_canonicalJSON cd"
  "rv_TenantID (new_version E ac t a i cd k) = TrimSpace t"
  "rv_ApplicationID (new_version E ac t a i cd k) = TrimSpace a"
  "rv_RuleSetID (new_version E ac t a i cd k) = TrimSpace i"
  "rv_IdempotencyKey (new_version E ac t a i cd k) = TrimSpace k"
  "rv_ID (new_version E ac t a i cd k) = e_uuid E" "rv_Audit (new_version E ac t a i cd k) = newAudit ac (e_now E)"
  by (simp_all add: new_version_def)

section \<open>Publication\<close>

lemma recompile_Inr: "recompile eng v = Inr cd \<longleftrightarrow>
    CompileDefinition eng (rv_DefinitionJSON v) = Inr cd \<and> cd_checksum cd = rv_Checksum v"
  by (auto simp: recompile_def split: sum.split)

lemma publish_prepare_cases:
  "publish_prepare E c t a i v re ve s = (r, s') \<Longrightarrow> s' = s"
  unfolding publish_prepare_def Let_def
  by (elim andThen_cases [elim_format] disjE exE conjE; simp)

definition plan_of :: "('c, 'p) svc_env \<Rightarrow> string \<Rightarrow> int \<Rightarrow> int \<Rightarrow> RuleSet \<Rightarrow> RuleVersion \<Rightarrow> 'p CompiledDefinition \<Rightarrow> 'p publish_plan" where
  "plan_of E actorID ruleSetExpected versionExpected ruleSet version compiled =
     \<lparr>pl_ruleSet = ruleSet\<lparr>rs_Status := ''active'', rs_PublishedVersionNumber := rv_VersionNumber version,
        rs_Audit := (rs_Audit ruleSet)\<lparr>Version := i64 (ruleSetExpected + 1), UpdatedAt := e_now E, UpdatedBy := actorID\<rparr>\<rparr>,
      pl_version = version\<lparr>rv_Status := ''published'', rv_PublishedAt := Some (e_now E),
        rv_Audit := (rv_Audit version)\<lparr>Version := i64 (versionExpected + 1), UpdatedAt := e_now E, UpdatedBy := actorID\<rparr>\<rparr>,
      pl_compiled = compiled, pl_actor = actorID\<rparr>"

lemma publish_prepare_Inr:
  assumes "publish_prepare E c t a i v re ve s = (Inr plan, s')"
  obtains actor ruleSet version compiled where
    "authorize c t = Inr actor" "1 \<le> re" "1 \<le> ve"
    "sql_GetRuleSet (e_db E) t a i [] (s_db s) = Inr ruleSet"
    "sql_GetRuleVersion (e_db E) t a i v 0 (s_db s) = Inr version"
    "rv_Status version = ''draft''" "CompileDefinition (e_engine E) (rv_DefinitionJSON version) = Inr compiled"
    "cd_checksum compiled = rv_Checksum version" "plan = plan_of E actor re ve ruleSet version compiled"
  using assms unfolding publish_prepare_def Let_def
  by (auto simp: andThen_Inr recompile_Inr plan_of_def)

lemma publish_commit_run:
  assumes "publish_commit E re ve plan s = (r, s')"
  obtains r2 s2 where "run_tx E (publish_tx E re ve plan) s = (r2, s2)"
    "(\<exists>e. r2 = Inl e \<and> r = Inl e \<and> s' = s2) \<or>
     (r2 = Inr () \<and> r = Inr (pl_ruleSet plan, pl_version plan) \<and>
      s' = store_compiled (rv_Checksum (pl_version plan)) (pl_compiled plan) s2)"
proof -
  obtain r2 s2 where run: "run_tx E (publish_tx E re ve plan) s = (r2, s2)" by (meson surj_pair)
  with assms have "(\<exists>e. r2 = Inl e \<and> r = Inl e \<and> s' = s2) \<or>
     (r2 = Inr () \<and> r = Inr (pl_ruleSet plan, pl_version plan) \<and>
      s' = store_compiled (rv_Checksum (pl_version plan)) (pl_compiled plan) s2)"
    by (cases r2) (auto simp: publish_commit_def)
  with run that show thesis by blast
qed

section \<open>Evaluation\<close>

lemma compiledDefinition_cases:
  assumes "compiledDefinition E v s = (r, s')"
  obtains (hit) cd where "s_compiled s (rv_Checksum v) = Some cd" "r = Inr cd" "s' = s"
  | (miss) cd where "s_compiled s (rv_Checksum v) = None" "CompileDefinition (e_engine E) (rv_DefinitionJSON v) = Inr cd"
      "cd_checksum cd = rv_Checksum v" "r = Inr cd" "s' = store_compiled (rv_Checksum v) cd s"
  | (bad) e where "s_compiled s (rv_Checksum v) = None" "r = Inl e" "s' = s"
  using assms unfolding compiledDefinition_def
  by (auto split: option.split_asm sum.split_asm if_split_asm)

lemma Evaluate_run:
  assumes "Evaluate E c t a i code n facts s = (r, s')"
  shows "(s' = s \<and> (\<exists>e. r = Inl e)) \<or>
    (\<exists>ruleSet version r2. authorize c t = Inr (p_ID (the (ctx_principal c))) \<and> verifyApplication E t a = Inr () \<and>
       sql_GetRuleSet (e_db E) (TrimSpace t) (TrimSpace a) (TrimSpace i) (ToLower (e_uni E) (TrimSpace code)) (s_db s) = Inr ruleSet \<and>
       rs_Status ruleSet = ''active'' \<and>
       sql_GetRuleVersion (e_db E) (rs_TenantID ruleSet) (rs_ApplicationID ruleSet) (rs_ID ruleSet) []
         (if n = 0 then rs_PublishedVersionNumber ruleSet else n) (s_db s) = Inr version \<and>
       rv_Status version = ''published'' \<and> compiledDefinition E version s = (r2, s') \<and>
       (case r2 of
          Inl err \<Rightarrow> r = Inl (Internal err)
        | Inr cd \<Rightarrow>
            (case EvaluateDefinition (e_engine E) c cd facts of
               Inl err \<Rightarrow> r = Inl (if errors_is err ErrInvalidDefinition then Invalid ''invalid facts'' (Some err) else Internal err)
             | Inr ev \<Rightarrow> r = Inr (ev, version))))"
proof -
  consider (fail) e where "r = Inl e" "s' = s"
    | (go) actor ruleSet version where "authorize c t = Inr actor" "verifyApplication E t a = Inr ()"
       "sql_GetRuleSet (e_db E) (TrimSpace t) (TrimSpace a) (TrimSpace i) (ToLower (e_uni E) (TrimSpace code)) (s_db s) = Inr ruleSet"
       "rs_Status ruleSet = ''active''"
       "sql_GetRuleVersion (e_db E) (rs_TenantID ruleSet) (rs_ApplicationID ruleSet) (rs_ID ruleSet) []
         (if n = 0 then rs_PublishedVersionNumber ruleSet else n) (s_db s) = Inr version"
       "rv_Status version = ''published''"
       "(case compiledDefinition E version s of
          (Inl err, s') \<Rightarrow> (Inl (Internal err), s')
        | (Inr compiled, s') \<Rightarrow>
            (case EvaluateDefinition (e_engine E) c compiled facts of
               Inl err \<Rightarrow>
                 (Inl (if errors_is err ErrInvalidDefinition then Invalid ''invalid facts'' (Some err)
                       else Internal err), s')
             | Inr evaluation \<Rightarrow> (Inr (evaluation, version), s'))) = (r, s')"
    using assms unfolding Evaluate_def Let_def
    by (elim andThen_cases [elim_format] disjE exE conjE) simp_all
  then show ?thesis
  proof cases
    case go
    have "actor = p_ID (the (ctx_principal c))" using authorize_Inr [OF go(1)] by auto
    moreover obtain r2 s2 where "compiledDefinition E version s = (r2, s2)" by (meson surj_pair)
    ultimately show ?thesis using go
      by (auto split: sum.splits)
  qed blast
qed

lemma Evaluate_Inr:
  assumes "Evaluate E c t a i code n facts s = (Inr (ev, v), s')"
  obtains ruleSet cd where
    "sql_GetRuleSet (e_db E) (TrimSpace t) (TrimSpace a) (TrimSpace i) (ToLower (e_uni E) (TrimSpace code)) (s_db s) = Inr ruleSet"
    "rs_Status ruleSet = ''active''"
    "sql_GetRuleVersion (e_db E) (rs_TenantID ruleSet) (rs_ApplicationID ruleSet) (rs_ID ruleSet) []
         (if n = 0 then rs_PublishedVersionNumber ruleSet else n) (s_db s) = Inr v"
    "rv_Status v = ''published''" "compiledDefinition E v s = (Inr cd, s')"
    "EvaluateDefinition (e_engine E) c cd facts = Inr ev"
proof -
  from Evaluate_run [OF assms] show thesis
  proof (elim disjE exE conjE, goal_cases)
    case (2 ruleSet version r2)
    then obtain cd where cd: "r2 = Inr cd" by (cases r2) simp_all
    with 2(8) have "EvaluateDefinition (e_engine E) c cd facts = Inr ev" "v = version"
      by (auto split: sum.split_asm)
    with 2(3-7) cd show ?case by (intro that [of ruleSet cd]) simp_all
  qed simp
qed

lemma Evaluate_db: "Evaluate E c t a i code n facts s = (r, s') \<Longrightarrow> s_db s' = s_db s"
  using Evaluate_run [of E c t a i code n facts s r s']
  by (auto simp: store_compiled_def elim!: compiledDefinition_cases)

end
