(* ===== verification/Lifecycle.thy ===== *)
theory Lifecycle
  imports ServiceLaws "HOL-Library.Multiset"
begin

text \<open>
  The service as a state machine. Calls of many clients run concurrently: \<open>UpdateRuleSet\<close> and
  \<open>PublishRuleVersion\<close> read the tables, and commit later what they computed from those reads, so the
  world carries the pending commits and a step runs any call, or the reads of one, or the commit of a
  pending one, with any environment (clock, faults, answers of other services). A restart drops the
  pending calls and the cache. The invariant, the immutability of versions and the absence of lost
  updates hold for every interleaving.
\<close>

record 'p world =
  w_svc :: "'p svc_state"
  w_updates :: "(int \<times> RuleSet) multiset"
  w_plans :: "(int \<times> int \<times> 'p publish_plan) multiset"

inductive step :: "('c, 'p) cel_engine \<Rightarrow> 'p world \<Rightarrow> 'p world \<Rightarrow> bool" for eng where
  create_set: "e_engine E = eng \<Longrightarrow> CreateRuleSet E c t a code name d (w_svc w) = (r, s') \<Longrightarrow>
    step eng w (w\<lparr>w_svc := s'\<rparr>)"
| update_begin: "e_engine E = eng \<Longrightarrow>
    update_prepare E c t a i name d st e (w_svc w) = (Inr x, s') \<Longrightarrow>
    step eng w (w\<lparr>w_svc := s', w_updates := add_mset (e, x) (w_updates w)\<rparr>)"
| update_end: "e_engine E = eng \<Longrightarrow> (e, x) \<in># w_updates w \<Longrightarrow>
    update_commit E e x (w_svc w) = (r, s') \<Longrightarrow>
    step eng w (w\<lparr>w_svc := s', w_updates := w_updates w - {#(e, x)#}\<rparr>)"
| create_version: "e_engine E = eng \<Longrightarrow>
    CreateRuleVersion E c t a i def key e (w_svc w) = (r, s') \<Longrightarrow>
    step eng w (w\<lparr>w_svc := s'\<rparr>)"
| publish_begin: "e_engine E = eng \<Longrightarrow>
    publish_prepare E c t a i v re ve (w_svc w) = (Inr p, s') \<Longrightarrow>
    step eng w (w\<lparr>w_svc := s', w_plans := add_mset (re, ve, p) (w_plans w)\<rparr>)"
| publish_end: "e_engine E = eng \<Longrightarrow> (re, ve, p) \<in># w_plans w \<Longrightarrow>
    publish_commit E re ve p (w_svc w) = (r, s') \<Longrightarrow>
    step eng w (w\<lparr>w_svc := s', w_plans := w_plans w - {#(re, ve, p)#}\<rparr>)"
| evaluate: "e_engine E = eng \<Longrightarrow> Evaluate E c t a i code n facts (w_svc w) = (r, s') \<Longrightarrow>
    step eng w (w\<lparr>w_svc := s'\<rparr>)"
| restart: "step eng w (w\<lparr>w_svc := (w_svc w)\<lparr>s_compiled := Map.empty\<rparr>, w_updates := {#}, w_plans := {#}\<rparr>)"

definition initial :: "'p world" where
  "initial = \<lparr>w_svc = \<lparr>s_db = empty_db, s_compiled = Map.empty\<rparr>, w_updates = {#}, w_plans = {#}\<rparr>"

inductive reachable :: "('c, 'p) cel_engine \<Rightarrow> 'p world \<Rightarrow> bool" for eng where
  init: "reachable eng initial"
| more: "reachable eng w \<Longrightarrow> step eng w w' \<Longrightarrow> reachable eng w'"

inductive_cases stepE: "step eng w w'"

abbreviation tables :: "'p world \<Rightarrow> rule_db" where
  "tables w \<equiv> s_db (w_svc w)"

section \<open>What never changes\<close>

definition frozen :: "RuleVersion \<Rightarrow> (string \<times> string \<times> string \<times> string) \<times> int \<times> string \<times> string \<times> string \<times> int \<times> string" where
  "frozen v = ((rv_ID v, rv_TenantID v, rv_ApplicationID v, rv_RuleSetID v), rv_VersionNumber v,
     rv_DefinitionJSON v, rv_Checksum v, rv_IdempotencyKey v, CreatedAt (rv_Audit v), CreatedBy (rv_Audit v))"

definition keeps_versions :: "rule_db \<Rightarrow> rule_db \<Rightarrow> bool" where
  "keeps_versions db db' \<longleftrightarrow>
     (\<forall>v \<in> set (rule_versions db). \<exists>v' \<in> set (rule_versions db').
        frozen v' = frozen v \<and> (is_published v \<longrightarrow> v' = v))"

definition keeps_sets :: "rule_db \<Rightarrow> rule_db \<Rightarrow> bool" where
  "keeps_sets db db' \<longleftrightarrow>
     (\<forall>r \<in> set (rule_sets db). \<exists>r' \<in> set (rule_sets db').
        set_id r' = set_id r \<and> rs_Code r' = rs_Code r \<and> CreatedAt (rs_Audit r') = CreatedAt (rs_Audit r) \<and>
        CreatedBy (rs_Audit r') = CreatedBy (rs_Audit r) \<and> Version (rs_Audit r) \<le> Version (rs_Audit r'))"

definition keeps_events :: "rule_db \<Rightarrow> rule_db \<Rightarrow> bool" where
  "keeps_events db db' \<longleftrightarrow> prefix (rule_outbox_events db) (rule_outbox_events db')"

definition extends :: "rule_db \<Rightarrow> rule_db \<Rightarrow> bool" where
  "extends db db' \<longleftrightarrow> keeps_versions db db' \<and> keeps_sets db db' \<and> keeps_events db db'"

lemma keeps_same_versions: "rule_versions db' = rule_versions db @ xs \<Longrightarrow> keeps_versions db db'"
  unfolding keeps_versions_def by fastforce

lemma keeps_same_sets: "rule_sets db' = rule_sets db @ xs \<Longrightarrow> keeps_sets db db'"
  unfolding keeps_sets_def by fastforce

lemma extends_refl [simp]: "extends db db"
  by (auto simp: extends_def keeps_events_def keeps_versions_def keeps_sets_def)

lemma keeps_updated_sets:
  assumes "rule_sets db' = update_where P f (rule_sets db)"
    and "\<And>r. set_id (f r) = set_id r \<and> rs_Code (f r) = rs_Code r \<and> CreatedAt (rs_Audit (f r)) = CreatedAt (rs_Audit r) \<and>
        CreatedBy (rs_Audit (f r)) = CreatedBy (rs_Audit r) \<and> Version (rs_Audit r) \<le> Version (rs_Audit (f r))"
  shows "keeps_sets db db'"
  unfolding keeps_sets_def
proof
  fix r assume "r \<in> set (rule_sets db)"
  then have "(if P r then f r else r) \<in> set (rule_sets db')" by (auto simp: assms(1) set_update_where)
  with assms(2) [of r] show "\<exists>r' \<in> set (rule_sets db'). set_id r' = set_id r \<and> rs_Code r' = rs_Code r \<and>
      CreatedAt (rs_Audit r') = CreatedAt (rs_Audit r) \<and> CreatedBy (rs_Audit r') = CreatedBy (rs_Audit r) \<and>
      Version (rs_Audit r) \<le> Version (rs_Audit r')"
    by (intro bexI [of _ "if P r then f r else r"]) auto
qed

lemma extends_CreateRuleSet: "sql_CreateRuleSet E x db = (Inr u, db') \<Longrightarrow> extends db db'"
  by (auto simp: extends_def keeps_events_def dest!: sql_CreateRuleSet_Inr
      intro!: keeps_same_versions [where xs = "[]"] keeps_same_sets [where xs = "[x]"])

lemma extends_UpdateRuleSet:
  assumes "sql_UpdateRuleSet E x e db = (Inr u, db')"
  shows "extends db db'"
proof -
  note d = sql_UpdateRuleSet_Inr(1) [OF assms]
  have "keeps_sets db db'"
    by (rule keeps_updated_sets [of _ "\<lambda>r. set_key (set_id x) r \<and> Version (rs_Audit r) = e"
          "bump_set (rs_Name x) (rs_Description x) (rs_Status x) (UpdatedAt (rs_Audit x)) (UpdatedBy (rs_Audit x))"])
      (simp_all add: d, simp add: bump_set_def)
  then show ?thesis
    by (auto simp: extends_def keeps_events_def d intro!: keeps_same_versions [where xs = "[]"])
qed

lemma extends_CreateRuleVersion:
  assumes "sql_CreateRuleVersion E x e db = (Inr (v, created), db')"
  shows "extends db db'"
  using assms
proof (cases rule: sql_CreateRuleVersion_cases)
  case (new r)
  then show ?thesis
    by (auto simp: extends_def keeps_events_def intro!: keeps_same_versions keeps_same_sets [where xs = "[]"])
qed simp

lemma extends_publish:
  assumes "publish_tx E re ve plan db = (Inr u, db')"
  shows "extends db db'"
proof -
  define w where "w = pl_version plan"
  define rs where "rs = pl_ruleSet plan"
  from publish_tx_Inr [OF assms] obtain ev where
    d: "db' = db\<lparr>rule_versions := update_where (version_row w ve) (publish_version_row w) (rule_versions db),
        rule_sets := update_where (\<lambda>r. set_key (set_id rs) r \<and> Version (rs_Audit r) = re)
          (publish_set_row rs w) (rule_sets db),
        rule_outbox_events := rule_outbox_events db @
          [\<lparr>or_event = ev, or_attempts = 0, or_published_at = None, or_last_error = [], or_version = 1\<rparr>]\<rparr>"
    unfolding w_def rs_def by blast
  have "keeps_versions db db'"
    unfolding keeps_versions_def
  proof
    fix v assume "v \<in> set (rule_versions db)"
    then have "(if version_row w ve v then publish_version_row w v else v) \<in> set (rule_versions db')"
      by (auto simp: d set_update_where)
    moreover have "frozen (publish_version_row w v) = frozen v"
      by (simp add: frozen_def) (simp add: publish_version_row_def)
    moreover have "is_published v \<Longrightarrow> \<not> version_row w ve v"
      by (simp add: is_published_def version_row_def)
    ultimately show "\<exists>v' \<in> set (rule_versions db'). frozen v' = frozen v \<and> (is_published v \<longrightarrow> v' = v)"
      by (intro bexI [of _ "if version_row w ve v then publish_version_row w v else v"]) auto
  qed
  moreover have "keeps_sets db db'"
    by (rule keeps_updated_sets [of _ "\<lambda>r. set_key (set_id rs) r \<and> Version (rs_Audit r) = re" "publish_set_row rs w"])
      (simp_all add: d, simp add: publish_set_row_def)
  ultimately show ?thesis by (simp add: extends_def keeps_events_def d)
qed

lemma ran_extends:
  "s' = s \<or> ran fn s s' \<Longrightarrow> (\<And>x db db'. fn db = (Inr x, db') \<Longrightarrow> extends db db') \<Longrightarrow> extends (s_db s) (s_db s')"
  by (auto simp: ran_def)

lemma s_db_store [simp]: "s_db (store_compiled k cd s) = s_db s"
  by (simp add: store_compiled_def)

lemma CreateRuleVersion_cases:
  assumes "CreateRuleVersion E c t a i def key e s = (r, s')"
  shows "s' = s \<or> (\<exists>actor compiled s2. CompileDefinition (e_engine E) def = Inr compiled \<and>
    (s2 = s \<or> ran (sql_CreateRuleVersion (e_db E) (new_version E actor t a i compiled key) e) s s2) \<and>
    (s' = s2 \<or> s' = store_compiled (cd_checksum compiled) compiled s2))"
proof -
  from CreateRuleVersion_run [OF assms] consider "s' = s"
    | actor compiled r2 s2 where "CompileDefinition (e_engine E) def = Inr compiled"
      "run_tx E (sql_CreateRuleVersion (e_db E) (new_version E actor t a i compiled key) e) s = (r2, s2)"
      "s' = s2 \<or> (\<exists>v created. r2 = Inr (v, created) \<and> s' = store_compiled (rv_Checksum v) compiled s2)"
    by blast
  then show ?thesis
  proof cases
    case 2
    have "rv_Checksum v = cd_checksum compiled" if "r2 = Inr (v, created)" for v created
    proof -
      from run_tx_Inr [OF 2(2) [unfolded that]] have
        "sql_CreateRuleVersion (e_db E) (new_version E actor t a i compiled key) e (s_db s) = (Inr (v, created), s_db s2)"
        by blast
      then show ?thesis by (cases rule: sql_CreateRuleVersion_cases) simp_all
    qed
    with 2(3) have "s' = s2 \<or> s' = store_compiled (cd_checksum compiled) compiled s2" by metis
    with 2(1) run_tx_cases [OF 2(2)] show ?thesis by metis
  qed simp
qed

text \<open>Every step extends the tables.\<close>

lemma step_extends: "step eng w w' \<Longrightarrow> extends (tables w) (tables w')"
proof (induction rule: step.induct)
  case (create_set E c t a code name d w r s')
  from CreateRuleSet_cases [OF create_set(2)] show ?case
    by (auto simp: ran_def dest: extends_CreateRuleSet)
next
  case (update_begin E c t a i name d st e w x s')
  from update_prepare_cases [OF update_begin(2)] show ?case by simp
next
  case (update_end E e x w r s')
  from update_commit_cases [OF update_end(3)] show ?case
    by (auto simp: ran_def dest: extends_UpdateRuleSet)
next
  case (create_version E c t a i def key e w r s')
  from CreateRuleVersion_cases [OF create_version(2)] show ?case
    by (auto simp: ran_def dest: extends_CreateRuleVersion)
next
  case (publish_begin E c t a i v re ve w p s')
  from publish_prepare_cases [OF publish_begin(2)] show ?case by simp
next
  case (publish_end E re ve p w r s')
  from publish_end(3) obtain r2 s2 where "run_tx E (publish_tx E re ve p) (w_svc w) = (r2, s2)"
    "s_db s' = s_db s2" by (rule publish_commit_run) auto
  with run_tx_cases [OF this(1)] show ?case by (auto simp: ran_def dest: extends_publish)
next
  case (evaluate E c t a i code n facts w r s')
  from Evaluate_db [OF evaluate(2)] show ?case by simp
next
  case restart
  show ?case by simp
qed

section \<open>The invariant of the running service\<close>

definition cache_ok :: "('c, 'p) cel_engine \<Rightarrow> (string \<Rightarrow> 'p CompiledDefinition option) \<Rightarrow> bool" where
  "cache_ok eng m \<longleftrightarrow>
     (\<forall>k cd. m k = Some cd \<longrightarrow> cd_checksum cd = k \<and> (\<exists>raw. CompileDefinition eng raw = Inr cd))"

definition pending_ok :: "('c, 'p) cel_engine \<Rightarrow> 'p publish_plan \<Rightarrow> rule_db \<Rightarrow> bool" where
  "pending_ok eng p db \<longleftrightarrow> plan_ok (pl_ruleSet p) (pl_version p) db \<and>
     cd_checksum (pl_compiled p) = rv_Checksum (pl_version p) \<and>
     CompileDefinition eng (rv_DefinitionJSON (pl_version p)) = Inr (pl_compiled p) \<and>
     (\<exists>v \<in> set (rule_versions db). frozen v = frozen (pl_version p))"

definition compiles_ok :: "('c, 'p) cel_engine \<Rightarrow> rule_db \<Rightarrow> bool" where
  "compiles_ok eng db \<longleftrightarrow>
     (\<forall>v \<in> set (rule_versions db). is_published v \<longrightarrow>
        (\<exists>cd. CompileDefinition eng (rv_DefinitionJSON v) = Inr cd \<and> cd_checksum cd = rv_Checksum v))"

definition world_ok :: "('c, 'p) cel_engine \<Rightarrow> 'p world \<Rightarrow> bool" where
  "world_ok eng w \<longleftrightarrow> db_ok (tables w) \<and> compiles_ok eng (tables w) \<and> cache_ok eng (s_compiled (w_svc w)) \<and>
     (\<forall>(e, x) \<in># w_updates w. legal_update x) \<and>
     (\<forall>(re, ve, p) \<in># w_plans w. pending_ok eng p (tables w))"

lemma plan_ok_extends: "plan_ok rs v db \<Longrightarrow> extends db db' \<Longrightarrow> plan_ok rs v db'"
proof -
  assume p: "plan_ok rs v db" and e: "extends db db'"
  from p obtain w where w: "w \<in> set (rule_versions db)" "rv_ID w = rv_ID v"
    "same_set w (rv_TenantID v) (rv_ApplicationID v) (rv_RuleSetID v)" "rv_VersionNumber w = rv_VersionNumber v"
    by (auto simp: plan_ok_def)
  from e w(1) obtain w' where w': "w' \<in> set (rule_versions db')" "frozen w' = frozen w"
    by (auto simp: extends_def keeps_versions_def)
  from w'(2) w(2-4) have "rv_ID w' = rv_ID v"
    "same_set w' (rv_TenantID v) (rv_ApplicationID v) (rv_RuleSetID v)" "rv_VersionNumber w' = rv_VersionNumber v"
    by (simp_all add: frozen_def same_set_def)
  moreover have "set_id rs = (rv_TenantID v, rv_ApplicationID v, rv_RuleSetID v)" "rv_PublishedAt v \<noteq> None"
    using p by (simp_all add: plan_ok_def)
  ultimately show ?thesis unfolding plan_ok_def using w'(1) by blast
qed

lemma pending_ok_extends:
  assumes "pending_ok eng p db" and "extends db db'"
  shows "pending_ok eng p db'"
proof -
  from assms(1) obtain v where "v \<in> set (rule_versions db)" "frozen v = frozen (pl_version p)"
    by (auto simp: pending_ok_def)
  with assms(2) have "\<exists>v \<in> set (rule_versions db'). frozen v = frozen (pl_version p)"
    by (metis extends_def keeps_versions_def)
  with assms show ?thesis by (simp add: pending_ok_def plan_ok_extends [OF _ assms(2)])
qed

lemma cache_ok_store:
  "cache_ok eng m \<Longrightarrow> CompileDefinition eng raw = Inr cd \<Longrightarrow> cd_checksum cd = k \<Longrightarrow> cache_ok eng (m(k \<mapsto> cd))"
  by (auto simp: cache_ok_def)

lemma code_not_empty: "db_ok db \<Longrightarrow> r \<in> set (rule_sets db) \<Longrightarrow> rs_Code r \<noteq> []"
  by (auto simp: db_ok_def sets_ok_def set_row_ok_def ruleCodePattern_def)

lemma prepared_plan_ok:
  assumes "publish_prepare E c t a i v re ve s = (Inr p, s')" and "db_ok (s_db s)" and "e_engine E = eng"
  shows "pending_ok eng p (s_db s)"
proof -
  from assms(1) obtain actor rs ver cd where
    g: "sql_GetRuleSet (e_db E) t a i [] (s_db s) = Inr rs"
    and gv: "sql_GetRuleVersion (e_db E) t a i v 0 (s_db s) = Inr ver"
    and cd: "CompileDefinition (e_engine E) (rv_DefinitionJSON ver) = Inr cd" "cd_checksum cd = rv_Checksum ver"
    and p: "p = plan_of E actor re ve rs ver cd"
    by (rule publish_prepare_Inr)
  from sql_GetRuleSet_Inr [OF g] code_not_empty [OF assms(2)] have rs: "rs_TenantID rs = t" "rs_ApplicationID rs = a" "rs_ID rs = i"
    by (auto simp: in_app_def split: if_splits)
  from sql_GetRuleVersion_Inr [OF gv] have ver: "ver \<in> set (rule_versions (s_db s))" "same_set ver t a i" by auto
  have "set_id (pl_ruleSet p) = (rv_TenantID (pl_version p), rv_ApplicationID (pl_version p), rv_RuleSetID (pl_version p))"
    using rs ver(2) by (simp add: p plan_of_def set_id_def same_set_def)
  moreover have "rv_ID ver = rv_ID (pl_version p) \<and> rv_VersionNumber ver = rv_VersionNumber (pl_version p) \<and>
      same_set ver (rv_TenantID (pl_version p)) (rv_ApplicationID (pl_version p)) (rv_RuleSetID (pl_version p))"
    by (simp add: p plan_of_def same_set_def)
  moreover have "rv_PublishedAt (pl_version p) \<noteq> None" by (simp add: p plan_of_def)
  ultimately have "plan_ok (pl_ruleSet p) (pl_version p) (s_db s)"
    using ver(1) unfolding plan_ok_def by blast
  moreover have "\<exists>v \<in> set (rule_versions (s_db s)). frozen v = frozen (pl_version p)"
    using ver(1) by (intro bexI [of _ ver]) (simp_all add: p plan_of_def frozen_def)
  ultimately show ?thesis using cd assms(3) by (simp add: pending_ok_def p plan_of_def)
qed

lemma ran_db_ok:
  "s' = s \<or> ran fn s s' \<Longrightarrow> db_ok (s_db s) \<Longrightarrow> (\<And>x db'. fn (s_db s) = (Inr x, db') \<Longrightarrow> db_ok db') \<Longrightarrow> db_ok (s_db s')"
  by (auto simp: ran_def)

text \<open>What is published compiles.\<close>

lemma compiles_ok_append:
  "compiles_ok eng db \<Longrightarrow> rule_versions db' = rule_versions db @ xs \<Longrightarrow> \<forall>v \<in> set xs. \<not> is_published v \<Longrightarrow> compiles_ok eng db'"
  by (auto simp: compiles_ok_def)

lemma compiles_ok_publish:
  assumes "publish_tx E re ve p db = (Inr u, db')" and "db_ok db" and "compiles_ok eng db" and "pending_ok eng p db"
  shows "compiles_ok eng db'"
proof -
  define w where "w = pl_version p"
  have d: "rule_versions db' = update_where (version_row w ve) (publish_version_row w) (rule_versions db)"
    by (rule publish_tx_Inr [OF assms(1)]) (simp add: w_def)
  from assms(4) obtain v0 where v0: "v0 \<in> set (rule_versions db)" "frozen v0 = frozen w"
    and cd: "CompileDefinition eng (rv_DefinitionJSON w) = Inr (pl_compiled p)" "cd_checksum (pl_compiled p) = rv_Checksum w"
    by (auto simp: pending_ok_def w_def)
  have "\<exists>cd. CompileDefinition eng (rv_DefinitionJSON v) = Inr cd \<and> cd_checksum cd = rv_Checksum v"
    if "v \<in> set (rule_versions db)" "version_row w ve v" for v
  proof -
    from assms(2) have "distinct (map rv_ID (rule_versions db))" by (simp add: db_ok_def versions_ok_def)
    moreover from that(2) v0(2) have "rv_ID v = rv_ID v0" by (simp add: version_row_def frozen_def)
    ultimately have "v = v0" using distinct_map_eq that(1) v0(1) by metis
    with v0(2) cd show ?thesis by (auto simp: frozen_def)
  qed
  with assms(3) show ?thesis by (auto simp: compiles_ok_def d set_update_where)
qed

lemma step_compiles_ok: "step eng w w' \<Longrightarrow> world_ok eng w \<Longrightarrow> compiles_ok eng (tables w')"
proof -
  assume s: "step eng w w'" and ok: "world_ok eng w"
  then have c: "compiles_ok eng (tables w)" and db: "db_ok (tables w)" by (simp_all add: world_ok_def)
  from s show ?thesis
  proof cases
    case (create_set E c t a code name d r s')
    from CreateRuleSet_cases [OF create_set(3)] c show ?thesis
      by (auto simp: create_set ran_def dest!: sql_CreateRuleSet_Inr intro: compiles_ok_append [where xs = "[]"])
  next
    case (update_end E e x r s')
    from update_commit_cases [OF update_end(4)] c show ?thesis
      by (auto simp: update_end ran_def dest!: sql_UpdateRuleSet_Inr(1) intro: compiles_ok_append [where xs = "[]"])
  next
    case (create_version E c t a i def key e r s')
    have "compiles_ok eng (s_db s2)"
      if "ran (sql_CreateRuleVersion (e_db E) (new_version E actor t a i compiled key) e) (w_svc w) s2" for actor compiled s2
    proof -
      from that obtain v created where
        "sql_CreateRuleVersion (e_db E) (new_version E actor t a i compiled key) e (tables w) = (Inr (v, created), s_db s2)"
        by (auto simp: ran_def)
      then show ?thesis
        by (cases rule: sql_CreateRuleVersion_cases)
          (auto simp: c is_published_def stored_def intro: compiles_ok_append [OF c])
    qed
    with CreateRuleVersion_cases [OF create_version(3)] c show ?thesis by (auto simp: create_version)
  next
    case (publish_end E re ve p r s')
    from publish_end(4) obtain r2 s2 where "run_tx E (publish_tx E re ve p) (w_svc w) = (r2, s2)"
      "s_db s' = s_db s2" by (rule publish_commit_run) auto
    moreover from ok publish_end(3) have "pending_ok eng p (tables w)" by (auto simp: world_ok_def)
    ultimately show ?thesis
      using c run_tx_cases [of E "publish_tx E re ve p" "w_svc w" r2 s2]
      by (auto simp: publish_end ran_def intro: compiles_ok_publish [OF _ db c])
  qed (use c in \<open>auto dest: update_prepare_cases publish_prepare_cases Evaluate_db\<close>)
qed

lemma world_okI:
  assumes "world_ok eng w" and "step eng w w'" and "db_ok (tables w')" and "cache_ok eng (s_compiled (w_svc w'))"
    and "\<forall>x \<in># w_updates w'. x \<in># w_updates w \<or> legal_update (snd x)"
    and "\<forall>x \<in># w_plans w'. x \<in># w_plans w \<or> pending_ok eng (snd (snd x)) (tables w')"
  shows "world_ok eng w'"
  unfolding world_ok_def
proof (intro conjI assms(3,4) step_compiles_ok [OF assms(2,1)] ballI)
  fix x assume "x \<in># w_updates w'"
  with assms(1,5) show "case x of (e, x) \<Rightarrow> legal_update x" by (fastforce simp: world_ok_def)
next
  fix x assume x: "x \<in># w_plans w'"
  obtain re ve p where [simp]: "x = (re, ve, p)" by (cases x)
  show "case x of (re, ve, p) \<Rightarrow> pending_ok eng p (tables w')"
  proof (cases "x \<in># w_plans w")
    case True
    with assms(1) have "pending_ok eng p (tables w)" by (auto simp: world_ok_def)
    with pending_ok_extends step_extends [OF assms(2)] show ?thesis by auto
  next
    case False
    with assms(6) x show ?thesis by auto
  qed
qed

lemma cache_update_cases:
  assumes "world_ok eng w" and "s_compiled s' = s_compiled (w_svc w) \<or>
    (\<exists>raw cd. CompileDefinition eng raw = Inr cd \<and> s_compiled s' = (s_compiled (w_svc w))(cd_checksum cd \<mapsto> cd))"
  shows "cache_ok eng (s_compiled s')"
  using assms cache_ok_store [of eng "s_compiled (w_svc w)"] by (auto simp: world_ok_def)

lemma step_world_ok: "step eng w w' \<Longrightarrow> world_ok eng w \<Longrightarrow> world_ok eng w'"
proof -
  assume s: "step eng w w'" and ok: "world_ok eng w"
  from ok have db: "db_ok (tables w)" by (simp add: world_ok_def)
  from s show ?thesis
  proof cases
    case (create_set E c t a code name d r s')
    from CreateRuleSet_cases [OF create_set(3)] have
      run: "s' = w_svc w \<or> (\<exists>x. new_set x \<and> ran (sql_CreateRuleSet (e_db E) x) (w_svc w) s')" .
    then have "db_ok (s_db s')"
      using db by (auto simp: ran_def new_set_def intro: sql_CreateRuleSet_ok)
    moreover have "s_compiled s' = s_compiled (w_svc w)" using run by (auto simp: ran_def)
    ultimately show ?thesis
      using ok by (intro world_okI [OF ok s]) (simp_all add: create_set world_ok_def)
  next
    case (update_begin E c t a i name d st e x s')
    from update_prepare_cases [OF update_begin(3)] update_prepare_Inr [OF update_begin(3)]
    show ?thesis using ok db by (intro world_okI [OF ok s]) (auto simp: update_begin world_ok_def)
  next
    case (update_end E e x r s')
    from ok update_end(3) have l: "legal_update x" by (auto simp: world_ok_def)
    from update_commit_cases [OF update_end(4)] have
      run: "s' = w_svc w \<or> ran (sql_UpdateRuleSet (e_db E) x e) (w_svc w) s'" .
    then have "db_ok (s_db s')"
      using db l by (auto simp: ran_def legal_update_def intro: sql_UpdateRuleSet_ok)
    moreover have "s_compiled s' = s_compiled (w_svc w)" using run by (auto simp: ran_def)
    ultimately show ?thesis
      using ok by (intro world_okI [OF ok s]) (auto simp: update_end world_ok_def dest: in_diffD)
  next
    case (create_version E c t a i def key e r s')
    from CreateRuleVersion_cases [OF create_version(3)] create_version(2) have
      run: "s' = w_svc w \<or> (\<exists>actor compiled s2. CompileDefinition eng def = Inr compiled \<and>
        (s2 = w_svc w \<or> ran (sql_CreateRuleVersion (e_db E) (new_version E actor t a i compiled key) e) (w_svc w) s2) \<and>
        (s' = s2 \<or> s' = store_compiled (cd_checksum compiled) compiled s2))" by blast
    have "db_ok (s_db s')"
      using run
    proof (elim disjE exE conjE)
      fix actor compiled s2
      assume "ran (sql_CreateRuleVersion (e_db E) (new_version E actor t a i compiled key) e) (w_svc w) s2"
      then obtain v created where
        "sql_CreateRuleVersion (e_db E) (new_version E actor t a i compiled key) e (tables w) = (Inr (v, created), s_db s2)"
        by (auto simp: ran_def)
      from sql_CreateRuleVersion_ok [OF db this] have "db_ok (s_db s2)" by simp
      then show "s' = s2 \<Longrightarrow> db_ok (s_db s')" "s' = store_compiled (cd_checksum compiled) compiled s2 \<Longrightarrow> db_ok (s_db s')"
        by simp_all
    qed (use db in simp_all)
    moreover have "s_compiled s' = s_compiled (w_svc w) \<or>
      (\<exists>raw cd. CompileDefinition eng raw = Inr cd \<and> s_compiled s' = (s_compiled (w_svc w))(cd_checksum cd \<mapsto> cd))"
      using run by (fastforce simp: ran_def store_compiled_def)
    then have "cache_ok eng (s_compiled s')" by (rule cache_update_cases [OF ok])
    ultimately show ?thesis
      using ok by (intro world_okI [OF ok s]) (simp_all add: create_version)
  next
    case (publish_begin E c t a i v re ve p s')
    from publish_prepare_cases [OF publish_begin(3)] prepared_plan_ok [OF publish_begin(3) db publish_begin(2)]
    show ?thesis using ok db by (intro world_okI [OF ok s]) (auto simp: publish_begin world_ok_def)
  next
    case (publish_end E re ve p r s')
    from ok publish_end(3) have po: "pending_ok eng p (tables w)" by (auto simp: world_ok_def)
    from publish_end(4) obtain r2 s2 where run: "run_tx E (publish_tx E re ve p) (w_svc w) = (r2, s2)"
      and s2: "s' = s2 \<or> s' = store_compiled (rv_Checksum (pl_version p)) (pl_compiled p) s2"
      by (rule publish_commit_run) auto
    from run_tx_cases [OF run] have "db_ok (s_db s2) \<and> s_compiled s2 = s_compiled (w_svc w)"
      using db po by (auto simp: ran_def pending_ok_def intro: publish_tx_ok)
    moreover have "s_compiled s' = s_compiled s2 \<or>
      (\<exists>raw cd. CompileDefinition eng raw = Inr cd \<and> s_compiled s' = (s_compiled s2)(cd_checksum cd \<mapsto> cd))"
      using s2
    proof
      assume "s' = store_compiled (rv_Checksum (pl_version p)) (pl_compiled p) s2"
      moreover from po have "\<exists>raw. CompileDefinition eng raw = Inr (pl_compiled p)"
        "cd_checksum (pl_compiled p) = rv_Checksum (pl_version p)"
        by (auto simp: pending_ok_def)
      ultimately show ?thesis
        by (fastforce simp: store_compiled_def)
    qed simp
    ultimately have "cache_ok eng (s_compiled s')"
      using cache_update_cases [OF ok, of s'] by simp
    moreover have "db_ok (s_db s')"
      using s2 \<open>db_ok (s_db s2) \<and> s_compiled s2 = s_compiled (w_svc w)\<close> by auto
    ultimately show ?thesis
      by (intro world_okI [OF ok s]) (auto simp: publish_end dest: in_diffD)
  next
    case (evaluate E c t a i code n facts r s')
    from Evaluate_db [OF evaluate(3)] db have d: "db_ok (s_db s')" by simp
    have "s_compiled s' = s_compiled (w_svc w) \<or>
      (\<exists>raw cd. CompileDefinition eng raw = Inr cd \<and> s_compiled s' = (s_compiled (w_svc w))(cd_checksum cd \<mapsto> cd))"
    proof -
      from Evaluate_run [OF evaluate(3)] consider "s' = w_svc w" | version r2 where "compiledDefinition E version (w_svc w) = (r2, s')"
        by blast
      then show ?thesis
      proof cases
        case 2
        then show ?thesis
        proof (cases rule: compiledDefinition_cases)
          case (miss cd)
          then have "CompileDefinition eng (rv_DefinitionJSON version) = Inr cd"
            "s_compiled s' = (s_compiled (w_svc w))(cd_checksum cd \<mapsto> cd)"
            using evaluate(2) by (simp_all add: store_compiled_def)
          then show ?thesis by blast
        qed simp_all
      qed simp
    qed
    then have "cache_ok eng (s_compiled s')" by (rule cache_update_cases [OF ok])
    with d show ?thesis by (intro world_okI [OF ok s]) (simp_all add: evaluate)
  next
    case restart
    show ?thesis using db by (intro world_okI [OF ok s]) (simp_all add: restart cache_ok_def)
  qed
qed

lemma reachable_world_ok: "reachable eng w \<Longrightarrow> world_ok eng w"
proof (induction rule: reachable.induct)
  case init
  show ?case by (simp add: world_ok_def initial_def empty_db_ok cache_ok_def compiles_ok_def) (simp add: empty_db_def)
next
  case (more w w')
  then show ?case using step_world_ok by blast
qed

end
