(* ===== verification/DemoRun.thy ===== *)
theory DemoRun
  imports Lifecycle
begin

text \<open>
  A concrete run of the service, on which the properties of the lifecycle are instantiated: a client
  creates a rule set, creates a version of it, publishes the version and evaluates it.
\<close>

definition demo_dbenv :: dbenv where
  "demo_dbenv =
     \<lparr>db_enabled = True, begin_error = None, commit_error = None, commit_kept = False,
      rollback_error = None, stmt_error = (\<lambda>_. None), rows_error = (\<lambda>_. None),
      constraint_error = Plain ''unique'', offset_error = Plain ''offset'', sql_json = (\<lambda>s. s),
      sql_lower = (\<lambda>s. s), sql_like = (\<lambda>s p. True), sql_code_le = (\<le>)\<rparr>"

definition demo_env :: "string \<Rightarrow> (string, string) svc_env" where
  "demo_env uuid =
     \<lparr>e_db = demo_dbenv, e_engine = demo_engine, e_uni = (\<lambda>s. s), e_now = 7, e_uuid = uuid,
      e_event_uuid = uuid, e_verify = (\<lambda>t a. None),
      e_envelope = (\<lambda>md payload. Inr (md_EventID md)), e_event_id = (\<lambda>s. s), e_marshal = Inr\<rparr>"

definition demo_audit :: Audit where
  "demo_audit = \<lparr>Version = 1, CreatedAt = 7, UpdatedAt = 7, CreatedBy = ''u'', UpdatedBy = ''u''\<rparr>"

definition demo_set :: RuleSet where
  "demo_set =
     \<lparr>rs_ID = ''s'', rs_TenantID = ''t'', rs_ApplicationID = ''a'', rs_Code = ''code'', rs_Name = ''n'',
      rs_Description = [], rs_Status = ''draft'', rs_PublishedVersionNumber = 0, rs_Audit = demo_audit\<rparr>"

definition demo_version :: RuleVersion where
  "demo_version =
     \<lparr>rv_ID = ''v'', rv_TenantID = ''t'', rv_ApplicationID = ''a'', rv_RuleSetID = ''s'',
      rv_VersionNumber = 1, rv_Status = ''draft'', rv_DefinitionJSON = demo_raw,
      rv_Checksum = sha256_hex demo_raw, rv_IdempotencyKey = ''k'', rv_PublishedAt = None,
      rv_Audit = demo_audit\<rparr>"

definition demo_set2 :: RuleSet where
  "demo_set2 = demo_set\<lparr>rs_Status := ''active'', rs_PublishedVersionNumber := 1,
     rs_Audit := demo_audit\<lparr>Version := 2\<rparr>\<rparr>"

definition demo_version2 :: RuleVersion where
  "demo_version2 = demo_version\<lparr>rv_Status := ''published'', rv_PublishedAt := Some 7,
     rv_Audit := demo_audit\<lparr>Version := 2\<rparr>\<rparr>"

definition demo_event :: OutboxRow where
  "demo_event =
     \<lparr>or_event = \<lparr>ob_ID = ''e'', ob_Subject = ''platform.rule.rule-version.published.v1'',
        ob_Envelope = ''e'', ob_AvailableAt = 7, ob_CreatedAt = 7, ob_UpdatedAt = 7,
        ob_CreatedBy = ''u'', ob_UpdatedBy = ''u''\<rparr>,
      or_attempts = 0, or_published_at = None, or_last_error = [], or_version = 1\<rparr>"

definition demo_cache :: "string \<Rightarrow> string CompiledDefinition option" where
  "demo_cache = [sha256_hex demo_raw \<mapsto> demo_compiled]"

definition demo_s0 :: "string svc_state" where
  "demo_s0 = \<lparr>s_db = empty_db, s_compiled = Map.empty\<rparr>"

definition demo_s1 :: "string svc_state" where
  "demo_s1 = demo_s0\<lparr>s_db := empty_db\<lparr>rule_sets := [demo_set]\<rparr>\<rparr>"

definition demo_s2 :: "string svc_state" where
  "demo_s2 = \<lparr>s_db = empty_db\<lparr>rule_sets := [demo_set], rule_versions := [demo_version]\<rparr>, s_compiled = demo_cache\<rparr>"

definition demo_s3 :: "string svc_state" where
  "demo_s3 = \<lparr>s_db = \<lparr>rule_sets = [demo_set2], rule_versions = [demo_version2],
     rule_outbox_events = [demo_event]\<rparr>, s_compiled = demo_cache\<rparr>"

definition demo_plan :: "string publish_plan" where
  "demo_plan = \<lparr>pl_ruleSet = demo_set2, pl_version = demo_version2, pl_compiled = demo_compiled, pl_actor = ''u''\<rparr>"

lemmas demo_states = demo_s0_def demo_s1_def demo_s2_def demo_s3_def empty_db_def
lemmas demo_rows = demo_set_def demo_version_def demo_set2_def demo_version2_def demo_audit_def demo_event_def

lemma demo_env_simps [simp]:
  "e_db (demo_env x) = demo_dbenv" "e_engine (demo_env x) = demo_engine" "e_uni (demo_env x) s = s" "e_now (demo_env x) = 7"
  "e_uuid (demo_env x) = x" "e_event_uuid (demo_env x) = x" "e_verify (demo_env x) t a = None"
  "e_envelope (demo_env x) md pl = Inr (md_EventID md)" "e_event_id (demo_env x) s = s" "e_marshal (demo_env x) s = Inr s"
  by (simp_all add: demo_env_def)

lemma demo_dbenv_simps [simp]:
  "db_enabled demo_dbenv" "begin_error demo_dbenv = None" "commit_error demo_dbenv = None" "rollback_error demo_dbenv = None"
  "stmt_error demo_dbenv st = None" "rows_error demo_dbenv st = None" "sql_json demo_dbenv s = s" "\<not> commit_kept demo_dbenv"
  by (simp_all add: demo_dbenv_def)

lemma demo_within [simp]: "Within demo_dbenv fn db = (case fn db of (Inl e, db') \<Rightarrow> (Inl e, db) | (Inr x, db') \<Rightarrow> (Inr x, db'))"
  by (simp add: Within_def split: sum.split prod.split)

lemma demo_words [simp]:
  "TrimSpace [] = []" "TrimSpace ''t'' = ''t''" "TrimSpace ''a'' = ''a''" "TrimSpace ''s'' = ''s''" "TrimSpace ''v'' = ''v''"
  "TrimSpace ''k'' = ''k''" "TrimSpace ''n'' = ''n''" "TrimSpace ''code'' = ''code''" "TrimSpace ''active'' = ''active''"
  by (simp_all add: TrimSpace_visible visible_def byte_def)

lemma demo_lower [simp]: "ToLower f [] = []" "ToLower f ''code'' = ''code''" "ToLower f ''active'' = ''active''"
  by code_simp+

lemma demo_code [simp]: "ruleCodePattern ''code''"
  by code_simp

lemma demo_authorized [simp]: "authorize demo_ctx ''t'' = Inr ''u''"
  by (simp add: authorize_def demo_ctx_def)

lemma demo_verified [simp]: "verifyApplication (demo_env x) ''t'' ''a'' = Inr ()"
  by (simp add: verifyApplication_def)

lemma demo_creates: "CreateRuleSet (demo_env ''s'') demo_ctx ''t'' ''a'' ''code'' ''n'' [] demo_s0 = (Inr demo_set, demo_s1)"
  by (simp add: CreateRuleSet_def andThen_def require_def run_tx_def sql_CreateRuleSet_def demo_states
      new_rule_set_def newAudit_def demo_rows map_error_def Let_def)

lemma demo_creates_version:
  "CreateRuleVersion (demo_env ''v'') demo_ctx ''t'' ''a'' ''s'' demo_raw ''k'' 1 demo_s1 = (Inr (demo_version, True), demo_s2)"
  by (simp add: CreateRuleVersion_def andThen_def require_def run_tx_def sql_CreateRuleVersion_def demo_states
      new_version_def newAudit_def demo_rows map_error_def demo_compiles get_row_def notFound_def in_app_def
      insert_version_def same_set_def next_number_def store_compiled_def demo_cache_def Let_def)
    (simp add: demo_compiled_def)

lemma demo_prepares:
  "publish_prepare (demo_env ''e'') demo_ctx ''t'' ''a'' ''s'' ''v'' 1 1 demo_s2 = (Inr demo_plan, demo_s2)"
  by (simp add: publish_prepare_def andThen_def require_def sql_GetRuleSet_def sql_GetRuleVersion_def demo_states
      demo_rows map_error_def get_row_def notFound_def in_app_def same_set_def recompile_def demo_compiles i64_id
      max_i64_def demo_plan_def Let_def)
    (simp add: demo_compiled_def)

lemma demo_commits:
  "publish_commit (demo_env ''e'') 1 1 demo_plan demo_s2 = (Inr (demo_set2, demo_version2), demo_s3)"
  by (simp add: publish_commit_def run_tx_def publish_tx_def sql_PublishRuleVersion_def exec_update_def
      optimistic_def addEvent_def sql_AddOutbox_def map_error_def demo_plan_def demo_states demo_rows same_set_def
      in_app_def count_where_def update_where_def publish_version_row_def publish_set_row_def
      store_compiled_def demo_cache_def)

lemma demo_publishes:
  "PublishRuleVersion (demo_env ''e'') demo_ctx ''t'' ''a'' ''s'' ''v'' 1 1 demo_s2 = (Inr (demo_set2, demo_version2), demo_s3)"
  by (simp add: PublishRuleVersion_def demo_prepares demo_commits)

definition demo_evaluation :: Evaluation where
  "demo_evaluation = \<lparr>Matched = True, MatchedRule = ''b'', ResultJSON = demo_result\<rparr>"

lemma demo_runs:
  "Evaluate (demo_env x) demo_ctx ''t'' ''a'' ''s'' [] 0 ''{}'' demo_s3 = (Inr (demo_evaluation, demo_version2), demo_s3)"
  by (simp add: Evaluate_def andThen_def require_def sql_GetRuleSet_def sql_GetRuleVersion_def demo_states
      demo_rows map_error_def get_row_def notFound_def in_app_def same_set_def compiledDefinition_def demo_cache_def
      demo_evaluates demo_evaluation_def Let_def)

section \<open>The run as steps\<close>

definition demo_world :: "string svc_state \<Rightarrow> (int \<times> int \<times> string publish_plan) multiset \<Rightarrow> string world" where
  "demo_world s plans = \<lparr>w_svc = s, w_updates = {#}, w_plans = plans\<rparr>"

lemma demo_steps:
  "step demo_engine initial (demo_world demo_s1 {#})"
  "step demo_engine (demo_world demo_s1 {#}) (demo_world demo_s2 {#})"
  "step demo_engine (demo_world demo_s2 {#}) (demo_world demo_s2 {#(1, 1, demo_plan)#})"
  "step demo_engine (demo_world demo_s2 {#(1, 1, demo_plan)#}) (demo_world demo_s3 {#})"
  using step.create_set [of "demo_env ''s''" demo_engine demo_ctx "''t''" "''a''" "''code''" "''n''" "[]" initial]
    step.create_version [of "demo_env ''v''" demo_engine demo_ctx "''t''" "''a''" "''s''" demo_raw "''k''" 1 "demo_world demo_s1 {#}"]
    step.publish_begin [of "demo_env ''e''" demo_engine demo_ctx "''t''" "''a''" "''s''" "''v''" 1 1 "demo_world demo_s2 {#}"]
    step.publish_end [of "demo_env ''e''" demo_engine 1 1 demo_plan "demo_world demo_s2 {#(1, 1, demo_plan)#}"]
    demo_creates demo_creates_version demo_prepares demo_commits
  by (simp_all add: demo_world_def initial_def demo_s0_def)

lemma demo_reachable:
  "reachable demo_engine (demo_world demo_s1 {#})"
  "reachable demo_engine (demo_world demo_s2 {#})"
  "reachable demo_engine (demo_world demo_s2 {#(1, 1, demo_plan)#})"
  "reachable demo_engine (demo_world demo_s3 {#})"
  using reachable.init reachable.more demo_steps by metis+

end
