(* ===== verification/LifecycleClaims.thy ===== *)
theory LifecycleClaims
  imports DemoRun
begin

text \<open>
  The properties of the lifecycle of rule sets and versions, over every reachable world: whatever
  calls run, in whatever interleaving, and whatever the database, the clock and the other services
  answer.
\<close>

lemma numbers_upt: "numbers n = map int [1..<Suc n]"
  by (induction n) simp_all

text \<open>C1. The stored data is consistent in every reachable state: identifiers are unique, and so
  are codes within an application; every version belongs to a rule set of its tenant and application;
  the versions of a rule set are numbered 1, 2, 3, ... in the order of their creation, with distinct
  idempotency keys; the published number of a rule set is 0 or names one of its published versions; a
  version is published exactly when it has a publication time; and the outbox has exactly one event
  per published version.\<close>

theorem tables_consistent:
  assumes "reachable eng w"
  defines "db \<equiv> s_db (w_svc w)"
  defines "versions \<equiv> \<lambda>r. filter (\<lambda>v. same_set v (rs_TenantID r) (rs_ApplicationID r) (rs_ID r)) (rule_versions db)"
  shows "distinct (map rs_ID (rule_sets db)) \<and> distinct (map rv_ID (rule_versions db)) \<and>
    distinct (map (\<lambda>r. (rs_TenantID r, rs_ApplicationID r, rs_Code r)) (rule_sets db)) \<and>
    (\<forall>v \<in> set (rule_versions db). (\<exists>r \<in> set (rule_sets db). v \<in> set (versions r)) \<and>
       rv_Status v \<in> {''draft'', ''published''} \<and> (rv_Status v = ''published'' \<longleftrightarrow> rv_PublishedAt v \<noteq> None)) \<and>
    (\<forall>r \<in> set (rule_sets db). ruleCodePattern (rs_Code r) \<and> rs_Status r \<in> {''draft'', ''active'', ''disabled''} \<and>
       1 \<le> Version (rs_Audit r) \<and>
       map rv_VersionNumber (versions r) = map int [1..<Suc (length (versions r))] \<and>
       distinct (map rv_IdempotencyKey (versions r)) \<and>
       (rs_PublishedVersionNumber r = 0 \<or>
        (\<exists>v \<in> set (versions r). rv_VersionNumber v = rs_PublishedVersionNumber r \<and> rv_Status v = ''published''))) \<and>
    length (rule_outbox_events db) = length (filter (\<lambda>v. rv_Status v = ''published'') (rule_versions db)) \<and>
    distinct (map (\<lambda>x. ob_ID (or_event x)) (rule_outbox_events db))"
proof -
  from reachable_world_ok [OF assms(1)] have ok: "sets_ok db" "versions_ok db" "published_ok db" "outbox_ok db"
    by (simp_all add: world_ok_def db_ok_def db_def)
  have v: "versions r = versions_of (rs_TenantID r) (rs_ApplicationID r) (rs_ID r) db" for r
    by (simp add: versions_def versions_of_def)
  have "\<exists>r \<in> set (rule_sets db). v \<in> set (versions r)" if "v \<in> set (rule_versions db)" for v
  proof -
    from ok(2) that have "owned db v" by (simp add: versions_ok_def)
    then obtain r where "r \<in> set (rule_sets db)" "rs_ID r = rv_RuleSetID v" "in_app r (rv_TenantID v) (rv_ApplicationID v)"
      by (auto simp: owned_def)
    with that show ?thesis by (intro bexI [of _ r]) (simp_all add: versions_def same_set_def in_app_def)
  qed
  with ok show ?thesis
    by (simp add: sets_ok_def versions_ok_def published_ok_def outbox_ok_def v numbers_upt
        version_row_ok_def set_row_ok_def is_published_def [abs_def] count_where_def del: upt_Suc) blast
qed

lemma tables_consistent_witness:
  "length (rule_outbox_events (s_db demo_s3)) = length (filter (\<lambda>v. rv_Status v = ''published'') (rule_versions (s_db demo_s3)))"
  using tables_consistent [OF demo_reachable(4)] by (simp add: demo_world_def)

text \<open>C8. Versions are immutable and nothing is ever deleted: whatever calls run, in whatever
  interleaving and with whatever faults, every stored version keeps its identity, number,
  definition, checksum, key and author; a published version does not change at all; every rule set
  keeps its identity and code while its version never decreases; and the outbox only grows at its end.\<close>

theorem versions_immutable:
  assumes "step eng w w'"
  shows "(\<forall>v \<in> set (rule_versions (tables w)). \<exists>v' \<in> set (rule_versions (tables w')).
        frozen v' = frozen v \<and> (rv_Status v = ''published'' \<longrightarrow> v' = v)) \<and>
     (\<forall>r \<in> set (rule_sets (tables w)). \<exists>r' \<in> set (rule_sets (tables w')).
        set_id r' = set_id r \<and> rs_Code r' = rs_Code r \<and> CreatedAt (rs_Audit r') = CreatedAt (rs_Audit r) \<and>
        CreatedBy (rs_Audit r') = CreatedBy (rs_Audit r) \<and> Version (rs_Audit r) \<le> Version (rs_Audit r')) \<and>
     prefix (rule_outbox_events (tables w)) (rule_outbox_events (tables w'))"
  using step_extends [OF assms]
  by (simp add: extends_def keeps_versions_def keeps_sets_def keeps_events_def is_published_def)

lemma versions_immutable_witness:
  "\<exists>v' \<in> set (rule_versions (s_db demo_s3)). frozen v' = frozen demo_version"
  using versions_immutable [OF demo_steps(4)] by (auto simp: demo_world_def demo_s2_def)

section \<open>Publication\<close>

text \<open>What a publication does to the tables: the rows it leaves, where \<open>n\<close> is the version of the row
  afterwards, and the event it adds for the rule set and the version that it returns.\<close>

definition activated :: "('c, 'p) svc_env \<Rightarrow> string \<Rightarrow> RuleVersion \<Rightarrow> int \<Rightarrow> RuleSet \<Rightarrow> RuleSet" where
  "activated E actor x n r = r\<lparr>rs_Status := ''active'', rs_PublishedVersionNumber := rv_VersionNumber x,
     rs_Audit := (rs_Audit r)\<lparr>Version := n, UpdatedAt := e_now E, UpdatedBy := actor\<rparr>\<rparr>"

definition published :: "('c, 'p) svc_env \<Rightarrow> string \<Rightarrow> int \<Rightarrow> RuleVersion \<Rightarrow> RuleVersion" where
  "published E actor n x = x\<lparr>rv_Status := ''published'', rv_PublishedAt := Some (e_now E),
     rv_Audit := (rv_Audit x)\<lparr>Version := n, UpdatedAt := e_now E, UpdatedBy := actor\<rparr>\<rparr>"

definition announces :: "('c, 'p) svc_env \<Rightarrow> string \<Rightarrow> RuleSet \<Rightarrow> RuleVersion \<Rightarrow> OutboxEvent \<Rightarrow> bool" where
  "announces E actor ruleSet version event \<longleftrightarrow>
     (\<exists>metadata envelope.
        md_AggregateID metadata = rs_ID ruleSet \<and> md_TenantID metadata = rs_TenantID ruleSet \<and>
        md_ApplicationID metadata = rs_ApplicationID ruleSet \<and> md_ActorID metadata = actor \<and>
        e_envelope E metadata (ToProtoRuleSet ruleSet, ToProtoRuleVersion version) = Inr envelope \<and>
        e_marshal E envelope = Inr (ob_Envelope event) \<and> ob_ID event = e_event_id E envelope) \<and>
     ob_Subject event = ''platform.rule.rule-version.published.v1'' \<and>
     ob_AvailableAt event = e_now E \<and> ob_CreatedBy event = actor"

definition publication ::
  "('c, 'p) svc_env \<Rightarrow> string \<Rightarrow> string \<times> string \<times> string \<Rightarrow> string \<Rightarrow> int \<Rightarrow> int \<Rightarrow> RuleSet \<Rightarrow> RuleVersion \<Rightarrow>
     rule_db \<Rightarrow> rule_db \<Rightarrow> bool" where
  "publication E actor k v re ve ruleSet version db db' \<longleftrightarrow>
     (\<exists>rs r rs' vs x vs' event.
        rule_sets db = rs @ r # rs' \<and> set_id r = k \<and> Version (rs_Audit r) = re \<and>
        rule_versions db = vs @ x # vs' \<and> (rv_TenantID x, rv_ApplicationID x, rv_RuleSetID x) = k \<and> rv_ID x = v \<and>
        rv_Status x = ''draft'' \<and> Version (rv_Audit x) = ve \<and>
        rule_sets db' = rs @ activated E actor x (re + 1) r # rs' \<and>
        rule_versions db' = vs @ published E actor (ve + 1) x # vs' \<and>
        rule_outbox_events db' = rule_outbox_events db @
          [\<lparr>or_event = event, or_attempts = 0, or_published_at = None, or_last_error = [], or_version = 1\<rparr>] \<and>
        announces E actor ruleSet version event \<and>
        (\<forall>o' \<in> set (rule_outbox_events db). ob_ID (or_event o') \<noteq> ob_ID event) \<and>
        ruleSet = activated E actor x (i64 (re + 1)) r \<and> version = published E actor (i64 (ve + 1)) x)"

text \<open>An update of rows by a condition that holds of one row only.\<close>

lemma update_where_one:
  assumes "distinct (map f xs)" and "x \<in> set xs" and "P x" and "\<And>y. P y \<Longrightarrow> f y = f x"
  obtains pre post where "xs = pre @ x # post" "\<And>g. update_where P g xs = pre @ g x # post"
proof -
  from assms(2) obtain pre post where xs: "xs = pre @ x # post" by (auto simp: in_set_conv_decomp)
  with assms(1) have "f x \<notin> f ` set pre" "f x \<notin> f ` set post" by auto
  then have "\<not> P y" if "y \<in> set pre \<union> set post" for y
    using that assms(4) [of y] by (metis UnE image_eqI)
  then have "update_where P g xs = pre @ g x # post" for g
    using assms(3) by (simp add: xs update_where_def map_idI)
  with xs that show thesis by blast
qed

lemma numbers_pos: "n \<in> set (numbers k) \<Longrightarrow> 1 \<le> n"
  by (induction k) auto

text \<open>The plan is made of the rows that were asked for.\<close>

lemma publish_prepare_rows:
  assumes "publish_prepare E c t a i v re ve s = (Inr plan, s')" and "db_ok (s_db s)"
  obtains actor r x cd where "authorize c t = Inr actor"
    "r \<in> set (rule_sets (s_db s))" "set_id r = (t, a, i)" "x \<in> set (rule_versions (s_db s))" "same_set x t a i"
    "rv_ID x = v" "CompileDefinition (e_engine E) (rv_DefinitionJSON x) = Inr cd" "plan = plan_of E actor re ve r x cd"
proof -
  from assms(1) obtain actor r x cd where p: "authorize c t = Inr actor"
    "sql_GetRuleSet (e_db E) t a i [] (s_db s) = Inr r" "sql_GetRuleVersion (e_db E) t a i v 0 (s_db s) = Inr x"
    "CompileDefinition (e_engine E) (rv_DefinitionJSON x) = Inr cd" "plan = plan_of E actor re ve r x cd"
    by (rule publish_prepare_Inr)
  note r = sql_GetRuleSet_Inr [OF p(2)] and x = sql_GetRuleVersion_Inr [OF p(3)]
  from r code_not_empty [OF assms(2)] have k: "set_id r = (t, a, i)"
    by (auto simp: in_app_def set_id_def split: if_splits)
  from x have "x \<in> set (versions_of t a i (s_db s))" by (simp add: versions_of_def)
  moreover have "map rv_VersionNumber (versions_of t a i (s_db s)) = numbers (length (versions_of t a i (s_db s)))"
    using assms(2) by (simp add: db_ok_def versions_ok_def)
  ultimately have "rv_VersionNumber x \<in> set (numbers (length (versions_of t a i (s_db s))))"
    by (metis image_eqI set_map)
  then have "1 \<le> rv_VersionNumber x" by (rule numbers_pos)
  with x have "rv_ID x = v" by (auto split: if_splits)
  with p r x k that show thesis by blast
qed

lemma addEvent_announces:
  assumes "addEvent E ruleSet version actor (e_now E) db = (Inr u, db')"
  obtains event where "announces E actor ruleSet version event"
    "db' = db\<lparr>rule_outbox_events := rule_outbox_events db @
       [\<lparr>or_event = event, or_attempts = 0, or_published_at = None, or_last_error = [], or_version = 1\<rparr>]\<rparr>"
    "\<forall>o' \<in> set (rule_outbox_events db). ob_ID (or_event o') \<noteq> ob_ID event"
proof -
  from assms obtain envelope encoded event where
    e: "e_envelope E \<lparr>md_EventID = e_event_uuid E, md_EventType = ''platform.rule.v1.RuleVersionPublished'',
        md_AggregateID = rs_ID ruleSet, md_AggregateType = ''rule_set'', md_TenantID = rs_TenantID ruleSet,
        md_ApplicationID = rs_ApplicationID ruleSet, md_SchemaVersion = 1, md_ActorID = actor,
        md_OccurredAt = e_now E\<rparr> (ToProtoRuleSet ruleSet, ToProtoRuleVersion version) = Inr envelope"
      "e_marshal E envelope = Inr encoded"
    and event: "event = \<lparr>ob_ID = e_event_id E envelope, ob_Subject = ''platform.rule.rule-version.published.v1'',
        ob_Envelope = encoded, ob_AvailableAt = e_now E, ob_CreatedAt = e_now E, ob_UpdatedAt = e_now E,
        ob_CreatedBy = actor, ob_UpdatedBy = actor\<rparr>" "sql_AddOutbox (e_db E) event db = (Inr u, db')"
    unfolding addEvent_def by (auto split: sum.splits)
  have "announces E actor ruleSet version event"
    unfolding announces_def using e by (intro conjI exI) (simp_all add: event(1))
  with sql_AddOutbox_Inr [OF event(2)] show thesis by (intro that [of event]) (auto simp: image_iff)
qed

lemma plan_of_simps [simp]:
  "pl_ruleSet (plan_of E actor re ve r x cd) = activated E actor x (i64 (re + 1)) r"
  "pl_version (plan_of E actor re ve r x cd) = published E actor (i64 (ve + 1)) x"
  "pl_compiled (plan_of E actor re ve r x cd) = cd" "pl_actor (plan_of E actor re ve r x cd) = actor"
  by (simp_all add: plan_of_def activated_def published_def)

lemma publish_tx_publication:
  assumes "publish_tx E re ve (plan_of E actor re ve r x cd) db = (Inr u, db')" and "db_ok db"
    and "r \<in> set (rule_sets db)" "set_id r = k" "x \<in> set (rule_versions db)"
    and "(rv_TenantID x, rv_ApplicationID x, rv_RuleSetID x) = k"
  shows "publication E actor k (rv_ID x) re ve (activated E actor x (i64 (re + 1)) r) (published E actor (i64 (ve + 1)) x) db db'"
proof -
  define y where "y = activated E actor x (i64 (re + 1)) r"
  define z where "z = published E actor (i64 (ve + 1)) x"
  from assms(1) obtain db1 where
    sql: "sql_PublishRuleVersion (e_db E) y z re ve db = (Inr (), db1)"
    and "addEvent E y z actor (e_now E) db1 = (Inr u, db')"
    unfolding publish_tx_def y_def z_def by (auto simp: published_def split: prod.splits sum.splits)
  from this(2) obtain event where e: "announces E actor y z event"
    "db' = db1\<lparr>rule_outbox_events := rule_outbox_events db1 @
       [\<lparr>or_event = event, or_attempts = 0, or_published_at = None, or_last_error = [], or_version = 1\<rparr>]\<rparr>"
    "\<forall>o' \<in> set (rule_outbox_events db1). ob_ID (or_event o') \<noteq> ob_ID event"
    by (rule addEvent_announces)
  let ?V = "version_row z ve" and ?R = "\<lambda>q. set_key (set_id y) q \<and> Version (rs_Audit q) = re"
  note d = sql_PublishRuleVersion_Inr [OF sql]
  from assms(2) have dist: "distinct (map rv_ID (rule_versions db))" "distinct (map rs_ID (rule_sets db))"
    by (simp_all add: db_ok_def versions_ok_def sets_ok_def)
  have id: "rs_ID y = rs_ID r" "rv_ID z = rv_ID x" by (simp_all add: y_def z_def activated_def published_def)
  from d obtain x0 where "x0 \<in> set (rule_versions db)" "?V x0" by blast
  moreover from this have "x0 = x" using distinct_map_eq [OF dist(1)] assms(5) by (simp add: version_row_def id)
  ultimately have x: "?V x" by simp
  from d obtain r0 where "r0 \<in> set (rule_sets db)" "?R r0" by blast
  moreover from this have "r0 = r" using distinct_map_eq [OF dist(2)] assms(3) by (simp add: set_key_def set_id_def id)
  ultimately have r: "?R r" by simp
  obtain vs vs' where v: "rule_versions db = vs @ x # vs'" "\<And>g. update_where ?V g (rule_versions db) = vs @ g x # vs'"
    using update_where_one [where P = ?V, OF dist(1) assms(5) x] by (auto simp: version_row_def id)
  obtain rs rs' where s: "rule_sets db = rs @ r # rs'" "\<And>g. update_where ?R g (rule_sets db) = rs @ g r # rs'"
    using update_where_one [where P = ?R, OF dist(2) assms(3) r] by (auto simp: set_key_def set_id_def id)
  have "publish_version_row z x = published E actor (ve + 1) x"
    using x by (simp add: publish_version_row_def z_def published_def version_row_def)
  moreover have "publish_set_row y z r = activated E actor x (re + 1) r"
    using r by (simp add: publish_set_row_def y_def z_def published_def activated_def)
  ultimately show ?thesis
    unfolding publication_def y_def [symmetric] z_def [symmetric] using x r v s d e assms(4,6)
    by (intro exI [of _ rs] exI [of _ r] exI [of _ rs'] exI [of _ vs] exI [of _ x] exI [of _ vs'] exI [of _ event])
      (simp add: version_row_def y_def z_def)
qed

text \<open>C4. Publication is atomic and announces itself, in every reachable state. A publication that
  succeeds changes exactly one row of each table: the draft with the requested id, in the requested
  rule set and at the expected version, becomes published, the requested rule set, at its expected
  version, becomes active with the number of that draft, and all other rows stay in place; exactly one
  event is appended to the outbox, for the rule set and version that are returned, under an
  identifier no event had; and the cache gains the compiled definition of that draft. A publication
  that fails leaves the tables and the cache as they were, with one exception: the database applied a
  commit that it reported as failed, and then the tables are those of the whole publication.\<close>

theorem publish_atomic:
  assumes "reachable (e_engine E) w" and "PublishRuleVersion E c t a i v re ve (w_svc w) = (res, s')"
  shows "case res of
      Inr (ruleSet, version) \<Rightarrow>
        (\<exists>actor cd. authorize c t = Inr actor \<and>
           publication E actor (t, a, i) v re ve ruleSet version (s_db (w_svc w)) (s_db s') \<and>
           CompileDefinition (e_engine E) (rv_DefinitionJSON version) = Inr cd \<and>
           s_compiled s' = (s_compiled (w_svc w))(rv_Checksum version \<mapsto> cd))
    | Inl e \<Rightarrow>
        s' = w_svc w \<or>
        (commit_error (e_db E) \<noteq> None \<and> commit_kept (e_db E) \<and> s_compiled s' = s_compiled (w_svc w) \<and>
         (\<exists>actor ruleSet version. authorize c t = Inr actor \<and>
            publication E actor (t, a, i) v re ve ruleSet version (s_db (w_svc w)) (s_db s')))"
proof (cases "publish_prepare E c t a i v re ve (w_svc w)")
  case (Pair p s1)
  then have [simp]: "s1 = w_svc w" by (rule publish_prepare_cases)
  have ok: "db_ok (s_db (w_svc w))" using reachable_world_ok [OF assms(1)] by (simp add: world_ok_def)
  show ?thesis
  proof (cases p)
    case (Inl e)
    with assms(2) Pair have "res = Inl e" "s' = w_svc w" by (simp_all add: PublishRuleVersion_def)
    then show ?thesis by simp
  next
    case (Inr plan)
    with Pair obtain actor r x cd where plan: "authorize c t = Inr actor"
      "r \<in> set (rule_sets (s_db (w_svc w)))" "set_id r = (t, a, i)" "x \<in> set (rule_versions (s_db (w_svc w)))"
      "same_set x t a i" "rv_ID x = v" "CompileDefinition (e_engine E) (rv_DefinitionJSON x) = Inr cd"
      "plan = plan_of E actor re ve r x cd"
      using publish_prepare_rows ok by metis
    let ?r = "activated E actor x (i64 (re + 1)) r" and ?x = "published E actor (i64 (ve + 1)) x"
    from assms(2) Pair Inr have "publish_commit E re ve plan (w_svc w) = (res, s')" by (simp add: PublishRuleVersion_def)
    then obtain r2 s2 where run: "run_tx E (publish_tx E re ve plan) (w_svc w) = (r2, s2)"
      and out: "(\<exists>e. r2 = Inl e \<and> res = Inl e \<and> s' = s2) \<or>
        (r2 = Inr () \<and> res = Inr (?r, ?x) \<and> s' = store_compiled (rv_Checksum ?x) cd s2)"
      using publish_commit_run by (metis plan(8) plan_of_simps(1-3))
    have pub: "publication E actor (t, a, i) v re ve ?r ?x (s_db (w_svc w)) (s_db s2)"
      if "ran (publish_tx E re ve plan) (w_svc w) s2"
      using publish_tx_publication [OF _ ok plan(2-4)] that plan(5,6,8) by (auto simp: ran_def same_set_def)
    from out show ?thesis
    proof
      assume "\<exists>e. r2 = Inl e \<and> res = Inl e \<and> s' = s2"
      then obtain e where e: "r2 = Inl e" "res = Inl e" "s' = s2" by blast
      from run_tx_cases [OF run] run_tx_Inl [OF run [unfolded e(1)]] have "s2 = w_svc w \<or>
        (commit_error (e_db E) \<noteq> None \<and> commit_kept (e_db E) \<and> ran (publish_tx E re ve plan) (w_svc w) s2)"
        by (cases "commit_error (e_db E) = None \<or> \<not> commit_kept (e_db E)") auto
      with pub plan(1) e show ?thesis by (auto simp: ran_def)
    next
      assume s: "r2 = Inr () \<and> res = Inr (?r, ?x) \<and> s' = store_compiled (rv_Checksum ?x) cd s2"
      then have "ran (publish_tx E re ve plan) (w_svc w) s2" using run_tx_Inr [of E _ "w_svc w" "()" s2] run by (auto simp: ran_def)
      moreover have "rv_DefinitionJSON ?x = rv_DefinitionJSON x" by (simp add: published_def)
      ultimately show ?thesis using s pub plan(1,7) by (auto simp: ran_def store_compiled_def)
    qed
  qed
qed

lemma publish_atomic_witness:
  "publication (demo_env ''e'') ''u'' (''t'', ''a'', ''s'') ''v'' 1 1 demo_set2 demo_version2 (s_db demo_s2) (s_db demo_s3)"
  using publish_atomic [of "demo_env ''e''" "demo_world demo_s2 {#}" demo_ctx "''t''" "''a''" "''s''" "''v''" 1 1
      "Inr (demo_set2, demo_version2)" demo_s3] demo_reachable(2) demo_publishes
  by (simp add: demo_world_def)

text \<open>C11. Every published version compiles: in every reachable state, the stored definition of a
  published version compiles, to a definition whose canonical text has the stored checksum.\<close>

theorem published_compiles:
  assumes "reachable eng w" and "v \<in> set (rule_versions (s_db (w_svc w)))" and "rv_Status v = ''published''"
  shows "\<exists>cd. CompileDefinition eng (rv_DefinitionJSON v) = Inr cd \<and> cd_checksum cd = rv_Checksum v \<and>
     sha256_hex (cd_canonicalJSON cd) = rv_Checksum v"
proof -
  from reachable_world_ok [OF assms(1)] assms(2,3) obtain cd where
    "CompileDefinition eng (rv_DefinitionJSON v) = Inr cd" "cd_checksum cd = rv_Checksum v"
    by (auto simp: world_ok_def compiles_ok_def is_published_def)
  moreover from this(1) have "cd_checksum cd = sha256_hex (cd_canonicalJSON cd)" by (rule canonical_form) blast
  ultimately show ?thesis by auto
qed

lemma published_compiles_witness:
  "\<exists>cd. CompileDefinition demo_engine demo_raw = Inr cd \<and> cd_checksum cd = sha256_hex demo_raw"
  using published_compiles [OF demo_reachable(4), of demo_version2]
  by (auto simp: demo_world_def demo_s3_def) (auto simp: demo_rows)

text \<open>C5. An evaluation runs what was published: in every reachable state, whether or not the
  definition comes from the cache, an evaluation that succeeds returns a stored, published version of
  the caller's tenant and application, and the outcome of that version's stored definition on the
  facts, provided the checksum of the cached text does not collide with that of the stored one.\<close>

theorem evaluation_runs_published:
  assumes "reachable (e_engine E) w"
    and "Evaluate E c t a i code n facts (w_svc w) = (Inr (ev, v), s')"
    and "\<And>cached stored. s_compiled (w_svc w) (rv_Checksum v) = Some cached \<Longrightarrow>
       CompileDefinition (e_engine E) (rv_DefinitionJSON v) = Inr stored \<Longrightarrow>
       sha256_hex (cd_canonicalJSON cached) = sha256_hex (cd_canonicalJSON stored) \<Longrightarrow>
       cd_canonicalJSON cached = cd_canonicalJSON stored"
  shows "v \<in> set (rule_versions (s_db (w_svc w))) \<and> rv_Status v = ''published'' \<and>
    rv_TenantID v = TrimSpace t \<and> rv_ApplicationID v = TrimSpace a \<and>
    (\<exists>cd. CompileDefinition (e_engine E) (rv_DefinitionJSON v) = Inr cd \<and>
       EvaluateDefinition (e_engine E) c cd facts = Inr ev)"
proof -
  have ok: "world_ok (e_engine E) w" using reachable_world_ok [OF assms(1)] .
  from assms(2) obtain ruleSet cd where
    rs: "sql_GetRuleSet (e_db E) (TrimSpace t) (TrimSpace a) (TrimSpace i) (ToLower (e_uni E) (TrimSpace code)) (s_db (w_svc w)) = Inr ruleSet"
    and v: "sql_GetRuleVersion (e_db E) (rs_TenantID ruleSet) (rs_ApplicationID ruleSet) (rs_ID ruleSet) []
         (if n = 0 then rs_PublishedVersionNumber ruleSet else n) (s_db (w_svc w)) = Inr v"
    and p: "rv_Status v = ''published''" and cd: "compiledDefinition E v (w_svc w) = (Inr cd, s')"
    and ev: "EvaluateDefinition (e_engine E) c cd facts = Inr ev"
    by (rule Evaluate_Inr)
  from sql_GetRuleVersion_Inr [OF v] sql_GetRuleSet_Inr [OF rs] have
    m: "v \<in> set (rule_versions (s_db (w_svc w)))" "rv_TenantID v = TrimSpace t" "rv_ApplicationID v = TrimSpace a"
    by (auto simp: same_set_def in_app_def)
  from ok m(1) p obtain stored where st: "CompileDefinition (e_engine E) (rv_DefinitionJSON v) = Inr stored"
    "cd_checksum stored = rv_Checksum v"
    by (auto simp: world_ok_def compiles_ok_def is_published_def)
  from cd have "cd = stored"
  proof (cases rule: compiledDefinition_cases)
    case (hit cached)
    then have "s_compiled (w_svc w) (rv_Checksum v) = Some cd" by simp
    moreover from ok have "cache_ok (e_engine E) (s_compiled (w_svc w))" by (simp add: world_ok_def)
    ultimately obtain raw where c: "CompileDefinition (e_engine E) raw = Inr cd" "cd_checksum cd = rv_Checksum v"
      unfolding cache_ok_def by blast
    have "cd_checksum cd = sha256_hex (cd_canonicalJSON cd)" using c(1) by (rule canonical_form) blast
    moreover have "cd_checksum stored = sha256_hex (cd_canonicalJSON stored)" using st(1) by (rule canonical_form) blast
    ultimately have "cd_canonicalJSON cd = cd_canonicalJSON stored" using assms(3) hit st c(2) by auto
    then show ?thesis by (rule canonical_unique [OF c(1) st(1)])
  qed (use st in simp_all)
  with m p st(1) ev show ?thesis by blast
qed

lemma evaluation_runs_published_witness:
  "\<exists>cd. CompileDefinition demo_engine demo_raw = Inr cd \<and> EvaluateDefinition demo_engine demo_ctx cd ''{}'' = Inr demo_evaluation"
proof -
  have "\<exists>cd. CompileDefinition demo_engine (rv_DefinitionJSON demo_version2) = Inr cd \<and>
      EvaluateDefinition demo_engine demo_ctx cd ''{}'' = Inr demo_evaluation"
    using evaluation_runs_published [of "demo_env []" "demo_world demo_s3 {#}" demo_ctx "''t''" "''a''" "''s''" "[]" 0
        "''{}''" demo_evaluation demo_version2 demo_s3] demo_reachable(4) demo_runs demo_compiles
    by (auto simp: demo_world_def demo_s3_def demo_cache_def) (auto simp: demo_rows)
  then show ?thesis by (simp add: demo_rows)
qed

end
