(* ===== verification/OptimisticLocking.thy ===== *)
theory OptimisticLocking
  imports DemoRun
begin

text \<open>
  Optimistic locking, as a contract: a store whose rows carry a version, and commits that name the
  version they were prepared against. From the contract alone, of two commits prepared against the same
  version of a row at most one takes effect, whatever happens in between. The rule sets of the service,
  under \<open>UpdateRuleSet\<close> and \<open>PublishRuleVersion\<close>, meet the contract.
\<close>

section \<open>The contract\<close>

locale versioned_store =
  fixes good :: "'s \<Rightarrow> bool"
    and contents :: "'s \<Rightarrow> 't"
    and row_version :: "'k \<Rightarrow> 's \<Rightarrow> int option"
    and evolves :: "'s \<Rightarrow> 's \<Rightarrow> bool"
    and commit :: "'op \<Rightarrow> 's \<Rightarrow> ('e + 'r) \<times> 's"
    and op_key :: "'op \<Rightarrow> 'k"
    and op_expected :: "'op \<Rightarrow> int"
  assumes commit_cases: "good s \<Longrightarrow> commit op s = (r, s') \<Longrightarrow>
      (\<exists>e. r = Inl e) \<and> contents s' = contents s \<or>
      row_version (op_key op) s = Some (op_expected op) \<and> row_version (op_key op) s' = Some (op_expected op + 1)"
    and evolves_good: "evolves s s' \<Longrightarrow> good s'"
    and evolves_version: "evolves s s' \<Longrightarrow> row_version k s = Some n \<Longrightarrow> \<exists>m \<ge> n. row_version k s' = Some m"
begin

lemma versions_grow:
  "evolves\<^sup>*\<^sup>* s s' \<Longrightarrow> row_version k s = Some n \<Longrightarrow> \<exists>m \<ge> n. row_version k s' = Some m"
proof (induction rule: rtranclp_induct)
  case (step s' s'')
  then obtain m where "n \<le> m" "row_version k s' = Some m" by blast
  with evolves_version [OF step(2)] show ?case by (meson order_trans)
qed simp

lemma stays_good: "evolves\<^sup>*\<^sup>* s s' \<Longrightarrow> good s \<Longrightarrow> good s'"
  by (induction rule: rtranclp_induct) (auto intro: evolves_good)

text \<open>Commits that take effect on a row do so in the order of the versions they expect.\<close>

lemma later_expects_more:
  assumes "good s1" and "commit op1 s1 = (Inr x, s2)" and "good s2" and "evolves\<^sup>*\<^sup>* s2 s3"
    and "op_key op1 = op_key op2" and "commit op2 s3 = (r, s4)" and "op_expected op2 \<le> op_expected op1"
  shows "(\<exists>e. r = Inl e) \<and> contents s4 = contents s3"
proof -
  from commit_cases [OF assms(1,2)] have "row_version (op_key op1) s2 = Some (op_expected op1 + 1)" by simp
  with versions_grow [OF assms(4)] obtain m where "op_expected op1 + 1 \<le> m" "row_version (op_key op1) s3 = Some m"
    by blast
  with commit_cases [OF stays_good [OF assms(4,3)] assms(6)] assms(5,7) show ?thesis by auto
qed

end

section \<open>Rule sets\<close>

datatype 'p commit_op = UpdateOp int RuleSet | PublishOp int int "'p publish_plan"

fun rule_set_key :: "('c, 'p) svc_env \<times> 'p commit_op \<Rightarrow> string \<times> string \<times> string" where
  "rule_set_key (E, UpdateOp e value) = set_id value"
| "rule_set_key (E, PublishOp re ve plan) = set_id (pl_ruleSet plan)"

fun rule_set_expected :: "('c, 'p) svc_env \<times> 'p commit_op \<Rightarrow> int" where
  "rule_set_expected (E, UpdateOp e value) = e"
| "rule_set_expected (E, PublishOp re ve plan) = re"

fun run_commit :: "('c, 'p) svc_env \<times> 'p commit_op \<Rightarrow> 'p svc_state \<Rightarrow> (go_error + unit) \<times> 'p svc_state" where
  "run_commit (E, UpdateOp e value) s = (case update_commit E e value s of (r, s') \<Rightarrow> (map_sum id (\<lambda>_. ()) r, s'))"
| "run_commit (E, PublishOp re ve plan) s = (case publish_commit E re ve plan s of (r, s') \<Rightarrow> (map_sum id (\<lambda>_. ()) r, s'))"

definition set_version :: "string \<times> string \<times> string \<Rightarrow> 'p svc_state \<Rightarrow> int option" where
  "set_version k s = map_option (\<lambda>r. Version (rs_Audit r)) (find (set_key k) (rule_sets (s_db s)))"

definition evolves_to :: "('c, 'p) cel_engine \<Rightarrow> 'p svc_state \<Rightarrow> 'p svc_state \<Rightarrow> bool" where
  "evolves_to eng s s' \<longleftrightarrow> (\<exists>w w'. reachable eng w \<and> step eng w w' \<and> s = w_svc w \<and> s' = w_svc w')"

lemma set_key_id: "set_key k r \<longleftrightarrow> set_id r = k"
  by (simp add: set_key_def set_id_def)

lemma set_version_Some:
  assumes "db_ok (s_db s)"
  shows "set_version k s = Some n \<longleftrightarrow> (\<exists>r \<in> set (rule_sets (s_db s)). set_id r = k \<and> Version (rs_Audit r) = n)"
proof
  assume "set_version k s = Some n"
  then obtain r where "find (set_key k) (rule_sets (s_db s)) = Some r" "Version (rs_Audit r) = n"
    by (auto simp: set_version_def)
  with find_SomeD [OF this(1)] show "\<exists>r \<in> set (rule_sets (s_db s)). set_id r = k \<and> Version (rs_Audit r) = n"
    by (auto simp: set_key_id)
next
  assume "\<exists>r \<in> set (rule_sets (s_db s)). set_id r = k \<and> Version (rs_Audit r) = n"
  then obtain r where r: "r \<in> set (rule_sets (s_db s))" "set_id r = k" "Version (rs_Audit r) = n" by blast
  have "distinct (map rs_ID (rule_sets (s_db s)))" using assms by (simp add: db_ok_def sets_ok_def)
  with r(1,2) have "find (set_key k) (rule_sets (s_db s)) = Some r"
    by (intro find_unique) (auto simp: set_key_id set_id_def dest: distinct_map_eq)
  with r(3) show "set_version k s = Some n" by (simp add: set_version_def)
qed

lemma find_update_where:
  "(\<And>x. Q (f x) = Q x) \<Longrightarrow> find Q (update_where P f xs) = map_option (\<lambda>x. if P x then f x else x) (find Q xs)"
  by (induction xs) (auto simp: update_where_def)

lemma set_version_bump:
  assumes "rule_sets (s_db s') = update_where (\<lambda>r. set_key k r \<and> Version (rs_Audit r) = n) f (rule_sets (s_db s))"
    and "\<And>r. set_id (f r) = set_id r" and "\<And>r. Version (rs_Audit (f r)) = Version (rs_Audit r) + 1"
    and "set_version k s = Some n"
  shows "set_version k s' = Some (n + 1)"
proof -
  have "find (set_key k) (rule_sets (s_db s')) =
      map_option (\<lambda>r. if set_key k r \<and> Version (rs_Audit r) = n then f r else r) (find (set_key k) (rule_sets (s_db s)))"
    unfolding assms(1) by (rule find_update_where) (simp add: set_key_id assms(2))
  moreover from assms(4) obtain r where "find (set_key k) (rule_sets (s_db s)) = Some r" "Version (rs_Audit r) = n"
    by (auto simp: set_version_def)
  moreover from find_SomeD [OF this(1)] have "set_key k r" by simp
  ultimately show ?thesis by (simp add: set_version_def assms(3))
qed

text \<open>A transaction that bumps one rule set: nothing happened, or the version went up by one.\<close>

lemma bump_cases:
  assumes "db_ok (s_db s)" and "run_tx E fn s = (r2, s2)" and "s_db s' = s_db s2"
    and "\<And>x. fn (s_db s) = (Inr x, s_db s2) \<Longrightarrow>
      rule_sets (s_db s2) = update_where (\<lambda>r. set_key k r \<and> Version (rs_Audit r) = n) f (rule_sets (s_db s)) \<and>
      (\<exists>r \<in> set (rule_sets (s_db s)). set_key k r \<and> Version (rs_Audit r) = n)"
    and "\<And>r. set_id (f r) = set_id r" and "\<And>r. Version (rs_Audit (f r)) = Version (rs_Audit r) + 1"
  shows "(\<exists>e. r2 = Inl e) \<and> s_db s' = s_db s \<or> set_version k s = Some n \<and> set_version k s' = Some (n + 1)"
proof (cases "\<exists>x. fn (s_db s) = (Inr x, s_db s2)")
  case True
  with assms(4) have u: "rule_sets (s_db s') = update_where (\<lambda>r. set_key k r \<and> Version (rs_Audit r) = n) f (rule_sets (s_db s))"
    and e: "\<exists>r \<in> set (rule_sets (s_db s)). set_key k r \<and> Version (rs_Audit r) = n"
    using assms(3) by auto
  from e have "set_version k s = Some n" by (simp add: set_version_Some [OF assms(1)] set_key_id)
  with set_version_bump [OF u assms(5,6)] show ?thesis by blast
next
  case False
  with run_tx_db [OF assms(2)] have "s_db s2 = s_db s" by blast
  moreover have "\<exists>e. r2 = Inl e" using False run_tx_Inr [of E fn s _ s2] assms(2) by (cases r2) auto
  ultimately show ?thesis using assms(3) by simp
qed

lemma run_commit_cases:
  assumes "db_ok (s_db s)" and "run_commit op s = (r, s')"
  shows "(\<exists>e. r = Inl e) \<and> s_db s' = s_db s \<or>
    set_version (rule_set_key op) s = Some (rule_set_expected op) \<and>
    set_version (rule_set_key op) s' = Some (rule_set_expected op + 1)"
proof (cases op rule: rule_set_key.cases)
  case (1 E e val)
  note op = this
  obtain r2 s2 where run: "run_tx E (sql_UpdateRuleSet (e_db E) val e) s = (r2, s2)" by (meson surj_pair)
  then have "update_commit E e val s = (map_sum id (\<lambda>_. val) r2, s2)" by (simp add: update_commit_def)
  with assms(2) have r: "r = map_sum id (\<lambda>_. ()) (map_sum id (\<lambda>_. val) r2)" "s' = s2"
    by (simp_all add: op)
  let ?f = "bump_set (rs_Name val) (rs_Description val) (rs_Status val) (UpdatedAt (rs_Audit val)) (UpdatedBy (rs_Audit val))"
  have "rule_sets (s_db s2) = update_where (\<lambda>x. set_key (set_id val) x \<and> Version (rs_Audit x) = e) ?f (rule_sets (s_db s)) \<and>
      (\<exists>x \<in> set (rule_sets (s_db s)). set_key (set_id val) x \<and> Version (rs_Audit x) = e)"
    if "sql_UpdateRuleSet (e_db E) val e (s_db s) = (Inr u, s_db s2)" for u
    using sql_UpdateRuleSet_Inr [OF that] by simp
  moreover have "s_db s' = s_db s2" "\<And>x. set_id (?f x) = set_id x" "\<And>x. Version (rs_Audit (?f x)) = Version (rs_Audit x) + 1"
    by (simp_all add: r(2))
  ultimately have "(\<exists>e. r2 = Inl e) \<and> s_db s' = s_db s \<or> set_version (set_id val) s = Some e \<and> set_version (set_id val) s' = Some (e + 1)"
    using bump_cases [OF assms(1) run, of s' "set_id val" e ?f] by blast
  with r(1) show ?thesis by (cases r2) (auto simp: op)
next
  case (2 E re ve plan)
  note op = this
  obtain r0 where c: "publish_commit E re ve plan s = (r0, s')" and r: "r = map_sum id (\<lambda>_. ()) r0"
    using assms(2) by (auto simp: op split: prod.split_asm)
  from c obtain r2 s2 where run: "run_tx E (publish_tx E re ve plan) s = (r2, s2)" and d: "s_db s' = s_db s2"
    and r2: "(\<exists>e. r2 = Inl e) \<longleftrightarrow> (\<exists>e. r0 = Inl e)"
    by (rule publish_commit_run) auto
  let ?f = "publish_set_row (pl_ruleSet plan) (pl_version plan)" and ?k = "set_id (pl_ruleSet plan)"
  have "rule_sets (s_db s2) = update_where (\<lambda>x. set_key ?k x \<and> Version (rs_Audit x) = re) ?f (rule_sets (s_db s)) \<and>
      (\<exists>x \<in> set (rule_sets (s_db s)). set_key ?k x \<and> Version (rs_Audit x) = re)"
    if "publish_tx E re ve plan (s_db s) = (Inr u, s_db s2)" for u
    by (rule publish_tx_Inr [OF that]) auto
  moreover have "\<And>x. set_id (?f x) = set_id x" "\<And>x. Version (rs_Audit (?f x)) = Version (rs_Audit x) + 1"
    by simp_all
  ultimately have "(\<exists>e. r2 = Inl e) \<and> s_db s' = s_db s \<or> set_version ?k s = Some re \<and> set_version ?k s' = Some (re + 1)"
    using bump_cases [OF assms(1) run d, of ?k re ?f] by blast
  with r r2 show ?thesis by (auto simp: op)
qed

lemma evolves_to_version:
  assumes "evolves_to eng s s'" and "set_version k s = Some n"
  shows "\<exists>m \<ge> n. set_version k s' = Some m"
proof -
  from assms(1) obtain w w' where w: "reachable eng w" "step eng w w'" "s = w_svc w" "s' = w_svc w'"
    by (auto simp: evolves_to_def)
  then have ok: "db_ok (s_db s)" "db_ok (s_db s')"
    using reachable_world_ok [of eng] reachable.more [of eng] by (simp_all add: world_ok_def)
  from assms(2) obtain r where r: "r \<in> set (rule_sets (s_db s))" "set_id r = k" "Version (rs_Audit r) = n"
    by (auto simp: set_version_Some [OF ok(1)])
  with step_extends [OF w(2)] obtain r' where "r' \<in> set (rule_sets (s_db s'))" "set_id r' = set_id r"
    "Version (rs_Audit r) \<le> Version (rs_Audit r')"
    unfolding extends_def keeps_sets_def w(3,4) by blast
  with r show ?thesis
    by (intro exI [of _ "Version (rs_Audit r')"]) (auto simp: set_version_Some [OF ok(2)])
qed

lemma evolves_to_good: "evolves_to eng s s' \<Longrightarrow> db_ok (s_db s')"
  using reachable_world_ok [of eng] reachable.more [of eng] by (auto simp: evolves_to_def world_ok_def)

interpretation rule_sets: versioned_store
    "\<lambda>s. db_ok (s_db s)" s_db set_version "evolves_to eng" run_commit rule_set_key rule_set_expected
  for eng :: "('c, 'p) cel_engine"
  by unfold_locales (rule run_commit_cases evolves_to_good evolves_to_version; assumption)+

lemma steps_evolve:
  assumes "reachable eng w" and "(step eng)\<^sup>*\<^sup>* w w'"
  shows "reachable eng w' \<and> (evolves_to eng)\<^sup>*\<^sup>* (w_svc w) (w_svc w')"
  using assms(2,1)
proof (induction rule: rtranclp_induct)
  case (step y z)
  then have "evolves_to eng (w_svc y) (w_svc z)" unfolding evolves_to_def by blast
  with step show ?case by (meson reachable.more rtranclp.rtrancl_into_rtrancl)
qed simp

text \<open>C3. No update of a rule set is lost. Take a commit of \<open>UpdateRuleSet\<close> or \<open>PublishRuleVersion\<close>
  that succeeded, at any point of any run, then any calls of any clients, then another commit to the
  same rule set that was prepared against the same version of it, or an older one: it fails, and
  leaves the tables unchanged.\<close>

theorem no_lost_update:
  fixes eng :: "('c, 'p) cel_engine" and op1 op2 :: "('c, 'p) svc_env \<times> 'p commit_op"
  assumes "reachable eng w1" and "step eng w1 w2" and "run_commit op1 (w_svc w1) = (Inr x, w_svc w2)"
    and "(step eng)\<^sup>*\<^sup>* w2 w3" and "run_commit op2 (w_svc w3) = (r, s')"
    and "rule_set_key op1 = rule_set_key op2" and "rule_set_expected op2 \<le> rule_set_expected op1"
  shows "(\<exists>e. r = Inl e) \<and> s_db s' = s_db (w_svc w3)"
proof -
  have r2: "reachable eng w2" using assms(1,2) by (rule reachable.more)
  then have "db_ok (s_db (w_svc w1))" "db_ok (s_db (w_svc w2))"
    using assms(1) reachable_world_ok by (auto simp: world_ok_def)
  then show ?thesis
    using rule_sets.later_expects_more [OF _ assms(3) _ _ assms(6) assms(5) assms(7)] steps_evolve [OF r2 assms(4)] by blast
qed

lemma no_lost_update_witness:
  "\<exists>e. fst (run_commit (demo_env ''x'', UpdateOp 1 demo_set) demo_s3) = Inl e"
proof -
  obtain r s' where run: "run_commit (demo_env ''x'', UpdateOp 1 demo_set) demo_s3 = (r, s')" by (meson surj_pair)
  then have "(\<exists>e. r = Inl e) \<and> s_db s' = s_db (w_svc (demo_world demo_s3 {#}))"
    using no_lost_update [OF demo_reachable(3) demo_steps(4), of "(demo_env ''e'', PublishOp 1 1 demo_plan)" "()"
        "demo_world demo_s3 {#}" "(demo_env ''x'', UpdateOp 1 demo_set)" r s'] demo_commits
    by (simp add: demo_world_def demo_plan_def set_id_def demo_rows)
  with run show ?thesis by auto
qed

end
