(* ===== verification/Refinement.thy ===== *)
theory Refinement
  imports OptimisticLocking LifecycleClaims
begin

text \<open>
  What the service is for, without tables, transactions or caches: a library of books of rules. The
  running service implements it: every step of every interleaving is one step of the library, or none.
\<close>

section \<open>The library\<close>

text \<open>A book has a status, the number in force (0 for none), its versions in the order of their numbers
  (idempotency key, checksum, definition), and the numbers released so far.\<close>

record book =
  bk_status :: string
  bk_published :: int
  bk_versions :: "(string \<times> string \<times> string) list"
  bk_released :: "int set"

record 'k library =
  lib_books :: "'k \<rightharpoonup> book"
  lib_announced :: nat

definition new_book :: book where
  "new_book = \<lparr>bk_status = ''draft'', bk_published = 0, bk_versions = [], bk_released = {}\<rparr>"

inductive spec_step :: "('c, 'p) cel_engine \<Rightarrow> 'k library \<Rightarrow> 'k library \<Rightarrow> bool" for eng where
  rest: "spec_step eng S S"
| found: "lib_books S k = None \<Longrightarrow> spec_step eng S (S\<lparr>lib_books := (lib_books S)(k \<mapsto> new_book)\<rparr>)"
| restate: "lib_books S k = Some b \<Longrightarrow> st \<in> {''draft'', ''active'', ''disabled''} \<Longrightarrow>
    spec_step eng S (S\<lparr>lib_books := (lib_books S)(k \<mapsto> b\<lparr>bk_status := st\<rparr>)\<rparr>)"
| add: "lib_books S k = Some b \<Longrightarrow> bk_status b \<noteq> ''disabled'' \<Longrightarrow> key \<notin> fst ` set (bk_versions b) \<Longrightarrow>
    CompileDefinition eng raw = Inr cd \<Longrightarrow> cd_checksum cd = checksum \<Longrightarrow>
    spec_step eng S (S\<lparr>lib_books := (lib_books S)
      (k \<mapsto> b\<lparr>bk_versions := bk_versions b @ [(key, checksum, def)]\<rparr>)\<rparr>)"
| release: "lib_books S k = Some b \<Longrightarrow> 1 \<le> n \<Longrightarrow> n \<le> int (length (bk_versions b)) \<Longrightarrow> n \<notin> bk_released b \<Longrightarrow>
    bk_versions b ! nat (n - 1) = (key, checksum, def) \<Longrightarrow>
    CompileDefinition eng def = Inr cd \<Longrightarrow> cd_checksum cd = checksum \<Longrightarrow>
    spec_step eng S (S\<lparr>lib_books := (lib_books S)
      (k \<mapsto> b\<lparr>bk_status := ''active'', bk_published := n, bk_released := insert n (bk_released b)\<rparr>),
      lib_announced := Suc (lib_announced S)\<rparr>)"

inductive spec_reachable :: "('c, 'p) cel_engine \<Rightarrow> 'k library \<Rightarrow> bool" for eng where
  empty: "spec_reachable eng \<lparr>lib_books = Map.empty, lib_announced = 0\<rparr>"
| next': "spec_reachable eng S \<Longrightarrow> spec_step eng S S' \<Longrightarrow> spec_reachable eng S'"

section \<open>The tables as a library\<close>

type_synonym book_id = "string \<times> string \<times> string"

definition versions_for :: "book_id \<Rightarrow> rule_db \<Rightarrow> RuleVersion list" where
  "versions_for k db = (case k of (t, a, i) \<Rightarrow> versions_of t a i db)"

definition facts :: "RuleVersion \<Rightarrow> string \<times> string \<times> string" where
  "facts v = (rv_IdempotencyKey v, rv_Checksum v, rv_DefinitionJSON v)"

definition book_of :: "RuleSet \<Rightarrow> RuleVersion list \<Rightarrow> book" where
  "book_of r vs = \<lparr>bk_status = rs_Status r, bk_published = rs_PublishedVersionNumber r,
     bk_versions = map facts vs, bk_released = rv_VersionNumber ` {v \<in> set vs. is_published v}\<rparr>"

definition shelf :: "rule_db \<Rightarrow> book_id \<rightharpoonup> book" where
  "shelf db k = map_option (\<lambda>r. book_of r (versions_for k db)) (find (set_key k) (rule_sets db))"

definition abstract :: "rule_db \<Rightarrow> book_id library" where
  "abstract db = \<lparr>lib_books = shelf db, lib_announced = length (rule_outbox_events db)\<rparr>"

lemma abstract_simps [simp]:
  "lib_books (abstract db) = shelf db" "lib_announced (abstract db) = length (rule_outbox_events db)"
  by (simp_all add: abstract_def)

lemma abstract_eqI: "shelf db' = f \<Longrightarrow> rule_outbox_events db' = rule_outbox_events db \<Longrightarrow>
    abstract db' = (abstract db)\<lparr>lib_books := f\<rparr>"
  by (simp add: abstract_def)

lemma find_snoc: "find P (xs @ [x]) = (case find P xs of Some y \<Rightarrow> Some y | None \<Rightarrow> if P x then Some x else None)"
  by (induction xs) auto

lemma same_set_id: "same_set v t a i \<longleftrightarrow> (rv_TenantID v, rv_ApplicationID v, rv_RuleSetID v) = (t, a, i)"
  by (auto simp: same_set_def)

lemma versions_for_filter:
  "versions_for k db = filter (\<lambda>v. (rv_TenantID v, rv_ApplicationID v, rv_RuleSetID v) = k) (rule_versions db)"
  by (cases k) (auto simp: versions_for_def versions_of_def same_set_id)

lemma versions_for_same: "rule_versions db' = rule_versions db \<Longrightarrow> versions_for k db' = versions_for k db"
  by (simp add: versions_for_filter)

text \<open>A new rule set is a new book.\<close>

lemma abstract_create:
  assumes "db_ok db" and "sql_CreateRuleSet E x db = (Inr u, db')"
    and "rs_Status x = ''draft''" "rs_PublishedVersionNumber x = 0"
  shows "spec_step eng (abstract db) (abstract db')"
proof -
  let ?k = "set_id x"
  from sql_CreateRuleSet_Inr [OF assms(2)] have d: "db' = db\<lparr>rule_sets := rule_sets db @ [x]\<rparr>"
    and fresh: "\<forall>r \<in> set (rule_sets db). rs_ID r \<noteq> rs_ID x" by auto
  have none: "find (set_key ?k) (rule_sets db) = None"
    using fresh by (auto simp: find_None_iff set_key_id set_id_def)
  have "versions_for ?k db = []"
    using assms(1) fresh
    by (auto simp: versions_for_filter filter_empty_conv db_ok_def versions_ok_def owned_def set_id_def)
  then have new: "book_of x (versions_for ?k db) = new_book"
    using assms(3,4) by (simp add: book_of_def new_book_def)
  have "shelf db' = (shelf db)(?k \<mapsto> new_book)"
  proof
    fix k
    have vs: "versions_for k db' = versions_for k db" by (rule versions_for_same) (simp add: d)
    show "shelf db' k = ((shelf db)(?k \<mapsto> new_book)) k"
    proof (cases "k = ?k")
      case True
      with none new vs show ?thesis by (simp add: shelf_def d find_snoc set_key_id)
    next
      case False
      with vs show ?thesis by (simp add: shelf_def d find_snoc set_key_id split: option.split)
    qed
  qed
  then have "abstract db' = (abstract db)\<lparr>lib_books := (lib_books (abstract db))(?k \<mapsto> new_book)\<rparr>"
    by (intro abstract_eqI) (simp_all add: d)
  moreover have "lib_books (abstract db) ?k = None" using none by (simp add: shelf_def)
  ultimately show ?thesis using spec_step.found by metis
qed

text \<open>Rows of rule sets change one at a time.\<close>

lemma find_bumped:
  assumes "db_ok db" and "\<exists>r \<in> set (rule_sets db). set_key k r \<and> Version (rs_Audit r) = n"
    and "\<And>r. set_id (f r) = set_id r"
    and "rows = update_where (\<lambda>r. set_key k r \<and> Version (rs_Audit r) = n) f (rule_sets db)"
  obtains r where "find (set_key k) (rule_sets db) = Some r"
    "\<And>k'. find (set_key k') rows = (if k' = k then Some (f r) else find (set_key k') (rule_sets db))"
proof -
  from assms(2) obtain r where r: "r \<in> set (rule_sets db)" "set_key k r" "Version (rs_Audit r) = n" by blast
  have "distinct (map rs_ID (rule_sets db))" using assms(1) by (simp add: db_ok_def sets_ok_def)
  with r(1,2) have found: "find (set_key k) (rule_sets db) = Some r"
    by (intro find_unique) (auto simp: set_key_id set_id_def dest: distinct_map_eq)
  have "find (set_key k') rows = (if k' = k then Some (f r) else find (set_key k') (rule_sets db))" for k'
  proof -
    have "find (set_key k') rows = map_option (\<lambda>r. if set_key k r \<and> Version (rs_Audit r) = n then f r else r)
        (find (set_key k') (rule_sets db))"
      unfolding assms(4) by (rule find_update_where) (simp add: set_key_id assms(3))
    moreover have "set_key k' q" if "find (set_key k') (rule_sets db) = Some q" for q
      using find_SomeD [OF that] by simp
    ultimately show ?thesis
    proof (cases "k' = k")
      case True
      with \<open>find (set_key k') rows = _\<close> found r(2,3) show ?thesis by simp
    next
      case False
      show ?thesis
      proof (cases "find (set_key k') (rule_sets db)")
        case None
        with False \<open>find (set_key k') rows = _\<close> show ?thesis by simp
      next
        case (Some q)
        then have "\<not> set_key k q" using False find_SomeD [OF Some] by (simp add: set_key_id)
        with Some False \<open>find (set_key k') rows = _\<close> show ?thesis by simp
      qed
    qed
  qed
  with found that show thesis by blast
qed

lemma abstract_update:
  assumes "db_ok db" and "sql_UpdateRuleSet E x e db = (Inr u, db')"
    and "rs_Status x \<in> {''draft'', ''active'', ''disabled''}"
  shows "spec_step eng (abstract db) (abstract db')"
proof -
  note d = sql_UpdateRuleSet_Inr [OF assms(2)]
  let ?f = "bump_set (rs_Name x) (rs_Description x) (rs_Status x) (UpdatedAt (rs_Audit x)) (UpdatedBy (rs_Audit x))"
  from find_bumped [OF assms(1) d(2), of ?f "rule_sets db'"] obtain r where r: "find (set_key (set_id x)) (rule_sets db) = Some r"
    "\<And>k'. find (set_key k') (rule_sets db') = (if k' = set_id x then Some (?f r) else find (set_key k') (rule_sets db))"
    by (auto simp: d(1))
  let ?b = "book_of r (versions_for (set_id x) db)"
  have "shelf db' = (shelf db)(set_id x \<mapsto> ?b\<lparr>bk_status := rs_Status x\<rparr>)"
  proof
    fix k
    have vs: "versions_for k db' = versions_for k db" by (rule versions_for_same) (simp add: d(1))
    show "shelf db' k = ((shelf db)(set_id x \<mapsto> ?b\<lparr>bk_status := rs_Status x\<rparr>)) k"
      using r(2) [of k] by (simp add: shelf_def vs book_of_def bump_set_def)
  qed
  then have "abstract db' = (abstract db)\<lparr>lib_books := (lib_books (abstract db))(set_id x \<mapsto> ?b\<lparr>bk_status := rs_Status x\<rparr>)\<rparr>"
    by (intro abstract_eqI) (simp_all add: d(1))
  moreover have "lib_books (abstract db) (set_id x) = Some ?b" using r(1) by (simp add: shelf_def)
  ultimately show ?thesis using spec_step.restate assms(3) by metis
qed

lemma abstract_add:
  assumes "db_ok db" and "sql_CreateRuleVersion E x e db = (Inr (v, created), db')"
    and "CompileDefinition eng raw = Inr cd" and "cd_checksum cd = rv_Checksum x" and "rv_Status x = ''draft''"
  shows "spec_step eng (abstract db) (abstract db')"
  using assms(2)
proof (cases rule: sql_CreateRuleVersion_cases)
  case replay
  then show ?thesis by (simp add: spec_step.rest)
next
  case (new r)
  let ?k = "(rv_TenantID x, rv_ApplicationID x, rv_RuleSetID x)"
  let ?vs = "versions_for ?k db"
  let ?b = "book_of r ?vs"
  let ?new = "(rv_IdempotencyKey x, rv_Checksum x, sql_json E (rv_DefinitionJSON x))"
  have mine: "?vs = mine x db" by (simp add: versions_for_def mine_def)
  have "set_id r = ?k" using new(5,6) by (simp add: set_id_def in_app_def)
  moreover have "distinct (map rs_ID (rule_sets db))" using assms(1) by (simp add: db_ok_def sets_ok_def)
  ultimately have r: "find (set_key ?k) (rule_sets db) = Some r"
    using new(4) by (intro find_unique) (auto simp: set_key_id set_id_def dest: distinct_map_eq)
  have "versions_for k db' = (if k = ?k then ?vs @ [stored E v] else versions_for k db)" for k
    by (simp add: versions_for_filter new(2,3) stored_def)
  moreover have "book_of r (?vs @ [stored E v]) = ?b\<lparr>bk_versions := bk_versions ?b @ [?new]\<rparr>"
    using assms(5) by (auto simp: book_of_def facts_def stored_def new(2) is_published_def)
  ultimately have "shelf db' = (shelf db)(?k \<mapsto> ?b\<lparr>bk_versions := bk_versions ?b @ [?new]\<rparr>)"
    using r by (auto simp: shelf_def new(3) fun_eq_iff)
  then have "abstract db' = (abstract db)\<lparr>lib_books := (lib_books (abstract db))
      (?k \<mapsto> ?b\<lparr>bk_versions := bk_versions ?b @ [?new]\<rparr>)\<rparr>"
    by (intro abstract_eqI) (simp_all add: new(3))
  moreover have "spec_step eng (abstract db) ((abstract db)\<lparr>lib_books := (lib_books (abstract db))
      (?k \<mapsto> ?b\<lparr>bk_versions := bk_versions ?b @ [?new]\<rparr>)\<rparr>)"
  proof (rule spec_step.add [OF _ _ _ assms(3,4)])
    show "lib_books (abstract db) ?k = Some ?b" using r by (simp add: shelf_def)
    show "bk_status ?b \<noteq> ''disabled''" using new(8) by (simp add: book_of_def)
    show "rv_IdempotencyKey x \<notin> fst ` set (bk_versions ?b)"
      using new(10) by (auto simp: book_of_def facts_def mine image_iff)
  qed
  ultimately show ?thesis by simp
qed

text \<open>The versions of a set, by number.\<close>

lemma nth_version:
  assumes "db_ok db" and "v \<in> set (versions_for k db)"
  shows "1 \<le> rv_VersionNumber v" "rv_VersionNumber v \<le> int (length (versions_for k db))"
    and "versions_for k db ! nat (rv_VersionNumber v - 1) = v"
proof -
  let ?vs = "versions_for k db"
  obtain t a i where k: "k = (t, a, i)" by (cases k)
  from assms(2) obtain j where j: "j < length ?vs" "?vs ! j = v" by (auto simp: in_set_conv_nth)
  have "map rv_VersionNumber ?vs = map int [1..<Suc (length ?vs)]"
    using assms(1) by (simp add: k versions_for_def db_ok_def versions_ok_def numbers_upt del: upt_Suc)
  then have "map rv_VersionNumber ?vs ! j = map int [1..<Suc (length ?vs)] ! j" by simp
  with j have "rv_VersionNumber v = int (Suc j)" by (simp del: upt_Suc)
  with j show "1 \<le> rv_VersionNumber v" "rv_VersionNumber v \<le> int (length ?vs)" "?vs ! nat (rv_VersionNumber v - 1) = v"
    by simp_all
qed

lemma versions_for_publish:
  assumes "db_ok db" and "v \<in> set (rule_versions db)" and "version_row w ve v"
    and "rule_versions db' = update_where (version_row w ve) (publish_version_row w) (rule_versions db)"
  shows "versions_for k db' = map (\<lambda>x. if x = v then publish_version_row w x else x) (versions_for k db)"
proof -
  have "distinct (map rv_ID (rule_versions db))" using assms(1) by (simp add: db_ok_def versions_ok_def)
  with assms(2,3) have only: "version_row w ve x \<longleftrightarrow> x = v" if "x \<in> set (rule_versions db)" for x
    using that by (auto simp: version_row_def dest: distinct_map_eq)
  have "rule_versions db' = map (\<lambda>x. if x = v then publish_version_row w x else x) (rule_versions db)"
    unfolding assms(4) update_where_def by (rule map_cong) (simp_all add: only)
  then show ?thesis
    by (simp add: versions_for_filter filter_map o_def) (auto simp: publish_version_row_def intro!: arg_cong2 [of _ _ _ _ map] filter_cong)
qed

lemma publish_row [simp]:
  "is_published (publish_version_row w v)" "rv_VersionNumber (publish_version_row w v) = rv_VersionNumber v"
  "facts (publish_version_row w v) = facts v"
  by (simp_all add: publish_version_row_def is_published_def facts_def)

lemma released_publish:
  assumes "v \<in> set vs" and "\<not> is_published v"
  shows "rv_VersionNumber ` {x \<in> set (map (\<lambda>x. if x = v then publish_version_row w x else x) vs). is_published x} =
    insert (rv_VersionNumber v) (rv_VersionNumber ` {x \<in> set vs. is_published x})"
proof -
  have "{x \<in> set (map (\<lambda>x. if x = v then publish_version_row w x else x) vs). is_published x} =
      insert (publish_version_row w v) {x \<in> set vs. is_published x}"
    using assms by (auto simp: image_iff)
  then show ?thesis by simp
qed

lemma abstract_publish:
  assumes "db_ok db" and "publish_tx E re ve p db = (Inr u, db')" and "pending_ok eng p db"
  shows "spec_step eng (abstract db) (abstract db')"
proof -
  define w where "w = pl_version p"
  define rs where "rs = pl_ruleSet p"
  let ?k = "set_id rs" and ?n = "rv_VersionNumber w"
  let ?vs = "versions_for ?k db"
  obtain ev v q where
    d: "db' = db\<lparr>rule_versions := update_where (version_row w ve) (publish_version_row w) (rule_versions db),
        rule_sets := update_where (\<lambda>r. set_key ?k r \<and> Version (rs_Audit r) = re) (publish_set_row rs w) (rule_sets db),
        rule_outbox_events := rule_outbox_events db @
          [\<lparr>or_event = ev, or_attempts = 0, or_published_at = None, or_last_error = [], or_version = 1\<rparr>]\<rparr>"
    and v: "v \<in> set (rule_versions db)" "version_row w ve v"
    and q: "q \<in> set (rule_sets db)" "set_key ?k q" "Version (rs_Audit q) = re"
    unfolding w_def rs_def by (rule publish_tx_Inr [OF assms(2)]) blast
  from assms(3) have k: "?k = (rv_TenantID w, rv_ApplicationID w, rv_RuleSetID w)"
    and cd: "CompileDefinition eng (rv_DefinitionJSON w) = Inr (pl_compiled p)" "cd_checksum (pl_compiled p) = rv_Checksum w"
    and "\<exists>v0 \<in> set (rule_versions db). frozen v0 = frozen w"
    by (simp_all add: pending_ok_def plan_ok_def w_def rs_def)
  then obtain v0 where v0: "v0 \<in> set (rule_versions db)" "frozen v0 = frozen w" by blast
  have "distinct (map rv_ID (rule_versions db))" using assms(1) by (simp add: db_ok_def versions_ok_def)
  moreover from v(2) v0(2) have "rv_ID v = rv_ID v0" by (simp add: version_row_def frozen_def)
  ultimately have "v = v0" using distinct_map_eq v(1) v0(1) by metis
  with v0(2) have same: "rv_VersionNumber v = ?n" "facts v = facts w" by (simp_all add: frozen_def facts_def)
  have mem: "v \<in> set ?vs" using v by (simp add: versions_for_filter k version_row_def same_set_def)
  note n = nth_version [OF assms(1) mem, unfolded same(1)]
  from find_bumped [OF assms(1), of ?k re "publish_set_row rs w" "rule_sets db'"] q obtain r where
    r: "find (set_key ?k) (rule_sets db) = Some r"
    "\<And>k'. find (set_key k') (rule_sets db') = (if k' = ?k then Some (publish_set_row rs w r) else find (set_key k') (rule_sets db))"
    by (auto simp: d)
  let ?b = "book_of r ?vs"
  let ?b' = "?b\<lparr>bk_status := ''active'', bk_published := ?n, bk_released := insert ?n (bk_released ?b)\<rparr>"
  have vs: "versions_for k' db' = map (\<lambda>x. if x = v then publish_version_row w x else x) (versions_for k' db)" for k'
    by (rule versions_for_publish [OF assms(1) v]) (simp add: d)
  have other: "versions_for k' db' = versions_for k' db" if "k' \<noteq> ?k" for k'
  proof -
    have "v \<notin> set (versions_for k' db)"
      using that v(2) by (auto simp: versions_for_filter k version_row_def same_set_def)
    then show ?thesis unfolding vs by (intro map_idI) auto
  qed
  have draft: "\<not> is_published v" using v(2) by (simp add: version_row_def is_published_def)
  have "book_of (publish_set_row rs w r) (versions_for ?k db') = ?b'"
    using released_publish [OF mem draft, of w] same(1)
    by (simp add: book_of_def vs publish_set_row_def)
  with r other have "shelf db' = (shelf db)(?k \<mapsto> ?b')" by (auto simp: shelf_def fun_eq_iff)
  then have abs: "abstract db' = (abstract db)\<lparr>lib_books := (lib_books (abstract db))(?k \<mapsto> ?b'),
      lib_announced := Suc (lib_announced (abstract db))\<rparr>"
    by (simp add: abstract_def d)
  have fresh: "?n \<notin> bk_released ?b"
  proof
    assume "?n \<in> bk_released ?b"
    then obtain x where x: "x \<in> set ?vs" "is_published x" "rv_VersionNumber x = ?n" by (auto simp: book_of_def)
    with nth_version(3) [OF assms(1) x(1)] n(3) have "x = v" by simp
    with x(2) draft show False by simp
  qed
  have "spec_step eng (abstract db) ((abstract db)\<lparr>lib_books := (lib_books (abstract db))(?k \<mapsto> ?b'),
      lib_announced := Suc (lib_announced (abstract db))\<rparr>)"
  proof (rule spec_step.release [OF _ n(1) _ fresh _ cd])
    show "lib_books (abstract db) ?k = Some ?b" using r(1) by (simp add: shelf_def)
    show "?n \<le> int (length (bk_versions ?b))" using n(2) by (simp add: book_of_def)
    have "facts (?vs ! nat (?n - 1)) = facts w" using n(3) same(2) by simp
    moreover have "nat (?n - 1) < length ?vs" using n(1,2) by linarith
    ultimately show "bk_versions ?b ! nat (?n - 1) = (rv_IdempotencyKey w, rv_Checksum w, rv_DefinitionJSON w)"
      by (simp add: book_of_def facts_def)
  qed
  then show ?thesis using abs by simp
qed

section \<open>The service implements the library\<close>

lemma step_abstract:
  assumes "step eng w w'" and "world_ok eng w"
  shows "spec_step eng (abstract (tables w)) (abstract (tables w'))"
proof -
  from assms(2) have db: "db_ok (tables w)" by (simp add: world_ok_def)
  from assms(1) show ?thesis
  proof cases
    case (create_set E c t a code name d r s')
    from CreateRuleSet_cases [OF create_set(3)] show ?thesis
      by (auto simp: create_set ran_def new_set_def spec_step.rest intro: abstract_create [OF db])
  next
    case (update_end E e x r s')
    with assms(2) have "legal_update x" by (auto simp: world_ok_def)
    with update_commit_cases [OF update_end(4)] show ?thesis
      by (auto simp: update_end ran_def legal_update_def spec_step.rest intro: abstract_update [OF db])
  next
    case (create_version E c t a i def key e r s')
    from CreateRuleVersion_cases [OF create_version(3)] create_version(2) consider "s' = w_svc w"
      | actor compiled s2 where "CompileDefinition eng def = Inr compiled" "s_db s' = s_db s2"
        "s2 = w_svc w \<or> ran (sql_CreateRuleVersion (e_db E) (new_version E actor t a i compiled key) e) (w_svc w) s2"
      by fastforce
    then show ?thesis
    proof cases
      case 2
      with abstract_add [OF db _ 2(1)] show ?thesis
        by (auto simp: create_version ran_def spec_step.rest new_version_def)
    qed (simp add: create_version spec_step.rest)
  next
    case (publish_end E re ve p r s')
    from publish_end(4) obtain r2 s2 where run: "run_tx E (publish_tx E re ve p) (w_svc w) = (r2, s2)"
      "s_db s' = s_db s2" by (rule publish_commit_run) auto
    from assms(2) publish_end(3) have "pending_ok eng p (tables w)" by (auto simp: world_ok_def)
    with run_tx_cases [OF run(1)] run(2) show ?thesis
      by (auto simp: publish_end ran_def spec_step.rest intro: abstract_publish [OF db])
  qed (auto simp: spec_step.rest dest: update_prepare_cases publish_prepare_cases Evaluate_db)
qed

lemma reachable_abstract: "reachable eng w \<Longrightarrow> spec_reachable eng (abstract (tables w))"
proof (induction rule: reachable.induct)
  case init
  have "abstract (tables initial) = \<lparr>lib_books = Map.empty, lib_announced = 0\<rparr>"
    by (simp add: initial_def abstract_def shelf_def fun_eq_iff empty_db_def)
  show ?case unfolding \<open>abstract (tables initial) = _\<close> by (rule spec_reachable.empty)
next
  case (more w w')
  from more(3) step_abstract [OF more(2) reachable_world_ok [OF more(1)]] show ?case by (rule spec_reachable.next')
qed

text \<open>What the library promises by itself: distinct keys, released numbers in range, and a number in
  force that was released.\<close>

lemma library_sound:
  "spec_reachable eng S \<Longrightarrow> lib_books S k = Some b \<Longrightarrow>
     distinct (map fst (bk_versions b)) \<and> bk_released b \<subseteq> {1..int (length (bk_versions b))} \<and>
     bk_published b \<in> insert 0 (bk_released b)"
proof (induction arbitrary: k b rule: spec_reachable.induct)
  case (next' S S')
  from next'(2,1,3-) show ?case
    by cases (fastforce simp: new_book_def split: if_splits)+
qed simp

text \<open>C2. The service refines an abstract library of rule books that knows no tables, optimistic
  versions, transactions or caches: the tables of every reachable state represent a reachable state of
  the library, and every step of any interleaving is a step of the library or leaves it as it is. A
  library step opens an empty book, restates the status of one, adds a version under a fresh key to a
  book that is not disabled, with the checksum of a definition that compiles, or releases a version
  that was not released before, whose definition compiles to its checksum: it is put in force, the
  book becomes active, and exactly one announcement is made.\<close>

theorem refines_library:
  assumes "reachable eng w"
  shows "spec_reachable eng (abstract (s_db (w_svc w))) \<and>
    (\<forall>w'. step eng w w' \<longrightarrow> spec_step eng (abstract (s_db (w_svc w))) (abstract (s_db (w_svc w'))))"
  using reachable_abstract [OF assms] step_abstract [OF _ reachable_world_ok [OF assms]] by simp

lemma refines_library_witness:
  "spec_reachable demo_engine (abstract (s_db demo_s2)) \<and>
   spec_step demo_engine (abstract (s_db demo_s2)) (abstract (s_db demo_s3)) \<and>
   lib_announced (abstract (s_db demo_s2)) = 0 \<and> lib_announced (abstract (s_db demo_s3)) = 1"
proof -
  have "spec_step demo_engine (abstract (tables (demo_world demo_s2 {#(1, 1, demo_plan)#})))
      (abstract (tables (demo_world demo_s3 {#})))"
    using refines_library [OF demo_reachable(3)] demo_steps(4) by blast
  moreover have "spec_reachable demo_engine (abstract (tables (demo_world demo_s2 {#(1, 1, demo_plan)#})))"
    using refines_library [OF demo_reachable(3)] by blast
  ultimately show ?thesis
    by (simp add: demo_world_def) (simp add: demo_s2_def demo_s3_def empty_db_def)
qed

end
