(* ===== verification/ServiceClaims.thy ===== *)
theory ServiceClaims
  imports DemoRun
begin

text \<open>
  Properties of single operations of the service: idempotent creation of versions, isolation of
  tenants, paging, batches, and the errors a caller can see.
\<close>

section \<open>A database without faults\<close>

definition healthy :: "dbenv \<Rightarrow> bool" where
  "healthy E \<longleftrightarrow> db_enabled E \<and> begin_error E = None \<and> commit_error E = None \<and> rollback_error E = None \<and>
     stmt_error E = (\<lambda>_. None) \<and> rows_error E = (\<lambda>_. None)"

lemma healthy_simps:
  assumes "healthy E"
  shows "db_enabled E" "begin_error E = None" "commit_error E = None" "rollback_error E = None"
    "stmt_error E st = None" "rows_error E st = None"
  using assms by (simp_all add: healthy_def)

lemma healthy_demo [simp]: "healthy demo_dbenv"
  by (simp add: healthy_def demo_dbenv_def)

lemma healthy_run_tx:
  "healthy (e_db E) \<Longrightarrow> run_tx E fn s =
     (case fn (s_db s) of (Inl e, db) \<Rightarrow> (Inl (translate e), s) | (Inr x, db) \<Rightarrow> (Inr x, s\<lparr>s_db := db\<rparr>))"
  by (auto simp: run_tx_def Within_def healthy_simps map_error_def split: sum.split prod.split)

lemma healthy_get_row: "healthy E \<Longrightarrow> get_row E st P rows = (case find P rows of None \<Rightarrow> Inl (Sentinel ErrNoRows) | Some r \<Rightarrow> Inr r)"
  by (simp add: get_row_def healthy_simps)

section \<open>Idempotent creation\<close>

text \<open>The rows a creation left behind, at any later time.\<close>

lemma created_version_stays:
  assumes "reachable eng w" and "v \<in> set (rule_versions (tables w))" and "(step eng)\<^sup>*\<^sup>* w w'"
  shows "reachable eng w' \<and> (\<exists>v' \<in> set (rule_versions (tables w')). frozen v' = frozen v)"
  using assms(3,1,2)
proof (induction rule: rtranclp_induct)
  case (step y z)
  then obtain v' where "v' \<in> set (rule_versions (tables y))" "frozen v' = frozen v" by blast
  moreover from step_extends [OF step(2)] have "keeps_versions (tables y) (tables z)" by (simp add: extends_def)
  ultimately have "\<exists>v'' \<in> set (rule_versions (tables z)). frozen v'' = frozen v"
    unfolding keeps_versions_def by (metis (no_types, lifting))
  with step show ?case by (meson reachable.more)
qed auto

lemma replay_row:
  assumes "db_ok db" and "v \<in> set (rule_versions db)" and "same_set v t a i" and "rv_IdempotencyKey v = key"
  shows "find (\<lambda>x. same_set x t a i \<and> rv_IdempotencyKey x = key) (rule_versions db) = Some v"
proof (rule find_unique)
  fix y assume y: "y \<in> set (rule_versions db)" "same_set y t a i \<and> rv_IdempotencyKey y = key"
  from assms(1) have "distinct (map rv_IdempotencyKey (versions_of t a i db))" by (simp add: db_ok_def versions_ok_def)
  moreover have "y \<in> set (versions_of t a i db)" "v \<in> set (versions_of t a i db)"
    using y assms by (simp_all add: versions_of_def)
  ultimately show "y = v" using y(2) assms(4) by (metis distinct_map_eq)
qed (use assms in simp_all)

text \<open>C7. Creating a version is idempotent. After a creation that succeeded, and whatever happens
  next, a call with the same key for the same rule set returns the version that was created (same
  identifier, number and checksum, marked as not new) when its definition has the same checksum,
  without regard to the version of the rule set it expects, and is refused as a conflict when it has
  another one; in both cases the tables do not change. The database is assumed to answer.\<close>

theorem create_version_replay:
  assumes "reachable (e_engine E) w1" and "step (e_engine E) w1 w2"
    and "CreateRuleVersion E c t a i def key e (w_svc w1) = (Inr (v, True), w_svc w2)"
    and "(step (e_engine E))\<^sup>*\<^sup>* w2 w3"
    and "e_engine E' = e_engine E" and "healthy (e_db E')" and "authorize c' t = Inr actor'"
    and "verifyApplication E' t a = Inr ()" and "length key \<le> 191" and "1 \<le> e'"
    and "CompileDefinition (e_engine E) def' = Inr cd"
    and "CreateRuleVersion E' c' t a i def' key e' (w_svc w3) = (r, s')"
  shows "s_db s' = s_db (w_svc w3) \<and>
    (if cd_checksum cd = rv_Checksum v
     then \<exists>v'. r = Inr (v', False) \<and> v' \<in> set (rule_versions (s_db (w_svc w3))) \<and> rv_ID v' = rv_ID v \<and>
        rv_VersionNumber v' = rv_VersionNumber v \<and> rv_Checksum v' = rv_Checksum v
     else r = Inl (Conflict ''rule resource conflict'' (Some (Sentinel ErrConflict))))"
proof -
  from CreateRuleVersion_run [OF assms(3)] obtain actor compiled s2 where
    ne: "TrimSpace i \<noteq> []" "TrimSpace key \<noteq> []"
    and run: "run_tx E (sql_CreateRuleVersion (e_db E) (new_version E actor t a i compiled key) e) (w_svc w1) = (Inr (v, True), s2)"
    and s2: "tables w2 = s_db s2"
    by (auto simp: store_compiled_def)
  from run_tx_Inr [OF run] have
    "sql_CreateRuleVersion (e_db E) (new_version E actor t a i compiled key) e (tables w1) = (Inr (v, True), tables w2)"
    by (simp add: s2)
  then have v: "stored (e_db E) v \<in> set (rule_versions (tables w2))"
    "same_set v (TrimSpace t) (TrimSpace a) (TrimSpace i)" "rv_IdempotencyKey v = TrimSpace key"
    by (cases rule: sql_CreateRuleVersion_cases; simp add: same_set_def)+
  from created_version_stays [OF reachable.more [OF assms(1,2)] v(1) assms(4)]
  obtain v' where w3: "reachable (e_engine E) w3" and v': "v' \<in> set (rule_versions (tables w3))" "frozen v' = frozen (stored (e_db E) v)"
    by blast
  from w3 have db: "db_ok (tables w3)" using reachable_world_ok by (auto simp: world_ok_def)
  have same: "same_set v' (TrimSpace t) (TrimSpace a) (TrimSpace i)" "rv_IdempotencyKey v' = TrimSpace key"
    "rv_ID v' = rv_ID v" "rv_VersionNumber v' = rv_VersionNumber v" "rv_Checksum v' = rv_Checksum v"
    using v(2,3) v'(2) by (simp_all add: frozen_def stored_def same_set_def)
  from db v'(1) have "owned (tables w3) v'" by (simp add: db_ok_def versions_ok_def)
  then obtain q where "find (\<lambda>r. in_app r (TrimSpace t) (TrimSpace a) \<and> rs_ID r = TrimSpace i) (rule_sets (tables w3)) = Some q"
    using same(1) by (cases "find (\<lambda>r. in_app r (TrimSpace t) (TrimSpace a) \<and> rs_ID r = TrimSpace i) (rule_sets (tables w3))")
      (auto simp: owned_def same_set_def find_None_set)
  moreover note replay_row [OF db v'(1) same(1,2)]
  ultimately have "sql_CreateRuleVersion (e_db E') (new_version E' actor' t a i cd key) e' (tables w3) =
      (if cd_checksum cd = rv_Checksum v then Inr (v', False) else Inl (Sentinel ErrConflict), tables w3)"
    using same(5) by (simp add: sql_CreateRuleVersion_def healthy_get_row [OF assms(6)] notFound_def Let_def)
  then have "(r, s') = (if cd_checksum cd = rv_Checksum v then (Inr (v', False), store_compiled (rv_Checksum v') cd (w_svc w3))
      else (Inl (translate (Sentinel ErrConflict)), w_svc w3))"
    using assms(7-12) ne by (cases "cd_checksum cd = rv_Checksum v") (simp_all add: CreateRuleVersion_def require_def map_error_def assms(5) Let_def healthy_run_tx [OF assms(6)])
  then show ?thesis
    using v'(1) same(3-5) by (auto simp: translate_def split: if_splits)
qed

lemma create_version_replay_witness:
  "fst (CreateRuleVersion (demo_env ''other'') demo_ctx ''t'' ''a'' ''s'' demo_raw ''k'' 9 demo_s3) = Inr (demo_version2, False)"
proof -
  obtain r s' where run: "CreateRuleVersion (demo_env ''other'') demo_ctx ''t'' ''a'' ''s'' demo_raw ''k'' 9 demo_s3 = (r, s')"
    by (meson surj_pair)
  have steps: "(step demo_engine)\<^sup>*\<^sup>* (demo_world demo_s2 {#}) (demo_world demo_s3 {#})"
    using demo_steps(3,4) by (meson converse_rtranclp_into_rtranclp rtranclp.rtrancl_refl)
  have "\<exists>v'. r = Inr (v', False) \<and> v' \<in> set (rule_versions (s_db demo_s3))"
    using create_version_replay [of "demo_env ''v''" "demo_world demo_s1 {#}" "demo_world demo_s2 {#}" demo_ctx "''t''" "''a''"
        "''s''" demo_raw "''k''" 1 demo_version "demo_world demo_s3 {#}" "demo_env ''other''" demo_ctx "''u''" 9 demo_raw demo_compiled r s']
      demo_reachable(1) demo_steps(2) demo_creates_version steps demo_compiles run
    by (auto simp: demo_world_def demo_compiled_def demo_version_def)
  with run show ?thesis by (simp add: demo_s3_def)
qed

end
