(* ===== verification/EndToEnd.thy ===== *)
theory EndToEnd
  imports ServiceClaims
begin

text \<open>
  The way of a rule through the service, call by call: a rule set, a version of it, its publication, and
  an evaluation. The database prints the stored definition its own way (the columns are \<open>JSONB\<close> or
  \<open>JSON\<close>); publication compiles what it prints and goes on only when that is the definition that was
  submitted. All other steps succeed when the database and the other services answer and the inputs
  are acceptable.
\<close>

definition answering :: "('c, 'p) svc_env \<Rightarrow> bool" where
  "answering E \<longleftrightarrow> healthy (e_db E) \<and> (\<forall>t a. e_verify E t a = None) \<and>
     (\<forall>md p. \<exists>envelope encoded. e_envelope E md p = Inr envelope \<and> e_marshal E envelope = Inr encoded) \<and>
     TrimSpace (e_uuid E) = e_uuid E \<and> e_uuid E \<noteq> []"

lemma answeringD:
  assumes "answering E"
  shows "healthy (e_db E)" "e_verify E t a = None" "TrimSpace (e_uuid E) = e_uuid E" "e_uuid E \<noteq> []"
  using assms by (simp_all add: answering_def)

lemma verified: "answering E \<Longrightarrow> TrimSpace a \<noteq> [] \<Longrightarrow> verifyApplication E t a = Inr ()"
  by (simp add: verifyApplication_def answeringD)

text \<open>A row that alone satisfies a condition.\<close>

lemma find_new: "\<forall>x \<in> set xs. \<not> P x \<Longrightarrow> P y \<Longrightarrow> find P (xs @ [y]) = Some y"
  by (induction xs) auto

section \<open>The four calls\<close>

lemma create_set_succeeds:
  fixes d :: string
  assumes "answering E" and "authorize c t = Inr actor" and "TrimSpace t = t" "TrimSpace a = a" "t \<noteq> []" "a \<noteq> []"
    and "ruleCodePattern (ToLower (e_uni E) (TrimSpace code))" "TrimSpace name \<noteq> []"
    and "\<forall>r \<in> set (rule_sets (s_db s)). rs_ID r \<noteq> e_uuid E \<and>
      (rs_TenantID r, rs_ApplicationID r, rs_Code r) \<noteq> (t, a, ToLower (e_uni E) (TrimSpace code))"
  defines "x \<equiv> new_rule_set E actor t a (ToLower (e_uni E) (TrimSpace code)) (TrimSpace name) d"
  shows "CreateRuleSet E c t a code name d s = (Inr x, s\<lparr>s_db := (s_db s)\<lparr>rule_sets := rule_sets (s_db s) @ [x]\<rparr>\<rparr>)"
proof -
  have "\<not> (\<exists>r \<in> set (rule_sets (s_db s)). rs_ID r = rs_ID x \<or> (in_app r (rs_TenantID x) (rs_ApplicationID x) \<and> rs_Code r = rs_Code x))"
    using assms(9) by (auto simp: x_def new_rule_set_def in_app_def)
  then have "sql_CreateRuleSet (e_db E) x (s_db s) = (Inr (), (s_db s)\<lparr>rule_sets := rule_sets (s_db s) @ [x]\<rparr>)"
    unfolding sql_CreateRuleSet_def by (simp add: healthy_simps answeringD [OF assms(1)])
  with assms(2-8) show ?thesis
    by (simp add: CreateRuleSet_def andThen_def require_def verified [OF assms(1)] healthy_run_tx answeringD [OF assms(1)] x_def Let_def)
qed

lemma create_version_succeeds:
  assumes "answering E" and "authorize c t = Inr actor" and "TrimSpace t = t" "TrimSpace a = a" "TrimSpace i = i" "a \<noteq> []" "i \<noteq> []"
    and "CompileDefinition (e_engine E) def = Inr cd"
    and "TrimSpace key \<noteq> []" "length key \<le> 191"
    and "rule_sets (s_db s) = xs @ [x]" "\<forall>r \<in> set xs. rs_ID r \<noteq> i"
    and "rs_ID x = i" "in_app x t a" "Version (rs_Audit x) = 1" "rs_Status x \<noteq> ''disabled''"
    and "\<forall>v \<in> set (rule_versions (s_db s)). rv_ID v \<noteq> e_uuid E \<and> rv_RuleSetID v \<noteq> i"
  defines "y \<equiv> (new_version E actor t a i cd key)\<lparr>rv_VersionNumber := 1\<rparr>"
  shows "CreateRuleVersion E c t a i def key 1 s = (Inr (y, True),
    store_compiled (cd_checksum cd) cd (s\<lparr>s_db := (s_db s)\<lparr>rule_versions := rule_versions (s_db s) @ [stored (e_db E) y]\<rparr>\<rparr>))"
proof -
  let ?draft = "new_version E actor t a i cd key" and ?db = "s_db s"
  note ok = answeringD [OF assms(1)]
  have fields: "rv_TenantID ?draft = t" "rv_ApplicationID ?draft = a" "rv_RuleSetID ?draft = i" "rv_ID ?draft = e_uuid E"
    "rv_DefinitionJSON ?draft = cd_canonicalJSON cd" "rv_Checksum ?draft = cd_checksum cd"
    using assms(3-5) by (simp_all add: new_version_def)
  then have y: "rv_TenantID y = t" "rv_ApplicationID y = a" "rv_RuleSetID y = i" "rv_ID y = e_uuid E"
    "rv_DefinitionJSON y = cd_canonicalJSON cd"
    by (simp_all add: y_def)
  have r: "find (\<lambda>r. in_app r t a \<and> rs_ID r = i) (rule_sets ?db) = Some x"
    unfolding assms(11) using assms(12-14) by (intro find_new) auto
  have none: "find (\<lambda>v. same_set v t a i \<and> P v) (rule_versions ?db) = None" for P
    using assms(17) by (auto simp: find_None_set same_set_def)
  have empty: "filter (\<lambda>v. same_set v t a i) (rule_versions ?db) = []"
    using assms(17) by (auto simp: filter_empty_conv same_set_def)
  have owner: "\<exists>r \<in> set (rule_sets ?db). rs_ID r = i" using assms(11,13) by auto
  have "insert_version (e_db E) y ?db = (Inr (), ?db\<lparr>rule_versions := rule_versions ?db @ [stored (e_db E) y]\<rparr>)"
    using assms(17) owner unfolding insert_version_def by (auto simp: healthy_simps ok y same_set_def stored_def)
  then have "sql_CreateRuleVersion (e_db E) ?draft 1 ?db = (Inr (y, True), ?db\<lparr>rule_versions := rule_versions ?db @ [stored (e_db E) y]\<rparr>)"
    using assms(15,16) by (simp add: sql_CreateRuleVersion_def healthy_get_row ok fields assms(3-5) r none notFound_def Let_def
        healthy_simps next_number_def empty y_def)
  then show ?thesis
    using assms(2,5-8,9,10) by (simp add: CreateRuleVersion_def andThen_def require_def map_error_def verified [OF assms(1)]
        assms(4) healthy_run_tx ok y_def fields Let_def)
qed

lemma publish_succeeds:
  assumes "answering E" and "authorize c t = Inr actor" and "TrimSpace a \<noteq> []" and "TrimSpace i \<noteq> []" "TrimSpace j \<noteq> []"
    and sets: "rule_sets (s_db s) = xs @ [x]" "\<forall>r \<in> set xs. rs_ID r \<noteq> i" "rs_ID x = i" "in_app x t a" "Version (rs_Audit x) = 1"
    and versions: "rule_versions (s_db s) = vs @ [y]" "\<forall>v \<in> set vs. rv_RuleSetID v \<noteq> i" "rv_ID y = j" "same_set y t a i"
      "rv_Status y = ''draft''" "Version (rv_Audit y) = 1"
    and cd: "CompileDefinition (e_engine E) (rv_DefinitionJSON y) = Inr cd" "cd_checksum cd = rv_Checksum y"
    and fresh: "\<forall>o' \<in> set (rule_outbox_events (s_db s)). \<forall>z. ob_ID (or_event o') \<noteq> e_event_id E z"
  shows "\<exists>result x' y' db'. PublishRuleVersion E c t a i j 1 1 s =
      (Inr result, store_compiled (rv_Checksum y) cd (s\<lparr>s_db := db'\<rparr>)) \<and>
    rule_sets db' = xs @ [x'] \<and> rs_ID x' = i \<and> in_app x' t a \<and> rs_Status x' = ''active'' \<and>
    rs_PublishedVersionNumber x' = rv_VersionNumber y \<and>
    rule_versions db' = vs @ [y'] \<and> frozen y' = frozen y \<and> rv_Status y' = ''published''"
proof -
  note ok = answeringD [OF assms(1)]
  have "find (\<lambda>r. in_app r t a \<and> rs_ID r = i) (rule_sets (s_db s)) = Some x"
    unfolding sets(1) using sets(2-4) by (intro find_new) auto
  moreover have "find (\<lambda>v. same_set v t a i \<and> rv_ID v = j) (rule_versions (s_db s)) = Some y"
    unfolding versions(1) using versions(2-4) by (intro find_new) (auto simp: same_set_def)
  ultimately obtain plan where plan: "publish_prepare E c t a i j 1 1 s = (Inr plan, s)"
    "set_id (pl_ruleSet plan) = set_id x" "pl_compiled plan = cd" "rv_Checksum (pl_version plan) = rv_Checksum y"
    "rv_ID (pl_version plan) = j" "same_set (pl_version plan) t a i" "rv_VersionNumber (pl_version plan) = rv_VersionNumber y"
    using assms(2-5) cd versions
    by (simp add: publish_prepare_def andThen_def require_def verified [OF assms(1)] map_error_def sql_GetRuleSet_def
        sql_GetRuleVersion_def healthy_get_row ok notFound_def recompile_def Let_def set_id_def same_set_def)
  let ?rs = "pl_ruleSet plan" and ?v = "pl_version plan" and ?db = "s_db s"
  have k: "rs_TenantID ?rs = t" "rs_ApplicationID ?rs = a" "rs_ID ?rs = i"
    using plan(2) sets(3,4) by (auto simp: set_id_def in_app_def)
  have v: "rv_TenantID ?v = t" "rv_ApplicationID ?v = a" "rv_RuleSetID ?v = i" using plan(6) by (simp_all add: same_set_def)
  let ?P = "\<lambda>v. same_set v t a i \<and> rv_ID v = j \<and> rv_Status v = ''draft'' \<and> Version (rv_Audit v) = 1"
  let ?Q = "\<lambda>r. in_app r t a \<and> rs_ID r = i \<and> Version (rs_Audit r) = 1"
  let ?y = "publish_version_row ?v y" and ?x = "publish_set_row ?rs ?v x"
  have P: "count_where ?P (vs @ [y]) \<noteq> 0" "update_where ?P f (vs @ [y]) = vs @ [f y]" for f
    using versions(2-6) by (simp_all add: count_where_def update_where_def map_idI same_set_def)
  have Q: "count_where ?Q (xs @ [x]) \<noteq> 0" "update_where ?Q f (xs @ [x]) = xs @ [f x]" for f
    using sets(2-5) by (simp_all add: count_where_def update_where_def map_idI)
  have "sql_PublishRuleVersion (e_db E) ?rs ?v 1 1 ?db = (Inr (), ?db\<lparr>rule_versions := vs @ [?y], rule_sets := xs @ [?x]\<rparr>)"
    by (simp add: sql_PublishRuleVersion_def exec_update_def optimistic_def healthy_simps ok k v plan(5) sets(1) versions(1) P Q)
  moreover obtain row where "addEvent E ?rs ?v (pl_actor plan) (UpdatedAt (rv_Audit ?v)) (?db\<lparr>rule_versions := vs @ [?y], rule_sets := xs @ [?x]\<rparr>) =
      (Inr (), ?db\<lparr>rule_versions := vs @ [?y], rule_sets := xs @ [?x], rule_outbox_events := rule_outbox_events ?db @ [row]\<rparr>)"
  proof -
    obtain z e where "e_envelope E \<lparr>md_EventID = e_event_uuid E, md_EventType = ''platform.rule.v1.RuleVersionPublished'',
        md_AggregateID = rs_ID ?rs, md_AggregateType = ''rule_set'', md_TenantID = rs_TenantID ?rs,
        md_ApplicationID = rs_ApplicationID ?rs, md_SchemaVersion = 1, md_ActorID = pl_actor plan,
        md_OccurredAt = UpdatedAt (rv_Audit ?v)\<rparr> (ToProtoRuleSet ?rs, ToProtoRuleVersion ?v) = Inr z" "e_marshal E z = Inr e"
      using assms(1) unfolding answering_def by blast
    with fresh that show thesis by (simp add: addEvent_def sql_AddOutbox_def healthy_simps ok)
  qed
  ultimately have "publish_tx E 1 1 plan ?db = (Inr (), ?db\<lparr>rule_versions := vs @ [?y], rule_sets := xs @ [?x],
      rule_outbox_events := rule_outbox_events ?db @ [row]\<rparr>)"
    by (simp add: publish_tx_def)
  then have "PublishRuleVersion E c t a i j 1 1 s = (Inr (?rs, ?v), store_compiled (rv_Checksum y) cd (s\<lparr>s_db :=
      ?db\<lparr>rule_versions := vs @ [?y], rule_sets := xs @ [?x], rule_outbox_events := rule_outbox_events ?db @ [row]\<rparr>\<rparr>))"
    by (simp add: PublishRuleVersion_def plan(1) publish_commit_def healthy_run_tx ok plan(3,4))
  moreover have "rs_ID ?x = i" "in_app ?x t a" "rs_Status ?x = ''active''" "rs_PublishedVersionNumber ?x = rv_VersionNumber y"
    "frozen ?y = frozen y" "rv_Status ?y = ''published''"
    using sets(3,4) plan(7) by (simp_all add: publish_set_row_def publish_version_row_def in_app_def frozen_def)
  ultimately show ?thesis
    by (intro exI [of _ "(?rs, ?v)"] exI [of _ ?x] exI [of _ ?y]) auto
qed

lemma publish_refused:
  assumes "answering E" and "authorize c t = Inr actor" and "TrimSpace a \<noteq> []" and "TrimSpace i \<noteq> []" "TrimSpace j \<noteq> []"
    and sets: "rule_sets (s_db s) = xs @ [x]" "\<forall>r \<in> set xs. rs_ID r \<noteq> i" "rs_ID x = i" "in_app x t a"
    and versions: "rule_versions (s_db s) = vs @ [y]" "\<forall>v \<in> set vs. rv_RuleSetID v \<noteq> i" "rv_ID y = j" "same_set y t a i"
      "rv_Status y = ''draft''"
    and cd: "\<forall>cd. CompileDefinition (e_engine E) (rv_DefinitionJSON y) = Inr cd \<longrightarrow> cd_checksum cd \<noteq> rv_Checksum y"
  shows "PublishRuleVersion E c t a i j 1 1 s = (Inl (Conflict ''stored rule definition failed validation'' None), s)"
proof -
  note ok = answeringD [OF assms(1)]
  have "find (\<lambda>r. in_app r t a \<and> rs_ID r = i) (rule_sets (s_db s)) = Some x"
    unfolding sets(1) using sets(2-4) by (intro find_new) auto
  moreover have "find (\<lambda>v. same_set v t a i \<and> rv_ID v = j) (rule_versions (s_db s)) = Some y"
    unfolding versions(1) using versions(2-4) by (intro find_new) (auto simp: same_set_def)
  moreover have "recompile (e_engine E) y = Inl (Conflict ''stored rule definition failed validation'' None)"
    using cd by (auto simp: recompile_def split: sum.split)
  ultimately show ?thesis
    using assms(2-5) versions(5)
    by (simp add: PublishRuleVersion_def publish_prepare_def andThen_def require_def verified [OF assms(1)] map_error_def
        sql_GetRuleSet_def sql_GetRuleVersion_def healthy_get_row ok notFound_def Let_def)
qed

lemma evaluate_succeeds:
  assumes "answering E" and "authorize c t = Inr actor" and "TrimSpace t = t" "TrimSpace a = a" "TrimSpace i = i" "a \<noteq> []" "i \<noteq> []"
    and sets: "rule_sets (s_db s) = xs @ [x]" "\<forall>r \<in> set xs. rs_ID r \<noteq> i" "rs_ID x = i" "in_app x t a" "rs_Status x = ''active''"
      "rs_PublishedVersionNumber x = rv_VersionNumber y"
    and versions: "rule_versions (s_db s) = vs @ [y]" "\<forall>v \<in> set vs. rv_RuleSetID v \<noteq> i" "same_set y t a i" "rv_Status y = ''published''"
    and cache: "s_compiled s (rv_Checksum y) = Some cd"
  shows "Evaluate E c t a i [] 0 facts s = (case EvaluateDefinition (e_engine E) c cd facts of
      Inr ev \<Rightarrow> (Inr (ev, y), s)
    | Inl err \<Rightarrow> (Inl (if errors_is err ErrInvalidDefinition then Invalid ''invalid facts'' (Some err) else Internal err), s))"
proof -
  note ok = answeringD [OF assms(1)]
  have "find (\<lambda>r. in_app r t a \<and> rs_ID r = i) (rule_sets (s_db s)) = Some x"
    unfolding sets(1) using sets(2-4) by (intro find_new) auto
  moreover have "find (\<lambda>v. same_set v t a i \<and> rv_VersionNumber v = rv_VersionNumber y) (rule_versions (s_db s)) = Some y"
    unfolding versions(1) using versions(2,3) by (intro find_new) (auto simp: same_set_def)
  moreover have "rs_TenantID x = t" "rs_ApplicationID x = a" using sets(4) by (simp_all add: in_app_def)
  moreover have "TrimSpace [] = []" by (simp add: TrimSpace_visible)
  ultimately show ?thesis
    using assms(2-7) sets(3,5,6) versions(4) cache
    by (simp add: Evaluate_def andThen_def require_def verified [OF assms(1)] map_error_def sql_GetRuleSet_def
        sql_GetRuleVersion_def healthy_get_row ok notFound_def compiledDefinition_def Let_def split: sum.split)
qed

section \<open>The whole way\<close>

text \<open>The first two calls leave one new rule set and one new draft, as the column prints it.\<close>

lemma rule_drafted:
  fixes E :: "nat \<Rightarrow> ('c, 'p) svc_env" and d :: string
  assumes env: "\<And>i. answering (E i)" "\<And>i. e_engine (E i) = eng"
    and caller: "authorize c t = Inr actor" "TrimSpace t = t" "TrimSpace a = a" "t \<noteq> []" "a \<noteq> []"
    and names: "ruleCodePattern (ToLower (e_uni (E 0)) (TrimSpace code))" "TrimSpace name \<noteq> []"
    and cd: "CompileDefinition eng def = Inr cd" and key: "TrimSpace key \<noteq> []" "length key \<le> 191"
    and sets: "\<forall>r \<in> set (rule_sets (s_db s)). rs_ID r \<noteq> e_uuid (E 0) \<and>
      (rs_TenantID r, rs_ApplicationID r, rs_Code r) \<noteq> (t, a, ToLower (e_uni (E 0)) (TrimSpace code))"
    and versions: "\<forall>v \<in> set (rule_versions (s_db s)). rv_ID v \<noteq> e_uuid (E 1) \<and> rv_RuleSetID v \<noteq> e_uuid (E 0)"
  obtains x s1 v y s2 where "CreateRuleSet (E 0) c t a code name d s = (Inr x, s1)"
    "CreateRuleVersion (E 1) c t a (e_uuid (E 0)) def key 1 s1 = (Inr (v, True), s2)"
    "rs_ID x = e_uuid (E 0)" "in_app x t a" "Version (rs_Audit x) = 1" "rv_ID v = e_uuid (E 1)"
    "rv_ID y = e_uuid (E 1)" "same_set y t a (e_uuid (E 0))" "rv_Status y = ''draft''" "Version (rv_Audit y) = 1"
    "rv_Checksum y = cd_checksum cd" "rv_DefinitionJSON y = sql_json (e_db (E 1)) (cd_canonicalJSON cd)" "rv_VersionNumber y = 1"
    "rule_sets (s_db s2) = rule_sets (s_db s) @ [x]" "rule_versions (s_db s2) = rule_versions (s_db s) @ [y]"
    "rule_outbox_events (s_db s2) = rule_outbox_events (s_db s)"
proof -
  let ?i = "e_uuid (E 0)"
  have i: "TrimSpace ?i = ?i" "?i \<noteq> []" using answeringD [OF env(1)] by auto
  define x where "x = new_rule_set (E 0) actor t a (ToLower (e_uni (E 0)) (TrimSpace code)) (TrimSpace name) d"
  define s1 where "s1 = s\<lparr>s_db := (s_db s)\<lparr>rule_sets := rule_sets (s_db s) @ [x]\<rparr>\<rparr>"
  have 1: "CreateRuleSet (E 0) c t a code name d s = (Inr x, s1)"
    unfolding x_def s1_def by (rule create_set_succeeds [OF env(1) caller names sets])
  have x: "rs_ID x = ?i" "in_app x t a" "Version (rs_Audit x) = 1" "rs_Status x \<noteq> ''disabled''"
    by (simp_all add: x_def new_rule_set_def in_app_def newAudit_def)
  define v where "v = (new_version (E 1) actor t a ?i cd key)\<lparr>rv_VersionNumber := 1\<rparr>"
  define y where "y = stored (e_db (E 1)) v"
  define s2 where "s2 = store_compiled (cd_checksum cd) cd (s1\<lparr>s_db := (s_db s1)\<lparr>rule_versions := rule_versions (s_db s1) @ [y]\<rparr>\<rparr>)"
  have 2: "CreateRuleVersion (E 1) c t a ?i def key 1 s1 = (Inr (v, True), s2)"
    unfolding v_def y_def s2_def
    by (rule create_version_succeeds [OF env(1) caller(1-3) i(1) caller(5) i(2) _ key, where xs = "rule_sets (s_db s)" and x = x])
      (use sets versions x cd env(2) in \<open>simp_all add: s1_def\<close>)
  show thesis
    by (rule that [OF 1 2 x(1-3), of y])
      (use caller(2,3) i(1) in \<open>simp_all add: s2_def s1_def store_compiled_def y_def v_def stored_def new_version_def same_set_def newAudit_def\<close>)
qed

text \<open>C6. A rule gets through: when the database and the other services answer, the ids drawn are
  new, and the caller may act for the tenant, then for acceptable inputs a rule set is created and a
  version of it is added. The JSON column prints the canonical text of the version in its own way.
  Exactly when the printed text compiles to the definition that was submitted is the version
  published, and then an evaluation against the rule set is the evaluation of the submitted
  definition, on every facts document, errors included; the evaluated version is the created one,
  with number 1. In every other case, for instance when the column reorders the members of a result,
  the publication is refused as a conflict and changes nothing. It is assumed that the SHA-256 of the
  submitted canonical text does not collide with that of what the printed text compiles to.\<close>

theorem published_rule_evaluates:
  fixes E :: "nat \<Rightarrow> ('c, 'p) svc_env" and d :: string
  assumes env: "\<And>i. answering (E i)" "\<And>i. e_engine (E i) = eng"
    and caller: "authorize c t = Inr actor" "TrimSpace t = t" "TrimSpace a = a" "t \<noteq> []" "a \<noteq> []"
    and names: "ruleCodePattern (ToLower (e_uni (E 0)) (TrimSpace code))" "TrimSpace name \<noteq> []"
    and cd: "CompileDefinition eng def = Inr cd"
    and printed: "printed = sql_json (e_db (E 1)) (cd_canonicalJSON cd)"
    and collision: "\<And>cd'. CompileDefinition eng printed = Inr cd' \<Longrightarrow>
      sha256_hex (cd_canonicalJSON cd') = sha256_hex (cd_canonicalJSON cd) \<Longrightarrow> cd_canonicalJSON cd' = cd_canonicalJSON cd"
    and key: "TrimSpace key \<noteq> []" "length key \<le> 191"
    and sets: "\<forall>r \<in> set (rule_sets (s_db s)). rs_ID r \<noteq> e_uuid (E 0) \<and>
      (rs_TenantID r, rs_ApplicationID r, rs_Code r) \<noteq> (t, a, ToLower (e_uni (E 0)) (TrimSpace code))"
    and versions: "\<forall>v \<in> set (rule_versions (s_db s)). rv_ID v \<noteq> e_uuid (E 1) \<and> rv_RuleSetID v \<noteq> e_uuid (E 0)"
    and events: "\<forall>o' \<in> set (rule_outbox_events (s_db s)). \<forall>z. ob_ID (or_event o') \<noteq> e_event_id (E 2) z"
  shows "\<exists>x s1 v s2.
    CreateRuleSet (E 0) c t a code name d s = (Inr x, s1) \<and>
    CreateRuleVersion (E 1) c t a (rs_ID x) def key 1 s1 = (Inr (v, True), s2) \<and>
    (if CompileDefinition eng printed = Inr cd
     then \<exists>result s3 v'.
       PublishRuleVersion (E 2) c t a (rs_ID x) (rv_ID v) 1 1 s2 = (Inr result, s3) \<and>
       rv_ID v' = rv_ID v \<and> rv_VersionNumber v' = 1 \<and> rv_Checksum v' = cd_checksum cd \<and> rv_DefinitionJSON v' = printed \<and>
       (\<forall>facts. Evaluate (E 3) c t a (rs_ID x) [] 0 facts s3 = (case EvaluateDefinition eng c cd facts of
           Inr ev \<Rightarrow> (Inr (ev, v'), s3)
         | Inl err \<Rightarrow> (Inl (if errors_is err ErrInvalidDefinition then Invalid ''invalid facts'' (Some err) else Internal err), s3)))
     else PublishRuleVersion (E 2) c t a (rs_ID x) (rv_ID v) 1 1 s2 =
       (Inl (Conflict ''stored rule definition failed validation'' None), s2))"
proof -
  let ?i = "e_uuid (E 0)" and ?j = "e_uuid (E 1)"
  have i: "TrimSpace ?i = ?i" "?i \<noteq> []" and j: "TrimSpace ?j = ?j" "?j \<noteq> []"
    using answeringD [OF env(1)] by auto
  obtain x s1 v y s2 where 1: "CreateRuleSet (E 0) c t a code name d s = (Inr x, s1)"
    and 2: "CreateRuleVersion (E 1) c t a ?i def key 1 s1 = (Inr (v, True), s2)"
    and x: "rs_ID x = ?i" "in_app x t a" "Version (rs_Audit x) = 1" and v: "rv_ID v = ?j"
    and y: "rv_ID y = ?j" "same_set y t a ?i" "rv_Status y = ''draft''" "Version (rv_Audit y) = 1"
      "rv_Checksum y = cd_checksum cd" "rv_DefinitionJSON y = printed" "rv_VersionNumber y = 1"
    and db2: "rule_sets (s_db s2) = rule_sets (s_db s) @ [x]" "rule_versions (s_db s2) = rule_versions (s_db s) @ [y]"
      "rule_outbox_events (s_db s2) = rule_outbox_events (s_db s)"
    unfolding printed by (rule rule_drafted [OF env caller names cd key sets versions])
  show ?thesis
  proof (cases "CompileDefinition eng printed = Inr cd")
    case True
    then obtain result x' y' db' where 3: "PublishRuleVersion (E 2) c t a ?i ?j 1 1 s2 =
        (Inr result, store_compiled (rv_Checksum y) cd (s2\<lparr>s_db := db'\<rparr>))"
      and x': "rule_sets db' = rule_sets (s_db s) @ [x']" "rs_ID x' = ?i" "in_app x' t a" "rs_Status x' = ''active''"
        "rs_PublishedVersionNumber x' = rv_VersionNumber y"
      and y': "rule_versions db' = rule_versions (s_db s) @ [y']" "frozen y' = frozen y" "rv_Status y' = ''published''"
      using publish_succeeds [OF env(1) caller(1) _ _ _ db2(1) _ x(1-3) db2(2) _ y(1-4), of 2 cd] caller(3,5) i j sets versions events
      by (auto simp: db2 y(5,6) env(2))
    have f: "rv_ID y' = ?j" "same_set y' t a ?i" "rv_VersionNumber y' = 1" "rv_Checksum y' = cd_checksum cd" "rv_DefinitionJSON y' = printed"
      using y'(2) y by (simp_all add: frozen_def same_set_def)
    let ?s3 = "store_compiled (rv_Checksum y) cd (s2\<lparr>s_db := db'\<rparr>)"
    have "Evaluate (E 3) c t a ?i [] 0 facts ?s3 = (case EvaluateDefinition (e_engine (E 3)) c cd facts of
        Inr ev \<Rightarrow> (Inr (ev, y'), ?s3)
      | Inl err \<Rightarrow> (Inl (if errors_is err ErrInvalidDefinition then Invalid ''invalid facts'' (Some err) else Internal err), ?s3))" for facts
      by (rule evaluate_succeeds [OF env(1) caller(1-3) i(1) caller(5) i(2), where xs = "rule_sets (s_db s)" and x = x' and vs = "rule_versions (s_db s)"])
        (use sets versions x' y' y f in \<open>simp_all add: store_compiled_def\<close>)
    then have "\<exists>result s3 v'. PublishRuleVersion (E 2) c t a ?i ?j 1 1 s2 = (Inr result, s3) \<and>
        rv_ID v' = ?j \<and> rv_VersionNumber v' = 1 \<and> rv_Checksum v' = cd_checksum cd \<and> rv_DefinitionJSON v' = printed \<and>
        (\<forall>facts. Evaluate (E 3) c t a ?i [] 0 facts s3 = (case EvaluateDefinition eng c cd facts of
            Inr ev \<Rightarrow> (Inr (ev, v'), s3)
          | Inl err \<Rightarrow> (Inl (if errors_is err ErrInvalidDefinition then Invalid ''invalid facts'' (Some err) else Internal err), s3)))"
      using 3 f unfolding env(2) by (intro exI [of _ result] exI [of _ ?s3] exI [of _ y']) simp
    with 1 2 x(1) v True show ?thesis
      by (intro exI [of _ x] exI [of _ s1] exI [of _ v] exI [of _ s2]) simp
  next
    case False
    have "cd_checksum cd' \<noteq> cd_checksum cd" if c: "CompileDefinition eng printed = Inr cd'" for cd'
    proof
      assume "cd_checksum cd' = cd_checksum cd"
      moreover have "cd_checksum cd' = sha256_hex (cd_canonicalJSON cd')" using c by (rule canonical_form) blast
      moreover have "cd_checksum cd = sha256_hex (cd_canonicalJSON cd)" using cd by (rule canonical_form) blast
      ultimately have "cd_canonicalJSON cd' = cd_canonicalJSON cd" using collision [OF c] by simp
      with canonical_unique [OF c cd] c False show False by simp
    qed
    then have "PublishRuleVersion (E 2) c t a ?i ?j 1 1 s2 = (Inl (Conflict ''stored rule definition failed validation'' None), s2)"
      by (intro publish_refused [OF env(1) caller(1) _ _ _ db2(1) _ x(1,2) db2(2) _ y(1-3)])
        (use caller(3,5) i j sets versions in \<open>simp_all add: y(5,6) env(2)\<close>)
    with 1 2 x(1) v False show ?thesis
      by (intro exI [of _ x] exI [of _ s1] exI [of _ v] exI [of _ s2]) simp
  qed
qed

text \<open>The text a \<open>JSONB\<close> column prints for the demonstration: spaces, and the members of each object in
  the order of the length of their names. It decodes to the same definition.\<close>

definition demo_jsonb :: string where
  "demo_jsonb = backquoted
     (''{`rules`: [{`name`: `a`, `result`: {}, `condition`: `no`}, '' @
      ''{`name`: `b`, `result`: {`v`: true}, `condition`: `yes`}], `default_result`: {}}'')"

definition demo_jsonb_ast :: json where
  "demo_jsonb_ast = JObj
     [(''rules'', JArr
        [JObj [(''name'', JStr ''a''), (''result'', JObj []), (''condition'', JStr ''no'')],
         JObj [(''name'', JStr ''b''), (''result'', JObj [(''v'', JBool True)]), (''condition'', JStr ''yes'')]]),
      (''default_result'', JObj [])]"

lemma demo_jsonb_decode: "decode_first demo_jsonb = Some (demo_jsonb_ast, [])"
  by code_simp

lemma demo_jsonb_definition: "decode_definition demo_jsonb_ast = Some demo_definition"
  by code_simp

lemma demo_jsonb_size: "length demo_jsonb \<le> maxDefinitionBytes" "demo_jsonb \<noteq> []"
  by (simp_all add: demo_jsonb_def backquoted_def maxDefinitionBytes_def)

text \<open>Texts that decode to the same definition compile to the same.\<close>

lemma compile_same_definition:
  assumes "CompileDefinition eng raw = Inr cd" and "decode_first raw = Some (v, [])" and "decode_definition v = Some d"
    and "decode_first raw' = Some (v', [])" "decode_definition v' = Some d" "raw' \<noteq> []" "length raw' \<le> maxDefinitionBytes"
  shows "CompileDefinition eng raw' = Inr cd"
  using assms unfolding CompileDefinition_def by (simp split: if_splits)

lemma demo_jsonb_compiles: "CompileDefinition demo_engine demo_jsonb = Inr demo_compiled"
  by (rule compile_same_definition [OF demo_compiles demo_decode demo_definition demo_jsonb_decode demo_jsonb_definition])
    (use demo_jsonb_size in simp_all)

definition demo_calls :: "nat \<Rightarrow> (string, string) svc_env" where
  "demo_calls i = (demo_env (if i = 0 then ''s'' else ''v''))
     \<lparr>e_db := demo_dbenv\<lparr>sql_json := (\<lambda>text. if text = demo_raw then demo_jsonb else text)\<rparr>\<rparr>"

lemma published_rule_evaluates_witness:
  "\<exists>x s1 v s2 result s3 v'.
    CreateRuleSet (demo_calls 0) demo_ctx ''t'' ''a'' ''code'' ''n'' [] demo_s0 = (Inr x, s1) \<and>
    CreateRuleVersion (demo_calls 1) demo_ctx ''t'' ''a'' (rs_ID x) demo_raw ''k'' 1 s1 = (Inr (v, True), s2) \<and>
    PublishRuleVersion (demo_calls 2) demo_ctx ''t'' ''a'' (rs_ID x) (rv_ID v) 1 1 s2 = (Inr result, s3) \<and>
    rv_DefinitionJSON v' = demo_jsonb \<and>
    Evaluate (demo_calls 3) demo_ctx ''t'' ''a'' (rs_ID x) [] 0 ''{}'' s3 = (Inr (demo_evaluation, v'), s3)"
proof -
  have e: "answering (demo_calls i)" "e_engine (demo_calls i) = demo_engine" for i
    by (auto simp: demo_calls_def answering_def healthy_def)
  have uni: "e_uni (demo_calls i) z = z" for i z by (simp add: demo_calls_def)
  have p: "demo_jsonb = sql_json (e_db (demo_calls 1)) (cd_canonicalJSON demo_compiled)"
    by (simp add: demo_calls_def demo_compiled_def)
  have db: "s_db demo_s0 = empty_db" by (simp add: demo_s0_def)
  have ex: "\<exists>x s1 v s2.
    CreateRuleSet (demo_calls 0) demo_ctx ''t'' ''a'' ''code'' ''n'' [] demo_s0 = (Inr x, s1) \<and>
    CreateRuleVersion (demo_calls 1) demo_ctx ''t'' ''a'' (rs_ID x) demo_raw ''k'' 1 s1 = (Inr (v, True), s2) \<and>
    (if CompileDefinition demo_engine demo_jsonb = Inr demo_compiled
     then \<exists>result s3 v'.
       PublishRuleVersion (demo_calls 2) demo_ctx ''t'' ''a'' (rs_ID x) (rv_ID v) 1 1 s2 = (Inr result, s3) \<and>
       rv_ID v' = rv_ID v \<and> rv_VersionNumber v' = 1 \<and> rv_Checksum v' = cd_checksum demo_compiled \<and> rv_DefinitionJSON v' = demo_jsonb \<and>
       (\<forall>facts. Evaluate (demo_calls 3) demo_ctx ''t'' ''a'' (rs_ID x) [] 0 facts s3 = (case EvaluateDefinition demo_engine demo_ctx demo_compiled facts of
           Inr ev \<Rightarrow> (Inr (ev, v'), s3)
         | Inl err \<Rightarrow> (Inl (if errors_is err ErrInvalidDefinition then Invalid ''invalid facts'' (Some err) else Internal err), s3)))
     else PublishRuleVersion (demo_calls 2) demo_ctx ''t'' ''a'' (rs_ID x) (rv_ID v) 1 1 s2 =
       (Inl (Conflict ''stored rule definition failed validation'' None), s2))"
    by (rule published_rule_evaluates [where E = demo_calls, OF e demo_authorized _ _ _ _ _ _ demo_compiles p])
      (simp_all add: uni demo_jsonb_compiles db empty_db_def)
  then obtain x s1 v s2 result s3 v' where
    "CreateRuleSet (demo_calls 0) demo_ctx ''t'' ''a'' ''code'' ''n'' [] demo_s0 = (Inr x, s1)"
    "CreateRuleVersion (demo_calls 1) demo_ctx ''t'' ''a'' (rs_ID x) demo_raw ''k'' 1 s1 = (Inr (v, True), s2)"
    "PublishRuleVersion (demo_calls 2) demo_ctx ''t'' ''a'' (rs_ID x) (rv_ID v) 1 1 s2 = (Inr result, s3)"
    "rv_DefinitionJSON v' = demo_jsonb"
    "Evaluate (demo_calls 3) demo_ctx ''t'' ''a'' (rs_ID x) [] 0 ''{}'' s3 = (case EvaluateDefinition demo_engine demo_ctx demo_compiled ''{}'' of
        Inr ev \<Rightarrow> (Inr (ev, v'), s3)
      | Inl err \<Rightarrow> (Inl (if errors_is err ErrInvalidDefinition then Invalid ''invalid facts'' (Some err) else Internal err), s3))"
    unfolding demo_jsonb_compiles if_P [OF refl] by blast
  then show ?thesis unfolding demo_evaluates sum.case demo_evaluation_def by blast
qed

end
