(* ===== verification/Isolation.thy ===== *)
theory Isolation
  imports DemoRun
begin

text \<open>
  Tenant isolation: an ordinary principal (a user, not a service account) sees and changes rows of its
  own tenant only.
\<close>

definition ordinary :: "ctx \<Rightarrow> string \<Rightarrow> bool" where
  "ordinary c tenant \<longleftrightarrow> (\<exists>p. ctx_principal c = Some p \<and> p_TenantID p = tenant \<and>
     p_Type p \<noteq> TypeServiceAccount \<and> p_Type p \<noteq> TypeSystem)"

lemma ordinary_authorized: "ordinary c tenant \<Longrightarrow> authorize c t = Inr actor \<Longrightarrow> TrimSpace t = tenant \<and> tenant \<noteq> []"
  by (auto simp: ordinary_def authorize_def split: if_splits)

lemma ordinary_demo: "ordinary demo_ctx ''t''"
  by (simp add: ordinary_def demo_ctx_def)

lemma fst_pair: "fst x = y \<Longrightarrow> x = (y, snd x)"
  by (cases x) simp

section \<open>Reads\<close>

lemma insert_by_set: "set (insert_by le x ys) = insert x (set ys)"
  by (induction ys) auto

lemma order_by_set [simp]: "set (order_by le xs) = set xs"
  by (induction xs) (simp_all add: order_by_def insert_by_set)

lemma page_of_subset: "page_of E limit offset rows = Inr items \<Longrightarrow> set items \<subseteq> set rows"
  by (auto simp: page_of_def split: if_splits dest: in_set_takeD in_set_dropD)

lemma sql_ListRuleSets_Inr:
  "sql_ListRuleSets E uni t a st kw limit offset db = Inr (items, n) \<Longrightarrow> r \<in> set items \<Longrightarrow> in_app r t a"
  by (auto simp: sql_ListRuleSets_def Let_def set_filter_def split: option.splits sum.splits dest!: page_of_subset)

lemma sql_ListRuleVersions_Inr:
  "sql_ListRuleVersions E t a i st limit offset db = Inr (items, n) \<Longrightarrow> v \<in> set items \<Longrightarrow> same_set v t a i"
  by (auto simp: sql_ListRuleVersions_def Let_def split: option.splits sum.splits dest!: page_of_subset)

lemma GetRuleSet_tenant:
  "GetRuleSet E c t a i code s = (Inr (r, published), s') \<Longrightarrow> ordinary c tenant \<Longrightarrow>
     rs_TenantID r = tenant \<and> (\<forall>v. published = Some v \<longrightarrow> rv_TenantID v = tenant)"
  by (auto simp: GetRuleSet_def andThen_Inr map_sum_Inr in_app_def same_set_def split: if_splits
      dest!: ordinary_authorized sql_GetRuleSet_Inr sql_GetRuleVersion_Inr)

lemma ListRuleSets_tenant:
  "ListRuleSets E c t a st kw p n s = (Inr page, s') \<Longrightarrow> ordinary c tenant \<Longrightarrow> r \<in> set (Items page) \<Longrightarrow> rs_TenantID r = tenant"
  by (auto simp: ListRuleSets_def andThen_Inr map_sum_Inr in_app_def split: prod.splits
      dest!: ordinary_authorized sql_ListRuleSets_Inr)

lemma GetRuleVersion_tenant:
  "GetRuleVersion E c t a i v s = (Inr x, s') \<Longrightarrow> ordinary c tenant \<Longrightarrow> rv_TenantID x = tenant"
  by (auto simp: GetRuleVersion_def andThen_Inr same_set_def dest!: ordinary_authorized sql_GetRuleVersion_Inr)

lemma ListRuleVersions_tenant:
  "ListRuleVersions E c t a i st p n s = (Inr page, s') \<Longrightarrow> ordinary c tenant \<Longrightarrow> v \<in> set (Items page) \<Longrightarrow> rv_TenantID v = tenant"
  by (auto simp: ListRuleVersions_def andThen_Inr map_sum_Inr same_set_def split: prod.splits
      dest!: ordinary_authorized sql_ListRuleVersions_Inr)

lemma Evaluate_tenant:
  assumes "Evaluate E c t a i code n facts s = (Inr (ev, v), s')" and "ordinary c tenant"
  shows "rv_TenantID v = tenant"
proof -
  have "\<exists>actor. authorize c t = Inr actor" using assms(1) by (auto simp: Evaluate_def andThen_Inr)
  with assms(2) have "TrimSpace t = tenant" using ordinary_authorized by blast
  moreover from assms(1) have "rv_TenantID v = TrimSpace t"
    by (rule Evaluate_Inr) (auto simp: same_set_def in_app_def dest!: sql_GetRuleSet_Inr sql_GetRuleVersion_Inr)
  ultimately show ?thesis by simp
qed

text \<open>C13. Reads stay in the tenant: every rule set, version and page that an ordinary principal gets
  from \<open>GetRuleSet\<close>, \<open>ListRuleSets\<close>, \<open>GetRuleVersion\<close>, \<open>ListRuleVersions\<close> or \<open>Evaluate\<close>, whatever it
  asks for, belongs to the tenant of the principal.\<close>

theorem reads_stay_in_tenant:
  assumes "ctx_principal c = Some p" and "p_Type p \<noteq> TypeServiceAccount" and "p_Type p \<noteq> TypeSystem"
  shows "(\<forall>r pub. fst (GetRuleSet E c t a i code s) = Inr (r, pub) \<longrightarrow>
        rs_TenantID r = p_TenantID p \<and> (\<forall>v. pub = Some v \<longrightarrow> rv_TenantID v = p_TenantID p)) \<and>
    (\<forall>page. fst (ListRuleSets E c t a st kw n sz s) = Inr page \<longrightarrow> (\<forall>r \<in> set (Items page). rs_TenantID r = p_TenantID p)) \<and>
    (\<forall>v. fst (GetRuleVersion E c t a i vid s) = Inr v \<longrightarrow> rv_TenantID v = p_TenantID p) \<and>
    (\<forall>page. fst (ListRuleVersions E c t a i st n sz s) = Inr page \<longrightarrow> (\<forall>v \<in> set (Items page). rv_TenantID v = p_TenantID p)) \<and>
    (\<forall>ev v. fst (Evaluate E c t a i code k facts s) = Inr (ev, v) \<longrightarrow> rv_TenantID v = p_TenantID p)"
proof -
  from assms have o: "ordinary c (p_TenantID p)" by (simp add: ordinary_def)
  note f = GetRuleSet_tenant [OF fst_pair o] ListRuleSets_tenant [OF fst_pair o] GetRuleVersion_tenant [OF fst_pair o]
    ListRuleVersions_tenant [OF fst_pair o] Evaluate_tenant [OF fst_pair o]
  show ?thesis by (intro conjI allI impI ballI) (auto dest: f)
qed

lemma reads_stay_in_tenant_witness:
  "rv_TenantID demo_version2 = ''t''"
  using reads_stay_in_tenant [of demo_ctx "\<lparr>p_ID = ''u'', p_Type = TypeOther ''user'', p_TenantID = ''t''\<rparr>" "demo_env []"
      "''t''" "''a''" "''s''" "[]" demo_s3 "[]" "[]" 1 1 "[]" 0 "''{}''"] demo_runs [of "[]"]
  by (simp add: demo_ctx_def)

section \<open>Writes\<close>

definition others_untouched :: "string \<Rightarrow> 'p svc_state \<Rightarrow> 'p svc_state \<Rightarrow> bool" where
  "others_untouched tenant s s' \<longleftrightarrow>
     filter (\<lambda>r. rs_TenantID r \<noteq> tenant) (rule_sets (s_db s')) = filter (\<lambda>r. rs_TenantID r \<noteq> tenant) (rule_sets (s_db s)) \<and>
     filter (\<lambda>v. rv_TenantID v \<noteq> tenant) (rule_versions (s_db s')) = filter (\<lambda>v. rv_TenantID v \<noteq> tenant) (rule_versions (s_db s))"

lemma others_refl [simp]: "others_untouched tenant s s" "others_untouched tenant s (store_compiled k cd s') = others_untouched tenant s s'"
  by (simp_all add: others_untouched_def store_compiled_def)

lemma filter_update_other:
  "(\<And>x. P x \<Longrightarrow> \<not> Q x \<and> \<not> Q (f x)) \<Longrightarrow> filter Q (update_where P f xs) = filter Q xs"
  by (induction xs) (auto simp: update_where_def)

lemma CreateRuleSet_others:
  assumes "CreateRuleSet E c t a code name d s = (r, s')" and "ordinary c tenant"
  shows "others_untouched tenant s s'"
  using CreateRuleSet_run [OF assms(1)]
proof (elim disjE exE conjE)
  fix actor x r2
  assume a: "authorize c t = Inr actor" and r: "run_tx E (sql_CreateRuleSet (e_db E) x) s = (r2, s')"
    and "x = new_rule_set E actor (TrimSpace t) (TrimSpace a) (ToLower (e_uni E) (TrimSpace code)) (TrimSpace name) d"
  then have "rs_TenantID x = tenant" using ordinary_authorized [OF assms(2) a] by (simp add: new_rule_set_def)
  with run_tx_cases [OF r] show ?thesis
    by (auto simp: ran_def others_untouched_def dest!: sql_CreateRuleSet_Inr)
qed simp

lemma UpdateRuleSet_others:
  assumes "UpdateRuleSet E c t a i name d st e s = (r, s')" and "ordinary c tenant"
  shows "others_untouched tenant s s'"
proof -
  consider x where "update_prepare E c t a i name d st e s = (Inl x, s')"
    | x s1 where "update_prepare E c t a i name d st e s = (Inr x, s1)" "update_commit E e x s1 = (r, s')"
    using assms(1) by (auto simp: UpdateRuleSet_def split: prod.split_asm sum.split_asm)
  then show ?thesis
  proof cases
    case 1
    then show ?thesis using update_prepare_cases by force
  next
    case (2 x s1)
    have [simp]: "s1 = s" using 2(1) by (rule update_prepare_cases)
    from 2(1) obtain actor where "authorize c t = Inr actor" by (auto simp: update_prepare_def andThen_Inr)
    with ordinary_authorized [OF assms(2)] update_prepare_Inr [OF 2(1)] have t: "fst (set_id x) = tenant"
      by (auto simp: set_id_def)
    from update_commit_cases [OF 2(2)] show ?thesis
    proof
      assume "ran (sql_UpdateRuleSet (e_db E) x e) s1 s'"
      then obtain u where "sql_UpdateRuleSet (e_db E) x e (s_db s) = (Inr u, s_db s')" by (auto simp: ran_def)
      from sql_UpdateRuleSet_Inr(1) [OF this] t show ?thesis
        by (auto simp: others_untouched_def set_key_def set_id_def bump_set_def intro!: filter_update_other)
    qed simp
  qed
qed

lemma CreateRuleVersion_others:
  assumes "CreateRuleVersion E c t a i def key e s = (r, s')" and "ordinary c tenant"
  shows "others_untouched tenant s s'"
  using CreateRuleVersion_run [OF assms(1)]
proof (elim disjE [of "s' = s \<and> (\<exists>e. r = Inl e)"])
  assume "\<exists>actor compiled x r2 s2. authorize c t = Inr actor \<and> verifyApplication E t a = Inr () \<and>
       CompileDefinition (e_engine E) def = Inr compiled \<and> TrimSpace i \<noteq> [] \<and> TrimSpace key \<noteq> [] \<and> 1 \<le> e \<and>
       x = new_version E actor t a i compiled key \<and>
       run_tx E (sql_CreateRuleVersion (e_db E) x e) s = (r2, s2) \<and>
       ((\<exists>e. r2 = Inl e \<and> r = Inl e \<and> s' = s2) \<or>
        (\<exists>v created. r2 = Inr (v, created) \<and> r = Inr (v, created) \<and> s' = store_compiled (rv_Checksum v) compiled s2))"
  then obtain actor compiled x r2 s2 where a: "authorize c t = Inr actor"
    and x: "x = new_version E actor t a i compiled key" and run: "run_tx E (sql_CreateRuleVersion (e_db E) x e) s = (r2, s2)"
    and s': "s_db s' = s_db s2" by (auto simp: store_compiled_def)
  from a x have t: "rv_TenantID x = tenant" using ordinary_authorized [OF assms(2)] by simp
  from run_tx_cases [OF run] have "others_untouched tenant s s2"
  proof
    assume "ran (sql_CreateRuleVersion (e_db E) x e) s s2"
    then obtain v created where "sql_CreateRuleVersion (e_db E) x e (s_db s) = (Inr (v, created), s_db s2)"
      by (auto simp: ran_def)
    then show ?thesis
      by (cases rule: sql_CreateRuleVersion_cases) (simp_all add: others_untouched_def stored_def t)
  qed simp
  with s' show ?thesis by (simp add: others_untouched_def)
qed simp

lemma PublishRuleVersion_others:
  assumes "PublishRuleVersion E c t a i v re ve s = (r, s')" and "ordinary c tenant" and "db_ok (s_db s)"
  shows "others_untouched tenant s s'"
proof -
  consider x where "publish_prepare E c t a i v re ve s = (Inl x, s')"
    | plan s1 where "publish_prepare E c t a i v re ve s = (Inr plan, s1)" "publish_commit E re ve plan s1 = (r, s')"
    using assms(1) by (auto simp: PublishRuleVersion_def split: prod.split_asm sum.split_asm)
  then show ?thesis
  proof cases
    case 1
    then show ?thesis using publish_prepare_cases by force
  next
    case (2 plan s1)
    have [simp]: "s1 = s" using 2(1) by (rule publish_prepare_cases)
    from 2(1) obtain actor rs ver cd where p: "authorize c t = Inr actor"
      "sql_GetRuleSet (e_db E) t a i [] (s_db s) = Inr rs" "sql_GetRuleVersion (e_db E) t a i v 0 (s_db s) = Inr ver"
      "plan = plan_of E actor re ve rs ver cd"
      by (rule publish_prepare_Inr) blast
    from sql_GetRuleSet_Inr [OF p(2)] assms(3) have "TrimSpace t = t"
      by (auto simp: in_app_def db_ok_def sets_ok_def set_row_ok_def)
    with ordinary_authorized [OF assms(2) p(1)] sql_GetRuleSet_Inr [OF p(2)] sql_GetRuleVersion_Inr [OF p(3)] have
      t: "fst (set_id (pl_ruleSet plan)) = tenant" "rv_TenantID (pl_version plan) = tenant"
      by (simp_all add: p(4) plan_of_def set_id_def in_app_def same_set_def)
    from 2(2) obtain r2 s2 where run: "run_tx E (publish_tx E re ve plan) s = (r2, s2)" and d: "s_db s' = s_db s2"
      by (rule publish_commit_run) auto
    from run_tx_cases [OF run] have "others_untouched tenant s s2"
    proof
      assume "ran (publish_tx E re ve plan) s s2"
      then obtain u where "publish_tx E re ve plan (s_db s) = (Inr u, s_db s2)" by (auto simp: ran_def)
      then show ?thesis
        by (rule publish_tx_Inr) (use t in \<open>auto simp: others_untouched_def set_key_def set_id_def version_row_def same_set_def
            publish_version_row_def publish_set_row_def intro!: filter_update_other\<close>)
    qed simp
    with d show ?thesis by (simp add: others_untouched_def)
  qed
qed

text \<open>C12. Writes stay in the tenant: whatever an ordinary principal asks to create, update or publish,
  and whether or not the call succeeds, the rule sets and versions of every other tenant are left as
  they are (the tables being consistent, as they are in every reachable state).\<close>

theorem writes_stay_in_tenant:
  assumes "ctx_principal c = Some p" and "p_Type p \<noteq> TypeServiceAccount" and "p_Type p \<noteq> TypeSystem"
    and "reachable eng w" and "s = w_svc w"
    and "s' \<in> {snd (CreateRuleSet E c t a code name d s), snd (UpdateRuleSet E c t a i name d st e s),
        snd (CreateRuleVersion E c t a i def key e s), snd (PublishRuleVersion E c t a i v re ve s)}"
  shows "filter (\<lambda>r. rs_TenantID r \<noteq> p_TenantID p) (rule_sets (s_db s')) =
      filter (\<lambda>r. rs_TenantID r \<noteq> p_TenantID p) (rule_sets (s_db s)) \<and>
    filter (\<lambda>v. rv_TenantID v \<noteq> p_TenantID p) (rule_versions (s_db s')) =
      filter (\<lambda>v. rv_TenantID v \<noteq> p_TenantID p) (rule_versions (s_db s))"
proof -
  from assms(1-3) have o: "ordinary c (p_TenantID p)" by (simp add: ordinary_def)
  from reachable_world_ok [OF assms(4)] assms(5) have "db_ok (s_db s)" by (simp add: world_ok_def)
  with o assms(6) have "others_untouched (p_TenantID p) s s'"
    using CreateRuleSet_others UpdateRuleSet_others CreateRuleVersion_others PublishRuleVersion_others
    by (metis (no_types, lifting) insertE prod.collapse singletonD)
  then show ?thesis by (simp add: others_untouched_def)
qed

lemma writes_stay_in_tenant_witness:
  "filter (\<lambda>r. rs_TenantID r \<noteq> ''t'') (rule_sets (s_db demo_s1)) = []"
proof -
  have "demo_s1 = snd (CreateRuleSet (demo_env ''s'') demo_ctx ''t'' ''a'' ''code'' ''n'' [] (w_svc initial))"
    using demo_creates by (simp add: initial_def demo_s0_def)
  then have "filter (\<lambda>r. rs_TenantID r \<noteq> ''t'') (rule_sets (s_db demo_s1)) =
      filter (\<lambda>r. rs_TenantID r \<noteq> ''t'') (rule_sets (s_db (w_svc (initial :: string world))))"
    using writes_stay_in_tenant [of demo_ctx "\<lparr>p_ID = ''u'', p_Type = TypeOther ''user'', p_TenantID = ''t''\<rparr>",
        OF _ _ _ reachable.init refl, of demo_s1 "demo_env ''s''" "''t''" "''a''" "''code''" "''n''" "[]"]
    by (simp add: demo_ctx_def)
  then show ?thesis by (simp add: initial_def empty_db_def)
qed

end
