(* ===== verification/ServiceErrors.thy ===== *)
theory ServiceErrors
  imports Isolation ServiceClaims
begin

text \<open>
  What a caller of the service can get back: documented errors only, batches in the order of the
  request, and pages that tile the ordered result.
\<close>

section \<open>Documented errors\<close>

text \<open>The errors of the driver, of the transaction and of the event library are not application errors.\<close>

definition foreign :: "go_error \<Rightarrow> bool" where
  "foreign e \<longleftrightarrow> errors_as e = None"

definition foreign_faults :: "('c, 'p) svc_env \<Rightarrow> bool" where
  "foreign_faults E \<longleftrightarrow>
     (\<forall>e. begin_error (e_db E) = Some e \<or> commit_error (e_db E) = Some e \<or> rollback_error (e_db E) = Some e \<longrightarrow> foreign e) \<and>
     (\<forall>st e. stmt_error (e_db E) st = Some e \<or> rows_error (e_db E) st = Some e \<longrightarrow> foreign e) \<and>
     foreign (constraint_error (e_db E)) \<and> foreign (offset_error (e_db E)) \<and>
     (\<forall>md payload e. e_envelope E md payload = Inl e \<longrightarrow> foreign e) \<and> (\<forall>x e. e_marshal E x = Inl e \<longrightarrow> foreign e)"

named_theorems documented \<open>operations whose errors are documented\<close>

definition fails_with :: "(go_error \<Rightarrow> bool) \<Rightarrow> go_error + 'a \<Rightarrow> bool" where
  "fails_with P r \<longleftrightarrow> (\<forall>e. r = Inl e \<longrightarrow> P e)"

lemma fails_with_simps [simp]: "fails_with P (Inl e) \<longleftrightarrow> P e" "fails_with P (Inr x)"
  by (simp_all add: fails_with_def)

lemma fails_with_result: "fails_with P (map_sum id f r) \<longleftrightarrow> fails_with P r"
  by (cases r) simp_all

lemma fails_with_andThen [documented]:
  "fails_with P r \<Longrightarrow> (\<And>x s. fails_with P (fst (k x s))) \<Longrightarrow> fails_with P (fst (andThen r k s))"
  by (cases r) (simp_all add: fails_with_def)

lemma fails_with_require [documented]: "P e \<Longrightarrow> fails_with P (require b e)"
  by (simp add: require_def)

lemma fails_with_map [documented]:
  "(\<And>e. fails_with Q r \<Longrightarrow> Q e \<Longrightarrow> P (f e)) \<Longrightarrow> fails_with Q r \<Longrightarrow> fails_with P (map_error f r)"
  "(\<And>e. Q e \<Longrightarrow> P (f e)) \<Longrightarrow> fails_with Q r \<Longrightarrow> fails_with P (map_sum f g r)"
  by (cases r; simp add: map_error_def)+

lemma translate_documented: "foreign e \<Longrightarrow> is_app (translate e)"
  by (simp add: foreign_def translate_def)

lemma foreign_simps [simp]: "foreign (Wrap m e) \<longleftrightarrow> foreign e" "foreign (Sentinel x)" "foreign (Plain m)"
  by (simp_all add: foreign_def)

lemma authorize_documented [documented]: "fails_with is_app (authorize c t)"
proof -
  have "is_app (AppErr CodeForbidden m 403 cause)" for m cause by (simp add: is_app_def documented_codes_def)
  then show ?thesis by (auto simp: authorize_def split: option.split)
qed

lemma verify_documented [documented]: "fails_with is_app (verifyApplication E t a)"
proof -
  have "is_app (AppErr CodeForbidden m 403 cause)" for m cause by (simp add: is_app_def documented_codes_def)
  then show ?thesis by (auto simp: verifyApplication_def split: option.split)
qed

text \<open>The repository only fails with foreign errors.\<close>

lemma faultsD:
  assumes "foreign_faults E"
  shows "stmt_error (e_db E) st = Some e \<Longrightarrow> foreign e" "rows_error (e_db E) st = Some e \<Longrightarrow> foreign e"
    "begin_error (e_db E) = Some e \<Longrightarrow> foreign e" "commit_error (e_db E) = Some e \<Longrightarrow> foreign e"
    "rollback_error (e_db E) = Some e \<Longrightarrow> foreign e" "foreign (constraint_error (e_db E))"
    "foreign (offset_error (e_db E))" "e_envelope E md payload = Inl e \<Longrightarrow> foreign e" "e_marshal E x = Inl e \<Longrightarrow> foreign e"
  using assms unfolding foreign_faults_def by blast+

lemma rows_foreign:
  assumes "foreign_faults E"
  shows "get_row (e_db E) st P rows = Inl e \<Longrightarrow> foreign e" "page_of (e_db E) l off xs = Inl e \<Longrightarrow> foreign e"
    "notFound (get_row (e_db E) st P rows) = Inl e \<Longrightarrow> foreign e"
  using faultsD [OF assms] by (auto simp: get_row_def page_of_def notFound_def split: option.split_asm if_split_asm)

lemma exec_foreign:
  assumes "foreign_faults E"
  shows "exec_update (e_db E) st P f rows = (r, rows') \<Longrightarrow> optimistic (e_db E) st' r = Inl e \<Longrightarrow> foreign e"
  using faultsD [OF assms] by (auto simp: exec_update_def optimistic_def split: option.split_asm sum.split_asm if_split_asm)

lemma sql_foreign:
  assumes "foreign_faults E"
  shows "sql_GetRuleSet (e_db E) t a i code db = Inl e \<Longrightarrow> foreign e"
    "sql_GetRuleVersion (e_db E) t a i vid n db = Inl e \<Longrightarrow> foreign e"
    "sql_ListRuleSets (e_db E) uni t a st kw l off db = Inl e \<Longrightarrow> foreign e"
    "sql_ListRuleVersions (e_db E) t a i st l off db = Inl e \<Longrightarrow> foreign e"
    "sql_CreateRuleSet (e_db E) x db = (Inl e, db') \<Longrightarrow> foreign e"
    "sql_UpdateRuleSet (e_db E) x n db = (Inl e, db') \<Longrightarrow> foreign e"
    "insert_version (e_db E) v db = (Inl e, db') \<Longrightarrow> foreign e"
    "sql_PublishRuleVersion (e_db E) x v n m db = (Inl e, db') \<Longrightarrow> foreign e"
    "addEvent E x v actor at' db = (Inl e, db') \<Longrightarrow> foreign e"
  by (auto simp: sql_GetRuleSet_def sql_GetRuleVersion_def sql_ListRuleSets_def sql_ListRuleVersions_def Let_def
      sql_CreateRuleSet_def sql_UpdateRuleSet_def insert_version_def sql_PublishRuleVersion_def addEvent_def sql_AddOutbox_def
      split: option.split_asm sum.split_asm prod.split_asm if_split_asm
      intro: faultsD(6,7) [OF assms] dest: faultsD(1-5,8,9) [OF assms] rows_foreign [OF assms] exec_foreign [OF assms])

lemma CreateRuleVersion_foreign:
  assumes "foreign_faults E" and "sql_CreateRuleVersion (e_db E) x n db = (Inl e, db')"
  shows "foreign e"
  using assms(2) faultsD(1) [OF assms(1)] rows_foreign [OF assms(1)] sql_foreign(7) [OF assms(1)]
  by (auto simp: sql_CreateRuleVersion_def Let_def split: option.split_asm sum.split_asm prod.split_asm if_split_asm)

lemma publish_foreign:
  assumes "foreign_faults E" and "publish_tx E re ve plan db = (Inl e, db')"
  shows "foreign e"
  using assms(2) sql_foreign(8,9) [OF assms(1)]
  by (auto simp: publish_tx_def split: sum.split_asm prod.split_asm)

lemma run_tx_documented:
  assumes "foreign_faults E" and "\<And>db e db'. fn db = (Inl e, db') \<Longrightarrow> foreign e" and "run_tx E fn s = (Inl e, s')"
  shows "is_app e"
proof -
  obtain r db where w: "Within (e_db E) fn (s_db s) = (r, db)" by (meson surj_pair)
  with assms(3) obtain e0 where e0: "r = Inl e0" "e = translate e0"
    by (cases r) (auto simp: run_tx_def map_error_def)
  with w have "foreign e0"
    using faultsD [OF assms(1)] assms(2)
    by (auto simp: Within_def split: option.split_asm sum.split_asm prod.split_asm if_split_asm)
  with e0 show ?thesis by (simp add: translate_documented)
qed

lemma tx_result_documented [documented]:
  assumes "foreign_faults E" and "\<And>db e db'. fn db = (Inl e, db') \<Longrightarrow> foreign e"
  shows "fails_with is_app (fst (case run_tx E fn s of (r, s') \<Rightarrow> (map_sum id f r, s')))"
    "fails_with is_app (fst (case run_tx E fn s of (Inl e, s') \<Rightarrow> (Inl e, s') | (Inr x, s') \<Rightarrow> (Inr (g x), h x s')))"
  using run_tx_documented [OF assms(1), of fn] assms(2)
  by (cases "run_tx E fn s"; cases "fst (run_tx E fn s)"; simp)+

lemma tx_result_documented2 [documented]:
  assumes "foreign_faults E" and "\<And>db e db'. fn db = (Inl e, db') \<Longrightarrow> foreign e"
  shows "fails_with is_app (fst (case run_tx E fn s of (Inl e, s') \<Rightarrow> (Inl e, s') | (Inr (x, y), s') \<Rightarrow> (Inr (g x y), h x y s')))"
  using run_tx_documented [OF assms(1), of fn] assms(2)
  by (cases "run_tx E fn s"; cases "fst (run_tx E fn s)"; auto)

lemma fails_translate:
  "fails_with foreign r \<Longrightarrow> fails_with is_app (map_error translate r)"
  "fails_with foreign r \<Longrightarrow> fails_with is_app (map_sum translate f r)"
  by (cases r; simp add: map_error_def translate_documented)+

lemma read_documented [documented]:
  assumes "foreign_faults E"
  shows "fails_with is_app (map_error translate (sql_GetRuleSet (e_db E) t a i code db))"
    "fails_with is_app (map_error translate (sql_GetRuleVersion (e_db E) t a i vid n db))"
    "fails_with is_app (map_sum translate f (sql_GetRuleVersion (e_db E) t a i vid n db))"
    "fails_with is_app (map_sum translate g (sql_ListRuleSets (e_db E) uni t a st kw l off db))"
    "fails_with is_app (map_sum translate h (sql_ListRuleVersions (e_db E) t a i st l off db))"
  by (auto simp: fails_with_def [of foreign] dest: sql_foreign [OF assms] intro!: fails_translate)

lemma service_documented:
  assumes "foreign_faults E"
  shows "fails_with is_app (fst (CreateRuleSet E c t a code name d s))"
    "fails_with is_app (fst (update_prepare E c t a i name d st e s))"
    "fails_with is_app (fst (update_commit E e x s))"
    "fails_with is_app (fst (GetRuleSet E c t a i code s))"
    "fails_with is_app (fst (ListRuleSets E c t a st kw pg sz s))"
    "fails_with is_app (fst (CreateRuleVersion E c t a i def key e s))"
    "fails_with is_app (fst (ValidateRuleVersion E c t a def s))"
    "fails_with is_app (fst (publish_prepare E c t a i v re ve s))"
    "fails_with is_app (fst (publish_commit E re ve plan s))"
    "fails_with is_app (fst (ListRuleVersions E c t a i st pg sz s))"
    "fails_with is_app (fst (GetRuleVersion E c t a i v s))"
    "fails_with is_app (fst (Evaluate E c t a i code n facts s))"
  subgoal unfolding CreateRuleSet_def Let_def by (intro documented assms) (auto dest: sql_foreign [OF assms])
  subgoal unfolding update_prepare_def Let_def by (intro documented assms) auto
  subgoal unfolding update_commit_def Let_def by (intro documented assms) (auto dest: sql_foreign [OF assms])
  subgoal unfolding GetRuleSet_def Let_def
    by (intro documented assms) (auto intro: documented assms)
  subgoal unfolding ListRuleSets_def Let_def
    by (intro documented assms) (auto intro: documented assms split: prod.split)
  subgoal unfolding CreateRuleVersion_def Let_def
    by (intro documented assms) (auto intro!: documented assms simp: map_error_def fails_with_def split: sum.split dest: CreateRuleVersion_foreign [OF assms])
  subgoal unfolding ValidateRuleVersion_def Let_def
    by (intro documented assms) (auto split: sum.split)
  subgoal unfolding publish_prepare_def Let_def recompile_def
    by (intro documented assms) (auto split: sum.split)
  subgoal unfolding publish_commit_def
    by (intro documented assms) (auto dest: publish_foreign [OF assms])
  subgoal unfolding ListRuleVersions_def Let_def
    by (intro documented assms) (auto intro: documented assms split: prod.split)
  subgoal unfolding GetRuleVersion_def Let_def
    by (intro documented assms) (auto intro: documented assms)
  subgoal unfolding Evaluate_def Let_def
    by (intro documented assms) (auto split: sum.split prod.split)
  done

text \<open>C15. Every error the service returns is documented: an application error with one of the codes of
  package \<open>apperror\<close> and the HTTP status that belongs to it. The errors of the database driver and of
  the event library are assumed not to be application errors themselves.\<close>

theorem service_errors_documented:
  assumes "foreign_faults E"
    and "Inl err \<in> {map_sum id (\<lambda>_. ()) (fst (CreateRuleSet E c t a code name d s)),
        map_sum id (\<lambda>_. ()) (fst (UpdateRuleSet E c t a i name d st e s)),
        map_sum id (\<lambda>_. ()) (fst (GetRuleSet E c t a i code s)),
        map_sum id (\<lambda>_. ()) (fst (ListRuleSets E c t a st kw pg sz s)),
        map_sum id (\<lambda>_. ()) (fst (CreateRuleVersion E c t a i def key e s)),
        map_sum id (\<lambda>_. ()) (fst (ValidateRuleVersion E c t a def s)),
        map_sum id (\<lambda>_. ()) (fst (PublishRuleVersion E c t a i v re ve s)),
        map_sum id (\<lambda>_. ()) (fst (ListRuleVersions E c t a i st pg sz s)),
        map_sum id (\<lambda>_. ()) (fst (GetRuleVersion E c t a i v s)),
        map_sum id (\<lambda>_. ()) (fst (Evaluate E c t a i code n facts s))}"
  shows "\<exists>code message status cause. err = AppErr code message status cause \<and> (code, status) \<in> set documented_codes"
proof -
  have u: "fails_with is_app (fst (UpdateRuleSet E c t a i name d st e s))"
    using service_documented(2) [OF assms(1), of c t a i name d st e s] service_documented(3) [OF assms(1)]
    by (auto simp: UpdateRuleSet_def split: prod.split sum.split)
  have p: "fails_with is_app (fst (PublishRuleVersion E c t a i v re ve s))"
    using service_documented(8) [OF assms(1), of c t a i v re ve s] service_documented(9) [OF assms(1)]
    by (auto simp: PublishRuleVersion_def split: prod.split sum.split)
  from assms(2) have "fails_with is_app (Inl err :: go_error + unit)"
    by (elim insertE emptyE) (simp_all only: fails_with_result service_documented [OF assms(1)] u p)
  then have "is_app err" by simp
  then show ?thesis by (cases err) (simp_all add: is_app_def)
qed

lemma foreign_demo: "foreign_faults (demo_env x)"
  by (simp add: foreign_faults_def demo_dbenv_def)

lemma service_errors_documented_witness:
  "\<exists>code message status cause. Unauthorized ''authenticated actor is required'' = AppErr code message status cause \<and>
     (code, status) \<in> set documented_codes"
proof -
  have "Inl (Unauthorized ''authenticated actor is required'') =
      map_sum id (\<lambda>_. ()) (fst (GetRuleVersion (demo_env []) \<lparr>ctx_principal = None, ctx_err = None\<rparr> [] [] [] [] demo_s0))"
    by (simp add: GetRuleVersion_def authorize_def)
  then show ?thesis
    using service_errors_documented [OF foreign_demo, of "Unauthorized ''authenticated actor is required''"
        "[]" "\<lparr>ctx_principal = None, ctx_err = None\<rparr>" "[]" "[]" "[]" "[]" "[]" demo_s0 "[]" "[]" 0 "[]" 0 0 "[]" "[]" "[]" 0 0 0 "[]"]
    by simp
qed

section \<open>Batches\<close>

lemma evaluate_all_spec:
  assumes "evaluate_all E c index inputs s = (results, s')"
  shows "s_db s' = s_db s \<and> length results = length inputs \<and>
    (\<forall>k < length inputs. be_Index (results ! k) = index + k \<and>
       (\<exists>sk sk'. s_db sk = s_db s \<and> (let input = inputs ! k in
          Evaluate (E (index + k)) c (in_TenantID input) (in_ApplicationID input) (in_RuleSetID input)
            (in_RuleSetCode input) (in_VersionNumber input) (in_FactsJSON input) sk = (be_Outcome (results ! k), sk'))))"
  using assms
proof (induction inputs arbitrary: index s results)
  case (Cons input inputs)
  obtain outcome s1 where e: "Evaluate (E index) c (in_TenantID input) (in_ApplicationID input) (in_RuleSetID input)
      (in_RuleSetCode input) (in_VersionNumber input) (in_FactsJSON input) s = (outcome, s1)" by (meson surj_pair)
  obtain rest s2 where r: "evaluate_all E c (Suc index) inputs s1 = (rest, s2)" by (meson surj_pair)
  from Cons.prems e r have [simp]: "results = \<lparr>be_Index = index, be_Outcome = outcome\<rparr> # rest" "s' = s2" by simp_all
  from Cons.IH [of "Suc index" s1 rest] r Evaluate_db [OF e] e show ?case
    by (auto simp: All_less_Suc2 Let_def)
qed simp

text \<open>C17. A batch answers every request, in order: a batch of 1 to 100 requests gives exactly one result
  per request, the k-th with index k and with the outcome of evaluating the k-th request on the
  tables as they were, whether the others succeed or not; a batch of another size is refused; and the
  tables never change.\<close>

theorem batch_in_order:
  "(\<forall>results s'. BatchEvaluate E c inputs s = (Inr results, s') \<longrightarrow>
      s_db s' = s_db s \<and> 1 \<le> length inputs \<and> length inputs \<le> 100 \<and> length results = length inputs \<and>
      (\<forall>k < length inputs. be_Index (results ! k) = k \<and>
         (\<exists>sk sk'. s_db sk = s_db s \<and>
            Evaluate (E k) c (in_TenantID (inputs ! k)) (in_ApplicationID (inputs ! k)) (in_RuleSetID (inputs ! k))
              (in_RuleSetCode (inputs ! k)) (in_VersionNumber (inputs ! k)) (in_FactsJSON (inputs ! k)) sk =
            (be_Outcome (results ! k), sk')))) \<and>
   (length inputs = 0 \<or> 100 < length inputs \<longleftrightarrow>
      BatchEvaluate E c inputs s = (Inl (Invalid ''requests must contain between 1 and 100 items'' None), s))"
proof -
  obtain results0 s0 where e: "evaluate_all E c 0 inputs s = (results0, s0)" by (meson surj_pair)
  show ?thesis
  proof (cases "inputs = [] \<or> 100 < length inputs")
    case False
    then have "BatchEvaluate E c inputs s = (Inr results0, s0)" by (simp add: BatchEvaluate_def e)
    with False evaluate_all_spec [OF e] show ?thesis by (simp add: Let_def Suc_le_eq)
  qed (auto simp: BatchEvaluate_def)
qed

lemma batch_in_order_witness:
  "\<exists>results s'. BatchEvaluate (\<lambda>_. demo_env []) demo_ctx
       [\<lparr>in_TenantID = ''t'', in_ApplicationID = ''a'', in_RuleSetID = ''s'', in_RuleSetCode = [], in_VersionNumber = 0,
         in_FactsJSON = ''{}''\<rparr>] demo_s3 = (Inr results, s') \<and> length results = 1"
proof -
  let ?inputs = "[\<lparr>in_TenantID = ''t'', in_ApplicationID = ''a'', in_RuleSetID = ''s'', in_RuleSetCode = [], in_VersionNumber = 0,
         in_FactsJSON = ''{}''\<rparr>]"
  obtain results s' where run: "BatchEvaluate (\<lambda>_. demo_env []) demo_ctx ?inputs demo_s3 = (Inr results, s')"
    by (simp add: BatchEvaluate_def demo_runs)
  with batch_in_order [of "\<lambda>_. demo_env []" demo_ctx ?inputs demo_s3] show ?thesis by auto
qed

section \<open>Pages\<close>

lemma insert_by_mset: "mset (insert_by le x ys) = add_mset x (mset ys)"
  by (induction ys) simp_all

lemma order_by_mset [simp]: "mset (order_by le xs) = mset xs"
  by (induction xs) (simp_all add: order_by_def insert_by_mset)

lemma order_by_length [simp]: "length (order_by le xs) = length xs"
  by (metis order_by_mset size_mset)

lemma insert_by_sorted:
  assumes "\<And>x y. le x y \<or> le y x" and "\<And>x y z. le x y \<Longrightarrow> le y z \<Longrightarrow> le x z"
  shows "sorted_wrt le ys \<Longrightarrow> sorted_wrt le (insert_by le x ys)"
  by (induction ys) (use assms in \<open>auto simp: insert_by_set\<close>)

lemma order_by_sorted:
  assumes "\<And>x y. le x y \<or> le y x" and "\<And>x y z. le x y \<Longrightarrow> le y z \<Longrightarrow> le x z"
  shows "sorted_wrt le (order_by le xs)"
proof (induction xs)
  case (Cons x xs)
  with insert_by_sorted [of le, OF assms] show ?case by (simp add: order_by_def)
qed (simp add: order_by_def)

lemma pages_tile: "concat (map (\<lambda>k. take m (drop (k * m) xs)) [0..<n]) = take (n * m) xs"
  by (induction n) (simp_all add: take_add [of "_ * m" m] add.commute [of m])

text \<open>C18. Pages are within bounds: whatever page and size a caller asks for, the page is at least 1 and
  the size between 1 and 200; normalizing twice changes nothing; and the offset of the query is the
  mathematical one, not negative, for every page up to 46116860184273879.\<close>

theorem page_bounds:
  assumes "normalizePage page size0 = (p, n)"
  shows "1 \<le> p \<and> 1 \<le> n \<and> n \<le> 200 \<and> normalizePage p n = (p, n) \<and>
    (p \<le> 46116860184273879 \<longrightarrow> i64 ((p - 1) * n) = (p - 1) * n \<and> 0 \<le> i64 ((p - 1) * n))"
proof -
  have b: "1 \<le> p" "1 \<le> n" "n \<le> 200" "normalizePage p n = (p, n)"
    using assms by (auto simp: normalizePage_def split: if_splits)
  have "(p - 1) * n \<le> (46116860184273879 - 1) * 200" if "p \<le> 46116860184273879"
    using that b by (intro mult_mono) auto
  moreover have "0 \<le> (p - 1) * n" using b by simp
  ultimately have "i64 ((p - 1) * n) = (p - 1) * n" if "p \<le> 46116860184273879"
    using that by (intro i64_id) (auto simp: max_i64_def)
  with \<open>0 \<le> (p - 1) * n\<close> b show ?thesis by auto
qed

lemma page_bounds_witness: "normalizePage 0 500 = (1, 200) \<and> i64 ((1 - 1) * 200) = 0"
  using page_bounds [of 0 500 1 200] by (simp add: normalizePage_def)

text \<open>Beyond that, the product wraps around: page 72057594037927937 of 200 items has a negative offset.\<close>

lemma page_offset_wraps: "normalizePage 72057594037927937 200 = (p, n) \<Longrightarrow> i64 ((p - 1) * n) < 0"
  by (auto simp: normalizePage_def i64_def)

text \<open>C16. Listing versions pages through all of them, newest first: there is one ordered list of the
  matching versions of the rule set, by decreasing number, such that page k of size n is its k-th
  slice of n rows with the total count, and the pages put together give the whole list.\<close>

theorem list_versions_pages:
  assumes "healthy (e_db E)" and "authorize c t = Inr actor" and "verifyApplication E t a = Inr ()" and "1 \<le> n" and "n \<le> 200"
  shows "\<exists>ordered.
    mset ordered = mset (filter (\<lambda>v. same_set v (TrimSpace t) (TrimSpace a) (TrimSpace i) \<and>
       (ToLower (e_uni E) (TrimSpace st) \<noteq> [] \<longrightarrow> rv_Status v = ToLower (e_uni E) (TrimSpace st))) (rule_versions (s_db s))) \<and>
    sorted_wrt (\<lambda>v w. rv_VersionNumber w \<le> rv_VersionNumber v) ordered \<and>
    (\<forall>k. 1 \<le> k \<and> k \<le> 46116860184273879 \<longrightarrow>
       ListRuleVersions E c t a i st k (int n) s =
         (Inr \<lparr>Items = take n (drop (nat (k - 1) * n) ordered), Total = int (length ordered), PageNumber = k, PageSize = int n\<rparr>, s)) \<and>
    (\<forall>m. length ordered \<le> m * n \<longrightarrow> concat (map (\<lambda>k. take n (drop (k * n) ordered)) [0..<m]) = ordered)"
proof -
  let ?le = "\<lambda>v w. rv_VersionNumber w \<le> rv_VersionNumber v"
  let ?rows = "filter (\<lambda>v. same_set v (TrimSpace t) (TrimSpace a) (TrimSpace i) \<and>
       (ToLower (e_uni E) (TrimSpace st) \<noteq> [] \<longrightarrow> rv_Status v = ToLower (e_uni E) (TrimSpace st))) (rule_versions (s_db s))"
  have "ListRuleVersions E c t a i st k (int n) s =
      (Inr \<lparr>Items = take n (drop (nat (k - 1) * n) (order_by ?le ?rows)), Total = int (length ?rows), PageNumber = k,
        PageSize = int n\<rparr>, s)" if k: "1 \<le> k" "k \<le> 46116860184273879" for k
  proof -
    have p: "normalizePage k (int n) = (k, int n)" using assms(4,5) k by (simp add: normalizePage_def)
    have "(k - 1) * int n \<le> (46116860184273879 - 1) * 200" using k assms(4,5) by (intro mult_mono) auto
    moreover have z: "0 \<le> (k - 1) * int n" using k by simp
    ultimately have "i64 ((k - 1) * int n) = (k - 1) * int n" by (intro i64_id) (auto simp: max_i64_def)
    note o = this z
    moreover have "nat ((k - 1) * int n) = nat (k - 1) * n" using k by (simp add: nat_mult_distrib)
    ultimately show ?thesis
      using assms(2,3) p by (simp add: ListRuleVersions_def sql_ListRuleVersions_def healthy_simps [OF assms(1)] Let_def page_of_def)
  qed
  moreover have "sorted_wrt ?le (order_by ?le ?rows)" by (rule order_by_sorted) auto
  ultimately show ?thesis
    by (intro exI [of _ "order_by ?le ?rows"]) (simp add: pages_tile)
qed

lemma list_versions_pages_witness:
  "\<exists>page. ListRuleVersions (demo_env []) demo_ctx ''t'' ''a'' ''s'' [] 1 20 demo_s3 = (Inr page, demo_s3) \<and> PageSize page = 20"
  using list_versions_pages [of "demo_env []" demo_ctx "''t''" "''u''" "''a''" 20 "''s''" "[]" demo_s3]
  by force

end
