(* ===== verification/GoPath.thy ===== *)
theory GoPath
  imports GoStrings
begin

text \<open>
  \<open>path.Match\<close> of Go's standard library, the glob matcher behind every route and method pattern of
  the configuration, as Go implements it: \<open>scan_chunk\<close>, \<open>match_chunk\<close> and \<open>getEsc\<close> follow its three
  helpers. \<open>Inl ()\<close> is \<open>path.ErrBadPattern\<close>.
\<close>

definition starts :: "char \<Rightarrow> string \<Rightarrow> bool" where
  "starts c s \<longleftrightarrow> (case s of [] \<Rightarrow> False | x # _ \<Rightarrow> x = c)"

definition bslash :: char where
  "bslash = CHR 0x5C"

lemma bslash_neq [simp]:
  "CHR ''*'' \<noteq> bslash" "CHR ''/'' \<noteq> bslash" "CHR ''['' \<noteq> bslash" "CHR ''?'' \<noteq> bslash"
  by (simp_all add: bslash_def)

text \<open>One rune of a character class, possibly escaped; it may not end the pattern.\<close>

definition getEsc :: "string \<Rightarrow> (nat \<times> string) option" where
  "getEsc chunk =
     (if chunk = [] \<or> starts (CHR ''-'') chunk \<or> starts (CHR '']'') chunk then None
      else let c1 = (if starts bslash chunk then tl chunk else chunk) in
        if c1 = [] then None
        else let (r, n) = DecodeRune c1; rest = drop n c1 in
          if (r = rune_error \<and> n = 1) \<or> rest = [] then None else Some (r, rest))"

lemma DecodeRune_advances: "s \<noteq> [] \<Longrightarrow> 0 < snd (DecodeRune s) \<and> snd (DecodeRune s) \<le> length s"
  using utf8_len_le [of s]
  by (cases s) (auto simp: DecodeRune_def simp del: utf8_len.simps split: nat.splits)

lemma getEsc_shorter: "getEsc chunk = Some (r, rest) \<Longrightarrow> length rest < length chunk \<and> rest \<noteq> []"
proof -
  assume h: "getEsc chunk = Some (r, rest)"
  let ?c = "if starts bslash chunk then tl chunk else chunk"
  from h have ne: "?c \<noteq> []" and rest: "rest = drop (snd (DecodeRune ?c)) ?c" "rest \<noteq> []"
    by (auto simp: getEsc_def Let_def split: if_splits prod.splits)
  from ne have "0 < snd (DecodeRune ?c)" by (rule DecodeRune_advances [THEN conjunct1])
  with ne rest have "length rest < length ?c" by simp
  moreover have "length ?c \<le> length chunk" by simp
  ultimately have "length rest < length chunk" by linarith
  with rest(2) show ?thesis by simp
qed

text \<open>The ranges of a character class up to its closing bracket, against the rune \<open>r\<close>.\<close>

function class_loop :: "nat \<Rightarrow> string \<Rightarrow> nat \<Rightarrow> bool \<Rightarrow> (string \<times> bool) option" where
  "class_loop r chunk nrange m =
     (if starts (CHR '']'') chunk \<and> 0 < nrange then Some (tl chunk, m)
      else case getEsc chunk of
        None \<Rightarrow> None
      | Some (lo, ch) \<Rightarrow>
          if starts (CHR ''-'') ch then
            (case getEsc (tl ch) of
               None \<Rightarrow> None
             | Some (hi, ch') \<Rightarrow> class_loop r ch' (Suc nrange) (m \<or> (lo \<le> r \<and> r \<le> hi)))
          else class_loop r ch (Suc nrange) (m \<or> (lo \<le> r \<and> r \<le> lo)))"
  by pat_completeness auto
termination
proof (relation "measure (\<lambda>(r, chunk, n, m). length chunk)", goal_cases)
  case 1
  show ?case by simp
next
  case (2 r chunk n m x lo ch y hi ch')
  then have "length ch < length chunk" and "length ch' < length (tl ch)"
    by (auto dest: getEsc_shorter)
  then show ?case by simp
next
  case (3 r chunk n m x lo ch)
  then show ?case by (auto dest: getEsc_shorter)
qed

declare class_loop.simps [simp del]

lemma class_loop_shorter: "class_loop r chunk n m = Some (rest, b) \<Longrightarrow> length rest < length chunk"
proof (induction r chunk n m rule: class_loop.induct)
  case (1 r chunk n m)
  show ?case
  proof (cases "starts (CHR '']'') chunk \<and> 0 < n")
    case True
    with "1.prems" have "rest = tl chunk" by (simp add: class_loop.simps [of r chunk])
    with True show ?thesis by (cases chunk) (simp_all add: starts_def)
  next
    case False
    with "1.prems" obtain lo ch where g: "getEsc chunk = Some (lo, ch)"
      by (auto simp: class_loop.simps [of r chunk] split: option.splits)
    then have l: "length ch < length chunk" by (auto dest: getEsc_shorter)
    show ?thesis
    proof (cases "starts (CHR ''-'') ch")
      case True
      with False g "1.prems" obtain hi ch' where g': "getEsc (tl ch) = Some (hi, ch')"
        and c: "class_loop r ch' (Suc n) (m \<or> (lo \<le> r \<and> r \<le> hi)) = Some (rest, b)"
        by (auto simp: class_loop.simps [of r chunk] split: option.splits)
      have "length rest < length ch'"
        by (rule "1.IH"(1) [OF False g refl True g' refl c])
      moreover have "length ch' < length (tl ch)" using getEsc_shorter [OF g'] by simp
      moreover have "length (tl ch) \<le> length ch" by simp
      ultimately show ?thesis using l by linarith
    next
      case nf: False
      with False g "1.prems"
      have c: "class_loop r ch (Suc n) (m \<or> (lo \<le> r \<and> r \<le> lo)) = Some (rest, b)"
        by (auto simp: class_loop.simps [of r chunk])
      from "1.IH"(2) [OF False g refl nf c] l show ?thesis by linarith
    qed
  qed
qed

text \<open>
  One chunk (a pattern without \<open>*\<close>) against the head of \<open>s\<close>: \<open>Inr (Some rest)\<close> when it matches,
  \<open>Inr None\<close> when it does not. After a mismatch (\<open>failed\<close>) the chunk is still read to its end, to
  find a syntax error in it.
\<close>

function match_chunk :: "string \<Rightarrow> string \<Rightarrow> bool \<Rightarrow> unit + string option" where
  "match_chunk chunk s failed =
     (case chunk of
        [] \<Rightarrow> Inr (if failed then None else Some s)
      | c # cs \<Rightarrow>
          let failed1 = (failed \<or> s = []) in
          if c = CHR ''['' then
            let r = (if failed1 then 0 else fst (DecodeRune s));
                s1 = (if failed1 then s else drop (snd (DecodeRune s)) s);
                negated = starts (CHR ''^'') cs;
                body = (if negated then tl cs else cs)
            in (case class_loop r body 0 False of
                  None \<Rightarrow> Inl ()
                | Some (rest, m) \<Rightarrow> match_chunk rest s1 (failed1 \<or> m = negated))
          else if c = CHR ''?'' then
            (if failed1 then match_chunk cs s True
             else match_chunk cs (drop (snd (DecodeRune s)) s) (starts (CHR ''/'') s))
          else if c = bslash \<and> cs = [] then Inl ()
          else let lit = (if c = bslash then hd cs else c); cs' = (if c = bslash then tl cs else cs)
            in if failed1 then match_chunk cs' s True else match_chunk cs' (tl s) (lit \<noteq> hd s))"
  by pat_completeness auto
termination
proof (relation "measure (\<lambda>(chunk, s, f). length chunk)", goal_cases)
  case 1
  show ?case by simp
next
  case (2 chunk s failed c cs f1 r s1 neg body x rest m)
  then have "length rest < length body" by (metis class_loop_shorter)
  moreover from 2 have "length body \<le> length cs" by auto
  moreover from 2 have "length chunk = Suc (length cs)" by simp
  ultimately show ?case by simp
qed auto

declare match_chunk.simps [simp del]

text \<open>The leading stars, the chunk up to the next star outside a class, and the rest.\<close>

fun scan_body :: "bool \<Rightarrow> string \<Rightarrow> string \<times> string" where
  "scan_body inrange [] = ([], [])"
| "scan_body inrange (c # cs) =
     (if c = bslash then
        (case cs of
           [] \<Rightarrow> ([c], [])
         | d # ds \<Rightarrow> let (a, b) = scan_body inrange ds in (c # d # a, b))
      else if c = CHR ''*'' \<and> \<not> inrange then ([], c # cs)
      else let (a, b) = scan_body (if c = CHR ''['' then True else if c = CHR '']'' then False else inrange) cs
        in (c # a, b))"

definition scan_chunk :: "string \<Rightarrow> bool \<times> string \<times> string" where
  "scan_chunk p = (starts (CHR ''*'') p, scan_body False (dropWhile (\<lambda>c. c = CHR ''*'') p))"

abbreviation "sc_star p \<equiv> fst (scan_chunk p)"
abbreviation "sc_chunk p \<equiv> fst (snd (scan_chunk p))"
abbreviation "sc_rest p \<equiv> snd (snd (scan_chunk p))"

lemma scan_body_join: "fst (scan_body r p) @ snd (scan_body r p) = p"
  by (induction r p rule: scan_body.induct) (auto simp: case_prod_unfold Let_def split: list.splits)

lemma scan_body_nonempty:
  "p \<noteq> [] \<Longrightarrow> hd p \<noteq> CHR ''*'' \<Longrightarrow> fst (scan_body False p) \<noteq> []"
  by (cases p) (auto simp: case_prod_unfold Let_def split: list.splits)

lemma scan_chunk_shorter: "p \<noteq> [] \<Longrightarrow> length (sc_rest p) < length p"
proof (cases "starts (CHR ''*'') p")
  case True
  then have "length (dropWhile (\<lambda>c. c = CHR ''*'') p) < length p"
    by (cases p) (auto simp: starts_def less_Suc_eq_le length_dropWhile_le)
  moreover have "length (sc_rest p) \<le> length (dropWhile (\<lambda>c. c = CHR ''*'') p)"
    by (metis le_add2 length_append scan_body_join scan_chunk_def snd_conv)
  ultimately show ?thesis by simp
next
  case False
  assume "p \<noteq> []"
  with False have d: "dropWhile (\<lambda>c. c = CHR ''*'') p = p" and "hd p \<noteq> CHR ''*''"
    by (auto simp: starts_def split: list.splits)
  with \<open>p \<noteq> []\<close> have "sc_chunk p \<noteq> []" by (simp add: scan_chunk_def scan_body_nonempty)
  moreover have "sc_chunk p @ sc_rest p = p" by (simp add: scan_chunk_def d scan_body_join)
  ultimately show ?thesis by (metis length_append length_greater_0_conv less_add_same_cancel2)
qed

text \<open>A starred chunk may skip bytes other than a slash.\<close>

fun try_star :: "string \<Rightarrow> bool \<Rightarrow> string \<Rightarrow> unit + string option" where
  "try_star chunk fin [] = Inr None"
| "try_star chunk fin (c # cs) =
     (if c = CHR ''/'' then Inr None
      else case match_chunk chunk cs False of
        Inl e \<Rightarrow> Inl e
      | Inr None \<Rightarrow> try_star chunk fin cs
      | Inr (Some t) \<Rightarrow> if fin \<and> t \<noteq> [] then try_star chunk fin cs else Inr (Some t))"

text \<open>The syntax check of what is left of a pattern after a mismatch.\<close>

function rest_ok :: "string \<Rightarrow> bool" where
  "rest_ok p =
     (if p = [] then True
      else if match_chunk (sc_chunk p) [] False = Inl () then False
      else rest_ok (sc_rest p))"
  by pat_completeness auto
termination
  by (relation "measure length") (auto dest: scan_chunk_shorter)

declare rest_ok.simps [simp del]

function Match :: "string \<Rightarrow> string \<Rightarrow> unit + bool" where
  "Match p name =
     (if p = [] then Inr (name = [])
      else if sc_star p \<and> sc_chunk p = [] then Inr (CHR ''/'' \<notin> set name)
      else case match_chunk (sc_chunk p) name False of
        Inl e \<Rightarrow> Inl e
      | Inr here \<Rightarrow>
          (case (if here \<noteq> None \<and> (the here = [] \<or> sc_rest p \<noteq> []) then Inr here
                 else if sc_star p then try_star (sc_chunk p) (sc_rest p = []) name
                 else Inr None) of
             Inl e \<Rightarrow> Inl e
           | Inr (Some t) \<Rightarrow> Match (sc_rest p) t
           | Inr None \<Rightarrow> if rest_ok (sc_rest p) then Inr False else Inl ()))"
  by pat_completeness auto
termination
  by (relation "measure (\<lambda>(p, name). length p)") (auto dest: scan_chunk_shorter)

declare Match.simps [simp del]

lemma rest_ok_Nil [simp]: "rest_ok []"
  by (simp add: rest_ok.simps [of "[]"])

lemma Match_Nil [simp]: "Match [] name = Inr (name = [])"
  by (simp add: Match.simps [of "[]"])

section \<open>Well-formed patterns\<close>

text \<open>Whether a class or a chunk is malformed does not depend on the text it is matched against.\<close>

lemma class_loop_same:
  "map_option fst (class_loop r chunk n m) = map_option fst (class_loop r' chunk n m')"
proof (induction r chunk n m arbitrary: m' rule: class_loop.induct)
  case (1 r chunk n m)
  show ?case
  proof (cases "starts (CHR '']'') chunk \<and> 0 < n")
    case True
    then show ?thesis by (simp add: class_loop.simps [of _ chunk])
  next
    case False
    note IH = "1.IH" [OF False]
    show ?thesis
      by (subst (1 2) class_loop.simps) (auto simp: False split: option.split intro: IH)
  qed
qed

lemma class_loop_syntax: "class_loop r chunk n m = None \<longleftrightarrow> class_loop r' chunk n m' = None"
  using class_loop_same [of r chunk n m r' m'] by (metis map_option_is_None)

lemma class_loop_rest:
  "class_loop r chunk n m = Some (rest, b) \<Longrightarrow> \<exists>b'. class_loop r' chunk n m' = Some (rest, b')"
  using class_loop_same [of r chunk n m r' m'] by (cases "class_loop r' chunk n m'") auto

text \<open>What the four kinds of pattern byte do, one rewrite rule each.\<close>

lemma match_chunk_Nil [simp]: "match_chunk [] s failed = Inr (if failed then None else Some s)"
  by (simp add: match_chunk.simps [of "[]"])

lemma match_chunk_class:
  "match_chunk (CHR ''['' # cs) s failed =
     (case class_loop (if failed \<or> s = [] then 0 else fst (DecodeRune s))
             (if starts (CHR ''^'') cs then tl cs else cs) 0 False of
        None \<Rightarrow> Inl ()
      | Some (rest, m) \<Rightarrow> match_chunk rest (if failed \<or> s = [] then s else drop (snd (DecodeRune s)) s)
          ((failed \<or> s = []) \<or> m = starts (CHR ''^'') cs))"
  by (simp add: match_chunk.simps [of "CHR ''['' # cs"] Let_def)

lemma match_chunk_any:
  "match_chunk (CHR ''?'' # cs) s failed =
     (if failed \<or> s = [] then match_chunk cs s True
      else match_chunk cs (drop (snd (DecodeRune s)) s) (starts (CHR ''/'') s))"
  by (simp add: match_chunk.simps [of "CHR ''?'' # cs"] Let_def)

lemma match_chunk_esc:
  "match_chunk (bslash # cs) s failed =
     (if cs = [] then Inl ()
      else if failed \<or> s = [] then match_chunk (tl cs) s True
      else match_chunk (tl cs) (tl s) (hd cs \<noteq> hd s))"
  unfolding bslash_def by (simp add: match_chunk.simps [of "CHR 0x5C # cs"] Let_def bslash_def)

lemma match_chunk_lit:
  "c \<noteq> CHR ''['' \<Longrightarrow> c \<noteq> CHR ''?'' \<Longrightarrow> c \<noteq> bslash \<Longrightarrow>
   match_chunk (c # cs) s failed =
     (if failed \<or> s = [] then match_chunk cs s True else match_chunk cs (tl s) (c \<noteq> hd s))"
  by (simp add: match_chunk.simps [of "c # cs"] Let_def)

lemma Inl_unit: "(x :: unit + 'a) \<noteq> Inl () \<longleftrightarrow> (\<exists>y. x = Inr y)"
  by (cases x) auto

text \<open>Induction over a chunk, one case per kind of byte; the class case may use the hypothesis for
  every shorter chunk.\<close>

lemma chunk_cases:
  obtains "chunk = []"
  | cs where "chunk = CHR ''['' # cs"
  | cs where "chunk = CHR ''?'' # cs"
  | "chunk = [bslash]"
  | d cs where "chunk = bslash # d # cs"
  | c cs where "chunk = c # cs" "c \<noteq> CHR ''[''" "c \<noteq> CHR ''?''" "c \<noteq> bslash"
  by (metis list.exhaust)

lemma match_chunk_syntax:
  "match_chunk chunk s f = Inl () \<longleftrightarrow> match_chunk chunk s' f' = Inl ()"
proof (induction "length chunk" arbitrary: chunk s f s' f' rule: less_induct)
  case less
  note IH = less.hyps
  show ?case
  proof (cases chunk rule: chunk_cases)
    case 1
    then show ?thesis by simp
  next
    case (2 cs)
    let ?b = "if starts (CHR ''^'') cs then tl cs else cs"
    let ?r = "if f \<or> s = [] then 0 else fst (DecodeRune s)"
    let ?r' = "if f' \<or> s' = [] then 0 else fst (DecodeRune s')"
    show ?thesis
    proof (cases "class_loop ?r ?b 0 False")
      case None
      then have "class_loop ?r' ?b 0 False = None" using class_loop_syntax by blast
      with None 2 show ?thesis by (simp add: match_chunk_class)
    next
      case (Some p)
      then obtain rest m where p: "class_loop ?r ?b 0 False = Some (rest, m)" by (cases p) auto
      have same: "\<exists>m'. class_loop ?r' ?b 0 False = Some (rest, m')"
        using p by (rule class_loop_rest)
      then obtain m' where p': "class_loop ?r' ?b 0 False = Some (rest, m')" by blast
      from p have "length rest < length ?b" by (rule class_loop_shorter)
      moreover have "length ?b \<le> length cs" by simp
      ultimately have "length rest < length chunk" using 2 by simp
      from IH [OF this] p p' 2 show ?thesis by (simp add: match_chunk_class)
    qed
  next
    case (3 cs)
    then have "length cs < length chunk" by simp
    from IH [OF this] 3 show ?thesis by (simp add: match_chunk_any)
  next
    case 4
    then show ?thesis by (simp add: match_chunk_esc)
  next
    case (5 d cs)
    then have "length cs < length chunk" by simp
    from IH [OF this] 5 show ?thesis by (simp add: match_chunk_esc)
  next
    case (6 c cs)
    then have "length cs < length chunk" by simp
    from IH [OF this] 6 show ?thesis by (simp add: match_chunk_lit)
  qed
qed

text \<open>A failed chunk never matches.\<close>

lemma match_chunk_failed: "match_chunk chunk s True \<noteq> Inr (Some t)"
proof (induction "length chunk" arbitrary: chunk s rule: less_induct)
  case less
  show ?case
  proof (cases chunk rule: chunk_cases)
    case (2 cs)
    have "match_chunk rest s True \<noteq> Inr (Some t)"
      if "class_loop 0 (if starts (CHR ''^'') cs then tl cs else cs) 0 False = Some (rest, m)" for rest m
    proof -
      have "length rest < length (if starts (CHR ''^'') cs then tl cs else cs)"
        using that by (rule class_loop_shorter)
      moreover have "length (if starts (CHR ''^'') cs then tl cs else cs) \<le> length cs" by simp
      ultimately show ?thesis using less.hyps [of rest] 2 by simp
    qed
    with 2 show ?thesis by (auto simp: match_chunk_class split: option.splits)
  qed (use less.hyps in \<open>auto simp: match_chunk_any match_chunk_esc match_chunk_lit\<close>)
qed

text \<open>The outcome of \<open>Match\<close> is an error exactly for a malformed pattern, whatever the name.\<close>

lemma try_star_syntax:
  "match_chunk chunk [] False \<noteq> Inl () \<Longrightarrow> try_star chunk fin name \<noteq> Inl ()"
proof (induction chunk fin name rule: try_star.induct)
  case (2 chunk fin c cs)
  have "match_chunk chunk cs False \<noteq> Inl ()"
    using "2.prems" match_chunk_syntax by blast
  with 2 show ?case by (auto split: sum.splits option.splits)
qed simp

lemma Match_error: "Match p name = Inl () \<longleftrightarrow> \<not> rest_ok p"
proof (induction p name rule: Match.induct)
  case (1 p name)
  show ?case
  proof (cases "p = []")
    case True
    then show ?thesis by simp
  next
    case ne: False
    let ?c = "sc_chunk p" and ?r = "sc_rest p"
    show ?thesis
    proof (cases "sc_star p \<and> ?c = []")
      case True
      have "?r = []"
      proof (rule ccontr)
        assume "?r \<noteq> []"
        let ?d = "dropWhile (\<lambda>c. c = CHR ''*'') p"
        from True have c: "fst (scan_body False ?d) = []" by (simp add: scan_chunk_def)
        have d: "?d \<noteq> []"
        proof
          assume e: "?d = []"
          have "?r = snd (scan_body False ?d)" by (simp only: scan_chunk_def snd_conv)
          then have "?r = []" by (simp only: e scan_body.simps snd_conv)
          with \<open>?r \<noteq> []\<close> show False by contradiction
        qed
        then have "hd ?d \<noteq> CHR ''*''" by (rule hd_dropWhile)
        with d c show False using scan_body_nonempty [of ?d] by blast
      qed
      then have "rest_ok p" using True by (simp add: rest_ok.simps [of p])
      moreover have "Match p name = Inr (CHR ''/'' \<notin> set name)"
        using True ne by (simp add: Match.simps [of p name])
      ultimately show ?thesis by simp
    next
      case star: False
      show ?thesis
      proof (cases "match_chunk ?c name False")
        case (Inl e)
        then have "match_chunk ?c [] False = Inl ()" using match_chunk_syntax by (metis unit.exhaust)
        moreover have "Match p name = Inl ()"
          using Inl ne star by (simp add: Match.simps [of p name])
        ultimately show ?thesis using ne by (simp add: rest_ok.simps [of p])
      next
        case (Inr here)
        then have ok: "match_chunk ?c [] False \<noteq> Inl ()"
          using match_chunk_syntax by (metis sum.distinct(1))
        let ?x = "if here \<noteq> None \<and> (the here = [] \<or> ?r \<noteq> []) then Inr here
          else if sc_star p then try_star ?c (?r = []) name else (Inr None :: unit + string option)"
        have x: "?x \<noteq> Inl ()" using try_star_syntax [OF ok] by auto
        have eq: "Match p name = (case ?x of Inl e \<Rightarrow> Inl e | Inr (Some t) \<Rightarrow> Match ?r t
            | Inr None \<Rightarrow> if rest_ok ?r then Inr False else Inl ())"
          by (subst Match.simps) (simp only: if_not_P [OF ne] if_not_P [OF star] Inr sum.case)
        have rok: "rest_ok p \<longleftrightarrow> rest_ok ?r" using ne ok by (simp add: rest_ok.simps [of p])
        from x obtain y where y: "?x = Inr y" by (cases ?x) auto
        show ?thesis
        proof (cases y)
          case None
          with y eq rok show ?thesis by (simp)
        next
          case (Some t)
          have "Match ?r t = Inl () \<longleftrightarrow> \<not> rest_ok ?r"
            by (rule "1.IH" [OF ne star Inr y Some])
          with y eq rok Some show ?thesis by simp
        qed
      qed
    qed
  qed
qed

section \<open>Literal prefixes\<close>

definition meta_free :: "string \<Rightarrow> bool" where
  "meta_free p \<longleftrightarrow> list_all (\<lambda>c. c \<noteq> CHR ''*'' \<and> c \<noteq> CHR ''['' \<and> c \<noteq> CHR ''?'' \<and> c \<noteq> bslash) p"

lemma scan_body_literal:
  "meta_free p \<Longrightarrow> scan_body False (p @ q) = (p @ fst (scan_body False q), snd (scan_body False q))"
  by (induction p) (auto simp: meta_free_def case_prod_unfold Let_def)

lemma scan_chunk_literal:
  "meta_free p \<Longrightarrow> p \<noteq> [] \<Longrightarrow>
   scan_chunk (p @ q) = (False, p @ fst (scan_body False q), snd (scan_body False q))"
proof -
  assume m: "meta_free p" and ne: "p \<noteq> []"
  then obtain c cs where p: "p = c # cs" and c: "c \<noteq> CHR ''*''"
    by (cases p) (auto simp: meta_free_def)
  then have "dropWhile (\<lambda>c. c = CHR ''*'') (p @ q) = p @ q" and "\<not> starts (CHR ''*'') (p @ q)"
    by (simp_all add: starts_def)
  then show ?thesis by (simp add: scan_chunk_def scan_body_literal [OF m])
qed

lemma match_chunk_literal:
  "meta_free p \<Longrightarrow> match_chunk (p @ c) s False = Inr (Some t) \<longleftrightarrow>
     prefix p s \<and> match_chunk c (drop (length p) s) False = Inr (Some t)"
proof (induction p arbitrary: s)
  case Nil
  then show ?case by simp
next
  case (Cons x xs)
  then have x: "x \<noteq> CHR ''['' " "x \<noteq> CHR ''?''" "x \<noteq> bslash" and xs: "meta_free xs"
    by (auto simp: meta_free_def)
  show ?case
  proof (cases s)
    case Nil
    with x show ?thesis by (simp add: match_chunk_lit match_chunk_failed)
  next
    case (Cons y ys)
    with x xs Cons.IH [OF xs] show ?thesis
      by (cases "x = y") (simp_all add: match_chunk_lit match_chunk_failed)
  qed
qed

lemma match_chunk_meta_free:
  "meta_free p \<Longrightarrow> match_chunk p s f \<noteq> Inl ()"
proof (induction p arbitrary: s f)
  case (Cons x xs)
  then have "x \<noteq> CHR ''[''" "x \<noteq> CHR ''?''" "x \<noteq> bslash" "meta_free xs"
    by (auto simp: meta_free_def)
  with Cons.IH show ?case by (simp add: match_chunk_lit)
qed simp

text \<open>A name matched by a pattern that begins with literal bytes begins with these bytes.\<close>

lemma Match_prefix:
  assumes "meta_free p" and "Match (p @ q) name = Inr True"
  shows "prefix p name"
proof (cases "p = []")
  case True
  then show ?thesis by simp
next
  case False
  note sc = scan_chunk_literal [OF assms(1) False, of q]
  from assms(2) False sc obtain t where
    "match_chunk (p @ fst (scan_body False q)) name False = Inr (Some t)"
    by (auto simp: Match.simps [of "p @ q"] split: sum.splits option.splits if_splits)
  then show ?thesis using match_chunk_literal [OF assms(1)] by blast
qed

text \<open>A pattern without special bytes matches itself only; with one star at its end, the names
  that continue it without a further slash.\<close>

lemma Match_literal: "meta_free p \<Longrightarrow> Match p name = Inr (name = p)"
proof (cases "p = []")
  case True
  then show ?thesis by simp
next
  case False
  assume m: "meta_free p"
  note sc = scan_chunk_literal [OF m False, of "[]"]
  obtain here where h: "match_chunk p name False = Inr here"
    using match_chunk_meta_free [OF m, of name False] by (auto simp: Inl_unit)
  have here: "here = Some t \<longleftrightarrow> prefix p name \<and> t = drop (length p) name" for t
    using match_chunk_literal [OF m, of "[]" name t] h by auto
  show ?thesis
  proof (cases here)
    case None
    with here have "\<not> prefix p name" by auto
    with None sc h False show ?thesis
      by (auto simp: Match.simps [of p])
  next
    case (Some t)
    with here have "prefix p name" and t: "t = drop (length p) name" by auto
    then have "name = p @ t" by (metis append_take_drop_id prefix_def append_eq_conv_conj)
    with Some sc h False show ?thesis
      by (auto simp: Match.simps [of p] )
  qed
qed

lemma Match_star_end:
  assumes m: "meta_free p"
  shows "Match (p @ ''*'') name = Inr (prefix p name \<and> CHR ''/'' \<notin> set (drop (length p) name))"
proof -
  have star: "Match ''*'' t = Inr (CHR ''/'' \<notin> set t)" for t
    by (simp add: Match.simps [of "''*''"] scan_chunk_def starts_def)
  have star_ok: "rest_ok ''*''" using Match_error [of "''*''" "[]"] star by simp
  show ?thesis
  proof (cases "p = []")
    case True
    then show ?thesis by (simp add: star)
  next
    case False
    note sc = scan_chunk_literal [OF m False, of "''*''"]
    obtain here where h: "match_chunk p name False = Inr here"
      using match_chunk_meta_free [OF m, of name False] by (auto simp: Inl_unit)
    have here: "here = Some t \<longleftrightarrow> prefix p name \<and> t = drop (length p) name" for t
      using match_chunk_literal [OF m, of "[]" name t] h by auto
    show ?thesis
    proof (cases here)
      case None
      with here have "\<not> prefix p name" by auto
      moreover have "Match (p @ ''*'') name = Inr False"
        using None h star_ok by (simp add: Match.simps [of "p @ ''*''"] sc)
      ultimately show ?thesis by simp
    next
      case (Some t)
      then have "prefix p name" and "t = drop (length p) name" using here by auto
      moreover have "Match (p @ ''*'') name = Inr (CHR ''/'' \<notin> set t)"
        using Some h star by (simp add: Match.simps [of "p @ ''*''"] sc)
      ultimately show ?thesis by simp
    qed
  qed
qed

end
