(* ===== verification/ConfigModel.thy ===== *)
theory ConfigModel
  imports GoFloat
begin

text \<open>
  The configuration structures of \<open>internal/config/config.go\<close>, one record per struct with the fields
  in the order of the source (each prefixed by the struct's short name), and the table of defaults.
  The only \<open>float64\<close> of the configuration may be any value a YAML file can denote, NaN and the
  infinities included. Maps are association lists in the order Go happens to iterate them.
\<close>

type_synonym Duration = int

datatype go_float = NaN | Infinite bool | Finite float64

text \<open>The comparisons \<open>x < 0\<close> and \<open>x > 1\<close> of IEEE 754: both are false of NaN.\<close>

fun float_negative :: "go_float \<Rightarrow> bool" where
  "float_negative NaN = False"
| "float_negative (Infinite neg) = neg"
| "float_negative (Finite x) \<longleftrightarrow> f_neg x \<and> 0 < f_mant x"

fun float_above_one :: "go_float \<Rightarrow> bool" where
  "float_above_one NaN = False"
| "float_above_one (Infinite neg) = (\<not> neg)"
| "float_above_one (Finite x) \<longleftrightarrow>
     \<not> f_neg x \<and> 2 ^ nat (- f_exp x) < f_mant x * 2 ^ nat (f_exp x)"

section \<open>Structures\<close>

record Runtime =
  rt_ActiveProfile :: string
  rt_ConfigFiles :: "string list"

record App =
  app_Name :: string
  app_Schema :: string
  app_Env :: string
  app_ShutdownTimeout :: Duration

record CORS =
  cors_Enabled :: bool
  cors_AllowedOrigins :: "string list"
  cors_AllowedHeaders :: "string list"
  cors_ExposedHeaders :: "string list"
  cors_MaxAge :: Duration

record HTTP =
  http_Address :: string
  http_ReadTimeout :: Duration
  http_WriteTimeout :: Duration
  http_IdleTimeout :: Duration
  http_RequestTimeout :: Duration
  http_MaxBodyBytes :: int
  http_TrustedProxies :: "string list"
  http_CORS :: CORS

record GRPCTLS =
  gtls_Enabled :: bool
  gtls_CertFile :: string
  gtls_KeyFile :: string
  gtls_ClientCAFile :: string

record GRPC =
  grpc_Enabled :: bool
  grpc_Address :: string
  grpc_ReflectionEnabled :: bool
  grpc_MaxReceiveBytes :: int
  grpc_TLS :: GRPCTLS

record Log =
  log_Level :: string
  log_Format :: string
  log_File :: string
  log_MaxSizeMB :: int
  log_MaxBackups :: int
  log_MaxAgeDays :: int
  log_Compress :: bool

record Database =
  dbc_Enabled :: bool
  dbc_Name :: string
  dbc_Schema :: string
  dbc_Type :: string
  dbc_DSN :: string
  dbc_MaxOpenConns :: int
  dbc_MaxIdleConns :: int
  dbc_ConnMaxLifetime :: Duration
  dbc_ConnMaxIdleTime :: Duration
  dbc_PingTimeout :: Duration

record Redis =
  redis_Enabled :: bool
  redis_Address :: string
  redis_Username :: string
  redis_Password :: string
  redis_DB :: int
  redis_DialTimeout :: Duration
  redis_ReadTimeout :: Duration
  redis_WriteTimeout :: Duration

record Health =
  health_DatabaseTimeout :: Duration
  health_RedisTimeout :: Duration

record RateLimitRule =
  rlr_Rate :: int
  rlr_Burst :: int
  rlr_Period :: Duration

record RateLimit =
  rl_Enabled :: bool
  rl_FailOpen :: bool
  rl_IP :: RateLimitRule
  rl_API :: RateLimitRule
  rl_User :: RateLimitRule
  rl_Login :: RateLimitRule

record Observability =
  obs_MetricsEnabled :: bool
  obs_TracingEnabled :: bool
  obs_TracingEndpoint :: string
  obs_TracingSampleRatio :: go_float
  obs_PprofEnabled :: bool
  obs_PprofToken :: string

record Swagger =
  swagger_Enabled :: bool
  swagger_RequireAuth :: bool

record JWT =
  jwt_Issuer :: string
  jwt_Secret :: string
  jwt_TTL :: Duration

record PSK =
  psk_Enabled :: bool
  psk_Key :: string
  psk_HTTPPaths :: "string list"
  psk_GRPCMethods :: "string list"

record Auth =
  auth_ClientID :: string
  auth_ClientSecret :: string
  auth_JWKSURL :: string
  auth_Issuer :: string
  auth_Audience :: string
  auth_SkipHTTPPaths :: "string list"
  auth_SkipGRPCMethods :: "string list"
  auth_PSK :: PSK

record Authorization =
  authz_Enabled :: bool

record Cron =
  cron_Enabled :: bool
  cron_Timezone :: string
  cron_SampleSpec :: string

record Migration =
  mig_AutoUp :: bool
  mig_CreateSchema :: bool
  mig_Path :: string
  mig_DatabaseURL :: string
  mig_Table :: string
  mig_Schema :: string
  mig_DatabaseName :: string

record User =
  user_CacheTTL :: Duration
  user_LockTTL :: Duration
  user_LockRetryDelay :: Duration

record Idempotency =
  idem_Enabled :: bool
  idem_HTTPPaths :: "string list"
  idem_GRPCMethods :: "string list"
  idem_ProcessingTTL :: Duration
  idem_ResultTTL :: Duration
  idem_FailureTTL :: Duration

record ClientAuth =
  cauth_Type :: string
  cauth_Token :: string

record Retry =
  retry_MaxAttempts :: int
  retry_InitialBackoff :: Duration
  retry_MaxBackoff :: Duration
  retry_Methods :: "string list"

record Breaker =
  breaker_Enabled :: bool
  breaker_FailureThreshold :: int
  breaker_OpenTimeout :: Duration

record ClientTLS =
  ctls_Enabled :: bool
  ctls_ServerName :: string
  ctls_CAFile :: string
  ctls_CertFile :: string
  ctls_KeyFile :: string

record HTTPUpstream =
  hup_BaseURL :: string
  hup_Timeout :: Duration
  hup_Auth :: ClientAuth
  hup_Retry :: Retry
  hup_Breaker :: Breaker
  hup_TLS :: ClientTLS

record GRPCUpstream =
  gup_Target :: string
  gup_Timeout :: Duration
  gup_Auth :: ClientAuth
  gup_Retry :: Retry
  gup_Breaker :: Breaker
  gup_TLS :: ClientTLS

record Outbound =
  outb_HTTP :: "(string \<times> HTTPUpstream) list"
  outb_GRPC :: "(string \<times> GRPCUpstream) list"

record EventBus =
  bus_Enabled :: bool
  bus_URLs :: "string list"
  bus_StreamName :: string
  bus_Subjects :: "string list"
  bus_Storage :: string
  bus_MaxAge :: Duration
  bus_DuplicateWindow :: Duration
  bus_ConnectTimeout :: Duration
  bus_ReconnectWait :: Duration
  bus_PublishTimeout :: Duration
  bus_ConsumerAckWait :: Duration
  bus_ConsumerMaxDeliver :: int
  bus_DispatchInterval :: Duration
  bus_DispatchBatchSize :: int
  bus_DispatchLease :: Duration
  bus_DispatchRetryDelay :: Duration
  bus_PublishedRetention :: Duration
  bus_CleanupInterval :: Duration
  bus_CleanupBatchSize :: int

record Config =
  cfg_Runtime :: Runtime
  cfg_App :: App
  cfg_HTTP :: HTTP
  cfg_GRPC :: GRPC
  cfg_Log :: Log
  cfg_Database :: Database
  cfg_Redis :: Redis
  cfg_Health :: Health
  cfg_RateLimit :: RateLimit
  cfg_Observability :: Observability
  cfg_Swagger :: Swagger
  cfg_JWT :: JWT
  cfg_Auth :: Auth
  cfg_Authorization :: Authorization
  cfg_Cron :: Cron
  cfg_Migration :: Migration
  cfg_User :: User
  cfg_Idempotency :: Idempotency
  cfg_Outbound :: Outbound
  cfg_EventBus :: EventBus

section \<open>Defaults\<close>

text \<open>
  What \<open>viper\<close> holds for a key: the defaults of the service are strings (durations included),
  numbers, booleans, lists of strings, one fraction (0.1 as a float64) and two empty maps. A later \<open>SetDefault\<close> for a
  key shadows an earlier one: a key is looked up from the front.
\<close>

datatype setting = Str string | Num int | Flag bool | Strs "string list" | Float float64 | EmptyMap

type_synonym settings = "(string \<times> setting) list"

definition SetDefault :: "string \<Rightarrow> setting \<Rightarrow> settings \<Rightarrow> settings" where
  "SetDefault key v s = (key, v) # s"

definition setRateLimitDefaults :: "string \<Rightarrow> int \<Rightarrow> int \<Rightarrow> settings \<Rightarrow> settings" where
  "setRateLimitDefaults key rate burst s =
     SetDefault (key @ ''.period'') (Str ''1m'')
       (SetDefault (key @ ''.burst'') (Num burst)
         (SetDefault (key @ ''.rate'') (Num rate) s))"

definition setDefaults :: "settings \<Rightarrow> settings" where
  "setDefaults s = fold (\<lambda>set_key. set_key)
     [SetDefault ''app.name'' (Str ''rule-service''),
      SetDefault ''app.env'' (Str ''development''),
      SetDefault ''app.shutdown_timeout'' (Str ''10s''),
      SetDefault ''http.address'' (Str ''127.0.0.1:8080''),
      SetDefault ''http.read_timeout'' (Str ''10s''),
      SetDefault ''http.write_timeout'' (Str ''15s''),
      SetDefault ''http.idle_timeout'' (Str ''60s''),
      SetDefault ''http.request_timeout'' (Str ''10s''),
      SetDefault ''http.max_body_bytes'' (Num 1048576),
      SetDefault ''http.trusted_proxies'' (Strs []),
      SetDefault ''http.cors.enabled'' (Flag False),
      SetDefault ''http.cors.allowed_origins'' (Strs []),
      SetDefault ''http.cors.allowed_headers'' (Strs [''Authorization'', ''Content-Type'', ''X-Request-ID'']),
      SetDefault ''http.cors.exposed_headers'' (Strs [''X-Request-ID'', ''X-RateLimit-Limit'', ''X-RateLimit-Remaining'', ''Retry-After'']),
      SetDefault ''http.cors.max_age'' (Str ''12h''),
      SetDefault ''grpc.enabled'' (Flag True),
      SetDefault ''grpc.address'' (Str ''127.0.0.1:9090''),
      SetDefault ''grpc.reflection_enabled'' (Flag True),
      SetDefault ''grpc.max_receive_bytes'' (Num 16777216),
      SetDefault ''grpc.tls.enabled'' (Flag False),
      SetDefault ''grpc.tls.cert_file'' (Str ''''),
      SetDefault ''grpc.tls.key_file'' (Str ''''),
      SetDefault ''grpc.tls.client_ca_file'' (Str ''''),
      SetDefault ''log.level'' (Str ''info''),
      SetDefault ''log.format'' (Str ''json''),
      SetDefault ''log.file'' (Str ''logs/app.log''),
      SetDefault ''log.max_size_mb'' (Num 100),
      SetDefault ''log.max_backups'' (Num 10),
      SetDefault ''log.max_age_days'' (Num 30),
      SetDefault ''log.compress'' (Flag True),
      SetDefault ''database.ping_timeout'' (Str ''5s''),
      SetDefault ''database.max_open_conns'' (Num 25),
      SetDefault ''database.max_idle_conns'' (Num 10),
      SetDefault ''database.conn_max_lifetime'' (Str ''5m''),
      SetDefault ''database.conn_max_idle_time'' (Str ''1m''),
      SetDefault ''database.enabled'' (Flag False),
      SetDefault ''database.name'' (Str ''platform''),
      SetDefault ''database.schema'' (Str ''rule_service''),
      SetDefault ''database.type'' (Str ''postgres''),
      SetDefault ''database.dsn'' (Str ''''),
      SetDefault ''redis.address'' (Str ''127.0.0.1:6379''),
      SetDefault ''redis.dial_timeout'' (Str ''5s''),
      SetDefault ''redis.read_timeout'' (Str ''3s''),
      SetDefault ''redis.write_timeout'' (Str ''3s''),
      SetDefault ''redis.enabled'' (Flag False),
      SetDefault ''redis.username'' (Str ''''),
      SetDefault ''redis.password'' (Str ''''),
      SetDefault ''redis.db'' (Num 0),
      SetDefault ''health.database_timeout'' (Str ''2s''),
      SetDefault ''health.redis_timeout'' (Str ''2s''),
      SetDefault ''rate_limit.enabled'' (Flag False),
      SetDefault ''rate_limit.fail_open'' (Flag False),
      setRateLimitDefaults ''rate_limit.ip'' 120 30,
      setRateLimitDefaults ''rate_limit.api'' 10000 1000,
      setRateLimitDefaults ''rate_limit.user'' 600 100,
      setRateLimitDefaults ''rate_limit.login'' 10 3,
      SetDefault ''observability.metrics_enabled'' (Flag True),
      SetDefault ''observability.tracing_enabled'' (Flag False),
      SetDefault ''observability.tracing_endpoint'' (Str ''http://127.0.0.1:4318''),
      SetDefault ''observability.tracing_sample_ratio'' (Float (F64 False 7205759403792794 (- 56))),
      SetDefault ''observability.pprof_enabled'' (Flag False),
      SetDefault ''observability.pprof_token'' (Str ''''),
      SetDefault ''swagger.enabled'' (Flag True),
      SetDefault ''swagger.require_auth'' (Flag False),
      SetDefault ''jwt.issuer'' (Str ''rule-service''),
      SetDefault ''jwt.secret'' (Str ''''),
      SetDefault ''jwt.ttl'' (Str ''2h''),
      SetDefault ''auth.client_id'' (Str ''''),
      SetDefault ''auth.client_secret'' (Str ''''),
      SetDefault ''auth.jwks_url'' (Str ''''),
      SetDefault ''auth.issuer'' (Str ''identity-service''),
      SetDefault ''auth.audience'' (Str ''rule-service''),
      SetDefault ''auth.skip_http_paths'' (Strs [''/api/v1/version'']),
      SetDefault ''auth.skip_grpc_methods'' (Strs [''/grpc.health.v1.Health/*'']),
      SetDefault ''auth.psk.enabled'' (Flag False),
      SetDefault ''auth.psk.key'' (Str ''''),
      SetDefault ''auth.psk.http_paths'' (Strs []),
      SetDefault ''auth.psk.grpc_methods'' (Strs []),
      SetDefault ''authorization.enabled'' (Flag False),
      SetDefault ''cron.enabled'' (Flag True),
      SetDefault ''cron.timezone'' (Str ''Asia/Shanghai''),
      SetDefault ''cron.sample_spec'' (Str ''0 */5 * * * *''),
      SetDefault ''migration.path'' (Str ''migrations/postgres''),
      SetDefault ''migration.database_url'' (Str ''''),
      SetDefault ''migration.auto_up'' (Flag False),
      SetDefault ''migration.create_schema'' (Flag False),
      SetDefault ''migration.table'' (Str ''rule_service_schema_migrations''),
      SetDefault ''user.cache_ttl'' (Str ''5m''),
      SetDefault ''user.lock_ttl'' (Str ''10s''),
      SetDefault ''user.lock_retry_delay'' (Str ''100ms''),
      SetDefault ''idempotency.enabled'' (Flag False),
      SetDefault ''idempotency.processing_ttl'' (Str ''30s''),
      SetDefault ''idempotency.result_ttl'' (Str ''24h''),
      SetDefault ''idempotency.failure_ttl'' (Str ''5m''),
      SetDefault ''event_bus.enabled'' (Flag False),
      SetDefault ''event_bus.urls'' (Strs [''nats://127.0.0.1:4222'']),
      SetDefault ''event_bus.stream_name'' (Str ''PLATFORM_EVENTS''),
      SetDefault ''event_bus.subjects'' (Strs [''platform.>'']),
      SetDefault ''event_bus.storage'' (Str ''file''),
      SetDefault ''event_bus.max_age'' (Str ''168h''),
      SetDefault ''event_bus.duplicate_window'' (Str ''10m''),
      SetDefault ''event_bus.connect_timeout'' (Str ''5s''),
      SetDefault ''event_bus.reconnect_wait'' (Str ''1s''),
      SetDefault ''event_bus.publish_timeout'' (Str ''5s''),
      SetDefault ''event_bus.consumer_ack_wait'' (Str ''30s''),
      SetDefault ''event_bus.consumer_max_deliver'' (Num 10),
      SetDefault ''event_bus.dispatch_interval'' (Str ''1s''),
      SetDefault ''event_bus.dispatch_batch_size'' (Num 100),
      SetDefault ''event_bus.dispatch_lease'' (Str ''30s''),
      SetDefault ''event_bus.dispatch_retry_delay'' (Str ''2s''),
      SetDefault ''event_bus.published_retention'' (Str ''168h''),
      SetDefault ''event_bus.cleanup_interval'' (Str ''1h''),
      SetDefault ''event_bus.cleanup_batch_size'' (Num 1000),
      SetDefault ''outbound.http'' (EmptyMap),
      SetDefault ''outbound.grpc'' (EmptyMap)] s"

end
