(* ===== verification/ServerConfig.thy ===== *)
theory ServerConfig
  imports ConfigModel AppError GoPath
begin

text \<open>
  \<open>Validate\<close> and \<open>LoadWithProfile\<close> of \<open>internal/config/config.go\<close>. Validation is the list of its
  early returns in the order of the source; \<open>None\<close> is the nil error. The text of a formatted error
  carries its operands unquoted.
\<close>

section \<open>Early returns\<close>

text \<open>The first error of a sequence of checks, and one check.\<close>

fun first_error :: "go_error option list \<Rightarrow> go_error option" where
  "first_error [] = None"
| "first_error (r # rs) = (case r of None \<Rightarrow> first_error rs | Some e \<Rightarrow> Some e)"

definition refuse :: "bool \<Rightarrow> string \<Rightarrow> go_error option" where
  "refuse b message = (if b then Some (Plain message) else None)"

lemma first_error_None [simp]: "first_error rs = None \<longleftrightarrow> (\<forall>r \<in> set rs. r = None)"
  by (induction rs) (auto split: option.splits)

declare first_error.simps(2) [simp del]

lemma refuse_None [simp]: "refuse b message = None \<longleftrightarrow> \<not> b"
  by (simp add: refuse_def)

section \<open>Names and patterns\<close>

definition lower_or_digit :: "char \<Rightarrow> bool" where
  "lower_or_digit c \<longleftrightarrow> (CHR ''a'' \<le> c \<and> c \<le> CHR ''z'') \<or> is_digit c"

text \<open>The regular expressions \<open>^[a-z0-9][a-z0-9_-]*$\<close> and \<open>^[a-z][a-z0-9_]{0,62}$\<close>.\<close>

definition validProfile :: "string \<Rightarrow> bool" where
  "validProfile s \<longleftrightarrow> s \<noteq> [] \<and> lower_or_digit (hd s)
     \<and> list_all (\<lambda>c. lower_or_digit c \<or> c = CHR ''_'' \<or> c = CHR ''-'') (tl s)"

definition validMigrationTable :: "string \<Rightarrow> bool" where
  "validMigrationTable s \<longleftrightarrow> s \<noteq> [] \<and> CHR ''a'' \<le> hd s \<and> hd s \<le> CHR ''z'' \<and> length s \<le> 63
     \<and> list_all (\<lambda>c. lower_or_digit c \<or> c = CHR ''_'') (tl s)"

definition isDBType :: "string \<Rightarrow> bool" where
  "isDBType v \<longleftrightarrow> v = ''mysql'' \<or> v = ''postgres'' \<or> v = ''kingbase''"

text \<open>The test \<open>path.Match(pattern, "/validation/target")\<close> every pattern goes through.\<close>

definition bad_pattern :: "string \<Rightarrow> bool" where
  "bad_pattern p \<longleftrightarrow> Match p ''/validation/target'' = Inl ()"

text \<open>The loops over the HTTP and over the gRPC patterns of one setting.\<close>

definition check_http_patterns :: "string \<Rightarrow> string list \<Rightarrow> go_error option" where
  "check_http_patterns key patterns = first_error (map (\<lambda>pattern. first_error
     [refuse (\<not> HasPrefix pattern ''/api/'') (key @ '' contains path outside /api '' @ pattern),
      refuse (bad_pattern pattern) (key @ '' contains invalid pattern '' @ pattern)]) patterns)"

definition bad_method :: "string \<Rightarrow> bool" where
  "bad_method p \<longleftrightarrow> \<not> HasPrefix p ''/'' \<or> CountByte p (CHR ''/'') \<noteq> 2"

definition check_grpc_patterns :: "string \<Rightarrow> string list \<Rightarrow> go_error option" where
  "check_grpc_patterns key patterns = first_error (map (\<lambda>pattern. first_error
     [refuse (bad_method pattern) (key @ '' contains invalid method pattern '' @ pattern),
      refuse (bad_pattern pattern) (key @ '' contains invalid pattern '' @ pattern)]) patterns)"

section \<open>Client policies\<close>

definition validateClientPolicy :: "string \<Rightarrow> ClientAuth \<Rightarrow> Retry \<Rightarrow> Breaker \<Rightarrow> ClientTLS \<Rightarrow> go_error option"
where
  "validateClientPolicy name auth retry breaker tls = first_error
     [refuse (cauth_Type auth \<noteq> [] \<and> cauth_Type auth \<noteq> ''bearer'' \<and> cauth_Type auth \<noteq> ''psk'')
        (''outbound '' @ name @ '' auth.type must be bearer or psk''),
      refuse (cauth_Type auth \<noteq> [] \<and> cauth_Token auth = [])
        (''outbound '' @ name @ '' auth.token is required''),
      refuse (cauth_Type auth \<noteq> [] \<and> \<not> ctls_Enabled tls)
        (''outbound '' @ name @ '' credentials require TLS''),
      refuse (retry_MaxAttempts retry < 1 \<or> retry_MaxAttempts retry > 5
              \<or> retry_InitialBackoff retry \<le> 0 \<or> retry_MaxBackoff retry < retry_InitialBackoff retry)
        (''outbound '' @ name @ '' retry policy is invalid''),
      first_error (map (\<lambda>pattern. first_error
        [refuse (bad_method pattern) (''outbound '' @ name @ '' retry method pattern is invalid''),
         refuse (bad_pattern pattern) (''outbound '' @ name @ '' retry method pattern is invalid'')])
        (retry_Methods retry)),
      refuse (breaker_Enabled breaker
              \<and> (breaker_FailureThreshold breaker = 0 \<or> breaker_OpenTimeout breaker \<le> 0))
        (''outbound '' @ name @ '' breaker policy is invalid''),
      refuse (ctls_Enabled tls \<and> (ctls_CertFile tls = []) \<noteq> (ctls_KeyFile tls = []))
        (''outbound '' @ name @ '' TLS certificate and key must be configured together'')]"

section \<open>Validation\<close>

text \<open>
  The one iteration over a map whose order shows in the error is the one over the four rate limits:
  \<open>order\<close> lists their names in the order of that run.
\<close>

definition rate_limit_rule :: "RateLimit \<Rightarrow> string \<Rightarrow> RateLimitRule" where
  "rate_limit_rule r name =
     (if name = ''ip'' then rl_IP r else if name = ''api'' then rl_API r
      else if name = ''user'' then rl_User r else rl_Login r)"

definition validate_rate_limit :: "string list \<Rightarrow> RateLimit \<Rightarrow> go_error option" where
  "validate_rate_limit order r =
     (if rl_Enabled r then first_error (map (\<lambda>name.
        let rule = rate_limit_rule r name in
        refuse (rlr_Rate rule \<le> 0 \<or> rlr_Burst rule \<le> 0 \<or> rlr_Period rule \<le> 0)
          (''rate_limit.'' @ name @ '' values must be positive'')) order)
      else None)"

definition event_bus_invalid :: "EventBus \<Rightarrow> bool" where
  "event_bus_invalid b \<longleftrightarrow> bus_Enabled b \<and>
     (bus_URLs b = [] \<or> bus_StreamName b = [] \<or> length (bus_Subjects b) \<noteq> 1
      \<or> bus_Subjects b ! 0 \<noteq> ''platform.>'' \<or> (bus_Storage b \<noteq> ''file'' \<and> bus_Storage b \<noteq> ''memory'')
      \<or> bus_MaxAge b \<le> 0 \<or> bus_DuplicateWindow b \<le> 0 \<or> bus_ConnectTimeout b \<le> 0
      \<or> bus_ReconnectWait b \<le> 0 \<or> bus_PublishTimeout b \<le> 0 \<or> bus_ConsumerAckWait b \<le> 0
      \<or> bus_ConsumerMaxDeliver b \<le> 0 \<or> bus_DispatchInterval b \<le> 0 \<or> bus_DispatchBatchSize b \<le> 0
      \<or> bus_DispatchLease b \<le> 0 \<or> bus_DispatchRetryDelay b \<le> 0
      \<or> bus_PublishedRetention b < bus_MaxAge b \<or> bus_CleanupInterval b \<le> 0
      \<or> bus_CleanupBatchSize b \<le> 0)"

definition validate_http_upstream :: "string \<times> HTTPUpstream \<Rightarrow> go_error option" where
  "validate_http_upstream u = (case u of (name, up) \<Rightarrow> first_error
     [refuse (hup_BaseURL up = [] \<or> hup_Timeout up \<le> 0)
        (''outbound.http.'' @ name @ '' requires base_url and positive timeout''),
      validateClientPolicy name (hup_Auth up) (hup_Retry up) (hup_Breaker up) (hup_TLS up)])"

definition validate_grpc_upstream :: "string \<times> GRPCUpstream \<Rightarrow> go_error option" where
  "validate_grpc_upstream u = (case u of (name, up) \<Rightarrow> first_error
     [refuse (gup_Target up = [] \<or> gup_Timeout up \<le> 0)
        (''outbound.grpc.'' @ name @ '' requires target and positive timeout''),
      validateClientPolicy name (gup_Auth up) (gup_Retry up) (gup_Breaker up) (gup_TLS up)])"

definition production :: "Config \<Rightarrow> bool" where
  "production c \<longleftrightarrow> app_Env (cfg_App c) = ''production''"

definition Validate :: "string list \<Rightarrow> Config \<Rightarrow> go_error option" where
  "Validate order c = first_error
     [refuse (\<not> validMigrationTable (dbc_Name (cfg_Database c)))
        ''database.name must contain lowercase letters, digits, or underscores and be at most 63 characters'',
      refuse (dbc_Schema (cfg_Database c) \<noteq> [] \<and> \<not> validMigrationTable (dbc_Schema (cfg_Database c)))
        ''database.schema must contain lowercase letters, digits, or underscores and be at most 63 characters'',
      refuse (http_Address (cfg_HTTP c) = []) ''http.address is required'',
      refuse (grpc_Enabled (cfg_GRPC c)
              \<and> (grpc_Address (cfg_GRPC c) = [] \<or> grpc_MaxReceiveBytes (cfg_GRPC c) \<le> 0))
        ''enabled grpc requires address and positive max_receive_bytes'',
      refuse (gtls_Enabled (grpc_TLS (cfg_GRPC c))
              \<and> (gtls_CertFile (grpc_TLS (cfg_GRPC c)) = [] \<or> gtls_KeyFile (grpc_TLS (cfg_GRPC c)) = []))
        ''grpc tls requires cert_file and key_file'',
      refuse (production c \<and> grpc_Enabled (cfg_GRPC c) \<and> \<not> gtls_Enabled (grpc_TLS (cfg_GRPC c)))
        ''grpc tls must be enabled in production'',
      refuse (production c \<and> grpc_ReflectionEnabled (cfg_GRPC c))
        ''grpc reflection must be disabled in production'',
      refuse (dbc_Enabled (cfg_Database c)
              \<and> (dbc_DSN (cfg_Database c) = [] \<or> \<not> isDBType (dbc_Type (cfg_Database c))))
        ''enabled database requires dsn and type mysql, postgres, or kingbase'',
      refuse (mig_AutoUp (cfg_Migration c)
              \<and> (\<not> dbc_Enabled (cfg_Database c) \<or> mig_Path (cfg_Migration c) = []
                 \<or> mig_DatabaseURL (cfg_Migration c) = []
                 \<or> \<not> validMigrationTable (mig_Table (cfg_Migration c))))
        ''migration.auto_up requires enabled database, path, database_url, and a valid service-specific table'',
      refuse (redis_Enabled (cfg_Redis c) \<and> redis_Address (cfg_Redis c) = [])
        ''enabled redis requires address'',
      refuse (http_RequestTimeout (cfg_HTTP c) \<le> 0 \<or> health_DatabaseTimeout (cfg_Health c) \<le> 0
              \<or> health_RedisTimeout (cfg_Health c) \<le> 0)
        ''http and health timeouts must be positive'',
      refuse (rl_Enabled (cfg_RateLimit c) \<and> \<not> redis_Enabled (cfg_Redis c))
        ''rate_limit requires redis.enabled'',
      validate_rate_limit order (cfg_RateLimit c),
      refuse (cors_Enabled (http_CORS (cfg_HTTP c)) \<and> cors_AllowedOrigins (http_CORS (cfg_HTTP c)) = [])
        ''cors.allowed_origins is required when cors is enabled'',
      refuse (float_negative (obs_TracingSampleRatio (cfg_Observability c))
              \<or> float_above_one (obs_TracingSampleRatio (cfg_Observability c)))
        ''observability.tracing_sample_ratio must be between 0 and 1'',
      refuse (obs_TracingEnabled (cfg_Observability c) \<and> obs_TracingEndpoint (cfg_Observability c) = [])
        ''observability.tracing_endpoint is required'',
      refuse (obs_PprofEnabled (cfg_Observability c) \<and> length (obs_PprofToken (cfg_Observability c)) < 32)
        ''observability.pprof_token must contain at least 32 bytes'',
      refuse (production c \<and> swagger_Enabled (cfg_Swagger c) \<and> \<not> swagger_RequireAuth (cfg_Swagger c))
        ''swagger.require_auth must be enabled in production'',
      refuse (production c
              \<and> (auth_JWKSURL (cfg_Auth c) = [] \<or> auth_Issuer (cfg_Auth c) = []
                 \<or> auth_Audience (cfg_Auth c) \<noteq> ''rule-service''))
        ''production authentication requires identity JWKS URL, issuer, and rule-service audience'',
      refuse (production c \<and> \<not> authz_Enabled (cfg_Authorization c))
        ''authorization must be enabled in production'',
      refuse (authz_Enabled (cfg_Authorization c)
              \<and> map_of (outb_GRPC (cfg_Outbound c)) ''authorization'' = None)
        ''enabled authorization requires outbound.grpc.authorization'',
      refuse (dbc_Enabled (cfg_Database c) \<and> map_of (outb_GRPC (cfg_Outbound c)) ''application'' = None)
        ''rule application scope requires outbound.grpc.application'',
      refuse ((auth_ClientID (cfg_Auth c) \<noteq> [] \<or> auth_ClientSecret (cfg_Auth c) \<noteq> [])
              \<and> length (jwt_Secret (cfg_JWT c)) < 32)
        ''jwt.secret must contain at least 32 bytes when auth is enabled'',
      check_http_patterns ''auth.skip_http_paths'' (auth_SkipHTTPPaths (cfg_Auth c)),
      check_grpc_patterns ''auth.skip_grpc_methods'' (auth_SkipGRPCMethods (cfg_Auth c)),
      refuse (psk_Enabled (auth_PSK (cfg_Auth c))
              \<and> (length (psk_Key (auth_PSK (cfg_Auth c))) < 32
                 \<or> length (psk_HTTPPaths (auth_PSK (cfg_Auth c)))
                    + length (psk_GRPCMethods (auth_PSK (cfg_Auth c))) = 0))
        ''enabled auth.psk requires a key of at least 32 bytes and at least one route pattern'',
      check_http_patterns ''auth.psk.http_paths'' (psk_HTTPPaths (auth_PSK (cfg_Auth c))),
      check_grpc_patterns ''auth.psk.grpc_methods'' (psk_GRPCMethods (auth_PSK (cfg_Auth c))),
      refuse (user_CacheTTL (cfg_User c) \<le> 0 \<or> user_LockTTL (cfg_User c) \<le> 0
              \<or> user_LockRetryDelay (cfg_User c) \<le> 0)
        ''user cache and lock durations must be positive'',
      refuse (idem_Enabled (cfg_Idempotency c)
              \<and> (\<not> redis_Enabled (cfg_Redis c)
                 \<or> length (idem_HTTPPaths (cfg_Idempotency c))
                    + length (idem_GRPCMethods (cfg_Idempotency c)) = 0
                 \<or> idem_ProcessingTTL (cfg_Idempotency c) \<le> 0 \<or> idem_ResultTTL (cfg_Idempotency c) \<le> 0
                 \<or> idem_FailureTTL (cfg_Idempotency c) \<le> 0))
        ''enabled idempotency requires redis, at least one route pattern, and positive TTL values'',
      check_http_patterns ''idempotency.http_paths'' (idem_HTTPPaths (cfg_Idempotency c)),
      check_grpc_patterns ''idempotency.grpc_methods'' (idem_GRPCMethods (cfg_Idempotency c)),
      refuse (event_bus_invalid (cfg_EventBus c))
        ''enabled event_bus requires canonical stream settings, positive delivery/dispatch/cleanup settings, and published retention at least max_age'',
      first_error (map validate_http_upstream (outb_HTTP (cfg_Outbound c))),
      first_error (map validate_grpc_upstream (outb_GRPC (cfg_Outbound c)))]"

section \<open>Loading\<close>

text \<open>\<open>filepath.Ext\<close>: from the last dot of the last element of the path, empty without one.\<close>

definition name_char :: "char \<Rightarrow> bool" where
  "name_char c \<longleftrightarrow> c \<noteq> CHR ''.'' \<and> c \<noteq> CHR ''/''"

definition Ext :: "string \<Rightarrow> string" where
  "Ext path =
     (case dropWhile name_char (rev path) of
        c # cs \<Rightarrow> if c = CHR ''.'' then c # rev (takeWhile name_char (rev path)) else []
      | [] \<Rightarrow> [])"

definition profileConfigPath :: "string \<Rightarrow> string \<Rightarrow> string" where
  "profileConfigPath path profile =
     (let extension = Ext path; base = TrimSuffix path extension in
      base @ ''-'' @ profile @ extension)"

text \<open>The decode hook for a list of strings given as one string, as environment variables are.\<close>

definition stringToStringSlice :: "string \<Rightarrow> string list" where
  "stringToStringSlice data =
     (let raw0 = TrimSpace data;
          raw = (if HasPrefix raw0 ''['' \<and> HasSuffix raw0 '']''
                 then TrimSpace (butlast (tl raw0)) else raw0)
      in if raw = [] then []
         else map (\<lambda>v. TrimSet (TrimSpace v) [CHR 0x22, CHR 0x27]) (SplitByte raw (CHR '','')))"

text \<open>
  What \<open>viper\<close> and the file system answer during one load: the outcome of binding the environment
  variables, of reading a file, of looking at a path, of merging a file, the text of \<open>app.env\<close> once
  the file is read, and the decoded structure. They see the defaults, the files read and the value
  set for \<open>app.env\<close>.
\<close>

datatype read_result = ReadOk | ReadNotFound go_error | ReadFailed go_error
datatype stat_result = StatExists | StatNotExist | StatFailed go_error

record load_env =
  le_BindEnv :: "go_error option"
  le_ReadInConfig :: "string \<Rightarrow> read_result"
  le_app_env :: "settings \<Rightarrow> string \<Rightarrow> string"
  le_Stat :: "string \<Rightarrow> stat_result"
  le_MergeInConfig :: "string \<Rightarrow> go_error option"
  le_Unmarshal :: "settings \<Rightarrow> string list \<Rightarrow> string \<Rightarrow> go_error + Config"

definition read_error :: "string \<Rightarrow> read_result \<Rightarrow> go_error option" where
  "read_error path r =
     (case r of
        ReadOk \<Rightarrow> None
      | ReadNotFound e \<Rightarrow> if path \<noteq> [] then Some (Wrap ''read config'' e) else None
      | ReadFailed e \<Rightarrow> Some (Wrap ''read config'' e))"

definition active_profile :: "load_env \<Rightarrow> (string \<Rightarrow> string) \<Rightarrow> settings \<Rightarrow> string \<Rightarrow> string \<Rightarrow> string" where
  "active_profile le uni defaults path explicitProfile =
     (let profile = ToLower uni (TrimSpace explicitProfile) in
      if profile = [] then ToLower uni (TrimSpace (le_app_env le defaults path)) else profile)"

definition merge_profile :: "load_env \<Rightarrow> string \<Rightarrow> string \<Rightarrow> go_error + string list" where
  "merge_profile le path profile =
     (let profilePath = profileConfigPath path profile in
      if profilePath = path then Inr [path]
      else (case le_Stat le profilePath of
          StatExists \<Rightarrow>
            (case le_MergeInConfig le profilePath of
               Some e \<Rightarrow> Inl (Wrap (''merge profile config '' @ profilePath) e)
             | None \<Rightarrow> Inr [path, profilePath])
        | StatNotExist \<Rightarrow> Inr [path]
        | StatFailed e \<Rightarrow> Inl (Wrap (''inspect profile config '' @ profilePath) e)))"

definition complete_config :: "Config \<Rightarrow> Config" where
  "complete_config c =
     c\<lparr>cfg_Migration := (cfg_Migration c)
         \<lparr>mig_Schema := dbc_Schema (cfg_Database c), mig_DatabaseName := dbc_Name (cfg_Database c)\<rparr>\<rparr>"

definition LoadWithProfile ::
  "load_env \<Rightarrow> (string \<Rightarrow> string) \<Rightarrow> string list \<Rightarrow> string \<Rightarrow> string \<Rightarrow> go_error + Config" where
  "LoadWithProfile le uni order path explicitProfile =
     (case le_BindEnv le of
        Some e \<Rightarrow> Inl (Wrap ''bind environment profile'' e)
      | None \<Rightarrow>
     (let defaults = setDefaults [] in
     (case read_error path (le_ReadInConfig le path) of
        Some e \<Rightarrow> Inl e
      | None \<Rightarrow>
     (let profile = active_profile le uni defaults path explicitProfile in
      if \<not> validProfile profile then Inl (Plain (''invalid environment profile '' @ profile))
      else
     (case merge_profile le path profile of
        Inl e \<Rightarrow> Inl e
      | Inr loadedFiles \<Rightarrow>
     (case le_Unmarshal le defaults loadedFiles profile of
        Inl e \<Rightarrow> Inl (Wrap ''decode config'' e)
      | Inr decoded \<Rightarrow>
     (let cfg = complete_config decoded in
      case Validate order cfg of
        Some e \<Rightarrow> Inl e
      | None \<Rightarrow> Inr (cfg\<lparr>cfg_Runtime := \<lparr>rt_ActiveProfile = profile, rt_ConfigFiles = loadedFiles\<rparr>\<rparr>))))))))"

definition Load :: "load_env \<Rightarrow> (string \<Rightarrow> string) \<Rightarrow> string list \<Rightarrow> string \<Rightarrow> go_error + Config" where
  "Load le uni order path = LoadWithProfile le uni order path []"

end
