(* ===== verification/TokenAuth.thy ===== *)
theory TokenAuth
  imports ServerConfig RuleModel
begin

text \<open>
  Package \<open>auth\<close>: route patterns (\<open>pattern.go\<close>), pre-shared keys (\<open>psk.go\<close>) and the token service
  (\<open>jwt.go\<close>). The JWT library and the JWKS verifier of the platform library are arguments.
\<close>

section \<open>Patterns and pre-shared keys\<close>

fun MatchesAny :: "string \<Rightarrow> string list \<Rightarrow> bool" where
  "MatchesAny v [] = False"
| "MatchesAny v (pattern # patterns) =
     (case Match pattern v of
        Inr True \<Rightarrow> True
      | Inr False \<Rightarrow> MatchesAny v patterns
      | Inl _ \<Rightarrow> MatchesAny v patterns)"

text \<open>\<open>subtle.ConstantTimeCompare\<close> is 1 exactly on equal contents.\<close>

definition VerifyPSK :: "string \<Rightarrow> string \<Rightarrow> bool" where
  "VerifyPSK authorization expected =
     (let (scheme, supplied, ok) = Cut authorization (CHR '' '') in
      if \<not> ok \<or> \<not> EqualFold scheme ''PSK'' \<or> supplied = [] \<or> length supplied \<noteq> length expected then False
      else supplied = expected)"

section \<open>Tokens\<close>

record Claims =
  cl_Issuer :: string
  cl_Subject :: string
  cl_ID :: string
  cl_IssuedAt :: int
  cl_NotBefore :: int
  cl_ExpiresAt :: int

text \<open>The JWKS verifier of the platform library: a token gives a principal or an error.\<close>

type_synonym verifier = "string \<Rightarrow> go_error + principal"

record AuthService =
  as_issuer :: string
  as_secret :: string
  as_ttl :: Duration
  as_clientID :: string
  as_clientSecret :: string
  as_verifier :: "verifier option"

text \<open>
  The library \<open>golang-jwt\<close>: the numeric date of a time (\<open>NewNumericDate\<close>, which truncates to the time
  precision of the library), signing claims with a method and a key, and parsing a token at a time
  with a function from the method of the token to the key, under the required issuer. Parsing yields
  the claims (of type \<open>*Claims\<close> or not) and the validity flag. Times are in nanoseconds.
\<close>

record jwt_lib =
  jwt_date :: "int \<Rightarrow> int"
  jwt_sign :: "string \<Rightarrow> Claims \<Rightarrow> string \<Rightarrow> go_error + string"
  jwt_parse :: "int \<Rightarrow> string \<Rightarrow> (string \<Rightarrow> go_error + string) \<Rightarrow> string \<Rightarrow> go_error + Claims option \<times> bool"

definition New :: "Config \<Rightarrow> AuthService" where
  "New cfg =
     \<lparr>as_issuer = jwt_Issuer (cfg_JWT cfg), as_secret = jwt_Secret (cfg_JWT cfg),
      as_ttl = jwt_TTL (cfg_JWT cfg), as_clientID = auth_ClientID (cfg_Auth cfg),
      as_clientSecret = auth_ClientSecret (cfg_Auth cfg), as_verifier = None\<rparr>"

definition NewRuntime ::
  "(string \<Rightarrow> string \<Rightarrow> string \<Rightarrow> go_error + verifier) \<Rightarrow> Config \<Rightarrow> go_error + AuthService" where
  "NewRuntime newJWKSVerifier cfg =
     (let service = New cfg in
      if auth_JWKSURL (cfg_Auth cfg) = [] then Inr service
      else (case newJWKSVerifier (auth_JWKSURL (cfg_Auth cfg)) (auth_Issuer (cfg_Auth cfg))
                   (auth_Audience (cfg_Auth cfg)) of
          Inl err \<Rightarrow> Inl (Wrap ''configure identity token verifier'' err)
        | Inr v \<Rightarrow> Inr (service\<lparr>as_verifier := Some v\<rparr>)))"

definition Enabled :: "AuthService \<Rightarrow> bool" where
  "Enabled s \<longleftrightarrow> 32 \<le> length (as_secret s) \<and> as_clientID s \<noteq> [] \<and> as_clientSecret s \<noteq> []"

definition Authenticate :: "AuthService \<Rightarrow> string \<Rightarrow> string \<Rightarrow> bool" where
  "Authenticate s clientID clientSecret =
     (if \<not> Enabled s then False else clientID = as_clientID s \<and> clientSecret = as_clientSecret s)"

text \<open>\<open>base64.RawURLEncoding\<close>\<close>

definition base64_char :: "nat \<Rightarrow> char" where
  "base64_char n = ''ABCDEFGHIJKLMNOPQRSTUVWXYZabcdefghijklmnopqrstuvwxyz0123456789-_'' ! n"

fun base64 :: "string \<Rightarrow> string" where
  "base64 (a # b # c # s) =
     base64_char (byte a div 4)
     # base64_char (byte a mod 4 * 16 + byte b div 16)
     # base64_char (byte b mod 16 * 4 + byte c div 64)
     # base64_char (byte c mod 64) # base64 s"
| "base64 [a, b] =
     [base64_char (byte a div 4), base64_char (byte a mod 4 * 16 + byte b div 16),
      base64_char (byte b mod 16 * 4)]"
| "base64 [a] = [base64_char (byte a div 4), base64_char (byte a mod 4 * 16)]"
| "base64 [] = []"

text \<open>Sixteen bytes of \<open>crypto/rand\<close>, or its error.\<close>

definition randomID :: "go_error + string \<Rightarrow> go_error + string" where
  "randomID random = (case random of Inl err \<Rightarrow> Inl err | Inr b \<Rightarrow> Inr (base64 b))"

definition Issue ::
  "jwt_lib \<Rightarrow> int \<Rightarrow> go_error + string \<Rightarrow> AuthService \<Rightarrow> string \<Rightarrow> go_error + string" where
  "Issue lib now random s subject =
     (if \<not> Enabled s then Inl (Plain ''authentication is not configured'')
      else (case randomID random of
          Inl err \<Rightarrow> Inl (Wrap ''create token id'' err)
        | Inr jti \<Rightarrow>
            jwt_sign lib ''HS256''
              \<lparr>cl_Issuer = as_issuer s, cl_Subject = subject, cl_ID = jti,
               cl_IssuedAt = jwt_date lib now, cl_NotBefore = jwt_date lib now,
               cl_ExpiresAt = jwt_date lib (now + as_ttl s)\<rparr> (as_secret s)))"

definition token_key :: "AuthService \<Rightarrow> string \<Rightarrow> go_error + string" where
  "token_key s alg =
     (if alg \<noteq> ''HS256'' then Inl (Plain (''unexpected signing method '' @ alg)) else Inr (as_secret s))"

definition Parse :: "jwt_lib \<Rightarrow> int \<Rightarrow> AuthService \<Rightarrow> string \<Rightarrow> go_error + Claims" where
  "Parse lib now s raw =
     (if \<not> Enabled s then Inl (Plain ''authentication is not configured'')
      else (case jwt_parse lib now raw (token_key s) (as_issuer s) of
          Inl err \<Rightarrow> Inl (Wrap ''parse jwt'' err)
        | Inr (claims, valid) \<Rightarrow>
            (case claims of
               Some c \<Rightarrow> if valid then Inr c else Inl (Plain ''invalid jwt claims'')
             | None \<Rightarrow> Inl (Plain ''invalid jwt claims''))))"

definition Verify :: "jwt_lib \<Rightarrow> int \<Rightarrow> AuthService \<Rightarrow> string \<Rightarrow> go_error + principal" where
  "Verify lib now s raw =
     (case as_verifier s of
        Some v \<Rightarrow> v raw
      | None \<Rightarrow>
          (case Parse lib now s raw of
             Inl err \<Rightarrow> Inl err
           | Inr claims \<Rightarrow>
               Inr \<lparr>p_ID = cl_Subject claims, p_Type = TypeOther ''user'', p_TenantID = []\<rparr>))"

section \<open>Facts\<close>

lemma MatchesAny_iff: "MatchesAny v patterns \<longleftrightarrow> (\<exists>p \<in> set patterns. Match p v = Inr True)"
  by (induction patterns) (auto split: sum.splits bool.splits)

text \<open>A header carries the key exactly when it is the key after the scheme and one space.\<close>

lemma VerifyPSK_iff:
  "expected \<noteq> [] \<Longrightarrow> VerifyPSK header expected \<longleftrightarrow>
     (\<exists>scheme. header = scheme @ CHR '' '' # expected \<and> CHR '' '' \<notin> set scheme \<and> EqualFold scheme ''PSK'')"
proof -
  assume e: "expected \<noteq> []"
  obtain a b ok where c: "Cut header (CHR '' '') = (a, b, ok)" by (cases "Cut header (CHR '' '')") auto
  show ?thesis
  proof
    assume "VerifyPSK header expected"
    with c have "ok" "b = expected" "EqualFold a ''PSK''"
      by (auto simp: VerifyPSK_def split: if_splits)
    with c show "\<exists>scheme. header = scheme @ CHR '' '' # expected \<and> CHR '' '' \<notin> set scheme \<and> EqualFold scheme ''PSK''"
      using Cut_join [of header "CHR '' ''" a b] by auto
  next
    assume "\<exists>scheme. header = scheme @ CHR '' '' # expected \<and> CHR '' '' \<notin> set scheme \<and> EqualFold scheme ''PSK''"
    then show "VerifyPSK header expected" using e by (auto simp: VerifyPSK_def Cut_found)
  qed
qed

end
