(* ===== verification/ConfigDefaults.thy ===== *)
theory ConfigDefaults
  imports ServerConfig
begin

text \<open>
  The configuration the service runs with when its files set nothing: the decoding of
  \<open>mapstructure\<close> is instantiated by \<open>decode_settings\<close>, which reads every field of the structures
  under its tag.
\<close>

section \<open>Decoding the defaults\<close>

definition setting :: "settings \<Rightarrow> string \<Rightarrow> setting" where
  "setting s key = (case map_of s key of Some v \<Rightarrow> v | None \<Rightarrow> Str [])"

definition str :: "settings \<Rightarrow> string \<Rightarrow> string" where
  "str s key = (case setting s key of Str t \<Rightarrow> t | _ \<Rightarrow> [])"

definition num :: "settings \<Rightarrow> string \<Rightarrow> int" where
  "num s key = (case setting s key of Num n \<Rightarrow> n | _ \<Rightarrow> 0)"

definition flag :: "settings \<Rightarrow> string \<Rightarrow> bool" where
  "flag s key = (case setting s key of Flag b \<Rightarrow> b | _ \<Rightarrow> False)"

definition strs :: "settings \<Rightarrow> string \<Rightarrow> string list" where
  "strs s key = (case setting s key of Strs ts \<Rightarrow> ts | Str t \<Rightarrow> stringToStringSlice t | _ \<Rightarrow> [])"

definition float :: "settings \<Rightarrow> string \<Rightarrow> go_float" where
  "float s key = (case setting s key of Float x \<Rightarrow> Finite x | _ \<Rightarrow> Finite (F64 False 0 (- 1074)))"

text \<open>The durations of the defaults: a decimal number and one of the units \<open>ms\<close>, \<open>s\<close>, \<open>m\<close>, \<open>h\<close>.\<close>

definition duration_unit :: "string \<Rightarrow> int" where
  "duration_unit u = (if u = ''ms'' then 1000000 else if u = ''s'' then 1000000000
     else if u = ''m'' then 60000000000 else if u = ''h'' then 3600000000000 else 0)"

definition duration :: "string \<Rightarrow> Duration" where
  "duration t = int (digits_val (takeWhile is_digit t)) * duration_unit (dropWhile is_digit t)"

definition dur :: "settings \<Rightarrow> string \<Rightarrow> Duration" where
  "dur s key = duration (str s key)"

definition decode_settings :: "settings \<Rightarrow> Config" where
  "decode_settings s =
    \<lparr>cfg_Runtime = \<lparr>rt_ActiveProfile = '''', rt_ConfigFiles = []\<rparr>,
     cfg_App = \<lparr>app_Name = str s ''app.name'',
       app_Schema = str s ''app.schema'',
       app_Env = str s ''app.env'',
       app_ShutdownTimeout = dur s ''app.shutdown_timeout''\<rparr>,
     cfg_HTTP = \<lparr>http_Address = str s ''http.address'',
       http_ReadTimeout = dur s ''http.read_timeout'',
       http_WriteTimeout = dur s ''http.write_timeout'',
       http_IdleTimeout = dur s ''http.idle_timeout'',
       http_RequestTimeout = dur s ''http.request_timeout'',
       http_MaxBodyBytes = num s ''http.max_body_bytes'',
       http_TrustedProxies = strs s ''http.trusted_proxies'',
       http_CORS = \<lparr>cors_Enabled = flag s ''http.cors.enabled'',
         cors_AllowedOrigins = strs s ''http.cors.allowed_origins'',
         cors_AllowedHeaders = strs s ''http.cors.allowed_headers'',
         cors_ExposedHeaders = strs s ''http.cors.exposed_headers'',
         cors_MaxAge = dur s ''http.cors.max_age''\<rparr>\<rparr>,
     cfg_GRPC = \<lparr>grpc_Enabled = flag s ''grpc.enabled'',
       grpc_Address = str s ''grpc.address'',
       grpc_ReflectionEnabled = flag s ''grpc.reflection_enabled'',
       grpc_MaxReceiveBytes = num s ''grpc.max_receive_bytes'',
       grpc_TLS = \<lparr>gtls_Enabled = flag s ''grpc.tls.enabled'',
         gtls_CertFile = str s ''grpc.tls.cert_file'',
         gtls_KeyFile = str s ''grpc.tls.key_file'',
         gtls_ClientCAFile = str s ''grpc.tls.client_ca_file''\<rparr>\<rparr>,
     cfg_Log = \<lparr>log_Level = str s ''log.level'',
       log_Format = str s ''log.format'',
       log_File = str s ''log.file'',
       log_MaxSizeMB = num s ''log.max_size_mb'',
       log_MaxBackups = num s ''log.max_backups'',
       log_MaxAgeDays = num s ''log.max_age_days'',
       log_Compress = flag s ''log.compress''\<rparr>,
     cfg_Database = \<lparr>dbc_Enabled = flag s ''database.enabled'',
       dbc_Name = str s ''database.name'',
       dbc_Schema = str s ''database.schema'',
       dbc_Type = str s ''database.type'',
       dbc_DSN = str s ''database.dsn'',
       dbc_MaxOpenConns = num s ''database.max_open_conns'',
       dbc_MaxIdleConns = num s ''database.max_idle_conns'',
       dbc_ConnMaxLifetime = dur s ''database.conn_max_lifetime'',
       dbc_ConnMaxIdleTime = dur s ''database.conn_max_idle_time'',
       dbc_PingTimeout = dur s ''database.ping_timeout''\<rparr>,
     cfg_Redis = \<lparr>redis_Enabled = flag s ''redis.enabled'',
       redis_Address = str s ''redis.address'',
       redis_Username = str s ''redis.username'',
       redis_Password = str s ''redis.password'',
       redis_DB = num s ''redis.db'',
       redis_DialTimeout = dur s ''redis.dial_timeout'',
       redis_ReadTimeout = dur s ''redis.read_timeout'',
       redis_WriteTimeout = dur s ''redis.write_timeout''\<rparr>,
     cfg_Health = \<lparr>health_DatabaseTimeout = dur s ''health.database_timeout'',
       health_RedisTimeout = dur s ''health.redis_timeout''\<rparr>,
     cfg_RateLimit = \<lparr>rl_Enabled = flag s ''rate_limit.enabled'',
       rl_FailOpen = flag s ''rate_limit.fail_open'',
       rl_IP = \<lparr>rlr_Rate = num s ''rate_limit.ip.rate'',
         rlr_Burst = num s ''rate_limit.ip.burst'',
         rlr_Period = dur s ''rate_limit.ip.period''\<rparr>,
       rl_API = \<lparr>rlr_Rate = num s ''rate_limit.api.rate'',
         rlr_Burst = num s ''rate_limit.api.burst'',
         rlr_Period = dur s ''rate_limit.api.period''\<rparr>,
       rl_User = \<lparr>rlr_Rate = num s ''rate_limit.user.rate'',
         rlr_Burst = num s ''rate_limit.user.burst'',
         rlr_Period = dur s ''rate_limit.user.period''\<rparr>,
       rl_Login = \<lparr>rlr_Rate = num s ''rate_limit.login.rate'',
         rlr_Burst = num s ''rate_limit.login.burst'',
         rlr_Period = dur s ''rate_limit.login.period''\<rparr>\<rparr>,
     cfg_Observability = \<lparr>obs_MetricsEnabled = flag s ''observability.metrics_enabled'',
       obs_TracingEnabled = flag s ''observability.tracing_enabled'',
       obs_TracingEndpoint = str s ''observability.tracing_endpoint'',
       obs_TracingSampleRatio = float s ''observability.tracing_sample_ratio'',
       obs_PprofEnabled = flag s ''observability.pprof_enabled'',
       obs_PprofToken = str s ''observability.pprof_token''\<rparr>,
     cfg_Swagger = \<lparr>swagger_Enabled = flag s ''swagger.enabled'',
       swagger_RequireAuth = flag s ''swagger.require_auth''\<rparr>,
     cfg_JWT = \<lparr>jwt_Issuer = str s ''jwt.issuer'',
       jwt_Secret = str s ''jwt.secret'',
       jwt_TTL = dur s ''jwt.ttl''\<rparr>,
     cfg_Auth = \<lparr>auth_ClientID = str s ''auth.client_id'',
       auth_ClientSecret = str s ''auth.client_secret'',
       auth_JWKSURL = str s ''auth.jwks_url'',
       auth_Issuer = str s ''auth.issuer'',
       auth_Audience = str s ''auth.audience'',
       auth_SkipHTTPPaths = strs s ''auth.skip_http_paths'',
       auth_SkipGRPCMethods = strs s ''auth.skip_grpc_methods'',
       auth_PSK = \<lparr>psk_Enabled = flag s ''auth.psk.enabled'',
         psk_Key = str s ''auth.psk.key'',
         psk_HTTPPaths = strs s ''auth.psk.http_paths'',
         psk_GRPCMethods = strs s ''auth.psk.grpc_methods''\<rparr>\<rparr>,
     cfg_Authorization = \<lparr>authz_Enabled = flag s ''authorization.enabled''\<rparr>,
     cfg_Cron = \<lparr>cron_Enabled = flag s ''cron.enabled'',
       cron_Timezone = str s ''cron.timezone'',
       cron_SampleSpec = str s ''cron.sample_spec''\<rparr>,
     cfg_Migration = \<lparr>mig_AutoUp = flag s ''migration.auto_up'',
       mig_CreateSchema = flag s ''migration.create_schema'',
       mig_Path = str s ''migration.path'',
       mig_DatabaseURL = str s ''migration.database_url'',
       mig_Table = str s ''migration.table'',
       mig_Schema = '''',
       mig_DatabaseName = ''''\<rparr>,
     cfg_User = \<lparr>user_CacheTTL = dur s ''user.cache_ttl'',
       user_LockTTL = dur s ''user.lock_ttl'',
       user_LockRetryDelay = dur s ''user.lock_retry_delay''\<rparr>,
     cfg_Idempotency = \<lparr>idem_Enabled = flag s ''idempotency.enabled'',
       idem_HTTPPaths = strs s ''idempotency.http_paths'',
       idem_GRPCMethods = strs s ''idempotency.grpc_methods'',
       idem_ProcessingTTL = dur s ''idempotency.processing_ttl'',
       idem_ResultTTL = dur s ''idempotency.result_ttl'',
       idem_FailureTTL = dur s ''idempotency.failure_ttl''\<rparr>,
     cfg_Outbound = \<lparr>outb_HTTP = [],
       outb_GRPC = []\<rparr>,
     cfg_EventBus = \<lparr>bus_Enabled = flag s ''event_bus.enabled'',
       bus_URLs = strs s ''event_bus.urls'',
       bus_StreamName = str s ''event_bus.stream_name'',
       bus_Subjects = strs s ''event_bus.subjects'',
       bus_Storage = str s ''event_bus.storage'',
       bus_MaxAge = dur s ''event_bus.max_age'',
       bus_DuplicateWindow = dur s ''event_bus.duplicate_window'',
       bus_ConnectTimeout = dur s ''event_bus.connect_timeout'',
       bus_ReconnectWait = dur s ''event_bus.reconnect_wait'',
       bus_PublishTimeout = dur s ''event_bus.publish_timeout'',
       bus_ConsumerAckWait = dur s ''event_bus.consumer_ack_wait'',
       bus_ConsumerMaxDeliver = num s ''event_bus.consumer_max_deliver'',
       bus_DispatchInterval = dur s ''event_bus.dispatch_interval'',
       bus_DispatchBatchSize = num s ''event_bus.dispatch_batch_size'',
       bus_DispatchLease = dur s ''event_bus.dispatch_lease'',
       bus_DispatchRetryDelay = dur s ''event_bus.dispatch_retry_delay'',
       bus_PublishedRetention = dur s ''event_bus.published_retention'',
       bus_CleanupInterval = dur s ''event_bus.cleanup_interval'',
       bus_CleanupBatchSize = num s ''event_bus.cleanup_batch_size''\<rparr>\<rparr>"

definition default_env :: load_env where
  "default_env =
     \<lparr>le_BindEnv = None, le_ReadInConfig = (\<lambda>_. ReadOk),
      le_app_env = (\<lambda>s _. str s ''app.env''), le_Stat = (\<lambda>_. StatNotExist),
      le_MergeInConfig = (\<lambda>_. None),
      le_Unmarshal = (\<lambda>s files profile. Inr (decode_settings (SetDefault ''app.env'' (Str profile) s)))\<rparr>"

definition rate_order :: "string list" where
  "rate_order = [''ip'', ''api'', ''user'', ''login'']"

lemma setting_Cons: "setting (SetDefault k v s) key = (if key = k then v else setting s key)"
  by (simp add: setting_def SetDefault_def)

lemma setting_Nil: "setting [] key = Str []"
  by (simp add: setting_def)

lemma default_values:
  "setting (setDefaults []) ''app.name'' = Str ''rule-service''"
  "setting (setDefaults []) ''app.env'' = Str ''development''"
  "setting (setDefaults []) ''app.shutdown_timeout'' = Str ''10s''"
  "setting (setDefaults []) ''http.address'' = Str ''127.0.0.1:8080''"
  "setting (setDefaults []) ''http.read_timeout'' = Str ''10s''"
  "setting (setDefaults []) ''http.write_timeout'' = Str ''15s''"
  "setting (setDefaults []) ''http.idle_timeout'' = Str ''60s''"
  "setting (setDefaults []) ''http.request_timeout'' = Str ''10s''"
  "setting (setDefaults []) ''http.max_body_bytes'' = Num 1048576"
  "setting (setDefaults []) ''http.trusted_proxies'' = Strs []"
  "setting (setDefaults []) ''http.cors.enabled'' = Flag False"
  "setting (setDefaults []) ''http.cors.allowed_origins'' = Strs []"
  "setting (setDefaults []) ''http.cors.allowed_headers'' = Strs [''Authorization'', ''Content-Type'', ''X-Request-ID'']"
  "setting (setDefaults []) ''http.cors.exposed_headers'' = Strs [''X-Request-ID'', ''X-RateLimit-Limit'', ''X-RateLimit-Remaining'', ''Retry-After'']"
  "setting (setDefaults []) ''http.cors.max_age'' = Str ''12h''"
  "setting (setDefaults []) ''grpc.enabled'' = Flag True"
  "setting (setDefaults []) ''grpc.address'' = Str ''127.0.0.1:9090''"
  "setting (setDefaults []) ''grpc.reflection_enabled'' = Flag True"
  "setting (setDefaults []) ''grpc.max_receive_bytes'' = Num 16777216"
  "setting (setDefaults []) ''grpc.tls.enabled'' = Flag False"
  "setting (setDefaults []) ''grpc.tls.cert_file'' = Str ''''"
  "setting (setDefaults []) ''grpc.tls.key_file'' = Str ''''"
  "setting (setDefaults []) ''grpc.tls.client_ca_file'' = Str ''''"
  "setting (setDefaults []) ''log.level'' = Str ''info''"
  "setting (setDefaults []) ''log.format'' = Str ''json''"
  "setting (setDefaults []) ''log.file'' = Str ''logs/app.log''"
  "setting (setDefaults []) ''log.max_size_mb'' = Num 100"
  "setting (setDefaults []) ''log.max_backups'' = Num 10"
  "setting (setDefaults []) ''log.max_age_days'' = Num 30"
  "setting (setDefaults []) ''log.compress'' = Flag True"
  "setting (setDefaults []) ''database.ping_timeout'' = Str ''5s''"
  "setting (setDefaults []) ''database.max_open_conns'' = Num 25"
  "setting (setDefaults []) ''database.max_idle_conns'' = Num 10"
  "setting (setDefaults []) ''database.conn_max_lifetime'' = Str ''5m''"
  "setting (setDefaults []) ''database.conn_max_idle_time'' = Str ''1m''"
  "setting (setDefaults []) ''database.enabled'' = Flag False"
  "setting (setDefaults []) ''database.name'' = Str ''platform''"
  "setting (setDefaults []) ''database.schema'' = Str ''rule_service''"
  "setting (setDefaults []) ''database.type'' = Str ''postgres''"
  "setting (setDefaults []) ''database.dsn'' = Str ''''"
  "setting (setDefaults []) ''redis.address'' = Str ''127.0.0.1:6379''"
  "setting (setDefaults []) ''redis.dial_timeout'' = Str ''5s''"
  "setting (setDefaults []) ''redis.read_timeout'' = Str ''3s''"
  "setting (setDefaults []) ''redis.write_timeout'' = Str ''3s''"
  "setting (setDefaults []) ''redis.enabled'' = Flag False"
  "setting (setDefaults []) ''redis.username'' = Str ''''"
  "setting (setDefaults []) ''redis.password'' = Str ''''"
  "setting (setDefaults []) ''redis.db'' = Num 0"
  "setting (setDefaults []) ''health.database_timeout'' = Str ''2s''"
  "setting (setDefaults []) ''health.redis_timeout'' = Str ''2s''"
  "setting (setDefaults []) ''rate_limit.enabled'' = Flag False"
  "setting (setDefaults []) ''rate_limit.fail_open'' = Flag False"
  "setting (setDefaults []) ''rate_limit.ip.rate'' = Num 120"
  "setting (setDefaults []) ''rate_limit.ip.burst'' = Num 30"
  "setting (setDefaults []) ''rate_limit.ip.period'' = Str ''1m''"
  "setting (setDefaults []) ''rate_limit.api.rate'' = Num 10000"
  "setting (setDefaults []) ''rate_limit.api.burst'' = Num 1000"
  "setting (setDefaults []) ''rate_limit.api.period'' = Str ''1m''"
  "setting (setDefaults []) ''rate_limit.user.rate'' = Num 600"
  "setting (setDefaults []) ''rate_limit.user.burst'' = Num 100"
  "setting (setDefaults []) ''rate_limit.user.period'' = Str ''1m''"
  "setting (setDefaults []) ''rate_limit.login.rate'' = Num 10"
  "setting (setDefaults []) ''rate_limit.login.burst'' = Num 3"
  "setting (setDefaults []) ''rate_limit.login.period'' = Str ''1m''"
  "setting (setDefaults []) ''observability.metrics_enabled'' = Flag True"
  "setting (setDefaults []) ''observability.tracing_enabled'' = Flag False"
  "setting (setDefaults []) ''observability.tracing_endpoint'' = Str ''http://127.0.0.1:4318''"
  "setting (setDefaults []) ''observability.tracing_sample_ratio'' = Float (F64 False 7205759403792794 (- 56))"
  "setting (setDefaults []) ''observability.pprof_enabled'' = Flag False"
  "setting (setDefaults []) ''observability.pprof_token'' = Str ''''"
  "setting (setDefaults []) ''swagger.enabled'' = Flag True"
  "setting (setDefaults []) ''swagger.require_auth'' = Flag False"
  "setting (setDefaults []) ''jwt.issuer'' = Str ''rule-service''"
  "setting (setDefaults []) ''jwt.secret'' = Str ''''"
  "setting (setDefaults []) ''jwt.ttl'' = Str ''2h''"
  "setting (setDefaults []) ''auth.client_id'' = Str ''''"
  "setting (setDefaults []) ''auth.client_secret'' = Str ''''"
  "setting (setDefaults []) ''auth.jwks_url'' = Str ''''"
  "setting (setDefaults []) ''auth.issuer'' = Str ''identity-service''"
  "setting (setDefaults []) ''auth.audience'' = Str ''rule-service''"
  "setting (setDefaults []) ''auth.skip_http_paths'' = Strs [''/api/v1/version'']"
  "setting (setDefaults []) ''auth.skip_grpc_methods'' = Strs [''/grpc.health.v1.Health/*'']"
  "setting (setDefaults []) ''auth.psk.enabled'' = Flag False"
  "setting (setDefaults []) ''auth.psk.key'' = Str ''''"
  "setting (setDefaults []) ''auth.psk.http_paths'' = Strs []"
  "setting (setDefaults []) ''auth.psk.grpc_methods'' = Strs []"
  "setting (setDefaults []) ''authorization.enabled'' = Flag False"
  "setting (setDefaults []) ''cron.enabled'' = Flag True"
  "setting (setDefaults []) ''cron.timezone'' = Str ''Asia/Shanghai''"
  "setting (setDefaults []) ''cron.sample_spec'' = Str ''0 */5 * * * *''"
  "setting (setDefaults []) ''migration.path'' = Str ''migrations/postgres''"
  "setting (setDefaults []) ''migration.database_url'' = Str ''''"
  "setting (setDefaults []) ''migration.auto_up'' = Flag False"
  "setting (setDefaults []) ''migration.create_schema'' = Flag False"
  "setting (setDefaults []) ''migration.table'' = Str ''rule_service_schema_migrations''"
  "setting (setDefaults []) ''user.cache_ttl'' = Str ''5m''"
  "setting (setDefaults []) ''user.lock_ttl'' = Str ''10s''"
  "setting (setDefaults []) ''user.lock_retry_delay'' = Str ''100ms''"
  "setting (setDefaults []) ''idempotency.enabled'' = Flag False"
  "setting (setDefaults []) ''idempotency.processing_ttl'' = Str ''30s''"
  "setting (setDefaults []) ''idempotency.result_ttl'' = Str ''24h''"
  "setting (setDefaults []) ''idempotency.failure_ttl'' = Str ''5m''"
  "setting (setDefaults []) ''event_bus.enabled'' = Flag False"
  "setting (setDefaults []) ''event_bus.urls'' = Strs [''nats://127.0.0.1:4222'']"
  "setting (setDefaults []) ''event_bus.stream_name'' = Str ''PLATFORM_EVENTS''"
  "setting (setDefaults []) ''event_bus.subjects'' = Strs [''platform.>'']"
  "setting (setDefaults []) ''event_bus.storage'' = Str ''file''"
  "setting (setDefaults []) ''event_bus.max_age'' = Str ''168h''"
  "setting (setDefaults []) ''event_bus.duplicate_window'' = Str ''10m''"
  "setting (setDefaults []) ''event_bus.connect_timeout'' = Str ''5s''"
  "setting (setDefaults []) ''event_bus.reconnect_wait'' = Str ''1s''"
  "setting (setDefaults []) ''event_bus.publish_timeout'' = Str ''5s''"
  "setting (setDefaults []) ''event_bus.consumer_ack_wait'' = Str ''30s''"
  "setting (setDefaults []) ''event_bus.consumer_max_deliver'' = Num 10"
  "setting (setDefaults []) ''event_bus.dispatch_interval'' = Str ''1s''"
  "setting (setDefaults []) ''event_bus.dispatch_batch_size'' = Num 100"
  "setting (setDefaults []) ''event_bus.dispatch_lease'' = Str ''30s''"
  "setting (setDefaults []) ''event_bus.dispatch_retry_delay'' = Str ''2s''"
  "setting (setDefaults []) ''event_bus.published_retention'' = Str ''168h''"
  "setting (setDefaults []) ''event_bus.cleanup_interval'' = Str ''1h''"
  "setting (setDefaults []) ''event_bus.cleanup_batch_size'' = Num 1000"
  "setting (setDefaults []) ''outbound.http'' = EmptyMap"
  "setting (setDefaults []) ''outbound.grpc'' = EmptyMap"
  "setting (setDefaults []) ''app.schema'' = Str []"
  "setting (setDefaults []) ''idempotency.http_paths'' = Str []"
  "setting (setDefaults []) ''idempotency.grpc_methods'' = Str []"
  by (simp_all only: setDefaults_def setRateLimitDefaults_def setting_Cons setting_Nil fold_simps
      list.inject char.inject if_False if_True simp_thms list.simps append.simps)

lemma decode_parts:
  "cfg_App (decode_settings s) =
    \<lparr>app_Name = str s ''app.name'',
     app_Schema = str s ''app.schema'',
     app_Env = str s ''app.env'',
     app_ShutdownTimeout = dur s ''app.shutdown_timeout''\<rparr>"
  "cfg_HTTP (decode_settings s) =
    \<lparr>http_Address = str s ''http.address'',
     http_ReadTimeout = dur s ''http.read_timeout'',
     http_WriteTimeout = dur s ''http.write_timeout'',
     http_IdleTimeout = dur s ''http.idle_timeout'',
     http_RequestTimeout = dur s ''http.request_timeout'',
     http_MaxBodyBytes = num s ''http.max_body_bytes'',
     http_TrustedProxies = strs s ''http.trusted_proxies'',
     http_CORS = \<lparr>cors_Enabled = flag s ''http.cors.enabled'',
       cors_AllowedOrigins = strs s ''http.cors.allowed_origins'',
       cors_AllowedHeaders = strs s ''http.cors.allowed_headers'',
       cors_ExposedHeaders = strs s ''http.cors.exposed_headers'',
       cors_MaxAge = dur s ''http.cors.max_age''\<rparr>\<rparr>"
  "cfg_GRPC (decode_settings s) =
    \<lparr>grpc_Enabled = flag s ''grpc.enabled'',
     grpc_Address = str s ''grpc.address'',
     grpc_ReflectionEnabled = flag s ''grpc.reflection_enabled'',
     grpc_MaxReceiveBytes = num s ''grpc.max_receive_bytes'',
     grpc_TLS = \<lparr>gtls_Enabled = flag s ''grpc.tls.enabled'',
       gtls_CertFile = str s ''grpc.tls.cert_file'',
       gtls_KeyFile = str s ''grpc.tls.key_file'',
       gtls_ClientCAFile = str s ''grpc.tls.client_ca_file''\<rparr>\<rparr>"
  "cfg_Log (decode_settings s) =
    \<lparr>log_Level = str s ''log.level'',
     log_Format = str s ''log.format'',
     log_File = str s ''log.file'',
     log_MaxSizeMB = num s ''log.max_size_mb'',
     log_MaxBackups = num s ''log.max_backups'',
     log_MaxAgeDays = num s ''log.max_age_days'',
     log_Compress = flag s ''log.compress''\<rparr>"
  "cfg_Database (decode_settings s) =
    \<lparr>dbc_Enabled = flag s ''database.enabled'',
     dbc_Name = str s ''database.name'',
     dbc_Schema = str s ''database.schema'',
     dbc_Type = str s ''database.type'',
     dbc_DSN = str s ''database.dsn'',
     dbc_MaxOpenConns = num s ''database.max_open_conns'',
     dbc_MaxIdleConns = num s ''database.max_idle_conns'',
     dbc_ConnMaxLifetime = dur s ''database.conn_max_lifetime'',
     dbc_ConnMaxIdleTime = dur s ''database.conn_max_idle_time'',
     dbc_PingTimeout = dur s ''database.ping_timeout''\<rparr>"
  "cfg_Redis (decode_settings s) =
    \<lparr>redis_Enabled = flag s ''redis.enabled'',
     redis_Address = str s ''redis.address'',
     redis_Username = str s ''redis.username'',
     redis_Password = str s ''redis.password'',
     redis_DB = num s ''redis.db'',
     redis_DialTimeout = dur s ''redis.dial_timeout'',
     redis_ReadTimeout = dur s ''redis.read_timeout'',
     redis_WriteTimeout = dur s ''redis.write_timeout''\<rparr>"
  "cfg_Health (decode_settings s) =
    \<lparr>health_DatabaseTimeout = dur s ''health.database_timeout'',
     health_RedisTimeout = dur s ''health.redis_timeout''\<rparr>"
  "cfg_RateLimit (decode_settings s) =
    \<lparr>rl_Enabled = flag s ''rate_limit.enabled'',
     rl_FailOpen = flag s ''rate_limit.fail_open'',
     rl_IP = \<lparr>rlr_Rate = num s ''rate_limit.ip.rate'',
       rlr_Burst = num s ''rate_limit.ip.burst'',
       rlr_Period = dur s ''rate_limit.ip.period''\<rparr>,
     rl_API = \<lparr>rlr_Rate = num s ''rate_limit.api.rate'',
       rlr_Burst = num s ''rate_limit.api.burst'',
       rlr_Period = dur s ''rate_limit.api.period''\<rparr>,
     rl_User = \<lparr>rlr_Rate = num s ''rate_limit.user.rate'',
       rlr_Burst = num s ''rate_limit.user.burst'',
       rlr_Period = dur s ''rate_limit.user.period''\<rparr>,
     rl_Login = \<lparr>rlr_Rate = num s ''rate_limit.login.rate'',
       rlr_Burst = num s ''rate_limit.login.burst'',
       rlr_Period = dur s ''rate_limit.login.period''\<rparr>\<rparr>"
  "cfg_Observability (decode_settings s) =
    \<lparr>obs_MetricsEnabled = flag s ''observability.metrics_enabled'',
     obs_TracingEnabled = flag s ''observability.tracing_enabled'',
     obs_TracingEndpoint = str s ''observability.tracing_endpoint'',
     obs_TracingSampleRatio = float s ''observability.tracing_sample_ratio'',
     obs_PprofEnabled = flag s ''observability.pprof_enabled'',
     obs_PprofToken = str s ''observability.pprof_token''\<rparr>"
  "cfg_Swagger (decode_settings s) =
    \<lparr>swagger_Enabled = flag s ''swagger.enabled'',
     swagger_RequireAuth = flag s ''swagger.require_auth''\<rparr>"
  "cfg_JWT (decode_settings s) =
    \<lparr>jwt_Issuer = str s ''jwt.issuer'',
     jwt_Secret = str s ''jwt.secret'',
     jwt_TTL = dur s ''jwt.ttl''\<rparr>"
  "cfg_Auth (decode_settings s) =
    \<lparr>auth_ClientID = str s ''auth.client_id'',
     auth_ClientSecret = str s ''auth.client_secret'',
     auth_JWKSURL = str s ''auth.jwks_url'',
     auth_Issuer = str s ''auth.issuer'',
     auth_Audience = str s ''auth.audience'',
     auth_SkipHTTPPaths = strs s ''auth.skip_http_paths'',
     auth_SkipGRPCMethods = strs s ''auth.skip_grpc_methods'',
     auth_PSK = \<lparr>psk_Enabled = flag s ''auth.psk.enabled'',
       psk_Key = str s ''auth.psk.key'',
       psk_HTTPPaths = strs s ''auth.psk.http_paths'',
       psk_GRPCMethods = strs s ''auth.psk.grpc_methods''\<rparr>\<rparr>"
  "cfg_Authorization (decode_settings s) =
    \<lparr>authz_Enabled = flag s ''authorization.enabled''\<rparr>"
  "cfg_Cron (decode_settings s) =
    \<lparr>cron_Enabled = flag s ''cron.enabled'',
     cron_Timezone = str s ''cron.timezone'',
     cron_SampleSpec = str s ''cron.sample_spec''\<rparr>"
  "cfg_Migration (decode_settings s) =
    \<lparr>mig_AutoUp = flag s ''migration.auto_up'',
     mig_CreateSchema = flag s ''migration.create_schema'',
     mig_Path = str s ''migration.path'',
     mig_DatabaseURL = str s ''migration.database_url'',
     mig_Table = str s ''migration.table'',
     mig_Schema = '''',
     mig_DatabaseName = ''''\<rparr>"
  "cfg_User (decode_settings s) =
    \<lparr>user_CacheTTL = dur s ''user.cache_ttl'',
     user_LockTTL = dur s ''user.lock_ttl'',
     user_LockRetryDelay = dur s ''user.lock_retry_delay''\<rparr>"
  "cfg_Idempotency (decode_settings s) =
    \<lparr>idem_Enabled = flag s ''idempotency.enabled'',
     idem_HTTPPaths = strs s ''idempotency.http_paths'',
     idem_GRPCMethods = strs s ''idempotency.grpc_methods'',
     idem_ProcessingTTL = dur s ''idempotency.processing_ttl'',
     idem_ResultTTL = dur s ''idempotency.result_ttl'',
     idem_FailureTTL = dur s ''idempotency.failure_ttl''\<rparr>"
  "cfg_Outbound (decode_settings s) =
    \<lparr>outb_HTTP = [],
     outb_GRPC = []\<rparr>"
  "cfg_EventBus (decode_settings s) =
    \<lparr>bus_Enabled = flag s ''event_bus.enabled'',
     bus_URLs = strs s ''event_bus.urls'',
     bus_StreamName = str s ''event_bus.stream_name'',
     bus_Subjects = strs s ''event_bus.subjects'',
     bus_Storage = str s ''event_bus.storage'',
     bus_MaxAge = dur s ''event_bus.max_age'',
     bus_DuplicateWindow = dur s ''event_bus.duplicate_window'',
     bus_ConnectTimeout = dur s ''event_bus.connect_timeout'',
     bus_ReconnectWait = dur s ''event_bus.reconnect_wait'',
     bus_PublishTimeout = dur s ''event_bus.publish_timeout'',
     bus_ConsumerAckWait = dur s ''event_bus.consumer_ack_wait'',
     bus_ConsumerMaxDeliver = num s ''event_bus.consumer_max_deliver'',
     bus_DispatchInterval = dur s ''event_bus.dispatch_interval'',
     bus_DispatchBatchSize = num s ''event_bus.dispatch_batch_size'',
     bus_DispatchLease = dur s ''event_bus.dispatch_lease'',
     bus_DispatchRetryDelay = dur s ''event_bus.dispatch_retry_delay'',
     bus_PublishedRetention = dur s ''event_bus.published_retention'',
     bus_CleanupInterval = dur s ''event_bus.cleanup_interval'',
     bus_CleanupBatchSize = num s ''event_bus.cleanup_batch_size''\<rparr>"
  by (simp_all add: decode_settings_def)

lemma durations:
  "duration ''100ms'' = 100000000"
  "duration ''10m'' = 600000000000"
  "duration ''10s'' = 10000000000"
  "duration ''12h'' = 43200000000000"
  "duration ''15s'' = 15000000000"
  "duration ''168h'' = 604800000000000"
  "duration ''1h'' = 3600000000000"
  "duration ''1m'' = 60000000000"
  "duration ''1s'' = 1000000000"
  "duration ''24h'' = 86400000000000"
  "duration ''2h'' = 7200000000000"
  "duration ''2s'' = 2000000000"
  "duration ''30s'' = 30000000000"
  "duration ''3s'' = 3000000000"
  "duration ''5m'' = 300000000000"
  "duration ''5s'' = 5000000000"
  "duration ''60s'' = 60000000000"
  by (simp_all add: duration_def duration_unit_def digits_val_def char_digit_def is_digit_def)

lemma default_patterns_ok:
  "check_http_patterns key [''/api/v1/version''] = None"
  "check_grpc_patterns key [''/grpc.health.v1.Health/*''] = None"
  "check_http_patterns key [] = None" "check_grpc_patterns key [] = None"
  by (simp_all add: check_http_patterns_def check_grpc_patterns_def bad_pattern_def bad_method_def
      Match_error HasPrefix_def CountByte_def) code_simp+

lemma default_config_valid:
  "Validate rate_order (complete_config
     (decode_settings (SetDefault ''app.env'' (Str ''development'') (setDefaults [])))) = None"
  by (simp add: Validate_def)
    (simp add: complete_config_def production_def decode_parts str_def num_def flag_def strs_def
      dur_def setting_Cons default_values durations float_def default_patterns_ok
      validate_rate_limit_def event_bus_invalid_def stringToStringSlice_def validMigrationTable_def lower_or_digit_def
      TrimSpace_visible HasPrefix_def)

end
