(* ===== verification/ConfigClaims.thy ===== *)
theory ConfigClaims
  imports ConfigDefaults
begin

text \<open>What a loaded configuration guarantees to the components built from it.\<close>

section \<open>Files of one load\<close>

text \<open>The directory of a path, up to and with its last separator.\<close>

definition dir_of :: "string \<Rightarrow> string" where
  "dir_of p = rev (dropWhile (\<lambda>c. c \<noteq> CHR ''/'') (rev p))"

lemma dir_of_append: "CHR ''/'' \<notin> set t \<Longrightarrow> dir_of (s @ t) = dir_of s"
  unfolding dir_of_def rev_append by (subst dropWhile_append2) auto

lemma Ext_split: "\<exists>base. path = base @ Ext path \<and> CHR ''/'' \<notin> set (Ext path)"
proof -
  let ?t = "takeWhile name_char (rev path)" and ?d = "dropWhile name_char (rev path)"
  have t: "CHR ''/'' \<notin> set ?t" by (auto dest: set_takeWhileD simp: name_char_def)
  have "rev (?t @ ?d) = path" by (simp only: takeWhile_dropWhile_id rev_rev_ident)
  then have p: "path = rev ?d @ rev ?t" by (simp only: rev_append)
  show ?thesis
  proof (cases ?d)
    case Nil
    then have "Ext path = []" unfolding Ext_def by (simp only: list.case)
    then show ?thesis by simp
  next
    case (Cons c cs)
    then have e: "Ext path = (if c = CHR ''.'' then c # rev ?t else [])"
      unfolding Ext_def by (simp only: list.case)
    show ?thesis
    proof (cases "c = CHR ''.''")
      case True
      with e p t Cons show ?thesis by (intro exI [of _ "rev cs"]) simp
    next
      case False
      with e show ?thesis by simp
    qed
  qed
qed

lemma TrimSuffix_append: "TrimSuffix (s @ t) t = s"
  by (simp add: TrimSuffix_def HasSuffix_def suffix_def)

lemma validProfile_chars: "validProfile p \<Longrightarrow> CHR ''/'' \<notin> set p"
  by (cases p) (auto simp: validProfile_def lower_or_digit_def is_digit_def list_all_iff)

lemma profileConfigPath_dir: "validProfile p \<Longrightarrow> dir_of (profileConfigPath path p) = dir_of path"
proof -
  assume v: "validProfile p"
  obtain base where b: "path = base @ Ext path" "CHR ''/'' \<notin> set (Ext path)"
    using Ext_split by blast
  have "TrimSuffix path (Ext path) = base" using b(1) TrimSuffix_append by metis
  then have "profileConfigPath path p = base @ (''-'' @ p @ Ext path)"
    by (simp add: profileConfigPath_def)
  moreover have "CHR ''/'' \<notin> set (''-'' @ p @ Ext path)" using b(2) validProfile_chars [OF v] by simp
  ultimately have "dir_of (profileConfigPath path p) = dir_of base" by (metis dir_of_append)
  also have "\<dots> = dir_of path" using b dir_of_append by metis
  finally show ?thesis .
qed

lemma merge_profile_files:
  "merge_profile le path p = Inr files \<Longrightarrow> files = [path] \<or> files = [path, profileConfigPath path p]"
  by (auto simp: merge_profile_def Let_def split: if_splits stat_result.splits option.splits)

lemma Validate_runtime [simp]: "Validate order (c\<lparr>cfg_Runtime := r\<rparr>) = Validate order c"
  by (simp add: Validate_def production_def)

lemma LoadWithProfile_Inr:
  assumes "LoadWithProfile le uni order path explicit = Inr c"
  obtains profile files decoded where
    "validProfile profile" "merge_profile le path profile = Inr files"
    "le_Unmarshal le (setDefaults []) files profile = Inr decoded"
    "Validate order (complete_config decoded) = None"
    "c = (complete_config decoded)\<lparr>cfg_Runtime := \<lparr>rt_ActiveProfile = profile, rt_ConfigFiles = files\<rparr>\<rparr>"
  using assms
  by (auto simp: LoadWithProfile_def Let_def simp del: Validate_runtime
      split: option.splits sum.splits if_splits)

text \<open>C19. A loaded configuration has passed validation, runs under a well-formed profile that is also
  its \<open>app.env\<close>, was read from at most two files of one directory, and migrates the schema and the
  database the service uses. \<open>v.Set\<close> has the highest precedence in \<open>viper\<close>, which is the hypothesis
  on the decoded structure.\<close>

theorem load_validated:
  assumes set_wins: "\<And>d files p x. le_Unmarshal le d files p = Inr x \<Longrightarrow> app_Env (cfg_App x) = p"
    and load: "LoadWithProfile le uni order path explicit = Inr c"
  shows "Validate order c = None
    \<and> validProfile (rt_ActiveProfile (cfg_Runtime c))
    \<and> app_Env (cfg_App c) = rt_ActiveProfile (cfg_Runtime c)
    \<and> rt_ConfigFiles (cfg_Runtime c)
        \<in> {[path], [path, profileConfigPath path (rt_ActiveProfile (cfg_Runtime c))]}
    \<and> dir_of (profileConfigPath path (rt_ActiveProfile (cfg_Runtime c))) = dir_of path
    \<and> mig_Schema (cfg_Migration c) = dbc_Schema (cfg_Database c)
    \<and> mig_DatabaseName (cfg_Migration c) = dbc_Name (cfg_Database c)"
proof -
  from load obtain profile files decoded where l:
    "validProfile profile" "merge_profile le path profile = Inr files"
    "le_Unmarshal le (setDefaults []) files profile = Inr decoded"
    "Validate order (complete_config decoded) = None"
    "c = (complete_config decoded)\<lparr>cfg_Runtime := \<lparr>rt_ActiveProfile = profile, rt_ConfigFiles = files\<rparr>\<rparr>"
    by (rule LoadWithProfile_Inr)
  from l(4,5) have "Validate order c = None" by simp
  with l(1) l(5) set_wins [OF l(3)] merge_profile_files [OF l(2)] profileConfigPath_dir [OF l(1)]
  show ?thesis by (auto simp: complete_config_def)
qed

definition default_config :: Config where
  "default_config = (complete_config
      (decode_settings (SetDefault ''app.env'' (Str ''development'') (setDefaults []))))
     \<lparr>cfg_Runtime := \<lparr>rt_ActiveProfile = ''development'', rt_ConfigFiles = [''configs/config.yaml'']\<rparr>\<rparr>"

lemma default_load: "LoadWithProfile default_env id rate_order ''configs/config.yaml'' [] = Inr default_config"
proof -
  have "active_profile default_env id (setDefaults []) ''configs/config.yaml'' [] = ''development''"
    by (simp add: active_profile_def default_env_def str_def default_values TrimSpace_visible
        visible_def byte_def ToLower_def is_ascii_def ascii_lower_def)
  moreover have "validProfile ''development''" by (simp add: validProfile_def lower_or_digit_def)
  ultimately show ?thesis
    using default_config_valid
    by (simp add: LoadWithProfile_def read_error_def merge_profile_def default_env_def Let_def
        default_config_def)
qed

lemma default_env_sets:
  "le_Unmarshal default_env d files p = Inr x \<Longrightarrow> app_Env (cfg_App x) = p"
  by (auto simp: default_env_def decode_parts str_def setting_Cons)

lemma load_validated_witness:
  "Validate rate_order default_config = None
    \<and> rt_ConfigFiles (cfg_Runtime default_config) = [''configs/config.yaml'']"
  using load_validated [OF default_env_sets default_load] by (simp add: default_config_def)

end
