(* ===== verification/AuthClaims.thy ===== *)
theory AuthClaims
  imports TokenAuth ConfigClaims DemoRun
begin

text \<open>
  What validation guarantees to authentication: hardened production settings, patterns that always
  decide and stay under \<open>/api/\<close>; and what the token service promises.
\<close>

section \<open>Validated configurations\<close>

lemma check_http_patterns_None:
  "check_http_patterns key ps = None \<longleftrightarrow> (\<forall>p \<in> set ps. HasPrefix p ''/api/'' \<and> rest_ok p)"
  by (auto simp: check_http_patterns_def bad_pattern_def Match_error)

lemma check_grpc_patterns_None:
  "check_grpc_patterns key ps = None \<longleftrightarrow> (\<forall>p \<in> set ps. \<not> bad_method p \<and> rest_ok p)"
  by (auto simp: check_grpc_patterns_def bad_pattern_def Match_error)

text \<open>The HTTP and the gRPC patterns a running service consults.\<close>

definition http_patterns :: "Config \<Rightarrow> string list" where
  "http_patterns c = auth_SkipHTTPPaths (cfg_Auth c) @ psk_HTTPPaths (auth_PSK (cfg_Auth c))
     @ idem_HTTPPaths (cfg_Idempotency c)"

definition grpc_patterns :: "Config \<Rightarrow> string list" where
  "grpc_patterns c = auth_SkipGRPCMethods (cfg_Auth c) @ psk_GRPCMethods (auth_PSK (cfg_Auth c))
     @ idem_GRPCMethods (cfg_Idempotency c)"

lemma Validate_patterns:
  "Validate order c = None \<Longrightarrow>
     (\<forall>p \<in> set (http_patterns c). HasPrefix p ''/api/'' \<and> rest_ok p)
     \<and> (\<forall>p \<in> set (grpc_patterns c). \<not> bad_method p \<and> rest_ok p)"
proof -
  assume "Validate order c = None"
  then have "check_http_patterns ''auth.skip_http_paths'' (auth_SkipHTTPPaths (cfg_Auth c)) = None"
    "check_http_patterns ''auth.psk.http_paths'' (psk_HTTPPaths (auth_PSK (cfg_Auth c))) = None"
    "check_http_patterns ''idempotency.http_paths'' (idem_HTTPPaths (cfg_Idempotency c)) = None"
    "check_grpc_patterns ''auth.skip_grpc_methods'' (auth_SkipGRPCMethods (cfg_Auth c)) = None"
    "check_grpc_patterns ''auth.psk.grpc_methods'' (psk_GRPCMethods (auth_PSK (cfg_Auth c))) = None"
    "check_grpc_patterns ''idempotency.grpc_methods'' (idem_GRPCMethods (cfg_Idempotency c)) = None"
    by (simp_all add: Validate_def)
  then show ?thesis
    by (simp add: http_patterns_def grpc_patterns_def check_http_patterns_None check_grpc_patterns_None
        ball_Un)
qed

lemma api_meta_free: "meta_free ''/api/''"
  by (simp add: meta_free_def GoPath.bslash_def)

lemma HasPrefix_split: "HasPrefix p t \<Longrightarrow> \<exists>q. p = t @ q"
  by (auto simp: HasPrefix_def prefix_def)

text \<open>C20. In a validated configuration every route and method pattern decides every name (the error of
  \<open>path.Match\<close>, which the matchers would silently take for a mismatch, never occurs), and no HTTP
  pattern reaches a route outside \<open>/api/\<close>: an entry of the skip list cannot open any other route.\<close>

theorem patterns_decide:
  assumes "Validate order c = None"
  shows "(\<forall>p \<in> set (http_patterns c @ grpc_patterns c). \<forall>name. \<exists>b. Match p name = Inr b)
    \<and> (\<forall>name. MatchesAny name (http_patterns c) \<longrightarrow> HasPrefix name ''/api/'')
    \<and> (\<forall>name. MatchesAny name (http_patterns c) \<longleftrightarrow>
          (\<exists>p \<in> set (http_patterns c). Match p name \<noteq> Inr False))"
proof -
  have h: "\<forall>p \<in> set (http_patterns c). HasPrefix p ''/api/'' \<and> rest_ok p"
    and g: "\<forall>p \<in> set (grpc_patterns c). rest_ok p"
    using Validate_patterns [OF assms] by auto
  from h g have d: "\<exists>b. Match p name = Inr b" if "p \<in> set (http_patterns c @ grpc_patterns c)" for p name
    using that Match_error [of p name] by (auto simp: Inl_unit)
  have "HasPrefix name ''/api/''" if "MatchesAny name (http_patterns c)" for name
  proof -
    from that obtain p where p: "p \<in> set (http_patterns c)" "Match p name = Inr True"
      by (auto simp: MatchesAny_iff)
    with h obtain q where "p = ''/api/'' @ q" using HasPrefix_split by blast
    with p(2) show ?thesis using Match_prefix [OF api_meta_free] by (simp add: HasPrefix_def)
  qed
  moreover have "MatchesAny name (http_patterns c) \<longleftrightarrow>
      (\<exists>p \<in> set (http_patterns c). Match p name \<noteq> Inr False)" for name
  proof -
    have "Match p name = Inr True \<longleftrightarrow> Match p name \<noteq> Inr False" if "p \<in> set (http_patterns c)" for p
      using d [of p name] that by auto
    then show ?thesis by (auto simp: MatchesAny_iff)
  qed
  ultimately show ?thesis using d by auto
qed

lemma patterns_decide_witness:
  "MatchesAny ''/api/v1/version'' (http_patterns default_config)
    \<and> \<not> MatchesAny ''/metrics'' (http_patterns default_config)"
proof -
  have v: "Validate rate_order default_config = None"
    using default_config_valid by (simp add: default_config_def)
  have p: "http_patterns default_config = [''/api/v1/version'']"
    by (simp add: http_patterns_def default_config_def complete_config_def decode_parts strs_def str_def
        setting_Cons default_values stringToStringSlice_def TrimSpace_visible HasPrefix_def)
  have "meta_free ''/api/v1/version''" by (simp add: meta_free_def GoPath.bslash_def)
  then have "MatchesAny ''/api/v1/version'' (http_patterns default_config)"
    by (simp add: p Match_literal)
  moreover have "\<not> HasPrefix ''/metrics'' ''/api/''" by (simp add: HasPrefix_def)
  ultimately show ?thesis using patterns_decide [OF v] by blast
qed

text \<open>C21. A configuration that passes validation for the production profile serves gRPC only under TLS
  with a certificate and a key, has reflection off, protects Swagger, verifies tokens against a JWKS
  for its own audience, and enforces authorization through a configured upstream; with a database it
  also has the upstream that checks application scopes.\<close>

theorem production_hardened:
  assumes "Validate order c = None" and "production c"
  shows "(grpc_Enabled (cfg_GRPC c) \<longrightarrow> gtls_Enabled (grpc_TLS (cfg_GRPC c))
       \<and> gtls_CertFile (grpc_TLS (cfg_GRPC c)) \<noteq> [] \<and> gtls_KeyFile (grpc_TLS (cfg_GRPC c)) \<noteq> [])
    \<and> \<not> grpc_ReflectionEnabled (cfg_GRPC c)
    \<and> (swagger_Enabled (cfg_Swagger c) \<longrightarrow> swagger_RequireAuth (cfg_Swagger c))
    \<and> auth_JWKSURL (cfg_Auth c) \<noteq> [] \<and> auth_Issuer (cfg_Auth c) \<noteq> []
    \<and> auth_Audience (cfg_Auth c) = ''rule-service''
    \<and> authz_Enabled (cfg_Authorization c)
    \<and> (\<exists>u. map_of (outb_GRPC (cfg_Outbound c)) ''authorization'' = Some u)
    \<and> (dbc_Enabled (cfg_Database c) \<longrightarrow>
         (\<exists>u. map_of (outb_GRPC (cfg_Outbound c)) ''application'' = Some u))
    \<and> (\<forall>s. NewRuntime newV c = Inr s \<longrightarrow> as_verifier s \<noteq> None)"
  using assms by (auto simp: Validate_def NewRuntime_def split: sum.splits)

definition demo_upstream :: GRPCUpstream where
  "demo_upstream = \<lparr>gup_Target = ''dns:///authorization'', gup_Timeout = 1000000000,
     gup_Auth = \<lparr>cauth_Type = [], cauth_Token = []\<rparr>,
     gup_Retry = \<lparr>retry_MaxAttempts = 3, retry_InitialBackoff = 1000, retry_MaxBackoff = 8000,
       retry_Methods = []\<rparr>,
     gup_Breaker = \<lparr>breaker_Enabled = False, breaker_FailureThreshold = 0, breaker_OpenTimeout = 0\<rparr>,
     gup_TLS = \<lparr>ctls_Enabled = False, ctls_ServerName = [], ctls_CAFile = [], ctls_CertFile = [],
       ctls_KeyFile = []\<rparr>\<rparr>"

definition production_config :: Config where
  "production_config = default_config
     \<lparr>cfg_App := (cfg_App default_config)\<lparr>app_Env := ''production''\<rparr>,
      cfg_GRPC := (cfg_GRPC default_config)\<lparr>grpc_ReflectionEnabled := False,
        grpc_TLS := \<lparr>gtls_Enabled = True, gtls_CertFile = ''tls.crt'', gtls_KeyFile = ''tls.key'',
          gtls_ClientCAFile = []\<rparr>\<rparr>,
      cfg_Swagger := \<lparr>swagger_Enabled = False, swagger_RequireAuth = True\<rparr>,
      cfg_Auth := (cfg_Auth default_config)\<lparr>auth_JWKSURL := ''https://identity/jwks''\<rparr>,
      cfg_Authorization := \<lparr>authz_Enabled = True\<rparr>,
      cfg_Outbound := \<lparr>outb_HTTP = [], outb_GRPC = [(''authorization'', demo_upstream)]\<rparr>\<rparr>"

lemma demo_upstream_valid: "validate_grpc_upstream (name, demo_upstream) = None"
  by (simp add: validate_grpc_upstream_def demo_upstream_def validateClientPolicy_def)

lemma production_config_valid: "Validate rate_order production_config = None"
proof -
  have d: "Validate rate_order default_config = None" by (simp add: default_config_def default_config_valid)
  have a: "auth_Issuer (cfg_Auth default_config) \<noteq> []"
    "auth_Audience (cfg_Auth default_config) = ''rule-service''"
    by (simp_all add: default_config_def complete_config_def decode_parts str_def setting_Cons default_values)
  have n: "dbc_Enabled (cfg_Database default_config) = False"
    by (simp add: default_config_def complete_config_def decode_parts flag_def setting_Cons default_values)
  from d a n show ?thesis
    by (simp add: Validate_def production_config_def demo_upstream_valid)
qed

lemma production_hardened_witness:
  "auth_JWKSURL (cfg_Auth production_config) \<noteq> [] \<and> authz_Enabled (cfg_Authorization production_config)
    \<and> gtls_Enabled (grpc_TLS (cfg_GRPC production_config))"
proof -
  have p: "production production_config" by (simp add: production_def production_config_def)
  have "grpc_Enabled (cfg_GRPC production_config)"
    by (simp add: production_config_def default_config_def complete_config_def decode_parts flag_def
        setting_Cons default_values)
  then show ?thesis using production_hardened [OF production_config_valid p] by blast
qed

section \<open>Tokens\<close>

text \<open>A user with no tenant is refused by every item of a batch.\<close>

lemma Evaluate_denied:
  "authorize c t = Inl err \<Longrightarrow> Evaluate E c t a i code n facts s = (Inl err, s)"
  by (simp add: Evaluate_def)

lemma evaluate_all_denied:
  "\<forall>t. authorize c t = Inl err \<Longrightarrow>
     evaluate_all E c k inputs s = (map (\<lambda>i. \<lparr>be_Index = i, be_Outcome = Inl err\<rparr>) [k..<k + length inputs], s)"
proof (induction inputs arbitrary: k)
  case (Cons x xs)
  then show ?case by (simp add: Evaluate_denied upt_conv_Cons del: upt_Suc)
qed simp

text \<open>C22. Without a JWKS verifier a token that parses identifies a user with no tenant, and every rule
  operation refuses this user, whatever tenant and arguments it is called with, before it touches the
  service: the ten single operations answer 403 "tenant access denied", a batch of 1 to 100
  evaluations answers so for each of its items, and the state of the service stays as it was.\<close>

theorem local_tokens_denied:
  fixes E :: "('c, 'p) svc_env" and F :: "nat \<Rightarrow> ('c, 'p) svc_env"
  assumes "as_verifier s = None" and "Verify lib now s raw = Inr p"
  shows "Enabled s \<and> p_TenantID p = [] \<and>
    (let c = \<lparr>ctx_principal = Some p, ctx_err = e\<rparr>;
         denied = AppErr CodeForbidden ''tenant access denied'' 403 None in
     CreateRuleSet E c t a code name description st = (Inl denied, st) \<and>
     UpdateRuleSet E c t a i name description status n st = (Inl denied, st) \<and>
     GetRuleSet E c t a i code st = (Inl denied, st) \<and>
     ListRuleSets E c t a status keyword n m st = (Inl denied, st) \<and>
     CreateRuleVersion E c t a i def key n st = (Inl denied, st) \<and>
     ValidateRuleVersion E c t a def st = (Inl denied, st) \<and>
     PublishRuleVersion E c t a i v n m st = (Inl denied, st) \<and>
     ListRuleVersions E c t a i status n m st = (Inl denied, st) \<and>
     GetRuleVersion E c t a i v st = (Inl denied, st) \<and>
     Evaluate E c t a i code n facts st = (Inl denied, st) \<and>
     (1 \<le> length inputs \<and> length inputs \<le> 100 \<longrightarrow>
        BatchEvaluate F c inputs st =
          (Inr (map (\<lambda>k. \<lparr>be_Index = k, be_Outcome = Inl denied\<rparr>) [0..<length inputs]), st)))"
proof -
  from assms obtain cl where "Parse lib now s raw = Inr cl"
    and p: "p = \<lparr>p_ID = cl_Subject cl, p_Type = TypeOther ''user'', p_TenantID = []\<rparr>"
    by (auto simp: Verify_def split: sum.splits)
  from this(1) have "Enabled s" by (auto simp: Parse_def split: if_splits)
  moreover have "p_TenantID p = []" by (simp add: p)
  moreover have d: "authorize \<lparr>ctx_principal = Some p, ctx_err = e\<rparr> x =
      Inl (AppErr CodeForbidden ''tenant access denied'' 403 None)" for x
    by (simp add: authorize_def p)
  ultimately show ?thesis
    by (simp add: Let_def CreateRuleSet_def UpdateRuleSet_def update_prepare_def GetRuleSet_def ListRuleSets_def
        CreateRuleVersion_def ValidateRuleVersion_def PublishRuleVersion_def publish_prepare_def
        ListRuleVersions_def GetRuleVersion_def Evaluate_denied [OF d] BatchEvaluate_def evaluate_all_denied d)
qed

text \<open>A JWT library for the witnesses: the token is the subject, the claims are rebuilt from it.\<close>

definition demo_claims :: "string \<Rightarrow> Claims" where
  "demo_claims subject = \<lparr>cl_Issuer = ''rule-service'', cl_Subject = subject, cl_ID = [],
     cl_IssuedAt = 5000000000, cl_NotBefore = 5000000000, cl_ExpiresAt = 15000000000\<rparr>"

definition demo_jwt :: jwt_lib where
  "demo_jwt = \<lparr>jwt_date = (\<lambda>t. t - t mod 1000000000),
      jwt_sign = (\<lambda>alg cl key. if alg = ''HS256'' \<and> cl = demo_claims (cl_Subject cl)
        then Inr (cl_Subject cl @ ''.'' @ key) else Inl (Plain ''unsupported'')),
      jwt_parse = (\<lambda>now raw keys issuer. case keys ''HS256'' of Inl e \<Rightarrow> Inl e
        | Inr key \<Rightarrow> let cl = demo_claims (TrimSuffix raw (''.'' @ key)) in
            if HasSuffix raw (''.'' @ key) \<and> issuer = cl_Issuer cl \<and> cl_NotBefore cl \<le> now \<and> now < cl_ExpiresAt cl
            then Inr (Some cl, True) else Inl (Plain ''invalid token''))\<rparr>"

definition demo_service :: AuthService where
  "demo_service = \<lparr>as_issuer = ''rule-service'', as_secret = ''01234567890123456789012345678901'',
     as_ttl = 10000000000, as_clientID = ''client'', as_clientSecret = ''secret'', as_verifier = None\<rparr>"

lemma demo_token:
  assumes "jwt_sign demo_jwt ''HS256'' cl (as_secret demo_service) = Inr tok" and "cl_Issuer cl = as_issuer demo_service"
  shows "jwt_parse demo_jwt t tok (token_key demo_service) (as_issuer demo_service) =
    (if cl_NotBefore cl \<le> t \<and> t < cl_ExpiresAt cl then Inr (Some cl, True) else Inl (Plain ''invalid token''))"
proof -
  from assms(1) have c: "cl = demo_claims (cl_Subject cl)" and t: "tok = cl_Subject cl @ ''.'' @ as_secret demo_service"
    by (auto simp: demo_jwt_def split: if_splits)
  have s: "HasSuffix (u @ v) v" for u v by (simp add: HasSuffix_def suffix_def)
  from t have "TrimSuffix tok (''.'' @ as_secret demo_service) = cl_Subject cl"
    and "HasSuffix tok (''.'' @ as_secret demo_service)"
    using TrimSuffix_append s by auto
  with assms(2) c show ?thesis by (auto simp: demo_jwt_def token_key_def Let_def)
qed

text \<open>Token identifiers are ASCII.\<close>

lemma base64_char_byte: "n < 64 \<Longrightarrow> byte (base64_char n) < 128"
proof -
  assume "n < 64"
  then have "base64_char n \<in> set ''ABCDEFGHIJKLMNOPQRSTUVWXYZabcdefghijklmnopqrstuvwxyz0123456789-_''"
    unfolding base64_char_def by (intro nth_mem) simp
  then show ?thesis by (auto simp: byte_def)
qed

lemma byte_bound: "byte c < 256"
  by (simp add: byte_def)

lemma base64_valid: "valid_utf8 (base64 s)"
proof (induction s rule: base64.induct)
  case (1 a b c s)
  have "byte a div 4 < 64" "byte a mod 4 * 16 + byte b div 16 < 64" "byte b mod 16 * 4 + byte c div 64 < 64" "byte c mod 64 < 64"
    using byte_bound [of a] byte_bound [of b] byte_bound [of c] by linarith+
  with 1 show ?case by (simp add: valid_utf8_Cons base64_char_byte)
next
  case (2 a b)
  have "byte a div 4 < 64" "byte a mod 4 * 16 + byte b div 16 < 64" "byte b mod 16 * 4 < 64"
    using byte_bound [of a] byte_bound [of b] by linarith+
  then show ?case by (simp add: valid_utf8_Cons base64_char_byte)
next
  case (3 a)
  have "byte a div 4 < 64" "byte a mod 4 * 16 < 64" using byte_bound [of a] by linarith+
  then show ?case by (simp add: valid_utf8_Cons base64_char_byte)
qed simp

text \<open>C23. A token issued for a subject is accepted by the same service until it expires, with that
  subject, the configured issuer and, up to the truncation of its times to whole seconds, the
  configured lifetime; from its expiry on it is refused. Of the library it is assumed that numeric
  dates are truncated to whole seconds, and that claims in whole seconds (of the range of 64-bit
  nanoseconds) and valid UTF-8 which it signed are parsed again under the same key and issuer from
  their start to their expiry, and not after it.\<close>

theorem issue_parse:
  assumes dates: "\<And>x. jwt_date lib x = x - x mod 1000000000"
    and accepted: "\<And>cl tok t. jwt_sign lib ''HS256'' cl (as_secret s) = Inr tok \<Longrightarrow> cl_Issuer cl = as_issuer s \<Longrightarrow>
      \<forall>x \<in> {cl_IssuedAt cl, cl_NotBefore cl, cl_ExpiresAt cl}. x mod 1000000000 = 0 \<and> 0 \<le> x \<and> x \<le> max_i64 \<Longrightarrow>
      \<forall>x \<in> {cl_Issuer cl, cl_Subject cl, cl_ID cl}. valid_utf8 x \<Longrightarrow>
      cl_IssuedAt cl \<le> t \<Longrightarrow> cl_NotBefore cl \<le> t \<Longrightarrow> t < cl_ExpiresAt cl \<Longrightarrow>
      jwt_parse lib t tok (token_key s) (as_issuer s) = Inr (Some cl, True)"
    and expired: "\<And>cl tok t. jwt_sign lib ''HS256'' cl (as_secret s) = Inr tok \<Longrightarrow> cl_Issuer cl = as_issuer s \<Longrightarrow>
      cl_ExpiresAt cl \<le> t \<Longrightarrow> cl_ExpiresAt cl mod 1000000000 = 0 \<and> 0 \<le> cl_ExpiresAt cl \<and> cl_ExpiresAt cl \<le> max_i64 \<Longrightarrow>
      \<exists>err. jwt_parse lib t tok (token_key s) (as_issuer s) = Inl err"
    and issued: "Issue lib now random s subject = Inr tok" and utf8: "valid_utf8 subject" "valid_utf8 (as_issuer s)"
    and range: "0 \<le> now" "0 \<le> as_ttl s" "now + as_ttl s \<le> max_i64"
  shows "\<exists>c. cl_Subject c = subject \<and> cl_Issuer c = as_issuer s \<and>
      cl_IssuedAt c \<le> now \<and> now < cl_IssuedAt c + 1000000000 \<and>
      cl_ExpiresAt c \<le> now + as_ttl s \<and> now + as_ttl s < cl_ExpiresAt c + 1000000000 \<and>
      (\<forall>t. now \<le> t \<and> t < cl_ExpiresAt c \<longrightarrow> Parse lib t s tok = Inr c \<and>
         Verify lib t (s\<lparr>as_verifier := None\<rparr>) tok
           = Inr \<lparr>p_ID = subject, p_Type = TypeOther ''user'', p_TenantID = []\<rparr>) \<and>
      (\<forall>t. cl_ExpiresAt c \<le> t \<longrightarrow> (\<exists>err. Parse lib t s tok = Inl err))"
proof -
  define date where "date = (\<lambda>x::int. x - x mod 1000000000)"
  have date: "date x \<le> x" "x < date x + 1000000000" "date x mod 1000000000 = 0" for x
    using pos_mod_sign [of 1000000000 x] pos_mod_bound [of 1000000000 x] by (simp_all add: date_def mod_diff_eq)
  have lib: "jwt_date lib = date" by (rule ext) (simp add: dates date_def)
  have "date now mod 1000000000 = 0 \<and> 0 \<le> date now \<and> date now \<le> max_i64"
    and "date (now + as_ttl s) mod 1000000000 = 0 \<and> 0 \<le> date (now + as_ttl s) \<and> date (now + as_ttl s) \<le> max_i64"
    using date [of now] date [of "now + as_ttl s"] range zmod_le_nonneg_dividend [of now 1000000000]
      zmod_le_nonneg_dividend [of "now + as_ttl s" 1000000000] by (simp_all add: date_def)
  note whole = this
  from issued obtain bytes where e: "Enabled s" and "jwt_sign lib ''HS256''
      \<lparr>cl_Issuer = as_issuer s, cl_Subject = subject, cl_ID = base64 bytes, cl_IssuedAt = date now,
       cl_NotBefore = date now, cl_ExpiresAt = date (now + as_ttl s)\<rparr> (as_secret s) = Inr tok"
    unfolding Issue_def randomID_def lib by (auto split: if_splits sum.splits)
  then obtain c where j: "jwt_sign lib ''HS256'' c (as_secret s) = Inr tok"
    and c: "cl_Issuer c = as_issuer s" "cl_Subject c = subject" "cl_ID c = base64 bytes" "cl_IssuedAt c = date now"
      "cl_NotBefore c = date now" "cl_ExpiresAt c = date (now + as_ttl s)"
    by (meson Claims.select_convs)
  have "Parse lib t s tok = Inr c" if "now \<le> t" "t < cl_ExpiresAt c" for t
    using accepted [OF j, of t] that e date [of now] utf8 whole by (simp add: Parse_def c base64_valid)
  moreover have "\<exists>err. Parse lib t s tok = Inl err" if "cl_ExpiresAt c \<le> t" for t
    using expired [OF j c(1) that] e whole(2) by (auto simp: Parse_def c)
  moreover have "Parse lib t (s\<lparr>as_verifier := None\<rparr>) tok = Parse lib t s tok" for t
  proof -
    have "token_key (s\<lparr>as_verifier := None\<rparr>) = token_key s" by (rule ext) (simp add: token_key_def)
    then show ?thesis by (simp add: Parse_def Enabled_def)
  qed
  ultimately show ?thesis
    using date [of now] date [of "now + as_ttl s"] by (intro exI [of _ c]) (simp add: Verify_def c)
qed

lemma issue_parse_witness:
  "Issue demo_jwt 5000000003 (Inr []) demo_service ''client'' = Inr (''client.'' @ as_secret demo_service)
    \<and> (\<exists>c. Parse demo_jwt 7000000001 demo_service (''client.'' @ as_secret demo_service) = Inr c \<and> cl_Subject c = ''client'')"
proof -
  have i: "Issue demo_jwt 5000000003 (Inr []) demo_service ''client'' = Inr (''client.'' @ as_secret demo_service)"
    by (simp add: Issue_def Enabled_def demo_service_def randomID_def demo_jwt_def demo_claims_def)
  have u: "valid_utf8 ''client''" "valid_utf8 (as_issuer demo_service)"
    by (simp_all add: demo_service_def valid_utf8_Cons byte_def)
  have "\<exists>c. cl_Subject c = ''client'' \<and> cl_Issuer c = as_issuer demo_service \<and>
      cl_IssuedAt c \<le> 5000000003 \<and> 5000000003 < cl_IssuedAt c + 1000000000 \<and>
      cl_ExpiresAt c \<le> 5000000003 + as_ttl demo_service \<and> 5000000003 + as_ttl demo_service < cl_ExpiresAt c + 1000000000 \<and>
      (\<forall>t. 5000000003 \<le> t \<and> t < cl_ExpiresAt c \<longrightarrow> Parse demo_jwt t demo_service (''client.'' @ as_secret demo_service) = Inr c \<and>
         Verify demo_jwt t (demo_service\<lparr>as_verifier := None\<rparr>) (''client.'' @ as_secret demo_service)
           = Inr \<lparr>p_ID = ''client'', p_Type = TypeOther ''user'', p_TenantID = []\<rparr>) \<and>
      (\<forall>t. cl_ExpiresAt c \<le> t \<longrightarrow> (\<exists>err. Parse demo_jwt t demo_service (''client.'' @ as_secret demo_service) = Inl err))"
    by (rule issue_parse [OF _ _ _ i u]) (simp add: demo_jwt_def, simp_all add: demo_token,
      simp_all add: demo_service_def max_i64_def)
  then obtain c where "cl_Subject c = ''client''" "5000000003 + as_ttl demo_service < cl_ExpiresAt c + 1000000000"
    "\<forall>t. 5000000003 \<le> t \<and> t < cl_ExpiresAt c \<longrightarrow> Parse demo_jwt t demo_service (''client.'' @ as_secret demo_service) = Inr c"
    by blast
  moreover have "as_ttl demo_service = 10000000000" by (simp add: demo_service_def)
  ultimately have "Parse demo_jwt 7000000001 demo_service (''client.'' @ as_secret demo_service) = Inr c \<and> cl_Subject c = ''client''"
    by simp
  with i show ?thesis by blast
qed

lemma local_tokens_denied_witness:
  "Evaluate (demo_env []) \<lparr>ctx_principal = Some \<lparr>p_ID = ''client'', p_Type = TypeOther ''user'', p_TenantID = []\<rparr>, ctx_err = None\<rparr>
      ''t'' ''a'' ''s'' [] 0 ''{}'' demo_s3 = (Inl (AppErr CodeForbidden ''tenant access denied'' 403 None), demo_s3)"
proof -
  have v: "as_verifier demo_service = None" by (simp add: demo_service_def)
  have "Verify demo_jwt 7000000000 demo_service (''client.'' @ as_secret demo_service)
      = Inr \<lparr>p_ID = ''client'', p_Type = TypeOther ''user'', p_TenantID = []\<rparr>"
    by (simp add: Verify_def Parse_def Enabled_def demo_service_def demo_jwt_def token_key_def
        demo_claims_def TrimSuffix_def HasSuffix_def suffix_def Let_def)
  from local_tokens_denied [OF v this] show ?thesis unfolding Let_def by blast
qed

end
