(* ===== verification/Support.thy ===== *)
theory Support
  imports ConfigModel AppError GoSha256
begin

text \<open>
  The small packages the transports lean on: request ids, build information, health, the rate limiter,
  the Redis lock with the scheduled job that takes it, and the opening of the database. Redis and
  the database drivers are arguments; \<open>'x\<close> is the state of whatever lies behind them.
\<close>

section \<open>Request ids (\<open>requestid\<close>)\<close>

text \<open>The runes a \<open>range\<close> over a string visits.\<close>

function runes :: "string \<Rightarrow> nat list" where
  "runes s = (if s = [] then [] else
     case DecodeRune s of (r, n) \<Rightarrow> r # runes (drop (max 1 n) s))"
  by pat_completeness auto
termination
  by (relation "measure length") auto

declare runes.simps [simp del]

definition allowedCharacter :: "nat \<Rightarrow> bool" where
  "allowedCharacter char \<longleftrightarrow>
     (97 \<le> char \<and> char \<le> 122) \<or> (65 \<le> char \<and> char \<le> 90) \<or> (48 \<le> char \<and> char \<le> 57)
     \<or> char \<in> {45, 95, 46}"

definition Valid :: "string \<Rightarrow> bool" where
  "Valid v = (if v = [] \<or> 128 < length v then False else list_all allowedCharacter (runes v))"

text \<open>\<open>Generate\<close>: sixteen random bytes in hexadecimal, or the clock when the random source fails.\<close>

definition Generate :: "go_error + string \<Rightarrow> int \<Rightarrow> string" where
  "Generate random now =
     (case random of
        Inl err \<Rightarrow> ''fallback-'' @ int_str now
      | Inr v \<Rightarrow> EncodeToString (map byte v))"

lemma allowed_ascii: "allowedCharacter n \<Longrightarrow> n < 128"
  by (auto simp: allowedCharacter_def)

lemma runes_ascii: "list_all (\<lambda>c. byte c < 128) s \<Longrightarrow> runes s = map byte s"
proof (induction s)
  case Nil
  then show ?case by (simp add: runes.simps [of "[]"])
next
  case (Cons c s)
  then have "DecodeRune (c # s) = (byte c, 1)"
    by (simp add: DecodeRune_def del: utf8_len.simps)
  with Cons show ?case by (simp add: runes.simps [of "c # s"])
qed

lemma Valid_bytes:
  "s \<noteq> [] \<Longrightarrow> length s \<le> 128 \<Longrightarrow> list_all (\<lambda>c. allowedCharacter (byte c)) s \<Longrightarrow> Valid s"
proof -
  assume s: "s \<noteq> []" "length s \<le> 128" and a: "list_all (\<lambda>c. allowedCharacter (byte c)) s"
  from a have "list_all (\<lambda>c. byte c < 128) s" by (auto simp: list_all_iff dest: allowed_ascii)
  then have "runes s = map byte s" by (rule runes_ascii)
  with s a show ?thesis by (simp add: Valid_def list_all_iff)
qed

lemma hex_char_allowed: "d < 16 \<Longrightarrow> allowedCharacter (byte (hex_char d))"
  by (auto simp: hex_char_def allowedCharacter_def byte_def)

lemma digit_char_allowed: "d < 10 \<Longrightarrow> allowedCharacter (byte (digit_char d))"
  by (auto simp: digit_char_def allowedCharacter_def byte_def)

lemma nat_str_allowed: "list_all (\<lambda>c. allowedCharacter (byte c)) (nat_str n)"
proof (induction n rule: nat_str.induct)
  case (1 n)
  then show ?case
    by (simp add: nat_str.simps [of n] digit_char_allowed)
qed

lemma nat_str_length: "n < 10 ^ Suc k \<Longrightarrow> length (nat_str n) \<le> Suc k"
proof (induction k arbitrary: n)
  case 0
  then show ?case by (simp add: nat_str.simps [of n])
next
  case (Suc k)
  show ?case
  proof (cases "n < 10")
    case True
    then show ?thesis by (simp add: nat_str.simps [of n])
  next
    case False
    from Suc.prems have "n div 10 < 10 ^ Suc k" by (simp add: div_less_iff_less_mult)
    from Suc.IH [OF this] False show ?thesis by (simp add: nat_str.simps [of n])
  qed
qed

text \<open>Every generated id is one the service would accept from a client.\<close>

lemma Generate_Valid:
  assumes "\<And>v. random = Inr v \<Longrightarrow> length v = 16" and "- (2 ^ 63) \<le> now" "now < 2 ^ 63"
  shows "Valid (Generate random now)"
proof (cases random)
  case (Inl err)
  have len: "length (int_str now) \<le> 20"
  proof -
    have "nat now < 10 ^ Suc 18" "nat (- now) < 10 ^ Suc 18" using assms(2,3) by simp_all
    then have "length (nat_str (nat now)) \<le> Suc 18" "length (nat_str (nat (- now))) \<le> Suc 18"
      by (blast intro: nat_str_length)+
    then show ?thesis by (simp add: int_str_def)
  qed
  have "list_all (\<lambda>c. allowedCharacter (byte c)) (''fallback-'' @ int_str now)"
    by (simp add: int_str_def nat_str_allowed) (simp add: allowedCharacter_def byte_def)
  with len Inl show ?thesis
    by (auto simp: Generate_def intro!: Valid_bytes)
next
  case (Inr v)
  then have l: "length v = 16" using assms(1) by blast
  have "length (EncodeToString bs) = 2 * length bs" for bs
    by (induction bs) (simp_all add: EncodeToString_def)
  then have len: "length (EncodeToString (map byte v)) = 32" using l by simp
  have b: "byte c div 16 < 16" for c
    using range_nat_of_char by (auto simp: byte_def div_less_iff_less_mult)
  have "list_all (\<lambda>c. allowedCharacter (byte c)) (EncodeToString (map byte v))"
    by (auto simp: EncodeToString_def list_all_iff intro: hex_char_allowed b)
  with len Inr show ?thesis by (auto simp: Generate_def intro!: Valid_bytes)
qed

section \<open>Build information (\<open>buildinfo\<close>)\<close>

record Info =
  bi_Version :: string
  bi_Commit :: string
  bi_BuildTime :: string
  bi_StartedAt :: int
  bi_Uptime :: string

text \<open>\<open>Current\<close>: the linker variables, the start of the process and the text of the uptime.\<close>

definition Current :: "string \<Rightarrow> string \<Rightarrow> string \<Rightarrow> int \<Rightarrow> string \<Rightarrow> Info" where
  "Current version commit buildTime startedAt uptime =
     \<lparr>bi_Version = version, bi_Commit = commit, bi_BuildTime = buildTime, bi_StartedAt = startedAt,
      bi_Uptime = uptime\<rparr>"

section \<open>Health (\<open>health\<close>)\<close>

record Dependency =
  dep_Status :: string
  dep_Latency :: string

record Status =
  st_Status :: string
  st_Dependencies :: "(string \<times> Dependency) list"

text \<open>What is sent over the channel by each of the two checks. A dependency that is not configured is
  \<open>None\<close>; otherwise the answer of its ping and the text of the latency.\<close>

record check_result =
  cr_name :: string
  cr_dependency :: Dependency
  cr_ready :: bool

definition checkResult :: "string \<Rightarrow> string \<Rightarrow> go_error option \<Rightarrow> check_result" where
  "checkResult name latency err =
     (case err of
        Some e \<Rightarrow> \<lparr>cr_name = name, cr_dependency = \<lparr>dep_Status = ''down'', dep_Latency = latency\<rparr>, cr_ready = False\<rparr>
      | None \<Rightarrow> \<lparr>cr_name = name, cr_dependency = \<lparr>dep_Status = ''up'', dep_Latency = latency\<rparr>, cr_ready = True\<rparr>)"

definition check_dependency :: "string \<Rightarrow> (string \<times> go_error option) option \<Rightarrow> check_result" where
  "check_dependency name ping =
     (case ping of
        None \<Rightarrow> \<lparr>cr_name = name, cr_dependency = \<lparr>dep_Status = ''disabled'', dep_Latency = []\<rparr>, cr_ready = True\<rparr>
      | Some (latency, err) \<Rightarrow> checkResult name latency err)"

definition checkDatabase :: "(string \<times> go_error option) option \<Rightarrow> check_result" where
  "checkDatabase ping = check_dependency ''database'' ping"

definition checkRedis :: "(string \<times> go_error option) option \<Rightarrow> check_result" where
  "checkRedis ping = check_dependency ''redis'' ping"

definition Live_status :: Status where
  "Live_status = \<lparr>st_Status = ''up'', st_Dependencies = []\<rparr>"

text \<open>\<open>Ready\<close> folds the two results in the order they arrive.\<close>

definition collect :: "check_result \<Rightarrow> Status \<times> bool \<Rightarrow> Status \<times> bool" where
  "collect item acc = (case acc of (status, ready) \<Rightarrow>
     (status\<lparr>st_Dependencies := st_Dependencies status @ [(cr_name item, cr_dependency item)]\<rparr>,
      ready \<and> cr_ready item))"

definition Ready_status ::
  "(string \<times> go_error option) option \<Rightarrow> (string \<times> go_error option) option \<Rightarrow> bool \<Rightarrow> Status \<times> bool" where
  "Ready_status db redis redis_first =
     (let results = (if redis_first then [checkRedis redis, checkDatabase db]
                     else [checkDatabase db, checkRedis redis]);
          (status, ready) = fold collect results (\<lparr>st_Status = ''ready'', st_Dependencies = []\<rparr>, True)
      in (if \<not> ready then status\<lparr>st_Status := ''not_ready''\<rparr> else status, ready))"

section \<open>Rate limiter (\<open>ratelimit\<close>)\<close>

record LimitResult =
  lr_Allowed :: bool
  lr_Limit :: int
  lr_Remaining :: int
  lr_RetryAfter :: Duration

text \<open>The Redis limiter: for a key and a rate, burst and period it answers how many of one event are
  allowed, how many remain, and when to retry.\<close>

type_synonym 'x rate_backend =
  "string \<Rightarrow> int \<times> int \<times> Duration \<Rightarrow> 'x \<Rightarrow> (go_error + int \<times> int \<times> Duration) \<times> 'x"

record 'x Limiter =
  lim_enabled :: bool
  lim_failOpen :: bool
  lim_backend :: "'x rate_backend option"

definition NewLimiter :: "'x rate_backend option \<Rightarrow> Config \<Rightarrow> 'x Limiter" where
  "NewLimiter client cfg =
     \<lparr>lim_enabled = rl_Enabled (cfg_RateLimit cfg), lim_failOpen = rl_FailOpen (cfg_RateLimit cfg),
      lim_backend = client\<rparr>"

definition zero_limit :: LimitResult where
  "zero_limit = \<lparr>lr_Allowed = False, lr_Limit = 0, lr_Remaining = 0, lr_RetryAfter = 0\<rparr>"

definition Allow :: "'x Limiter \<Rightarrow> string \<Rightarrow> RateLimitRule \<Rightarrow> 'x \<Rightarrow> (go_error + LimitResult) \<times> 'x" where
  "Allow l key rule x =
     (if \<not> lim_enabled l then (Inr (zero_limit\<lparr>lr_Allowed := True\<rparr>), x)
      else (case lim_backend l of
          None \<Rightarrow> (Inl (Plain ''redis rate limiter is unavailable''), x)
        | Some backend \<Rightarrow>
            (case backend key (rlr_Rate rule, rlr_Burst rule, rlr_Period rule) x of
               (Inl err, x') \<Rightarrow> (Inl (Wrap ''check redis rate limit'' err), x')
             | (Inr (allowed, remaining, retryAfter), x') \<Rightarrow>
                 (Inr \<lparr>lr_Allowed = 0 < allowed, lr_Limit = rlr_Burst rule, lr_Remaining = remaining,
                       lr_RetryAfter = retryAfter\<rparr>, x'))))"

section \<open>Locks (\<open>cache\<close>) and the scheduled job (\<open>scheduler\<close>)\<close>

text \<open>The mutex of \<open>redsync\<close>: its name, expiry, retry delay (\<open>None\<close> with one try), and the random
  value it holds once locked. \<open>'x\<close> is the state of the Redis servers.\<close>

record mutex =
  mx_Name :: string
  mx_Expiry :: Duration
  mx_RetryDelay :: "Duration option"
  mx_Value :: string

record 'x redsync =
  rs_TryLock :: "mutex \<Rightarrow> 'x \<Rightarrow> (go_error + mutex) \<times> 'x"
  rs_Lock :: "mutex \<Rightarrow> 'x \<Rightarrow> (go_error + mutex) \<times> 'x"
  rs_Extend :: "mutex \<Rightarrow> 'x \<Rightarrow> (go_error + bool) \<times> 'x"
  rs_Unlock :: "mutex \<Rightarrow> 'x \<Rightarrow> (go_error + bool) \<times> 'x"

definition lockKeyPrefix :: string where
  "lockKeyPrefix = ''lock:''"

definition isContention :: "go_error \<Rightarrow> bool" where
  "isContention err \<longleftrightarrow> errors_is err ErrFailed \<or> errors_is err ErrTaken"

definition newMutex :: "string \<Rightarrow> Duration \<Rightarrow> Duration option \<Rightarrow> go_error + mutex" where
  "newMutex key ttl delay =
     (if key = [] then Inl (Plain ''lock key must not be empty'')
      else if ttl \<le> 0 then Inl (Plain ''lock ttl must be positive'')
      else Inr \<lparr>mx_Name = lockKeyPrefix @ key, mx_Expiry = ttl, mx_RetryDelay = delay, mx_Value = []\<rparr>)"

text \<open>\<open>TryLock\<close>: no lock and no error when another holder has it.\<close>

definition TryLock :: "'x redsync \<Rightarrow> string \<Rightarrow> Duration \<Rightarrow> 'x \<Rightarrow> (go_error + mutex option) \<times> 'x" where
  "TryLock rs key ttl x =
     (case newMutex key ttl None of
        Inl err \<Rightarrow> (Inl err, x)
      | Inr m \<Rightarrow>
          (case rs_TryLock rs m x of
             (Inl err, x') \<Rightarrow>
               if isContention err then (Inr None, x')
               else (Inl (Wrap (''try redis lock '' @ key) err), x')
           | (Inr locked, x') \<Rightarrow> (Inr (Some locked), x')))"

definition Lock :: "'x redsync \<Rightarrow> go_error option \<Rightarrow> string \<Rightarrow> Duration \<Rightarrow> Duration \<Rightarrow> 'x \<Rightarrow> (go_error + mutex) \<times> 'x" where
  "Lock rs ctxErr key ttl retryDelay x =
     (if retryDelay \<le> 0 then (Inl (Plain ''lock retry delay must be positive''), x)
      else (case newMutex key ttl (Some retryDelay) of
          Inl err \<Rightarrow> (Inl err, x)
        | Inr m \<Rightarrow>
            (case rs_Lock rs m x of
               (Inl err, x') \<Rightarrow>
                 (Inl (case ctxErr of Some e \<Rightarrow> Wrap (''wait for redis lock '' @ key) e
                                    | None \<Rightarrow> Wrap (''acquire redis lock '' @ key) err), x')
             | (Inr locked, x') \<Rightarrow> (Inr locked, x'))))"

definition still_owned :: "string \<Rightarrow> mutex \<Rightarrow> go_error + bool \<Rightarrow> go_error option" where
  "still_owned what m r =
     (case r of
        Inl err \<Rightarrow> Some (Wrap (what @ '' redis lock '' @ mx_Name m) err)
      | Inr False \<Rightarrow> Some (Plain (what @ '' redis lock '' @ mx_Name m @ '': lock is no longer owned''))
      | Inr True \<Rightarrow> None)"

definition Extend :: "'x redsync \<Rightarrow> mutex \<Rightarrow> 'x \<Rightarrow> go_error option \<times> 'x" where
  "Extend rs m x = (case rs_Extend rs m x of (r, x') \<Rightarrow> (still_owned ''extend'' m r, x'))"

definition Unlock :: "'x redsync \<Rightarrow> mutex \<Rightarrow> 'x \<Rightarrow> go_error option \<times> 'x" where
  "Unlock rs m x = (case rs_Unlock rs m x of (r, x') \<Rightarrow> (still_owned ''release'' m r, x'))"

text \<open>\<open>runSample\<close> with what it logs: the job itself is its log entry.\<close>

datatype job_log = JobExecuted | JobSkipped | LockFailed | UnlockFailed

definition runSample :: "'x redsync option \<Rightarrow> 'x \<Rightarrow> go_error option \<times> job_log list \<times> 'x" where
  "runSample locker x =
     (case locker of
        None \<Rightarrow> (None, [JobExecuted], x)
      | Some rs \<Rightarrow>
          (case TryLock rs ''cron:sample'' 60000000000 x of
             (Inl err, x') \<Rightarrow> (Some err, [LockFailed], x')
           | (Inr None, x') \<Rightarrow> (None, [JobSkipped], x')
           | (Inr (Some lock), x') \<Rightarrow>
               (case Unlock rs lock x' of
                  (None, x'') \<Rightarrow> (None, [JobExecuted], x'')
                | (Some err, x'') \<Rightarrow> (None, [JobExecuted, UnlockFailed], x''))))"

section \<open>Opening the database (\<open>database\<close>)\<close>

definition driverName :: "string \<Rightarrow> go_error + string" where
  "driverName dbType =
     (if dbType = ''mysql'' then Inr ''mysql''
      else if dbType = ''postgres'' \<or> dbType = ''kingbase'' then Inr ''pgx''
      else Inl (Plain (''unsupported database type '' @ dbType)))"

text \<open>The parsed connection settings of the two drivers, as far as the service sets them; \<open>'l\<close> is a time
  zone of Go's \<open>time\<close> package.\<close>

record pgx_config =
  pg_Database :: string
  pg_RuntimeParams :: "string \<Rightarrow> string option"

record 'l mysql_config =
  my_DBName :: string
  my_ParseTime :: bool
  my_Loc :: "'l option"

datatype 'l connector = Pgx pgx_config | MySQL "'l mysql_config" | OtherDriver string string

record 'l db_lib =
  dl_ParseConfig :: "string \<Rightarrow> go_error + pgx_config"
  dl_ParseDSN :: "string \<Rightarrow> go_error + 'l mysql_config"
  dl_LoadLocation :: "string \<Rightarrow> go_error + 'l"
  dl_Open :: "'l connector \<Rightarrow> go_error option"
  dl_Ping :: "'l connector \<Rightarrow> go_error option"

text \<open>A handle: what it connects to, its pool limits, and whether it has been closed.\<close>

record 'l sql_db =
  h_connector :: "'l connector"
  h_MaxOpenConns :: int
  h_MaxIdleConns :: int
  h_ConnMaxLifetime :: Duration
  h_ConnMaxIdleTime :: Duration
  h_closed :: bool

definition override :: "string \<Rightarrow> string \<Rightarrow> string" where
  "override configured parsed = (if configured \<noteq> [] then configured else parsed)"

definition connector_of :: "'l db_lib \<Rightarrow> Database \<Rightarrow> string \<Rightarrow> go_error + 'l connector" where
  "connector_of lib cfg driver =
     (if driver = ''pgx'' then
        (case dl_ParseConfig lib (dbc_DSN cfg) of
           Inl err \<Rightarrow> Inl (Wrap ''parse database dsn'' err)
         | Inr c \<Rightarrow>
             (let params = (if dbc_Schema cfg \<noteq> []
                            then (pg_RuntimeParams c)(''search_path'' \<mapsto> dbc_Schema cfg)
                            else pg_RuntimeParams c)
              in Inr (Pgx \<lparr>pg_Database = override (dbc_Name cfg) (pg_Database c),
                           pg_RuntimeParams = params(''timezone'' \<mapsto> ''Asia/Shanghai'')\<rparr>)))
      else if driver = ''mysql'' then
        (case dl_ParseDSN lib (dbc_DSN cfg) of
           Inl err \<Rightarrow> Inl (Wrap ''parse database dsn'' err)
         | Inr c \<Rightarrow>
             (case dl_LoadLocation lib ''Asia/Shanghai'' of
                Inl err \<Rightarrow> Inl (Wrap ''load database timezone'' err)
              | Inr location \<Rightarrow>
                  (let conn = MySQL (c\<lparr>my_DBName := override (dbc_Name cfg) (my_DBName c),
                                my_ParseTime := True, my_Loc := Some location\<rparr>)
                   in (case dl_Open lib conn of
                         Some err \<Rightarrow> Inl (Wrap ''open database'' err)
                       | None \<Rightarrow> Inr conn))))
      else
        (case dl_Open lib (OtherDriver driver (dbc_DSN cfg)) of
           Some err \<Rightarrow> Inl (Wrap ''open database'' err)
         | None \<Rightarrow> Inr (OtherDriver driver (dbc_DSN cfg))))"

text \<open>\<open>Open\<close>: the error or the handle, and every handle that was created on the way.\<close>

definition Open :: "'l db_lib \<Rightarrow> Database \<Rightarrow> (go_error + 'l sql_db) \<times> 'l sql_db list" where
  "Open lib cfg =
     (case driverName (dbc_Type cfg) of
        Inl err \<Rightarrow> (Inl err, [])
      | Inr driver \<Rightarrow>
          (case connector_of lib cfg driver of
             Inl err \<Rightarrow> (Inl err, [])
           | Inr conn \<Rightarrow>
               (let db = \<lparr>h_connector = conn, h_MaxOpenConns = dbc_MaxOpenConns cfg,
                          h_MaxIdleConns = dbc_MaxIdleConns cfg,
                          h_ConnMaxLifetime = dbc_ConnMaxLifetime cfg,
                          h_ConnMaxIdleTime = dbc_ConnMaxIdleTime cfg, h_closed = False\<rparr>
                in (case dl_Ping lib conn of
                      Some err \<Rightarrow> (Inl (Wrap ''ping database'' err), [db\<lparr>h_closed := True\<rparr>])
                    | None \<Rightarrow> (Inr db, [db])))))"

end
