(* ===== verification/HttpModel.thy ===== *)
theory HttpModel
  imports RuleService Support TokenAuth
begin

text \<open>
  The HTTP transport's data: the request and response bodies of \<open>handler.go\<close> (one record per struct),
  the unified \<open>Response\<close> of \<open>response.go\<close>, and the \<open>gin.Context\<close> a request carries through the
  handlers. Responses are kept as values; their JSON text is written by \<open>encoding/json\<close>. Times are
  microseconds; a \<open>json.RawMessage\<close> is its text, empty when absent.
\<close>

section \<open>Bodies\<close>

record MeResponseBody =
  me_Subject :: string

record RuleSetView =
  sv_ID :: string
  sv_TenantID :: string
  sv_ApplicationID :: string
  sv_Code :: string
  sv_Name :: string
  sv_Description :: string
  sv_Status :: string
  sv_PublishedVersionNumber :: int
  sv_Version :: int
  sv_CreatedAt :: int
  sv_UpdatedAt :: int
  sv_CreatedBy :: string
  sv_UpdatedBy :: string

record RuleVersionView =
  vv_ID :: string
  vv_TenantID :: string
  vv_ApplicationID :: string
  vv_RuleSetID :: string
  vv_VersionNumber :: int
  vv_Status :: string
  vv_Definition :: string
  vv_Checksum :: string
  vv_PublishedAt :: "int option"
  vv_Version :: int
  vv_CreatedAt :: int
  vv_UpdatedAt :: int
  vv_CreatedBy :: string
  vv_UpdatedBy :: string

record PageRequest =
  qp_TenantID :: string
  qp_ApplicationID :: string
  qp_Status :: string
  qp_Keyword :: string
  qp_Page :: int
  qp_PageSize :: int

record CreateRuleSetRequest =
  qcs_TenantID :: string
  qcs_ApplicationID :: string
  qcs_Code :: string
  qcs_Name :: string
  qcs_Description :: string

record UpdateRuleSetRequest =
  qus_TenantID :: string
  qus_ApplicationID :: string
  qus_ID :: string
  qus_Name :: string
  qus_Description :: string
  qus_Status :: string
  qus_Version :: int

record GetRuleSetRequest =
  qgs_TenantID :: string
  qgs_ApplicationID :: string
  qgs_ID :: string
  qgs_Code :: string

record CreateRuleVersionRequest =
  qcv_TenantID :: string
  qcv_ApplicationID :: string
  qcv_RuleSetID :: string
  qcv_Definition :: string
  qcv_IdempotencyKey :: string
  qcv_RuleSetVersion :: int

record ValidateRuleVersionRequest =
  qvv_TenantID :: string
  qvv_ApplicationID :: string
  qvv_Definition :: string

record PublishRuleVersionRequest =
  qpv_TenantID :: string
  qpv_ApplicationID :: string
  qpv_RuleSetID :: string
  qpv_RuleVersionID :: string
  qpv_RuleSetVersion :: int
  qpv_RuleVersionVersion :: int

record ListRuleVersionsRequest =
  qlv_TenantID :: string
  qlv_ApplicationID :: string
  qlv_RuleSetID :: string
  qlv_Status :: string
  qlv_Page :: int
  qlv_PageSize :: int

record GetRuleVersionRequest =
  qgv_TenantID :: string
  qgv_ApplicationID :: string
  qgv_RuleSetID :: string
  qgv_ID :: string

record EvaluateRequest =
  qev_TenantID :: string
  qev_ApplicationID :: string
  qev_RuleSetID :: string
  qev_RuleSetCode :: string
  qev_VersionNumber :: int
  qev_Facts :: string

record BatchEvaluateRequest =
  qbe_Requests :: "EvaluateRequest list"

record EvaluateResponse =
  er_Matched :: bool
  er_MatchedRule :: string
  er_Result :: string
  er_EvaluatedVersionNumber :: int
  er_Checksum :: string

record BatchEvaluateResult =
  br_Index :: int
  br_Response :: "EvaluateResponse option"
  br_ErrorCode :: int
  br_ErrorMessage :: string

record BatchEvaluateResponse =
  bs_Results :: "BatchEvaluateResult list"

record RuleSetDetailBody =
  sd_RuleSet :: RuleSetView
  sd_PublishedVersion :: "RuleVersionView option"

record RuleSetPageBody =
  sp_Items :: "RuleSetView list"
  sp_Total :: int
  sp_Page :: int
  sp_PageSize :: int

record CreateRuleVersionBody =
  cb_RuleVersion :: RuleVersionView
  cb_Duplicate :: bool

record ValidationIssueBody =
  ib_Path :: string
  ib_Code :: string
  ib_Message :: string

record ValidateRuleVersionBody =
  vb_Valid :: bool
  vb_Issues :: "ValidationIssueBody list"
  vb_Checksum :: string

record PublishRuleVersionBody =
  pub_RuleSet :: RuleSetView
  pub_RuleVersion :: RuleVersionView

record RuleVersionPageBody =
  vp_Items :: "RuleVersionView list"
  vp_Total :: int
  vp_Page :: int
  vp_PageSize :: int

definition ruleSetView :: "RuleSet \<Rightarrow> RuleSetView" where
  "ruleSetView v =
     \<lparr>sv_ID = rs_ID v, sv_TenantID = rs_TenantID v, sv_ApplicationID = rs_ApplicationID v,
      sv_Code = rs_Code v, sv_Name = rs_Name v, sv_Description = rs_Description v,
      sv_Status = rs_Status v, sv_PublishedVersionNumber = rs_PublishedVersionNumber v,
      sv_Version = Version (rs_Audit v), sv_CreatedAt = CreatedAt (rs_Audit v),
      sv_UpdatedAt = UpdatedAt (rs_Audit v), sv_CreatedBy = CreatedBy (rs_Audit v),
      sv_UpdatedBy = UpdatedBy (rs_Audit v)\<rparr>"

definition ruleVersionView :: "RuleVersion \<Rightarrow> RuleVersionView" where
  "ruleVersionView v =
     \<lparr>vv_ID = rv_ID v, vv_TenantID = rv_TenantID v, vv_ApplicationID = rv_ApplicationID v,
      vv_RuleSetID = rv_RuleSetID v, vv_VersionNumber = rv_VersionNumber v, vv_Status = rv_Status v,
      vv_Definition = rv_DefinitionJSON v, vv_Checksum = rv_Checksum v,
      vv_PublishedAt = rv_PublishedAt v, vv_Version = Version (rv_Audit v),
      vv_CreatedAt = CreatedAt (rv_Audit v), vv_UpdatedAt = UpdatedAt (rv_Audit v),
      vv_CreatedBy = CreatedBy (rv_Audit v), vv_UpdatedBy = UpdatedBy (rv_Audit v)\<rparr>"

definition evaluationResponse :: "Evaluation \<Rightarrow> RuleVersion \<Rightarrow> EvaluateResponse" where
  "evaluationResponse value' version =
     \<lparr>er_Matched = Matched value', er_MatchedRule = MatchedRule value', er_Result = ResultJSON value',
      er_EvaluatedVersionNumber = rv_VersionNumber version, er_Checksum = rv_Checksum version\<rparr>"

text \<open>What a handler puts into the \<open>any\<close> of a response: nothing, one of the bodies, or a value that
  was itself decoded from stored JSON.\<close>

datatype body =
    BNil
  | BStatus Status
  | BInfo Info
  | BSubject "string option"
  | BRuleSet RuleSetView
  | BRuleSetDetail RuleSetDetailBody
  | BRuleSetPage RuleSetPageBody
  | BRuleVersion RuleVersionView
  | BCreateRuleVersion CreateRuleVersionBody
  | BValidateRuleVersion ValidateRuleVersionBody
  | BPublishRuleVersion PublishRuleVersionBody
  | BRuleVersionPage RuleVersionPageBody
  | BEvaluate EvaluateResponse
  | BBatchEvaluate BatchEvaluateResponse
  | BDecoded string

record Response =
  resp_Code :: int
  resp_Message :: string
  resp_Body :: body
  resp_RequestID :: string

section \<open>Request context\<close>

text \<open>What is written to the connection: a JSON response, a status without content, other content.\<close>

datatype chunk = WJSON Response | WStatus | WText string

text \<open>One line of the request log and one observation of the request metrics.\<close>

record access_log =
  al_RequestID :: string
  al_Method :: string
  al_Path :: string
  al_Status :: int

record observation =
  ob_Method :: string
  ob_Route :: string
  ob_Status :: int

text \<open>
  \<open>gin.Context\<close>: the request (route template, headers, body as the bytes that can be read and the
  error they end with), the keys handlers set, the values of the request's \<open>context.Context\<close>, the
  response so far, the log and the metrics, and the two states behind the handlers: the rule service
  (\<open>g_svc\<close>) and Redis (\<open>g_ext\<close>). \<open>g_expired\<close> tells whether the deadline of this request passes
  before its handlers return; it and \<open>x_err\<close> are facts of the run.
\<close>

record ('p, 'x) http =
  g_Method :: string
  g_FullPath :: string
  g_header :: "string \<Rightarrow> string"
  g_body :: "string \<times> go_error option"
  g_ContentLength :: int
  g_TLS :: bool
  g_ClientIP :: string
  g_expired :: bool
  g_request_id :: string
  g_environment :: string
  g_subject :: "string option"
  x_request_id :: "string option"
  x_environment :: "string option"
  x_idempotency_key :: "string option"
  x_principal :: "principal option"
  x_credential :: "string option"
  x_err :: "go_error option"
  g_out :: "string \<Rightarrow> string option"
  g_status :: int
  g_writes :: "chunk list"
  g_log :: "access_log list"
  g_metrics :: "observation list"
  g_svc :: "'p svc_state"
  g_ext :: 'x

text \<open>A handler returns or panics; a middleware is given the rest of the chain.\<close>

datatype 'a outcome = Done 'a | Panic 'a

fun final :: "'a outcome \<Rightarrow> 'a" where
  "final (Done c) = c"
| "final (Panic c) = c"

fun after :: "('a \<Rightarrow> 'a outcome) \<Rightarrow> 'a outcome \<Rightarrow> 'a outcome" where
  "after k (Done c) = k c"
| "after k (Panic c) = Panic c"

type_synonym ('p, 'x) handler = "('p, 'x) http \<Rightarrow> ('p, 'x) http outcome"
type_synonym ('p, 'x) middleware = "('p, 'x) handler \<Rightarrow> ('p, 'x) handler"

definition set_header :: "string \<Rightarrow> string \<Rightarrow> ('p, 'x) http \<Rightarrow> ('p, 'x) http" where
  "set_header k v c = c\<lparr>g_out := (g_out c)(k \<mapsto> v)\<rparr>"

text \<open>Writing: the status of the first write is the status of the response.\<close>

definition put :: "int \<Rightarrow> chunk \<Rightarrow> ('p, 'x) http \<Rightarrow> ('p, 'x) http" where
  "put status w c =
     c\<lparr>g_status := (if g_writes c = [] then status else g_status c), g_writes := g_writes c @ [w]\<rparr>"

text \<open>\<open>requestID\<close>, \<open>OK\<close> and \<open>Fail\<close>\<close>

definition requestID :: "('p, 'x) http \<Rightarrow> string" where
  "requestID c = g_request_id c"

definition OK :: "body \<Rightarrow> ('p, 'x) http \<Rightarrow> ('p, 'x) http" where
  "OK b c = put 200 (WJSON \<lparr>resp_Code = CodeOK, resp_Message = ''success'', resp_Body = b,
     resp_RequestID = requestID c\<rparr>) c"

definition reject :: "int \<Rightarrow> int \<Rightarrow> string \<Rightarrow> ('p, 'x) http \<Rightarrow> ('p, 'x) http" where
  "reject status code message c = put status (WJSON \<lparr>resp_Code = code, resp_Message = message,
     resp_Body = BNil, resp_RequestID = requestID c\<rparr>) c"

definition app_error :: "go_error \<Rightarrow> go_error" where
  "app_error err = (case errors_as err of Some e \<Rightarrow> e | None \<Rightarrow> Internal err)"

definition Fail :: "go_error \<Rightarrow> ('p, 'x) http \<Rightarrow> ('p, 'x) http" where
  "Fail err c = (let appErr = app_error err in
     reject (err_status appErr) (err_code appErr) (err_message appErr) c)"

section \<open>Bodies of requests\<close>

text \<open>\<open>http.MaxBytesReader\<close> and \<open>io.ReadAll\<close>\<close>

definition limit_body :: "int \<Rightarrow> string \<times> go_error option \<Rightarrow> string \<times> go_error option" where
  "limit_body n b = (if n < int (length (fst b))
     then (take (nat n) (fst b), Some (Plain ''http: request body too large'')) else b)"

definition ReadAll :: "string \<times> go_error option \<Rightarrow> go_error + string" where
  "ReadAll b = (case snd b of None \<Rightarrow> Inr (fst b) | Some e \<Rightarrow> Inl e)"

definition service_ctx :: "('p, 'x) http \<Rightarrow> ctx" where
  "service_ctx c = \<lparr>ctx_principal = x_principal c, ctx_err = x_err c\<rparr>"

lemma app_error_shape: "\<exists>c m st cause. app_error e = AppErr c m st cause"
  by (auto simp: app_error_def Internal_def split: option.splits dest: errors_as_shape)

lemma final_after: "final (after k r) = (case r of Done c \<Rightarrow> final (k c) | Panic c \<Rightarrow> c)"
  by (cases r) simp_all

lemma put_simps [simp]:
  "g_svc (put st w c) = g_svc c" "g_ext (put st w c) = g_ext c" "g_out (put st w c) = g_out c"
  "g_writes (put st w c) = g_writes c @ [w]" "g_request_id (put st w c) = g_request_id c"
  "g_metrics (put st w c) = g_metrics c" "g_log (put st w c) = g_log c"
  "x_principal (put st w c) = x_principal c" "g_FullPath (put st w c) = g_FullPath c"
  "g_Method (put st w c) = g_Method c" "g_header (put st w c) = g_header c"
  "g_status (put st w c) = (if g_writes c = [] then st else g_status c)"
  by (simp_all add: put_def)

lemma OK_svc [simp]: "g_svc (OK b c) = g_svc c" "g_out (OK b c) = g_out c"
  by (simp_all add: OK_def)

lemma reject_svc [simp]: "g_svc (reject st code m c) = g_svc c" "g_ext (reject st code m c) = g_ext c"
  "g_out (reject st code m c) = g_out c"
  by (simp_all add: reject_def)

lemma Fail_svc [simp]: "g_svc (Fail e c) = g_svc c" "g_ext (Fail e c) = g_ext c" "g_out (Fail e c) = g_out c"
  by (simp_all add: Fail_def Let_def)

end
