(* ===== verification/HttpMiddleware.thy ===== *)
theory HttpMiddleware
  imports HttpModel
begin

text \<open>
  \<open>internal/transport/http/middleware.go\<close> and \<open>pprofAuth\<close>: every middleware as a function from the rest
  of the chain to a handler. One that does not call the rest has aborted the request. Whatever the
  platform library, the clock or the random source answers is an argument.
\<close>

section \<open>Observers and headers\<close>

definition RequestID :: "go_error + string \<Rightarrow> int \<Rightarrow> ('p, 'x) middleware" where
  "RequestID random now next' c =
     (let given = g_header c ''X-Request-ID'';
          id' = (if \<not> Valid given then Generate random now else given)
      in next' (set_header ''X-Request-ID'' id'
           (c\<lparr>g_request_id := id', x_request_id := Some id'\<rparr>)))"

definition Environment :: "string \<Rightarrow> ('p, 'x) middleware" where
  "Environment profile next' c = next' (c\<lparr>g_environment := profile, x_environment := Some profile\<rparr>)"

definition RequestLogger :: "('p, 'x) middleware" where
  "RequestLogger next' c = after (\<lambda>c'. Done (c'\<lparr>g_log := g_log c' @
     [\<lparr>al_RequestID = requestID c', al_Method = g_Method c', al_Path = g_FullPath c',
       al_Status = g_status c'\<rparr>]\<rparr>)) (next' c)"

definition HTTPMetrics :: "bool \<Rightarrow> ('p, 'x) middleware" where
  "HTTPMetrics enabled next' c = after (\<lambda>c'.
     if \<not> enabled then Done c'
     else (let route = (if g_FullPath c' = [] then ''unmatched'' else g_FullPath c') in
       Done (c'\<lparr>g_metrics := g_metrics c' @
         [\<lparr>ob_Method = g_Method c', ob_Route = route, ob_Status = g_status c'\<rparr>]\<rparr>))) (next' c)"

text \<open>\<open>gin.CustomRecovery\<close> with the handler of the source. On a broken connection gin only aborts: the
  answer that the model writes then reaches nobody.\<close>

definition Recovery :: "('p, 'x) middleware" where
  "Recovery next' c =
     (case next' c of
        Done c' \<Rightarrow> Done c'
      | Panic c' \<Rightarrow> Done (reject 500 CodeInternal ''internal server error'' c'))"

definition Timeout :: "('p, 'x) middleware" where
  "Timeout next' c = after (\<lambda>c'.
     if g_expired c' \<and> g_writes c' = [] then Done (Fail RequestTimeout c') else Done c') (next' c)"

definition MaxBody :: "int \<Rightarrow> ('p, 'x) middleware" where
  "MaxBody limit next' c = next' (c\<lparr>g_body := limit_body limit (g_body c)\<rparr>)"

text \<open>\<open>mime.ParseMediaType\<close> is the argument \<open>parse\<close>.\<close>

definition RequireJSON :: "(string \<Rightarrow> go_error + string) \<Rightarrow> ('p, 'x) middleware" where
  "RequireJSON parse next' c =
     (if g_Method c = ''POST'' \<and> g_ContentLength c \<noteq> 0 \<and>
         parse (g_header c ''Content-Type'') \<noteq> Inr ''application/json''
      then Done (reject 415 CodeInvalidArgument ''content type must be application/json'' c)
      else next' c)"

definition squote :: "string \<Rightarrow> string" where
  "squote s = [CHR 0x27] @ s @ [CHR 0x27]"

definition security_headers :: "bool \<Rightarrow> (string \<times> string) list" where
  "security_headers tls =
     [(''X-Content-Type-Options'', ''nosniff''), (''X-Frame-Options'', ''DENY''),
      (''Referrer-Policy'', ''no-referrer''),
      (''Content-Security-Policy'',
       ''default-src '' @ squote ''none'' @ ''; frame-ancestors '' @ squote ''none''),
      (''Cache-Control'', ''no-store'')]
     @ (if tls then [(''Strict-Transport-Security'', ''max-age=31536000; includeSubDomains'')] else [])"

definition SecurityHeaders :: "('p, 'x) middleware" where
  "SecurityHeaders next' c = next' (fold (\<lambda>(k, v). set_header k v) (security_headers (g_TLS c)) c)"

section \<open>Cross-origin requests\<close>

text \<open>\<open>int(d.Seconds())\<close>: two roundings to float64, then truncation.\<close>

definition whole_seconds :: "Duration \<Rightarrow> int" where
  "whole_seconds d =
     (let s = nat (\<bar>d\<bar> div 1000000000); ns = nat (\<bar>d\<bar> mod 1000000000) in
      (case round64 False ns 1000000000 of
         None \<Rightarrow> 0
       | Some f \<Rightarrow>
           (let k = 2 ^ nat (- f_exp f) in
            (case round64 False (s * k + f_mant f) k of
               None \<Rightarrow> 0
             | Some g \<Rightarrow> (if d < 0 then -1 else 1) *
                 int (f_mant g * 2 ^ nat (f_exp g) div 2 ^ nat (- f_exp g))))))"

definition comma_join :: "string list \<Rightarrow> string" where
  "comma_join xs = sep_by '', '' xs"

definition CORS :: "CORS \<Rightarrow> ('p, 'x) middleware" where
  "CORS cfg next' c =
     (if \<not> cors_Enabled cfg then next' c
      else (let origin = g_header c ''Origin'' in
        if origin = [] then next' c
        else if origin \<notin> set (cors_AllowedOrigins cfg)
        then Done (reject 403 CodeForbidden ''origin is not allowed'' c)
        else (let c' = fold (\<lambda>(k, v). set_header k v)
            [(''Access-Control-Allow-Origin'', origin), (''Vary'', ''Origin''),
             (''Access-Control-Allow-Methods'', ''POST, GET, OPTIONS''),
             (''Access-Control-Allow-Headers'', comma_join (cors_AllowedHeaders cfg)),
             (''Access-Control-Expose-Headers'', comma_join (cors_ExposedHeaders cfg)),
             (''Access-Control-Max-Age'', int_str (whole_seconds (cors_MaxAge cfg)))] c in
          if g_Method c = ''OPTIONS'' then Done (put 204 WStatus c') else next' c')))"

section \<open>Idempotency\<close>

text \<open>\<open>idempotency.Valid\<close> of the platform library is the argument \<open>ok\<close>.\<close>

definition IdempotencyKey :: "(string \<Rightarrow> bool) \<Rightarrow> ('p, 'x) middleware" where
  "IdempotencyKey ok next' c =
     (let key = g_header c ''Idempotency-Key'' in
      if key = [] then next' c
      else if \<not> ok key then Done (Fail (Invalid ''invalid Idempotency-Key'' None) c)
      else next' (set_header ''Idempotency-Key'' key (c\<lparr>x_idempotency_key := Some key\<rparr>)))"

datatype idem_state =
    StateAcquired | StateProcessing | StateCompleted | StateFailed | StateConflict | StateUnknown string

record Failure =
  fl_Code :: int
  fl_Message :: string
  fl_HTTPStatus :: int

text \<open>A decision of the manager; the stored response as decoding its bytes yields it.\<close>

record Decision =
  de_State :: idem_state
  de_Owner :: string
  de_Response :: "go_error + Response"
  de_Failure :: Failure

text \<open>The manager of the platform library over the state of Redis.\<close>

record 'x Manager =
  im_Enabled :: bool
  im_Begin :: "string \<Rightarrow> string \<Rightarrow> 'x \<Rightarrow> (go_error + Decision) \<times> 'x"
  im_Complete :: "string \<Rightarrow> string \<Rightarrow> Response \<Rightarrow> 'x \<Rightarrow> go_error option \<times> 'x"
  im_Fail :: "string \<Rightarrow> string \<Rightarrow> Failure \<Rightarrow> 'x \<Rightarrow> go_error option \<times> 'x"

text \<open>The fingerprint reads the body and puts it back. \<open>fmt.Sprint(nil)\<close> is \<open><nil>\<close>.\<close>

definition idempotencyFingerprint :: "('p, 'x) http \<Rightarrow> go_error + string \<times> ('p, 'x) http" where
  "idempotencyFingerprint c =
     (case ReadAll (g_body c) of
        Inl err \<Rightarrow> Inl err
      | Inr body \<Rightarrow>
          (let subject = (case g_subject c of Some s \<Rightarrow> s | None \<Rightarrow> ''<nil>'')
           in Inr (sha256_hex (subject @ [CHR 0x00] @ g_Method c @ [CHR 0x00] @ g_FullPath c @ [CHR 0x00] @ body),
                   c\<lparr>g_body := (body, None)\<rparr>)))"

text \<open>\<open>responseCapture\<close>: the JSON written since the capture began, decoded; one document or an error.
  \<open>decoded\<close> is the value a body has after it was decoded from its own JSON text.\<close>

definition captured_response :: "(body \<Rightarrow> body) \<Rightarrow> nat \<Rightarrow> ('p, 'x) http \<Rightarrow> Response option" where
  "captured_response decoded before c =
     (case filter (\<lambda>w. w \<noteq> WStatus) (drop before (g_writes c)) of
        [WJSON r] \<Rightarrow> Some (r\<lparr>resp_Body := decoded (resp_Body r)\<rparr>)
      | _ \<Rightarrow> None)"

definition persist_result ::
  "'x Manager \<Rightarrow> (body \<Rightarrow> body) \<Rightarrow> string \<Rightarrow> string \<Rightarrow> nat \<Rightarrow> ('p, 'x) http \<Rightarrow> ('p, 'x) http" where
  "persist_result manager decoded key owner before c =
     (case captured_response decoded before c of
        None \<Rightarrow> c
      | Some response \<Rightarrow>
          (if 400 \<le> g_status c
           then c\<lparr>g_ext := snd (im_Fail manager key owner
                  \<lparr>fl_Code = resp_Code response, fl_Message = resp_Message response,
                   fl_HTTPStatus = g_status c\<rparr> (g_ext c))\<rparr>
           else c\<lparr>g_ext := snd (im_Complete manager key owner (response\<lparr>resp_RequestID := []\<rparr>) (g_ext c))\<rparr>))"

definition IdempotencyExecution ::
  "'x Manager option \<Rightarrow> (body \<Rightarrow> body) \<Rightarrow> string list \<Rightarrow> ('p, 'x) middleware" where
  "IdempotencyExecution manager decoded paths next' c =
     (case (x_idempotency_key c, manager) of
        (Some key, Some m) \<Rightarrow>
          if \<not> im_Enabled m \<or> g_Method c \<noteq> ''POST'' \<or> \<not> MatchesAny (g_FullPath c) paths then next' c
          else (case idempotencyFingerprint c of
              Inl err \<Rightarrow> Done (Fail (Invalid ''read idempotent request'' (Some err)) c)
            | Inr (fingerprint, c1) \<Rightarrow>
          (case im_Begin m key fingerprint (g_ext c1) of
              (Inl err, x) \<Rightarrow> Done (Fail (Unavailable ''idempotency is unavailable'' (Some err)) (c1\<lparr>g_ext := x\<rparr>))
            | (Inr decision, x) \<Rightarrow>
          (let c2 = c1\<lparr>g_ext := x\<rparr> in
           case de_State decision of
              StateCompleted \<Rightarrow>
                (case de_Response decision of
                   Inl err \<Rightarrow> Done (Fail (Unavailable ''idempotency response is unavailable'' (Some err)) c2)
                 | Inr response \<Rightarrow> Done (put 200 (WJSON (response\<lparr>resp_RequestID := requestID c2\<rparr>)) c2))
            | StateFailed \<Rightarrow>
                Done (reject (fl_HTTPStatus (de_Failure decision)) (fl_Code (de_Failure decision))
                  (fl_Message (de_Failure decision)) c2)
            | StateProcessing \<Rightarrow> Done (Fail RequestInProgress c2)
            | StateConflict \<Rightarrow>
                Done (Fail (Conflict ''idempotency key belongs to a different request'' None) c2)
            | StateAcquired \<Rightarrow>
                after (\<lambda>c'. Done (persist_result m decoded key (de_Owner decision) (length (g_writes c2)) c'))
                  (next' c2)
            | StateUnknown s \<Rightarrow> Done (Fail (Unavailable ''idempotency state is invalid'' None) c2))))
      | _ \<Rightarrow> next' c)"

section \<open>Rate limits\<close>

text \<open>\<open>Duration.Round(time.Second) / time.Second\<close> on a non-negative duration.\<close>

definition rounded_seconds :: "Duration \<Rightarrow> int" where
  "rounded_seconds d =
     (let r = d mod 1000000000 in
      if 2 * r < 1000000000 then (d - r) div 1000000000
      else if d + (1000000000 - r) \<le> max_i64 then (d + (1000000000 - r)) div 1000000000
      else max_i64 div 1000000000)"

text \<open>Below zero \<open>Round\<close> and the division both truncate towards a result that is not positive, and the
  answer is 1.\<close>

definition retry_after :: "Duration \<Rightarrow> int" where
  "retry_after d = max 1 (if d < 0 then 0 else rounded_seconds d)"

definition RateLimit ::
  "'x Limiter \<Rightarrow> RateLimitRule \<Rightarrow> string \<Rightarrow> (('p, 'x) http \<Rightarrow> string) \<Rightarrow> ('p, 'x) middleware" where
  "RateLimit limiter rule dimension keyFunc next' c =
     (if \<not> lim_enabled limiter then next' c
      else (let key = keyFunc c in
        if key = [] then next' c
        else (case Allow limiter (''rate:'' @ dimension @ '':'' @ key) rule (g_ext c) of
            (Inl err, x) \<Rightarrow>
              if lim_failOpen limiter then next' (c\<lparr>g_ext := x\<rparr>)
              else Done (Fail (Unavailable ''rate limiter unavailable'' (Some err)) (c\<lparr>g_ext := x\<rparr>))
          | (Inr result, x) \<Rightarrow>
              (let c' = set_header ''X-RateLimit-Remaining'' (int_str (lr_Remaining result))
                   (set_header ''X-RateLimit-Limit'' (int_str (lr_Limit result)) (c\<lparr>g_ext := x\<rparr>))
               in if \<not> lr_Allowed result
                  then Done (Fail TooManyRequests
                    (set_header ''Retry-After'' (int_str (retry_after (lr_RetryAfter result))) c'))
                  else next' c'))))"

section \<open>Authentication and authorization\<close>

text \<open>The token of an \<open>Authorization: Bearer\<close> header.\<close>

definition bearer :: "string \<Rightarrow> string option" where
  "bearer header =
     (let (scheme, raw, ok) = Cut header (CHR '' '') in
      if \<not> ok \<or> \<not> EqualFold scheme ''Bearer'' \<or> raw = [] then None else Some raw)"

text \<open>\<open>verify\<close> is \<open>Service.Verify\<close> at the time of the request.\<close>

definition JWT :: "(string \<Rightarrow> go_error + principal) \<Rightarrow> ('p, 'x) middleware" where
  "JWT verify next' c =
     (let header = g_header c ''Authorization'' in
      case bearer header of
        None \<Rightarrow> Done (Fail (Unauthorized ''missing bearer token'') c)
      | Some raw \<Rightarrow>
          (case verify raw of
             Inl err \<Rightarrow> Done (Fail (Unauthorized ''invalid or expired token'') c)
           | Inr identity \<Rightarrow>
               next' (c\<lparr>g_subject := Some (p_ID identity), x_principal := Some identity,
                       x_credential := Some header\<rparr>)))"

definition psk_principal :: principal where
  "psk_principal = \<lparr>p_ID = ''rule-service:psk'', p_Type = TypeServiceAccount, p_TenantID = []\<rparr>"

definition Authentication :: "(string \<Rightarrow> go_error + principal) \<Rightarrow> Auth \<Rightarrow> ('p, 'x) middleware" where
  "Authentication verify cfg next' c =
     (if psk_Enabled (auth_PSK cfg) \<and> MatchesAny (g_FullPath c) (psk_HTTPPaths (auth_PSK cfg)) then
        (if \<not> VerifyPSK (g_header c ''Authorization'') (psk_Key (auth_PSK cfg))
         then Done (Fail (Unauthorized ''missing or invalid PSK'') c)
         else next' (c\<lparr>g_subject := Some ''psk'', x_principal := Some psk_principal,
                      x_credential := Some (g_header c ''Authorization'')\<rparr>))
      else if MatchesAny (g_FullPath c) (auth_SkipHTTPPaths cfg) then next' c
      else JWT verify next' c)"

datatype scope = ScopePrincipal

record Requirement =
  rq_Resource :: string
  rq_Action :: string
  rq_Scope :: scope

definition requirement :: "string \<Rightarrow> string \<Rightarrow> Requirement" where
  "requirement resource action = \<lparr>rq_Resource = resource, rq_Action = action, rq_Scope = ScopePrincipal\<rparr>"

definition ruleHTTPRequirement :: "string \<Rightarrow> Requirement option" where
  "ruleHTTPRequirement route = map_of
     [(''/api/v1/rule-sets/create'', requirement ''rule.set'' ''create''),
      (''/api/v1/rule-sets/update'', requirement ''rule.set'' ''update''),
      (''/api/v1/rule-sets/get'', requirement ''rule.set'' ''read''),
      (''/api/v1/rule-sets/list'', requirement ''rule.set'' ''list''),
      (''/api/v1/rule-versions/create'', requirement ''rule.version'' ''create''),
      (''/api/v1/rule-versions/validate'', requirement ''rule.version'' ''validate''),
      (''/api/v1/rule-versions/publish'', requirement ''rule.version'' ''publish''),
      (''/api/v1/rule-versions/get'', requirement ''rule.version'' ''read''),
      (''/api/v1/rule-versions/list'', requirement ''rule.version'' ''list''),
      (''/api/v1/rules/evaluate'', requirement ''rule.evaluation'' ''execute''),
      (''/api/v1/rules/evaluate-batch'', requirement ''rule.evaluation'' ''execute'')] route"

text \<open>\<open>platformauthz.Enforce\<close> on the caller and its credential is the argument \<open>enforce\<close>.\<close>

type_synonym enforcer = "principal option \<Rightarrow> string option \<Rightarrow> Requirement \<Rightarrow> go_error option"

definition Authorization :: "bool \<Rightarrow> enforcer \<Rightarrow> ('p, 'x) middleware" where
  "Authorization enabled enforce next' c =
     (case ruleHTTPRequirement (g_FullPath c) of
        None \<Rightarrow> next' c
      | Some req \<Rightarrow>
          if \<not> enabled then next' c
          else (case enforce (x_principal c) (x_credential c) req of
              None \<Rightarrow> next' c
            | Some err \<Rightarrow>
                if errors_is err ErrDecisionUnavailable
                then Done (Fail (Unavailable ''authorization decision is unavailable'' (Some err)) c)
                else Done (Fail (Forbidden ''permission denied'') c)))"

text \<open>\<open>pprofAuth\<close> of \<open>server.go\<close>\<close>

definition pprofAuth :: "string \<Rightarrow> ('p, 'x) middleware" where
  "pprofAuth expected next' c =
     (let (scheme, token, ok) = Cut (g_header c ''Authorization'') (CHR '' '') in
      if \<not> ok \<or> \<not> EqualFold scheme ''Bearer'' \<or> token \<noteq> expected then Done (put 401 WStatus c)
      else next' c)"

end
