(* ===== verification/HttpServer.thy ===== *)
theory HttpServer
  imports HttpMiddleware
begin

text \<open>
  The handlers of \<open>handler.go\<close> and the router of \<open>NewServer\<close>. \<open>gin\<close>'s JSON binding is one decoder per
  request body; the service environment of the \<open>i\<close>-th call a request makes is \<open>he_service E i\<close>.
\<close>

type_synonym 'r json_bind = "string \<times> go_error option \<Rightarrow> go_error + 'r"

record bindings =
  bd_CreateRuleSet :: "CreateRuleSetRequest json_bind"
  bd_UpdateRuleSet :: "UpdateRuleSetRequest json_bind"
  bd_GetRuleSet :: "GetRuleSetRequest json_bind"
  bd_ListRuleSets :: "PageRequest json_bind"
  bd_CreateRuleVersion :: "CreateRuleVersionRequest json_bind"
  bd_ValidateRuleVersion :: "ValidateRuleVersionRequest json_bind"
  bd_PublishRuleVersion :: "PublishRuleVersionRequest json_bind"
  bd_GetRuleVersion :: "GetRuleVersionRequest json_bind"
  bd_ListRuleVersions :: "ListRuleVersionsRequest json_bind"
  bd_Evaluate :: "EvaluateRequest json_bind"
  bd_BatchEvaluate :: "BatchEvaluateRequest json_bind"

record ('c, 'p, 'x) http_env =
  he_cfg :: Config
  he_random :: "go_error + string"
  he_now :: int
  he_otel :: "('p, 'x) middleware"
  he_parse_media :: "string \<Rightarrow> go_error + string"
  he_idem_valid :: "string \<Rightarrow> bool"
  he_manager :: "'x Manager option"
  he_decoded :: "body \<Rightarrow> body"
  he_limiter :: "'x Limiter"
  he_verify :: "string \<Rightarrow> go_error + principal"
  he_enforce :: enforcer
  he_service :: "nat \<Rightarrow> ('c, 'p) svc_env"
  he_bindings :: bindings
  he_db_ping :: "(string \<times> go_error option) option"
  he_redis_ping :: "(string \<times> go_error option) option"
  he_redis_first :: bool
  he_info :: Info
  he_metrics_page :: "('p, 'x) handler"
  he_swagger :: "('p, 'x) handler"
  he_pprof :: "string \<Rightarrow> ('p, 'x) handler"

section \<open>Handlers\<close>

definition bind_json :: "'r json_bind \<Rightarrow> ('r \<Rightarrow> ('p, 'x) handler) \<Rightarrow> ('p, 'x) handler" where
  "bind_json dec k c =
     (case dec (g_body c) of
        Inl err \<Rightarrow> Done (Fail (Invalid ''invalid JSON request'' (Some err)) c)
      | Inr r \<Rightarrow> k r c)"

text \<open>One call of the service: its error through \<open>Fail\<close>, its value through \<open>OK\<close>.\<close>

definition respond ::
  "(ctx \<Rightarrow> 'p svc_state \<Rightarrow> (go_error + 'v) \<times> 'p svc_state) \<Rightarrow> ('v \<Rightarrow> body) \<Rightarrow> ('p, 'x) handler" where
  "respond operation view c =
     (case operation (service_ctx c) (g_svc c) of
        (Inl e, s) \<Rightarrow> Done (Fail e (c\<lparr>g_svc := s\<rparr>))
      | (Inr v, s) \<Rightarrow> Done (OK (view v) (c\<lparr>g_svc := s\<rparr>)))"

definition handle_Live :: "('p, 'x) handler" where
  "handle_Live c = Done (OK (BStatus Live_status) c)"

definition handle_Ready :: "('c, 'p, 'x) http_env \<Rightarrow> ('p, 'x) handler" where
  "handle_Ready E c =
     (let (status, ready) = Ready_status (he_db_ping E) (he_redis_ping E) (he_redis_first E) in
      if \<not> ready
      then Done (put 503 (WJSON \<lparr>resp_Code = CodeDependencyUnavailable, resp_Message = ''service is not ready'',
             resp_Body = BStatus status, resp_RequestID = requestID c\<rparr>) c)
      else Done (OK (BStatus status) c))"

definition handle_Me :: "('p, 'x) handler" where
  "handle_Me c = Done (OK (BSubject (g_subject c)) c)"

definition handle_Version :: "('c, 'p, 'x) http_env \<Rightarrow> ('p, 'x) handler" where
  "handle_Version E c = Done (OK (BInfo (he_info E)) c)"

definition handle_CreateRuleSet :: "('c, 'p, 'x) http_env \<Rightarrow> ('p, 'x) handler" where
  "handle_CreateRuleSet E = bind_json (bd_CreateRuleSet (he_bindings E)) (\<lambda>r.
     respond (\<lambda>x. CreateRuleSet (he_service E 0) x (qcs_TenantID r) (qcs_ApplicationID r) (qcs_Code r)
         (qcs_Name r) (qcs_Description r))
       (\<lambda>v. BRuleSet (ruleSetView v)))"

definition handle_UpdateRuleSet :: "('c, 'p, 'x) http_env \<Rightarrow> ('p, 'x) handler" where
  "handle_UpdateRuleSet E = bind_json (bd_UpdateRuleSet (he_bindings E)) (\<lambda>r.
     respond (\<lambda>x. UpdateRuleSet (he_service E 0) x (qus_TenantID r) (qus_ApplicationID r) (qus_ID r)
         (qus_Name r) (qus_Description r) (qus_Status r) (qus_Version r))
       (\<lambda>v. BRuleSet (ruleSetView v)))"

definition handle_GetRuleSet :: "('c, 'p, 'x) http_env \<Rightarrow> ('p, 'x) handler" where
  "handle_GetRuleSet E = bind_json (bd_GetRuleSet (he_bindings E)) (\<lambda>r.
     respond (\<lambda>x. GetRuleSet (he_service E 0) x (qgs_TenantID r) (qgs_ApplicationID r) (qgs_ID r) (qgs_Code r))
       (\<lambda>(v, p). BRuleSetDetail \<lparr>sd_RuleSet = ruleSetView v,
          sd_PublishedVersion = map_option ruleVersionView p\<rparr>))"

definition handle_ListRuleSets :: "('c, 'p, 'x) http_env \<Rightarrow> ('p, 'x) handler" where
  "handle_ListRuleSets E = bind_json (bd_ListRuleSets (he_bindings E)) (\<lambda>r.
     respond (\<lambda>x. ListRuleSets (he_service E 0) x (qp_TenantID r) (qp_ApplicationID r) (qp_Status r)
         (qp_Keyword r) (qp_Page r) (qp_PageSize r))
       (\<lambda>v. BRuleSetPage \<lparr>sp_Items = map ruleSetView (Items v), sp_Total = Total v,
          sp_Page = PageNumber v, sp_PageSize = PageSize v\<rparr>))"

definition handle_CreateRuleVersion :: "('c, 'p, 'x) http_env \<Rightarrow> ('p, 'x) handler" where
  "handle_CreateRuleVersion E = bind_json (bd_CreateRuleVersion (he_bindings E)) (\<lambda>r.
     respond (\<lambda>x. CreateRuleVersion (he_service E 0) x (qcv_TenantID r) (qcv_ApplicationID r)
         (qcv_RuleSetID r) (qcv_Definition r) (qcv_IdempotencyKey r) (qcv_RuleSetVersion r))
       (\<lambda>(v, d). BCreateRuleVersion \<lparr>cb_RuleVersion = ruleVersionView v, cb_Duplicate = (\<not> d)\<rparr>))"

definition handle_ValidateRuleVersion :: "('c, 'p, 'x) http_env \<Rightarrow> ('p, 'x) handler" where
  "handle_ValidateRuleVersion E = bind_json (bd_ValidateRuleVersion (he_bindings E)) (\<lambda>r.
     respond (\<lambda>x. ValidateRuleVersion (he_service E 0) x (qvv_TenantID r) (qvv_ApplicationID r)
         (qvv_Definition r))
       (\<lambda>(checksum, issues). BValidateRuleVersion \<lparr>vb_Valid = (issues = []),
          vb_Issues = map (\<lambda>i. \<lparr>ib_Path = Path i, ib_Code = Code i, ib_Message = Message i\<rparr>) issues,
          vb_Checksum = checksum\<rparr>))"

definition handle_PublishRuleVersion :: "('c, 'p, 'x) http_env \<Rightarrow> ('p, 'x) handler" where
  "handle_PublishRuleVersion E = bind_json (bd_PublishRuleVersion (he_bindings E)) (\<lambda>r.
     respond (\<lambda>x. PublishRuleVersion (he_service E 0) x (qpv_TenantID r) (qpv_ApplicationID r)
         (qpv_RuleSetID r) (qpv_RuleVersionID r) (qpv_RuleSetVersion r) (qpv_RuleVersionVersion r))
       (\<lambda>(set', v). BPublishRuleVersion \<lparr>pub_RuleSet = ruleSetView set', pub_RuleVersion = ruleVersionView v\<rparr>))"

definition handle_GetRuleVersion :: "('c, 'p, 'x) http_env \<Rightarrow> ('p, 'x) handler" where
  "handle_GetRuleVersion E = bind_json (bd_GetRuleVersion (he_bindings E)) (\<lambda>r.
     respond (\<lambda>x. GetRuleVersion (he_service E 0) x (qgv_TenantID r) (qgv_ApplicationID r)
         (qgv_RuleSetID r) (qgv_ID r))
       (\<lambda>v. BRuleVersion (ruleVersionView v)))"

definition handle_ListRuleVersions :: "('c, 'p, 'x) http_env \<Rightarrow> ('p, 'x) handler" where
  "handle_ListRuleVersions E = bind_json (bd_ListRuleVersions (he_bindings E)) (\<lambda>r.
     respond (\<lambda>x. ListRuleVersions (he_service E 0) x (qlv_TenantID r) (qlv_ApplicationID r)
         (qlv_RuleSetID r) (qlv_Status r) (qlv_Page r) (qlv_PageSize r))
       (\<lambda>v. BRuleVersionPage \<lparr>vp_Items = map ruleVersionView (Items v), vp_Total = Total v,
          vp_Page = PageNumber v, vp_PageSize = PageSize v\<rparr>))"

definition handle_Evaluate :: "('c, 'p, 'x) http_env \<Rightarrow> ('p, 'x) handler" where
  "handle_Evaluate E = bind_json (bd_Evaluate (he_bindings E)) (\<lambda>r.
     respond (\<lambda>x. Evaluate (he_service E 0) x (qev_TenantID r) (qev_ApplicationID r) (qev_RuleSetID r)
         (qev_RuleSetCode r) (qev_VersionNumber r) (qev_Facts r))
       (\<lambda>(v, version). BEvaluate (evaluationResponse v version)))"

definition evaluation_input :: "EvaluateRequest \<Rightarrow> EvaluationInput" where
  "evaluation_input item =
     \<lparr>in_TenantID = qev_TenantID item, in_ApplicationID = qev_ApplicationID item,
      in_RuleSetID = qev_RuleSetID item, in_RuleSetCode = qev_RuleSetCode item,
      in_VersionNumber = qev_VersionNumber item, in_FactsJSON = qev_Facts item\<rparr>"

definition batch_item :: "BatchEvaluationResult \<Rightarrow> BatchEvaluateResult" where
  "batch_item result =
     (case be_Outcome result of
        Inr (evaluation, version) \<Rightarrow>
          \<lparr>br_Index = int (be_Index result), br_Response = Some (evaluationResponse evaluation version),
           br_ErrorCode = 0, br_ErrorMessage = []\<rparr>
      | Inl err \<Rightarrow>
          (case errors_as err of
             Some appErr \<Rightarrow> \<lparr>br_Index = int (be_Index result), br_Response = None,
                 br_ErrorCode = err_code appErr, br_ErrorMessage = err_message appErr\<rparr>
           | None \<Rightarrow> \<lparr>br_Index = int (be_Index result), br_Response = None,
                 br_ErrorCode = CodeInternal, br_ErrorMessage = ''internal server error''\<rparr>))"

definition handle_BatchEvaluate :: "('c, 'p, 'x) http_env \<Rightarrow> ('p, 'x) handler" where
  "handle_BatchEvaluate E = bind_json (bd_BatchEvaluate (he_bindings E)) (\<lambda>request.
     respond (\<lambda>x. BatchEvaluate (he_service E) x (map evaluation_input (qbe_Requests request)))
       (\<lambda>results. BBatchEvaluate \<lparr>bs_Results = map batch_item results\<rparr>))"

section \<open>Router\<close>

text \<open>The middleware of the engine and of the group \<open>/api/v1\<close>, outermost first.\<close>

definition chain :: "('p, 'x) middleware list \<Rightarrow> ('p, 'x) handler \<Rightarrow> ('p, 'x) handler" where
  "chain ms h = foldr (\<lambda>m n. m n) ms h"

definition engine_chain :: "('c, 'p, 'x) http_env \<Rightarrow> ('p, 'x) middleware list" where
  "engine_chain E =
     [RequestID (he_random E) (he_now E), IdempotencyKey (he_idem_valid E),
      Environment (rt_ActiveProfile (cfg_Runtime (he_cfg E))), he_otel E, RequestLogger, Recovery,
      HTTPMetrics (obs_MetricsEnabled (cfg_Observability (he_cfg E))), SecurityHeaders,
      CORS (http_CORS (cfg_HTTP (he_cfg E))), MaxBody (http_MaxBodyBytes (cfg_HTTP (he_cfg E))),
      Timeout, RequireJSON (he_parse_media E)]"

definition subject_key :: "('p, 'x) http \<Rightarrow> string" where
  "subject_key c = (case g_subject c of Some s \<Rightarrow> s | None \<Rightarrow> [])"

definition api_chain :: "('c, 'p, 'x) http_env \<Rightarrow> ('p, 'x) middleware list" where
  "api_chain E =
     [RateLimit (he_limiter E) (rl_IP (cfg_RateLimit (he_cfg E))) ''ip'' g_ClientIP,
      RateLimit (he_limiter E) (rl_API (cfg_RateLimit (he_cfg E))) ''api'' g_FullPath,
      Authentication (he_verify E) (cfg_Auth (he_cfg E)),
      Authorization (authz_Enabled (cfg_Authorization (he_cfg E))) (he_enforce E),
      RateLimit (he_limiter E) (rl_User (cfg_RateLimit (he_cfg E))) ''user'' subject_key,
      IdempotencyExecution (he_manager E) (he_decoded E) (idem_HTTPPaths (cfg_Idempotency (he_cfg E)))]"

definition api_routes :: "('c, 'p, 'x) http_env \<Rightarrow> (string \<times> ('p, 'x) handler) list" where
  "api_routes E =
     [(''/version'', handle_Version E), (''/me'', handle_Me),
      (''/rule-sets/create'', handle_CreateRuleSet E), (''/rule-sets/update'', handle_UpdateRuleSet E),
      (''/rule-sets/get'', handle_GetRuleSet E), (''/rule-sets/list'', handle_ListRuleSets E),
      (''/rule-versions/create'', handle_CreateRuleVersion E),
      (''/rule-versions/validate'', handle_ValidateRuleVersion E),
      (''/rule-versions/publish'', handle_PublishRuleVersion E),
      (''/rule-versions/get'', handle_GetRuleVersion E), (''/rule-versions/list'', handle_ListRuleVersions E),
      (''/rules/evaluate'', handle_Evaluate E), (''/rules/evaluate-batch'', handle_BatchEvaluate E)]"

definition pprof_routes :: "(string \<times> string) list" where
  "pprof_routes =
     [(''GET'', ''/''), (''GET'', ''/cmdline''), (''GET'', ''/profile''), (''POST'', ''/symbol''),
      (''GET'', ''/symbol''), (''GET'', ''/trace'')]
     @ map (\<lambda>p. (''GET'', ''/'' @ p)) [''allocs'', ''block'', ''goroutine'', ''heap'', ''mutex'', ''threadcreate'']"

definition routes :: "('c, 'p, 'x) http_env \<Rightarrow> ((string \<times> string) \<times> ('p, 'x) handler) list" where
  "routes E =
     concat (map (\<lambda>m. [((m, ''/live''), handle_Live), ((m, ''/ready''), handle_Ready E)]) [''GET'', ''POST''])
     @ (if obs_MetricsEnabled (cfg_Observability (he_cfg E))
        then [((''GET'', ''/metrics''), he_metrics_page E)] else [])
     @ (if obs_PprofEnabled (cfg_Observability (he_cfg E))
        then map (\<lambda>(m, p). ((m, ''/debug/pprof'' @ p),
               pprofAuth (obs_PprofToken (cfg_Observability (he_cfg E))) (he_pprof E p))) pprof_routes
        else [])
     @ (if swagger_Enabled (cfg_Swagger (he_cfg E))
        then [((''GET'', ''/swagger/*any''),
               if swagger_RequireAuth (cfg_Swagger (he_cfg E)) then JWT (he_verify E) (he_swagger E)
               else he_swagger E)]
        else [])
     @ map (\<lambda>(p, h). ((''POST'', ''/api/v1'' @ p), chain (api_chain E) h)) (api_routes E)"

text \<open>A request is dispatched on its method and the route template \<open>gin\<close> matched; none gives the
  default answer. Gin redirects a path with a superfluous or missing trailing slash before any middleware runs, and
  writes the default answer to an unknown path after the chain; here an unknown path is a handler.\<close>

definition dispatch :: "('c, 'p, 'x) http_env \<Rightarrow> ('p, 'x) handler" where
  "dispatch E c =
     (case map_of (routes E) (g_Method c, g_FullPath c) of
        Some h \<Rightarrow> h c
      | None \<Rightarrow> Done (put 404 (WText ''404 page not found'') c))"

definition serve :: "('c, 'p, 'x) http_env \<Rightarrow> ('p, 'x) handler" where
  "serve E = chain (engine_chain E) (dispatch E)"

end
