(* ===== verification/HttpLaws.thy ===== *)
theory HttpLaws
  imports HttpServer ServiceErrors
begin

text \<open>
  The contract every middleware keeps towards the rule service: it leaves the service's state alone and
  runs the rest of the chain at most once, on a context that a relation describes. The locale
  \<open>guard\<close> states it; it is interpreted for every middleware of the router, and the whole chain is a
  guard because guards compose.
\<close>

section \<open>The contract\<close>

definition carry :: "('p, 'x) http \<Rightarrow> ('p, 'x) http \<Rightarrow> bool" where
  "carry c c' \<longleftrightarrow> g_svc c' = g_svc c \<and> g_Method c' = g_Method c \<and> g_FullPath c' = g_FullPath c
     \<and> g_header c' = g_header c \<and> x_principal c' = x_principal c \<and> x_credential c' = x_credential c"

lemma carry_refl [simp]: "carry c c"
  by (simp add: carry_def)

lemma carry_trans: "carry a b \<Longrightarrow> carry b c \<Longrightarrow> carry a c"
  by (simp add: carry_def)

text \<open>Against the rest \<open>h\<close> of the chain, a result either left the service alone or is, for the service,
  the result of running \<open>h\<close> once on a context the relation allows.\<close>

definition step_ok ::
  "(('p, 'x) http \<Rightarrow> ('p, 'x) http \<Rightarrow> bool) \<Rightarrow> ('p, 'x) handler \<Rightarrow> ('p, 'x) http \<Rightarrow> ('p, 'x) http outcome \<Rightarrow> bool" where
  "step_ok sees h c r \<longleftrightarrow> g_svc (final r) = g_svc c \<or>
     (\<exists>c'. sees c c' \<and> g_svc (final r) = g_svc (final (h c')))"

locale guard =
  fixes m :: "(('p, 'x) http \<Rightarrow> ('p, 'x) http outcome) \<Rightarrow> ('p, 'x) http \<Rightarrow> ('p, 'x) http outcome"
    and sees :: "('p, 'x) http \<Rightarrow> ('p, 'x) http \<Rightarrow> bool"
  assumes once: "step_ok sees h c (m h c)"
    and leaves: "sees c c' \<Longrightarrow> g_svc c' = g_svc c"
begin

text \<open>If a request changes the service, the rest of the chain did, on a context the guard let through.\<close>

lemma change: "g_svc (final (m h c)) \<noteq> g_svc c \<Longrightarrow> \<exists>c'. sees c c' \<and> g_svc (final (h c')) \<noteq> g_svc c'"
  using once [of h c] leaves unfolding step_ok_def by metis

end

lemma step_Done: "g_svc c' = g_svc c \<Longrightarrow> step_ok sees h c (Done c')"
  by (simp add: step_ok_def)

lemma step_call: "sees c c' \<Longrightarrow> step_ok sees h c (h c')"
  by (auto simp: step_ok_def)

lemma step_after: "step_ok sees h c r \<Longrightarrow> (\<And>d. g_svc (final (k d)) = g_svc d) \<Longrightarrow> step_ok sees h c (after k r)"
  by (cases r) (simp_all add: step_ok_def)

lemma guard_comp: "guard m s \<Longrightarrow> guard n t \<Longrightarrow> guard (\<lambda>h. m (n h)) (s OO t)"
proof
  fix h c
  assume m: "guard m s" and n: "guard n t"
  show "step_ok (s OO t) h c (m (n h) c)"
  proof (cases "g_svc (final (m (n h) c)) = g_svc c")
    case False
    then obtain c1 where c1: "s c c1" "g_svc (final (m (n h) c)) = g_svc (final (n h c1))"
      using guard.once [OF m, of "n h" c] by (auto simp: step_ok_def)
    have "g_svc c1 = g_svc c" using guard.leaves [OF m c1(1)] .
    with False c1 guard.once [OF n, of h c1] show ?thesis by (auto simp: step_ok_def)
  qed (simp add: step_ok_def)
next
  fix c c'
  assume m: "guard m s" and n: "guard n t" and "(s OO t) c c'"
  then show "g_svc c' = g_svc c" using guard.leaves [OF m] guard.leaves [OF n] by auto
qed

lemma guard_weaken: "guard m s \<Longrightarrow> (\<And>c c'. s c c' \<Longrightarrow> t c c') \<Longrightarrow> (\<And>c c'. t c c' \<Longrightarrow> g_svc c' = g_svc c) \<Longrightarrow> guard m t"
  unfolding guard_def step_ok_def by blast

lemma chain_append: "chain (ms @ ns) h = chain ms (chain ns h)"
  by (simp add: chain_def)

lemma chain_Cons: "chain (m # ms) = (\<lambda>h. m (chain ms h))" and chain_Nil: "chain [] = (\<lambda>h. h)"
  by (simp_all add: chain_def fun_eq_iff)

lemma guard_chain: "(\<And>m. m \<in> set ms \<Longrightarrow> guard m carry) \<Longrightarrow> guard (chain ms) carry"
proof (induction ms)
  case Nil
  show ?case unfolding chain_Nil by unfold_locales (auto intro: step_call simp: carry_def)
next
  case (Cons m ms)
  then have "guard (chain (m # ms)) (carry OO carry)" unfolding chain_Cons by (auto intro: guard_comp)
  then show ?case by (rule guard_weaken) (auto intro: carry_trans simp: carry_def)
qed

section \<open>Every middleware is a guard\<close>

lemma set_header_simps [simp]:
  "g_svc (set_header k v c) = g_svc c" "g_ext (set_header k v c) = g_ext c" "g_Method (set_header k v c) = g_Method c"
  "g_FullPath (set_header k v c) = g_FullPath c" "g_header (set_header k v c) = g_header c"
  "x_principal (set_header k v c) = x_principal c" "x_credential (set_header k v c) = x_credential c"
  "g_writes (set_header k v c) = g_writes c" "g_status (set_header k v c) = g_status c"
  "g_request_id (set_header k v c) = g_request_id c" "g_subject (set_header k v c) = g_subject c"
  "g_out (set_header k v c) = (g_out c)(k \<mapsto> v)" "g_body (set_header k v c) = g_body c"
  "x_idempotency_key (set_header k v c) = x_idempotency_key c"
  by (simp_all add: set_header_def)

lemma carry_set_header [simp]: "carry c (set_header k v c') \<longleftrightarrow> carry c c'"
  by (simp add: carry_def)

lemma carry_headers [simp]: "carry c (fold (\<lambda>(k, v). set_header k v) kvs c') \<longleftrightarrow> carry c c'"
proof (induction kvs arbitrary: c')
  case (Cons kv kvs)
  then show ?case by (cases kv) (simp only: fold_simps case_prod_conv carry_set_header)
qed simp

lemma carry_svc: "carry c c' \<Longrightarrow> g_svc c' = g_svc c"
  by (simp add: carry_def)

lemma headers_svc [simp]: "g_svc (fold (\<lambda>(k, v). set_header k v) kvs c) = g_svc c"
  by (rule carry_svc) simp

lemma carry_updates [simp]:
  "carry c (c\<lparr>g_request_id := i, x_request_id := j\<rparr>)" "carry c (c\<lparr>g_environment := e, x_environment := e'\<rparr>)"
  "carry c (c\<lparr>g_body := b\<rparr>)" "carry c (c\<lparr>x_idempotency_key := k\<rparr>)" "carry c (c\<lparr>g_ext := x\<rparr>)"
  "carry c (c\<lparr>g_body := b, g_ext := x\<rparr>)"
  by (simp_all add: carry_def)

interpretation request_id: guard "RequestID random now" carry for random now
  by unfold_locales (auto simp: RequestID_def Let_def carry_svc intro!: step_call)

interpretation environment: guard "Environment profile" carry for profile
  by unfold_locales (auto simp: Environment_def carry_svc intro!: step_call)

interpretation request_logger: guard RequestLogger carry
  by unfold_locales (auto simp: RequestLogger_def carry_svc intro!: step_after step_call)

interpretation http_metrics: guard "HTTPMetrics enabled" carry for enabled
  by unfold_locales (auto simp: HTTPMetrics_def Let_def carry_svc intro!: step_after step_call)

interpretation timeout: guard Timeout carry
  by unfold_locales (auto simp: Timeout_def carry_svc intro!: step_after step_call)

interpretation max_body: guard "MaxBody limit" carry for limit
  by unfold_locales (auto simp: MaxBody_def carry_svc intro!: step_call)

interpretation require_json: guard "RequireJSON parse" carry for parse
  by unfold_locales (auto simp: RequireJSON_def carry_svc intro: step_Done step_call)

interpretation security_headers: guard SecurityHeaders carry
  by unfold_locales (auto simp: SecurityHeaders_def carry_svc intro!: step_call)

interpretation cors: guard "CORS cfg" carry for cfg
  by unfold_locales (auto simp: CORS_def Let_def carry_svc intro!: step_call step_Done)

interpretation idempotency_key: guard "IdempotencyKey ok" carry for ok
  by unfold_locales (auto simp: IdempotencyKey_def Let_def carry_svc intro: step_Done step_call)

lemma recovery_step: "step_ok carry h c (Recovery h c)"
proof (cases "h c")
  case (Panic c')
  then have "g_svc (final (Recovery h c)) = g_svc (final (h c))" by (simp add: Recovery_def)
  then show ?thesis unfolding step_ok_def using carry_refl by blast
qed (auto simp: Recovery_def step_ok_def intro: exI [of _ c])

interpretation recovery: guard Recovery carry
  by unfold_locales (auto simp: recovery_step carry_svc)

lemma rate_limit_step: "step_ok carry h c (RateLimit limiter rule dimension key h c)"
  unfolding RateLimit_def Let_def
  by (auto intro!: step_call step_Done split: prod.split sum.split)

interpretation rate_limit: guard "RateLimit limiter rule dimension key" carry for limiter rule dimension key
  by unfold_locales (auto simp: rate_limit_step carry_svc)

lemma fingerprint_carry: "idempotencyFingerprint c = Inr (fp, c1) \<Longrightarrow> carry c c1 \<and> g_ext c1 = g_ext c
    \<and> g_writes c1 = g_writes c \<and> g_status c1 = g_status c \<and> g_request_id c1 = g_request_id c"
  by (auto simp: idempotencyFingerprint_def Let_def split: sum.splits)

lemma persist_svc [simp]: "g_svc (persist_result m dec key owner n c) = g_svc c"
  by (simp add: persist_result_def split: option.split)

lemma idempotency_step: "step_ok carry h c (IdempotencyExecution manager decoded paths h c)"
  unfolding IdempotencyExecution_def Let_def
  by (auto intro!: step_call step_Done step_after split: prod.split sum.split option.split idem_state.split
      dest!: fingerprint_carry simp: carry_svc) (auto simp: carry_def)

interpretation idempotency: guard "IdempotencyExecution manager decoded paths" carry for manager decoded paths
  by unfold_locales (auto simp: idempotency_step carry_svc)

text \<open>The two that decide about the caller have relations of their own.\<close>

definition accepted :: "(string \<Rightarrow> go_error + principal) \<Rightarrow> Auth \<Rightarrow> ('p, 'x) http \<Rightarrow> principal \<Rightarrow> bool" where
  "accepted verify cfg c p \<longleftrightarrow>
     (psk_Enabled (auth_PSK cfg) \<and> MatchesAny (g_FullPath c) (psk_HTTPPaths (auth_PSK cfg))
        \<and> VerifyPSK (g_header c ''Authorization'') (psk_Key (auth_PSK cfg)) \<and> p = psk_principal)
     \<or> (\<exists>raw. bearer (g_header c ''Authorization'') = Some raw \<and> verify raw = Inr p)"

definition same_request :: "('p, 'x) http \<Rightarrow> ('p, 'x) http \<Rightarrow> bool" where
  "same_request c c' \<longleftrightarrow> g_svc c' = g_svc c \<and> g_Method c' = g_Method c \<and> g_FullPath c' = g_FullPath c
     \<and> g_header c' = g_header c"

lemma carry_same: "carry c c' \<Longrightarrow> same_request c c'"
  by (simp add: carry_def same_request_def)

definition authenticated ::
  "(string \<Rightarrow> go_error + principal) \<Rightarrow> Auth \<Rightarrow> ('p, 'x) http \<Rightarrow> ('p, 'x) http \<Rightarrow> bool" where
  "authenticated verify cfg c c' \<longleftrightarrow> same_request c c' \<and>
     (carry c c' \<or> (\<exists>p. x_principal c' = Some p \<and> accepted verify cfg c p))"

lemma jwt_step: "step_ok (authenticated verify cfg) h c (JWT verify h c)"
  unfolding JWT_def Let_def
  by (auto intro!: step_call step_Done split: option.split sum.split
      simp: authenticated_def accepted_def same_request_def)

lemma authentication_step: "step_ok (authenticated verify cfg) h c (Authentication verify cfg h c)"
  unfolding Authentication_def
  by (auto intro!: step_call step_Done jwt_step simp: authenticated_def accepted_def same_request_def)

interpretation authentication: guard "Authentication verify cfg" "authenticated verify cfg" for verify cfg
  by unfold_locales (auto simp: authentication_step authenticated_def same_request_def)

definition authorized :: "bool \<Rightarrow> enforcer \<Rightarrow> ('p, 'x) http \<Rightarrow> ('p, 'x) http \<Rightarrow> bool" where
  "authorized enabled enforce c c' \<longleftrightarrow> c' = c \<and>
     (enabled \<longrightarrow> (\<forall>req. ruleHTTPRequirement (g_FullPath c) = Some req \<longrightarrow>
        enforce (x_principal c) (x_credential c) req = None))"

lemma authorization_step: "step_ok (authorized enabled enforce) h c (Authorization enabled enforce h c)"
  unfolding Authorization_def
  by (auto intro!: step_call step_Done split: option.split simp: authorized_def)

interpretation authorization: guard "Authorization enabled enforce" "authorized enabled enforce" for enabled enforce
  by unfold_locales (auto simp: authorization_step authorized_def)

section \<open>The chain of the API\<close>

text \<open>What the API chain lets through to the handler of a route.\<close>

definition admitted :: "('c, 'p, 'x) http_env \<Rightarrow> ('p, 'x) http \<Rightarrow> ('p, 'x) http \<Rightarrow> bool" where
  "admitted E = (carry OO authenticated (he_verify E) (cfg_Auth (he_cfg E)))
     OO (authorized (authz_Enabled (cfg_Authorization (he_cfg E))) (he_enforce E) OO carry)"

lemma api_guard: "guard (chain (api_chain E)) (admitted E)"
proof -
  let ?rl = "\<lambda>r d k. RateLimit (he_limiter E) (r (cfg_RateLimit (he_cfg E))) d k"
  have "guard (chain [?rl rl_IP ''ip'' g_ClientIP, ?rl rl_API ''api'' g_FullPath]) carry"
    by (rule guard_chain) (auto intro: rate_limit.guard_axioms)
  from guard_comp [OF this authentication.guard_axioms]
  have front: "guard (\<lambda>h. chain [?rl rl_IP ''ip'' g_ClientIP, ?rl rl_API ''api'' g_FullPath]
      (Authentication (he_verify E) (cfg_Auth (he_cfg E)) h))
    (carry OO authenticated (he_verify E) (cfg_Auth (he_cfg E)))" .
  have "guard (chain [?rl rl_User ''user'' subject_key, IdempotencyExecution (he_manager E) (he_decoded E)
      (idem_HTTPPaths (cfg_Idempotency (he_cfg E)))]) carry"
    by (rule guard_chain) (auto intro: rate_limit.guard_axioms idempotency.guard_axioms)
  from guard_comp [OF front guard_comp [OF authorization.guard_axioms this]]
  show ?thesis by (simp add: admitted_def api_chain_def chain_Cons chain_Nil)
qed

lemma engine_guard:
  assumes "guard (he_otel E) carry"
  shows "guard (chain (engine_chain E)) carry"
  using assms unfolding engine_chain_def
  by (intro guard_chain) (auto intro: request_id.guard_axioms idempotency_key.guard_axioms
      environment.guard_axioms request_logger.guard_axioms recovery.guard_axioms http_metrics.guard_axioms
      security_headers.guard_axioms cors.guard_axioms max_body.guard_axioms timeout.guard_axioms
      require_json.guard_axioms)

text \<open>Who the handler sees: for a request that arrives without a principal, one the credentials of the
  request established, or none where the route is on the skip list.\<close>

lemma admittedE:
  assumes "admitted E c c'" and "x_principal c = None"
  shows "same_request c c'"
    and "x_principal c' = Some p \<Longrightarrow> accepted (he_verify E) (cfg_Auth (he_cfg E)) c p"
    and "authz_Enabled (cfg_Authorization (he_cfg E)) \<Longrightarrow> ruleHTTPRequirement (g_FullPath c) = Some req \<Longrightarrow>
      \<exists>cred. he_enforce E (x_principal c') cred req = None"
proof -
  from assms(1) obtain a b d where s: "carry c a" "authenticated (he_verify E) (cfg_Auth (he_cfg E)) a b"
    "authorized (authz_Enabled (cfg_Authorization (he_cfg E))) (he_enforce E) b d" "carry d c'"
    by (auto simp: admitted_def)
  then show "same_request c c'"
    by (auto simp: carry_def authenticated_def same_request_def authorized_def)
  show "accepted (he_verify E) (cfg_Auth (he_cfg E)) c p" if "x_principal c' = Some p"
    using s that assms(2)
    by (auto simp: carry_def authenticated_def authorized_def accepted_def)
  show "\<exists>cred. he_enforce E (x_principal c') cred req = None"
    if "authz_Enabled (cfg_Authorization (he_cfg E))" "ruleHTTPRequirement (g_FullPath c) = Some req"
    using s that by (auto simp: carry_def authenticated_def authorized_def same_request_def)
qed

end
