(* ===== verification/HttpDemo.thy ===== *)
theory HttpDemo
  imports HttpServer DemoRun AuthClaims
begin

text \<open>
  A concrete server for the witnesses: the production configuration, a verifier that knows one token, a
  policy that grants everything to its bearer, and one request that creates a rule set.
\<close>

definition demo_verify :: "string \<Rightarrow> go_error + principal" where
  "demo_verify raw = (if raw = ''token'' then Inr \<lparr>p_ID = ''u'', p_Type = TypeOther ''user'', p_TenantID = ''t''\<rparr>
     else Inl (Plain ''unknown token''))"

definition demo_enforce :: enforcer where
  "demo_enforce p cred req = (case p of Some q \<Rightarrow> None | None \<Rightarrow> Some (Plain ''denied''))"

definition refused :: "string \<times> go_error option \<Rightarrow> go_error + 'r" where
  "refused b = Inl (Plain ''EOF'')"

definition demo_bindings :: bindings where
  "demo_bindings =
     \<lparr>bd_CreateRuleSet = (\<lambda>b. Inr \<lparr>qcs_TenantID = ''t'', qcs_ApplicationID = ''a'', qcs_Code = ''code'',
        qcs_Name = ''n'', qcs_Description = []\<rparr>),
      bd_UpdateRuleSet = refused, bd_GetRuleSet = refused, bd_ListRuleSets = refused,
      bd_CreateRuleVersion = refused, bd_ValidateRuleVersion = refused, bd_PublishRuleVersion = refused,
      bd_GetRuleVersion = refused, bd_ListRuleVersions = refused, bd_Evaluate = refused,
      bd_BatchEvaluate = refused\<rparr>"

definition demo_info :: Info where
  "demo_info = Current ''dev'' ''unknown'' ''unknown'' 0 ''0s''"

definition demo_server :: "'x Manager option \<Rightarrow> 'x Limiter \<Rightarrow> (string, string, 'x) http_env" where
  "demo_server manager limiter =
     \<lparr>he_cfg = production_config, he_random = Inr (replicate 16 CHR ''r''), he_now = 7,
      he_otel = (\<lambda>h. h), he_parse_media = Inr, he_idem_valid = (\<lambda>_. True), he_manager = manager,
      he_decoded = (\<lambda>b. b), he_limiter = limiter, he_verify = demo_verify, he_enforce = demo_enforce,
      he_service = (\<lambda>_. demo_env ''s''), he_bindings = demo_bindings, he_db_ping = None,
      he_redis_ping = None, he_redis_first = False, he_info = demo_info,
      he_metrics_page = (\<lambda>c. Done (put 200 (WText ''metrics'') c)),
      he_swagger = (\<lambda>c. Done (put 200 (WText ''swagger'') c)),
      he_pprof = (\<lambda>p c. Done (put 200 (WText p) c))\<rparr>"

definition demo_headers :: "(string \<times> string) list" where
  "demo_headers = [(''Authorization'', ''Bearer token''), (''Content-Type'', ''application/json''),
     (''X-Request-ID'', ''r-1'')]"

definition header_of :: "(string \<times> string) list \<Rightarrow> string \<Rightarrow> string" where
  "header_of hs k = (case map_of hs k of Some v \<Rightarrow> v | None \<Rightarrow> [])"

definition incoming :: "string \<Rightarrow> string \<Rightarrow> (string \<times> string) list \<Rightarrow> 'p svc_state \<Rightarrow> 'x \<Rightarrow> ('p, 'x) http" where
  "incoming method path hs s x =
     \<lparr>g_Method = method, g_FullPath = path, g_header = header_of hs, g_body = (''{}'', None),
      g_ContentLength = 2, g_TLS = True, g_ClientIP = ''10.0.0.1'', g_expired = False,
      g_request_id = [], g_environment = [], g_subject = None, x_request_id = None,
      x_environment = None, x_idempotency_key = None, x_principal = None, x_credential = None,
      x_err = None, g_out = (\<lambda>_. None), g_status = 200, g_writes = [], g_log = [], g_metrics = [],
      g_svc = s, g_ext = x\<rparr>"

definition idle_limiter :: "'x Limiter" where
  "idle_limiter = \<lparr>lim_enabled = False, lim_failOpen = False, lim_backend = None\<rparr>"

lemma demo_ctx_principal: "\<lparr>ctx_principal = Some \<lparr>p_ID = ''u'', p_Type = TypeOther ''user'', p_TenantID = ''t''\<rparr>,
    ctx_err = None\<rparr> = demo_ctx"
  by (simp add: demo_ctx_def)

lemma production_settings [simp]:
  "obs_MetricsEnabled (cfg_Observability production_config)"
  "\<not> obs_PprofEnabled (cfg_Observability production_config)"
  "\<not> swagger_Enabled (cfg_Swagger production_config)"
  "\<not> cors_Enabled (http_CORS (cfg_HTTP production_config))"
  "http_MaxBodyBytes (cfg_HTTP production_config) = 1048576"
  "\<not> psk_Enabled (auth_PSK (cfg_Auth production_config))"
  "auth_SkipHTTPPaths (cfg_Auth production_config) = [''/api/v1/version'']"
  "authz_Enabled (cfg_Authorization production_config)"
  "idem_HTTPPaths (cfg_Idempotency production_config) = []"
  by (simp_all add: production_config_def default_config_def complete_config_def decode_parts str_def
      strs_def num_def flag_def setting_Cons default_values stringToStringSlice_def TrimSpace_visible
      HasPrefix_def)

lemma literal_path: "meta_free ''/api/v1/version''"
  by (simp add: meta_free_def GoPath.bslash_def)

lemma observers_svc:
  "g_svc (final (RequestLogger h c)) = g_svc (final (h c))"
  "g_svc (final (HTTPMetrics b h c)) = g_svc (final (h c))"
  "g_svc (final (Recovery h c)) = g_svc (final (h c))"
  "g_svc (final (Timeout h c)) = g_svc (final (h c))"
  by (cases "h c"; simp add: RequestLogger_def HTTPMetrics_def Recovery_def Timeout_def Let_def)+

lemma bearer_token: "bearer ''Bearer token'' = Some ''token''"
  by (simp add: bearer_def Cut_def EqualFold_def ascii_upper_def byte_def)

lemma idempotency_off: "IdempotencyExecution None decoded paths h c = h c"
  by (simp add: IdempotencyExecution_def split: option.split)

lemma demo_dispatches:
  assumes "g_Method c = ''POST''" "g_FullPath c = ''/api/v1/rule-sets/create''"
    "g_header c ''Authorization'' = ''Bearer token''" "g_svc c = demo_s0" "x_err c = None"
  shows "g_svc (final (dispatch (demo_server None idle_limiter) c)) = demo_s1"
proof -
  have r: "map_of (routes (demo_server None idle_limiter)) (''POST'', ''/api/v1/rule-sets/create'')
      = Some (chain (api_chain (demo_server None idle_limiter)) (handle_CreateRuleSet (demo_server None idle_limiter)))"
    by (simp add: routes_def demo_server_def api_routes_def)
  from assms show ?thesis
    by (simp add: dispatch_def r)
      (simp add: chain_def api_chain_def demo_server_def RateLimit_def idle_limiter_def
        Authentication_def literal_path Match_literal JWT_def bearer_token demo_verify_def
        Authorization_def ruleHTTPRequirement_def demo_enforce_def idempotency_off Let_def
        handle_CreateRuleSet_def bind_json_def demo_bindings_def respond_def service_ctx_def
        demo_ctx_principal demo_creates)
qed

lemma demo_serves:
  "g_svc (final (serve (demo_server None idle_limiter)
     (incoming ''POST'' ''/api/v1/rule-sets/create'' demo_headers demo_s0 ()))) = demo_s1"
proof -
  have size': "limit_body 1048576 (''{}'', None) = (''{}'', None)" by (simp add: limit_body_def)
  have hs: "header_of demo_headers ''Authorization'' = ''Bearer token''" "header_of demo_headers ''Idempotency-Key'' = []"
    "header_of demo_headers ''Content-Type'' = ''application/json''"
    by (simp_all add: header_of_def demo_headers_def)
  let ?E = "demo_server None idle_limiter :: (string, string, unit) http_env"
  have e: "he_otel ?E = (\<lambda>h. h)" "he_cfg ?E = production_config" "he_parse_media ?E = Inr"
    by (simp_all add: demo_server_def)
  show ?thesis
    unfolding serve_def
    by (simp add: engine_chain_def chain_def observers_svc e RequestID_def IdempotencyKey_def
        Environment_def SecurityHeaders_def security_headers_def CORS_def MaxBody_def RequireJSON_def
        Let_def incoming_def hs set_header_def)
      (intro conjI impI; rule demo_dispatches; simp add: hs)
qed

lemma demo_changes: "demo_s1 \<noteq> demo_s0"
  by (simp add: demo_states)

end
