(* ===== verification/HttpClaims.thy ===== *)
theory HttpClaims
  imports HttpLaws HttpDemo
begin

text \<open>
  What the HTTP server promises as a whole: only admitted callers change the rules; and what the
  single middleware guarantee on their own.
\<close>

section \<open>Handlers without a caller\<close>

lemma no_caller [simp]: "authorize \<lparr>ctx_principal = None, ctx_err = e\<rparr> t = Inl (Unauthorized ''authenticated actor is required'')"
  by (simp add: authorize_def)

lemma evaluate_all_no_caller:
  "evaluate_all E \<lparr>ctx_principal = None, ctx_err = e\<rparr> i inputs s = (results, s') \<Longrightarrow> s' = s"
  by (induction inputs arbitrary: i results) (auto simp: Evaluate_def split: prod.splits)

lemma bind_json_svc:
  "(\<And>r. g_svc (final (k r c)) = g_svc c) \<Longrightarrow> g_svc (final (bind_json dec k c)) = g_svc c"
  by (simp add: bind_json_def split: sum.split)

lemma respond_svc:
  "snd (operation (service_ctx c) (g_svc c)) = g_svc c \<Longrightarrow> g_svc (final (respond operation view c)) = g_svc c"
  by (auto simp: respond_def split: prod.split sum.split)

lemma handler_no_caller:
  assumes "(p, h) \<in> set (api_routes E)" and "x_principal c = None"
  shows "g_svc (final (h c)) = g_svc c"
proof -
  have ctx: "service_ctx c = \<lparr>ctx_principal = None, ctx_err = x_err c\<rparr>"
    using assms(2) by (simp add: service_ctx_def)
  have batch: "snd (BatchEvaluate E' \<lparr>ctx_principal = None, ctx_err = x_err c\<rparr> inputs s) = s" for E' :: "nat \<Rightarrow> ('c, 'p) svc_env" and inputs s
    by (auto simp: BatchEvaluate_def dest: evaluate_all_no_caller split: prod.split)
  from assms(1) show ?thesis
    unfolding api_routes_def
    by (elim set_ConsD [elim_format] disjE)
      (simp_all add: handle_Version_def handle_Me_def handle_CreateRuleSet_def handle_UpdateRuleSet_def
        handle_GetRuleSet_def handle_ListRuleSets_def handle_CreateRuleVersion_def handle_ValidateRuleVersion_def
        handle_PublishRuleVersion_def handle_GetRuleVersion_def handle_ListRuleVersions_def handle_Evaluate_def
        handle_BatchEvaluate_def bind_json_svc respond_svc batch ctx CreateRuleSet_def UpdateRuleSet_def
        update_prepare_def GetRuleSet_def ListRuleSets_def CreateRuleVersion_def ValidateRuleVersion_def
        PublishRuleVersion_def publish_prepare_def GetRuleVersion_def ListRuleVersions_def Evaluate_def)
qed

lemma rule_route:
  assumes "(p, h) \<in> set (api_routes E)" and "g_svc (final (h c)) \<noteq> g_svc c"
  shows "\<exists>req. ruleHTTPRequirement (''/api/v1'' @ p) = Some req"
  using assms unfolding api_routes_def ruleHTTPRequirement_def
  by (elim set_ConsD [elim_format] disjE) (simp_all add: handle_Version_def handle_Me_def)

section \<open>Routes\<close>

text \<open>The handlers outside the API that come from other packages leave the rules alone.\<close>

definition pages_ok :: "('c, 'p, 'x) http_env \<Rightarrow> bool" where
  "pages_ok E \<longleftrightarrow> (\<forall>c. g_svc (final (he_metrics_page E c)) = g_svc c) \<and>
     (\<forall>c. g_svc (final (he_swagger E c)) = g_svc c) \<and> (\<forall>p c. g_svc (final (he_pprof E p c)) = g_svc c)"

lemma JWT_svc: "(\<And>c. g_svc (final (h c)) = g_svc c) \<Longrightarrow> g_svc (final (JWT verify h c)) = g_svc c"
  by (auto simp: JWT_def Let_def split: option.split sum.split)

lemma pprofAuth_svc: "(\<And>c. g_svc (final (h c)) = g_svc c) \<Longrightarrow> g_svc (final (pprofAuth token h c)) = g_svc c"
  by (auto simp: pprofAuth_def Let_def split: prod.split)

lemma Ready_svc: "g_svc (final (handle_Ready E c)) = g_svc c"
  by (auto simp: handle_Ready_def Let_def split: prod.split)

lemma route_cases:
  assumes "pages_ok E" and "((m, path), h) \<in> set (routes E)"
  shows "(\<forall>c. g_svc (final (h c)) = g_svc c) \<or>
    (\<exists>p h'. m = ''POST'' \<and> path = ''/api/v1'' @ p \<and> h = chain (api_chain E) h' \<and> (p, h') \<in> set (api_routes E))"
proof -
  have page: "g_svc (final (he_metrics_page E c)) = g_svc c" "g_svc (final (he_swagger E c)) = g_svc c"
    "g_svc (final (he_pprof E p c)) = g_svc c" for p c
    using assms(1) by (simp_all add: pages_ok_def)
  from assms(2) consider
      (live) "h = handle_Live \<or> h = handle_Ready E"
    | (metrics) "h = he_metrics_page E"
    | (pprof) p where "h = pprofAuth (obs_PprofToken (cfg_Observability (he_cfg E))) (he_pprof E p)"
    | (swagger) "h = JWT (he_verify E) (he_swagger E) \<or> h = he_swagger E"
    | (api) p h' where "m = ''POST''" "path = ''/api/v1'' @ p" "h = chain (api_chain E) h'" "(p, h') \<in> set (api_routes E)"
    unfolding routes_def by (auto split: if_splits)
  then show ?thesis
  proof cases
    case live
    then show ?thesis by (auto simp: handle_Live_def Ready_svc)
  next
    case (pprof p)
    then show ?thesis by (simp add: pprofAuth_svc page)
  next
    case swagger
    then show ?thesis by (auto simp: JWT_svc page)
  qed (auto simp: page)
qed

text \<open>C24. Whatever request reaches the server, the tables and the cache of the rule service change only
  when it is a POST to one of the eleven rule routes whose credentials were accepted (the pre-shared
  key on a route configured for it, or a bearer token that verifies) and, with authorization enabled,
  whose caller was granted the route's requirement. No entry of the skip list weakens this.\<close>

theorem changes_are_authorized:
  fixes E :: "('c, 'p, 'x) http_env"
  assumes otel: "guard (he_otel E) carry" and pages: "pages_ok E"
    and fresh: "x_principal c = None"
    and changed: "g_svc (final (serve E c)) \<noteq> g_svc c"
  shows "\<exists>p req. accepted (he_verify E) (cfg_Auth (he_cfg E)) c p \<and> g_Method c = ''POST''
    \<and> ruleHTTPRequirement (g_FullPath c) = Some req
    \<and> (authz_Enabled (cfg_Authorization (he_cfg E)) \<longrightarrow> (\<exists>cred. he_enforce E (Some p) cred req = None))"
proof -
  from guard.change [OF engine_guard [OF otel]] changed obtain c0
    where c0: "carry c c0" "g_svc (final (dispatch E c0)) \<noteq> g_svc c0"
    unfolding serve_def by blast
  from c0(2) obtain h where h: "((g_Method c0, g_FullPath c0), h) \<in> set (routes E)"
    "g_svc (final (h c0)) \<noteq> g_svc c0"
    by (auto simp: dispatch_def dest: map_of_SomeD split: option.splits)
  from route_cases [OF pages h(1)] h(2) obtain p h' where r: "g_Method c0 = ''POST''"
    "g_FullPath c0 = ''/api/v1'' @ p" "h = chain (api_chain E) h'" "(p, h') \<in> set (api_routes E)"
    by blast
  from guard.change [OF api_guard] h(2) r(3) obtain c1
    where c1: "admitted E c0 c1" "g_svc (final (h' c1)) \<noteq> g_svc c1"
    by blast
  have np: "x_principal c0 = None" using c0(1) fresh by (simp add: carry_def)
  from handler_no_caller [OF r(4)] c1(2) obtain q where q: "x_principal c1 = Some q" by (cases "x_principal c1") auto
  from rule_route [OF r(4) c1(2)] obtain req where req: "ruleHTTPRequirement (g_FullPath c0) = Some req"
    by (auto simp: r(2))
  note a = admittedE [OF c1(1) np]
  from a(2) [OF q] have "accepted (he_verify E) (cfg_Auth (he_cfg E)) c0 q" .
  moreover have "authz_Enabled (cfg_Authorization (he_cfg E)) \<longrightarrow> (\<exists>cred. he_enforce E (Some q) cred req = None)"
    using a(3) [OF _ req] q by auto
  ultimately have "accepted (he_verify E) (cfg_Auth (he_cfg E)) c q \<and> g_Method c = ''POST''
      \<and> ruleHTTPRequirement (g_FullPath c) = Some req
      \<and> (authz_Enabled (cfg_Authorization (he_cfg E)) \<longrightarrow> (\<exists>cred. he_enforce E (Some q) cred req = None))"
    using r(1) req c0(1) by (simp add: carry_def accepted_def)
  then show ?thesis by blast
qed

lemma demo_otel: "guard (he_otel (demo_server manager limiter)) carry"
  by unfold_locales (auto simp: demo_server_def carry_svc intro: step_call)

lemma demo_pages: "pages_ok (demo_server manager limiter)"
  by (simp add: pages_ok_def demo_server_def)

lemma changes_are_authorized_witness:
  "\<exists>p req. accepted demo_verify (cfg_Auth production_config)
      (incoming ''POST'' ''/api/v1/rule-sets/create'' demo_headers demo_s0 ()) p
    \<and> ruleHTTPRequirement ''/api/v1/rule-sets/create'' = Some req
    \<and> (\<exists>cred. demo_enforce (Some p) cred req = None)"
proof -
  let ?c = "incoming ''POST'' ''/api/v1/rule-sets/create'' demo_headers demo_s0 ()"
  have "x_principal ?c = None" "g_svc ?c = demo_s0" by (simp_all add: incoming_def)
  then show ?thesis
    using changes_are_authorized [OF demo_otel demo_pages, of ?c None idle_limiter] demo_serves demo_changes
    by (simp add: demo_server_def incoming_def)
qed

section \<open>Single middleware\<close>

text \<open>C26. When the rate limiter is on and the request has a key: a refused event is answered 429 with a
  \<open>Retry-After\<close> of at least one second and never reaches the rest of the chain; a limiter that cannot
  answer lets the request through when it fails open and answers 503 when it does not.\<close>

theorem rate_limit_decides:
  assumes on: "lim_enabled limiter" and key: "key c \<noteq> []" and new: "g_writes c = []"
    and answer: "Allow limiter (''rate:'' @ dimension @ '':'' @ key c) rule (g_ext c) = (r, x)"
  shows "case r of
      Inr result \<Rightarrow>
        if lr_Allowed result
        then (\<exists>c'. carry c c' \<and> RateLimit limiter rule dimension key h c = h c')
        else (\<exists>c' n. RateLimit limiter rule dimension key h c = Done c' \<and> g_svc c' = g_svc c
               \<and> g_status c' = 429 \<and> 1 \<le> n \<and> g_out c' ''Retry-After'' = Some (int_str n))
    | Inl err \<Rightarrow>
        if lim_failOpen limiter then RateLimit limiter rule dimension key h c = h (c\<lparr>g_ext := x\<rparr>)
        else (\<exists>c'. RateLimit limiter rule dimension key h c = Done c' \<and> g_svc c' = g_svc c \<and> g_status c' = 503)"
proof (cases r)
  case (Inl err)
  with assms show ?thesis
    by (auto simp: RateLimit_def Let_def Fail_def reject_def app_error_def Unavailable_def)
next
  case (Inr result)
  show ?thesis
  proof (cases "lr_Allowed result")
    case True
    with Inr assms show ?thesis by (auto simp: RateLimit_def Let_def intro!: exI)
  next
    case False
    have "1 \<le> retry_after (lr_RetryAfter result)" by (simp add: retry_after_def)
    with False Inr assms show ?thesis
      by (auto simp: RateLimit_def Let_def Fail_def reject_def app_error_def TooManyRequests_def intro!: exI)
  qed
qed

definition full_limiter :: "unit Limiter" where
  "full_limiter = \<lparr>lim_enabled = True, lim_failOpen = False,
     lim_backend = Some (\<lambda>key limit x. (Inr (0, 0, 1400000000), x))\<rparr>"

definition demo_rule :: RateLimitRule where
  "demo_rule = \<lparr>rlr_Rate = 1, rlr_Burst = 1, rlr_Period = 60000000000\<rparr>"

lemma rate_limit_decides_witness:
  "\<exists>c'. RateLimit full_limiter demo_rule ''ip'' g_ClientIP Done
       (incoming ''POST'' ''/api/v1/me'' demo_headers demo_s0 ()) = Done c' \<and> g_status c' = 429"
proof -
  let ?c = "incoming ''POST'' ''/api/v1/me'' demo_headers demo_s0 () :: (string, unit) http"
  have a: "Allow full_limiter (''rate:'' @ ''ip'' @ '':'' @ g_ClientIP ?c) demo_rule (g_ext ?c)
      = (Inr \<lparr>lr_Allowed = False, lr_Limit = 1, lr_Remaining = 0, lr_RetryAfter = 1400000000\<rparr>, ())"
    by (simp add: Allow_def full_limiter_def demo_rule_def incoming_def)
  have "lim_enabled full_limiter" "g_ClientIP ?c \<noteq> []" "g_writes ?c = []"
    by (simp_all add: full_limiter_def incoming_def)
  from rate_limit_decides [where key = g_ClientIP and c = ?c and dimension = "''ip''" and h = Done, OF this a]
  show ?thesis by auto
qed

text \<open>C27. With CORS on, a request from an origin that is not on the list is answered 403 and goes no
  further, without an \<open>Access-Control-Allow-Origin\<close> header; a listed origin is echoed exactly, and its
  preflight is answered 204 without running the rest.\<close>

theorem cors_allows_listed:
  assumes on: "cors_Enabled cfg" and origin: "g_header c ''Origin'' \<noteq> []" and new: "g_writes c = []"
  shows "if g_header c ''Origin'' \<in> set (cors_AllowedOrigins cfg)
    then (\<exists>c'. carry c c' \<and> g_out c' ''Access-Control-Allow-Origin'' = Some (g_header c ''Origin'') \<and>
        (if g_Method c = ''OPTIONS''
         then \<exists>c''. CORS cfg h c = Done c'' \<and> g_status c'' = 204 \<and> g_out c'' = g_out c' \<and> g_svc c'' = g_svc c
         else CORS cfg h c = h c'))
    else (\<exists>c'. CORS cfg h c = Done c' \<and> g_status c' = 403 \<and> g_out c' = g_out c \<and> g_svc c' = g_svc c)"
proof (cases "g_header c ''Origin'' \<in> set (cors_AllowedOrigins cfg)")
  case False
  with assms show ?thesis by (auto simp: CORS_def Let_def reject_def)
next
  case True
  let ?c = "fold (\<lambda>(k, v). set_header k v)
      [(''Access-Control-Allow-Origin'', g_header c ''Origin''), (''Vary'', ''Origin''),
       (''Access-Control-Allow-Methods'', ''POST, GET, OPTIONS''),
       (''Access-Control-Allow-Headers'', comma_join (cors_AllowedHeaders cfg)),
       (''Access-Control-Expose-Headers'', comma_join (cors_ExposedHeaders cfg)),
       (''Access-Control-Max-Age'', int_str (whole_seconds (cors_MaxAge cfg)))] c"
  have c: "CORS cfg h c = (if g_Method c = ''OPTIONS'' then Done (put 204 WStatus ?c) else h ?c)"
    using True assms by (simp add: CORS_def Let_def)
  have "carry c ?c" by simp
  moreover have "g_out ?c ''Access-Control-Allow-Origin'' = Some (g_header c ''Origin'')" "g_writes ?c = []"
    using new by simp_all
  ultimately obtain c' where c': "carry c c'" "g_out c' ''Access-Control-Allow-Origin'' = Some (g_header c ''Origin'')"
    "g_writes c' = []" "CORS cfg h c = (if g_Method c = ''OPTIONS'' then Done (put 204 WStatus c') else h c')"
    using c by blast
  then show ?thesis using True by (auto simp: carry_svc intro!: exI [of _ c'])
qed

definition demo_cors :: CORS where
  "demo_cors = \<lparr>cors_Enabled = True, cors_AllowedOrigins = [''https://app''], cors_AllowedHeaders = [],
     cors_ExposedHeaders = [], cors_MaxAge = 0\<rparr>"

lemma cors_allows_listed_witness:
  "\<exists>c'. CORS demo_cors Done (incoming ''POST'' ''/api/v1/me'' [(''Origin'', ''https://evil'')] demo_s0 ()) = Done c'
     \<and> g_status c' = 403"
proof -
  let ?c = "incoming ''POST'' ''/api/v1/me'' [(''Origin'', ''https://evil'')] demo_s0 () :: (string, unit) http"
  have "cors_Enabled demo_cors" "g_header ?c ''Origin'' \<noteq> []" "g_writes ?c = []"
    by (simp_all add: demo_cors_def incoming_def header_of_def)
  from cors_allows_listed [OF this, of Done] show ?thesis
    by (auto simp: demo_cors_def incoming_def header_of_def)
qed

text \<open>A panic under the metrics middleware is answered by the recovery outside it, with status 500, and is
  not counted: the observation is only made when the rest of the chain returns.\<close>

lemma panic_not_observed:
  "h c = Panic c' \<Longrightarrow> g_writes c' = [] \<Longrightarrow>
     \<exists>d. Recovery (HTTPMetrics enabled h) c = Done d \<and> g_status d = 500 \<and> g_metrics d = g_metrics c'"
  by (simp add: Recovery_def HTTPMetrics_def reject_def)

end
