(* ===== verification/HttpReplay.thy ===== *)
theory HttpReplay
  imports HttpLaws HttpDemo
begin

text \<open>
  The idempotency middleware: what reaches the handler, what is stored, and that a repeated request is
  answered from the store.
\<close>

text \<open>The middleware is active for a request that carries a key on a configured route.\<close>

definition idempotent :: "'x Manager \<Rightarrow> string list \<Rightarrow> string \<Rightarrow> ('p, 'x) http \<Rightarrow> bool" where
  "idempotent m paths key c \<longleftrightarrow> x_idempotency_key c = Some key \<and> im_Enabled m \<and> g_Method c = ''POST''
     \<and> MatchesAny (g_FullPath c) paths \<and> snd (g_body c) = None"

definition print_of :: "('p, 'x) http \<Rightarrow> string" where
  "print_of c = sha256_hex ((case g_subject c of Some s \<Rightarrow> s | None \<Rightarrow> ''<nil>'') @ [CHR 0x00] @ g_Method c
     @ [CHR 0x00] @ g_FullPath c @ [CHR 0x00] @ fst (g_body c))"

lemma fingerprint_print: "snd (g_body c) = None \<Longrightarrow> idempotencyFingerprint c = Inr (print_of c, c)"
  by (cases "g_body c") (simp add: idempotencyFingerprint_def print_of_def ReadAll_def Let_def)

lemma IdempotencyExecution_begin:
  assumes "idempotent m paths key c" and "im_Begin m key (print_of c) (g_ext c) = (Inr d, x)"
  shows "IdempotencyExecution (Some m) decoded paths h c =
    (let c2 = c\<lparr>g_ext := x\<rparr> in
     case de_State d of
        StateCompleted \<Rightarrow>
          (case de_Response d of
             Inl err \<Rightarrow> Done (Fail (Unavailable ''idempotency response is unavailable'' (Some err)) c2)
           | Inr response \<Rightarrow> Done (put 200 (WJSON (response\<lparr>resp_RequestID := requestID c2\<rparr>)) c2))
      | StateFailed \<Rightarrow>
          Done (reject (fl_HTTPStatus (de_Failure d)) (fl_Code (de_Failure d)) (fl_Message (de_Failure d)) c2)
      | StateProcessing \<Rightarrow> Done (Fail RequestInProgress c2)
      | StateConflict \<Rightarrow> Done (Fail (Conflict ''idempotency key belongs to a different request'' None) c2)
      | StateAcquired \<Rightarrow>
          after (\<lambda>c'. Done (persist_result m decoded key (de_Owner d) (length (g_writes c2)) c')) (h c2)
      | StateUnknown s \<Rightarrow> Done (Fail (Unavailable ''idempotency state is invalid'' None) c2))"
  using assms by (simp add: IdempotencyExecution_def idempotent_def fingerprint_print)

text \<open>C28. For a request that carries an idempotency key on a configured route, the rest of the chain runs
  only when the manager has just acquired the key: in every other state (completed, failed, in
  progress, taken by a different request, unknown) and when the manager fails, the answer does not
  depend on the handler and the rule service is left alone.\<close>

theorem runs_only_when_acquired:
  assumes "idempotent m paths key c" and "im_Begin m key (print_of c) (g_ext c) = (r, x)"
    and "\<And>d. r = Inr d \<Longrightarrow> de_State d \<noteq> StateAcquired"
  shows "\<exists>c'. (\<forall>h. IdempotencyExecution (Some m) decoded paths h c = Done c')
    \<and> g_svc c' = g_svc c \<and> length (g_writes c') = Suc (length (g_writes c))"
proof (cases r)
  case (Inl err)
  with assms(1,2) show ?thesis
    by (simp add: IdempotencyExecution_def idempotent_def fingerprint_print Fail_def reject_def Let_def)
next
  case (Inr d)
  note b = IdempotencyExecution_begin [OF assms(1), of d x decoded]
  from assms(2,3) Inr show ?thesis
    by (cases "de_State d"; cases "de_Response d")
      (simp_all add: b Fail_def reject_def Let_def)
qed

section \<open>A manager for the witnesses\<close>

text \<open>The entries of the store carry the fingerprint, the owner that acquired the key and the outcome;
  owners are drawn from a counter. A result is accepted only from the owner of a running entry.\<close>

datatype outcome = Running | Answered Response | Refused Failure

record store =
  st_next :: nat
  st_entries :: "string \<Rightarrow> (string \<times> string \<times> outcome) option"

definition no_failure :: Failure where
  "no_failure = \<lparr>fl_Code = 0, fl_Message = [], fl_HTTPStatus = 0\<rparr>"

definition decision :: "idem_state \<Rightarrow> string \<Rightarrow> Decision" where
  "decision st owner = \<lparr>de_State = st, de_Owner = owner, de_Response = Inl (Plain ''none''), de_Failure = no_failure\<rparr>"

definition demo_begin :: "string \<Rightarrow> string \<Rightarrow> store \<Rightarrow> (go_error + Decision) \<times> store" where
  "demo_begin key fp x =
     (case st_entries x key of
        None \<Rightarrow>
          (Inr (decision StateAcquired (nat_str (st_next x))),
           \<lparr>st_next = Suc (st_next x), st_entries = (st_entries x)(key \<mapsto> (fp, nat_str (st_next x), Running))\<rparr>)
      | Some (fp', owner, s) \<Rightarrow>
          (Inr (if fp' \<noteq> fp then decision StateConflict []
                else (case s of Running \<Rightarrow> decision StateProcessing []
                  | Answered r \<Rightarrow> (decision StateCompleted [])\<lparr>de_Response := Inr r\<rparr>
                  | Refused f \<Rightarrow> (decision StateFailed [])\<lparr>de_Failure := f\<rparr>)), x))"

definition demo_settle :: "outcome \<Rightarrow> string \<Rightarrow> string \<Rightarrow> store \<Rightarrow> go_error option \<times> store" where
  "demo_settle s key owner x =
     (case st_entries x key of
        Some (fp, owner', Running) \<Rightarrow>
          if owner' = owner then (None, x\<lparr>st_entries := (st_entries x)(key \<mapsto> (fp, owner, s))\<rparr>)
          else (Some (Plain ''not the owner''), x)
      | _ \<Rightarrow> (Some (Plain ''not the owner''), x))"

definition demo_manager :: "store Manager" where
  "demo_manager =
     \<lparr>im_Enabled = True, im_Begin = demo_begin,
      im_Complete = (\<lambda>key owner r. demo_settle (Answered r) key owner),
      im_Fail = (\<lambda>key owner f. demo_settle (Refused f) key owner)\<rparr>"

definition demo_empty :: store where
  "demo_empty = \<lparr>st_next = 0, st_entries = Map.empty\<rparr>"

text \<open>The store over time: any operations on any keys, and the expiry of entries outside \<open>K\<close>.\<close>

inductive evolves :: "string set \<Rightarrow> store \<Rightarrow> store \<Rightarrow> bool" for K where
  same: "evolves K x x"
| begun: "evolves K x y \<Longrightarrow> evolves K x (snd (demo_begin key fp y))"
| settled: "evolves K x y \<Longrightarrow> evolves K x (snd (demo_settle s key owner y))"
| expired: "evolves K x y \<Longrightarrow> key \<notin> K \<Longrightarrow> evolves K x (y\<lparr>st_entries := (st_entries y)(key := None)\<rparr>)"

text \<open>The owner of an entry stands for its fingerprint, and a settled entry stays as long as it lives.\<close>

definition owned_by :: "nat \<Rightarrow> string \<Rightarrow> string \<Rightarrow> store \<Rightarrow> bool" where
  "owned_by n key fp x \<longleftrightarrow> n < st_next x \<and> (\<forall>fp' s. st_entries x key = Some (fp', nat_str n, s) \<longrightarrow> fp' = fp)"

lemma begin_owned: "owned_by n key fp y \<Longrightarrow> owned_by n key fp (snd (demo_begin k fp2 y))"
  by (cases "st_entries y k") (auto simp: owned_by_def demo_begin_def nat_str_inject)

lemma settle_entries:
  "st_entries (snd (demo_settle s k owner y)) key = Some (fp, o', s') \<Longrightarrow> \<exists>s. st_entries y key = Some (fp, o', s)"
  by (auto simp: demo_settle_def split: option.split_asm outcome.split_asm if_split_asm)

lemma settle_next: "st_next (snd (demo_settle s k owner y)) = st_next y"
  by (simp add: demo_settle_def split: option.split prod.split outcome.split)

lemma settle_owned: "owned_by n key fp y \<Longrightarrow> owned_by n key fp (snd (demo_settle s k owner y))"
  unfolding owned_by_def settle_next by (blast dest: settle_entries)

lemma expire_owned: "owned_by n key fp y \<Longrightarrow> owned_by n key fp (y\<lparr>st_entries := (st_entries y)(k := None)\<rparr>)"
  by (simp add: owned_by_def)

lemma evolves_owned: "evolves K x y \<Longrightarrow> owned_by n key fp x \<Longrightarrow> owned_by n key fp y"
proof (induction rule: evolves.induct)
  case begun
  then show ?case by (blast intro: begin_owned)
next
  case settled
  then show ?case by (blast intro: settle_owned)
next
  case expired
  then show ?case by (blast intro: expire_owned)
qed

lemma begin_keeps: "st_entries y key = Some e \<Longrightarrow> st_entries (snd (demo_begin k fp y)) key = Some e"
  by (cases "st_entries y k") (auto simp: demo_begin_def)

lemma settle_keeps:
  "st_entries y key = Some (fp, owner, Answered r) \<Longrightarrow>
     st_entries (snd (demo_settle s k owner' y)) key = Some (fp, owner, Answered r)"
  by (cases "st_entries y k") (auto simp: demo_settle_def split: outcome.split)

lemma evolves_settled:
  "evolves K x y \<Longrightarrow> key \<in> K \<Longrightarrow> st_entries x key = Some (fp, owner, Answered r) \<Longrightarrow>
     st_entries y key = Some (fp, owner, Answered r)"
proof (induction rule: evolves.induct)
  case begun
  then show ?case by (blast intro: begin_keeps)
next
  case settled
  then show ?case by (blast intro: settle_keeps)
next
  case expired
  then show ?case by auto
qed

lemma demo_store:
  assumes "im_Begin demo_manager key fp x = (Inr d, x1)" and "de_State d = StateAcquired" and "evolves {} x1 y"
    and "im_Complete demo_manager key (de_Owner d) r y = (None, y1)" and "evolves {key} y1 y2"
  shows "\<exists>d' x2. im_Begin demo_manager key fp y2 = (Inr d', x2) \<and> de_State d' = StateCompleted \<and> de_Response d' = Inr r"
proof -
  from assms(1,2) have o': "de_Owner d = nat_str (st_next x)" and "owned_by (st_next x) key fp x1"
    by (auto simp: demo_manager_def demo_begin_def decision_def owned_by_def split: option.splits if_splits outcome.splits)
  with assms(3) have "owned_by (st_next x) key fp y" by (blast intro: evolves_owned)
  with assms(4) have "st_entries y1 key = Some (fp, nat_str (st_next x), Answered r)"
    by (auto simp: o' demo_manager_def demo_settle_def owned_by_def split: option.splits if_splits outcome.splits)
  then have "st_entries y2 key = Some (fp, nat_str (st_next x), Answered r)"
    by (rule evolves_settled [OF assms(5), rotated]) simp
  then show ?thesis by (simp add: demo_manager_def demo_begin_def decision_def)
qed

definition keyed :: "store \<Rightarrow> (string, store) http" where
  "keyed x = (incoming ''POST'' ''/api/v1/me'' demo_headers demo_s0 x)\<lparr>x_idempotency_key := Some ''k''\<rparr>"

lemma api_path: "MatchesAny ''/api/v1/me'' [''/api/v1/me'']"
proof -
  have "meta_free ''/api/v1/me''" by (simp add: meta_free_def GoPath.bslash_def)
  then show ?thesis by (simp add: Match_literal)
qed

lemma keyed_idempotent: "idempotent demo_manager [''/api/v1/me''] ''k'' (keyed x)"
  by (simp add: idempotent_def keyed_def incoming_def demo_manager_def api_path del: MatchesAny.simps)

lemma keyed_ext [simp]: "g_ext (keyed x) = x" "g_writes (keyed x) = []" "print_of (keyed x) = print_of (keyed y)"
  by (simp_all add: keyed_def incoming_def print_of_def)

lemma print_of_length: "length (print_of c) = 64"
  by (simp add: print_of_def length_sha256_hex)

definition busy :: store where
  "busy = \<lparr>st_next = 1, st_entries = [''k'' \<mapsto> (''other'', nat_str 0, Running)]\<rparr>"

lemma runs_only_when_acquired_witness:
  "\<exists>c'. \<forall>h. IdempotencyExecution (Some demo_manager) id [''/api/v1/me''] h (keyed busy) = Done c'"
proof -
  have n: "print_of (keyed busy) \<noteq> ''other''" using print_of_length [of "keyed busy"] by auto
  then have b: "im_Begin demo_manager ''k'' (print_of (keyed busy)) (g_ext (keyed busy)) = (Inr (decision StateConflict []), busy)"
    by (simp add: demo_manager_def demo_begin_def busy_def)
  have "de_State (decision StateConflict []) = StateConflict" by (simp add: decision_def)
  then show ?thesis using runs_only_when_acquired [OF keyed_idempotent b, of id] by fastforce
qed

section \<open>Replay\<close>

text \<open>C29. Repeating a request replays its answer: once a request with an idempotency key has been answered
  with one unified response below status 400, and the manager has accepted this result from the owner
  of the key, the same key, subject, route and body are answered, while the result lives, with status
  200, the same code and message, the body as decoded from its JSON and the request's own id, and the
  rule service is left alone. Of the manager it is assumed that a result it accepts under the owner
  that \<open>Begin\<close> gave out for a fingerprint, a readable message with a body that was decoded from JSON,
  is what a later \<open>Begin\<close> of this fingerprint answers; \<open>later\<close>
  is any evolution of the store, \<open>alive\<close> one in which the result of the key does not expire.\<close>

theorem repeated_request_is_replayed:
  assumes store: "\<And>fp d x x1 y r y1 y2. im_Begin m key fp x = (Inr d, x1) \<Longrightarrow> de_State d = StateAcquired \<Longrightarrow>
      later x1 y \<Longrightarrow> im_Complete m key (de_Owner d) r y = (None, y1) \<Longrightarrow> alive y1 y2 \<Longrightarrow>
      resp_Body r \<in> range decoded \<Longrightarrow> valid_utf8 (resp_Message r) \<Longrightarrow>
      \<exists>d' x2. im_Begin m key fp y2 = (Inr d', x2) \<and> de_State d' = StateCompleted \<and> de_Response d' = Inr r"
    and first: "idempotent m paths key c" "im_Begin m key (print_of c) (g_ext c) = (Inr d, x)"
      "de_State d = StateAcquired"
    and answer: "h (c\<lparr>g_ext := x\<rparr>) = Done c'" "g_writes c' = g_writes c @ [WJSON r]" "g_status c' < 400" "valid_utf8 (resp_Message r)"
      "later x (g_ext c')"
    and accepted: "fst (im_Complete m key (de_Owner d) (r\<lparr>resp_Body := decoded (resp_Body r), resp_RequestID := []\<rparr>) (g_ext c')) = None"
    and again: "idempotent m paths key c2" "print_of c2 = print_of c" "g_writes c2 = []"
      "alive (g_ext (final (IdempotencyExecution (Some m) decoded paths h c))) (g_ext c2)"
  shows "\<exists>c3. IdempotencyExecution (Some m) decoded paths h' c2 = Done c3
    \<and> g_writes c3 = [WJSON (r\<lparr>resp_Body := decoded (resp_Body r), resp_RequestID := requestID c2\<rparr>)]
    \<and> g_status c3 = 200 \<and> g_svc c3 = g_svc c2"
proof -
  let ?r = "r\<lparr>resp_Body := decoded (resp_Body r), resp_RequestID := []\<rparr>"
  let ?y1 = "g_ext (final (IdempotencyExecution (Some m) decoded paths h c))"
  have "?y1 = snd (im_Complete m key (de_Owner d) ?r (g_ext c'))"
    using first answer by (simp add: IdempotencyExecution_begin Let_def persist_result_def captured_response_def)
  with accepted have "im_Complete m key (de_Owner d) ?r (g_ext c') = (None, ?y1)" by (simp add: prod_eq_iff)
  from store [OF first(2,3) answer(5) this again(4)] again(2) answer(4) obtain d' x2 where
    "im_Begin m key (print_of c2) (g_ext c2) = (Inr d', x2)" "de_State d' = StateCompleted" "de_Response d' = Inr ?r"
    by auto
  with again(1,3) show ?thesis by (simp add: IdempotencyExecution_begin Let_def requestID_def)
qed

lemma repeated_request_is_replayed_witness:
  "\<forall>h'. \<exists>c3. IdempotencyExecution (Some demo_manager) id [''/api/v1/me''] h'
      (keyed (g_ext (final (IdempotencyExecution (Some demo_manager) id [''/api/v1/me''] handle_Me (keyed demo_empty)))))
     = Done c3 \<and> g_status c3 = 200"
proof
  fix h' :: "(string, store) handler"
  let ?c = "keyed demo_empty"
  let ?x = "\<lparr>st_next = Suc 0, st_entries = [''k'' \<mapsto> (print_of ?c, nat_str 0, Running)]\<rparr>"
  let ?y1 = "g_ext (final (IdempotencyExecution (Some demo_manager) id [''/api/v1/me''] handle_Me ?c))"
  let ?d = "decision StateAcquired (nat_str 0)"
  let ?r = "\<lparr>resp_Code = CodeOK, resp_Message = ''success'', resp_Body = BSubject None, resp_RequestID = []\<rparr>"
  have b: "im_Begin demo_manager ''k'' (print_of ?c) (g_ext ?c) = (Inr ?d, ?x)" and a: "de_State ?d = StateAcquired"
    by (simp_all add: demo_manager_def demo_begin_def demo_empty_def decision_def)
  obtain c' where h: "handle_Me (?c\<lparr>g_ext := ?x\<rparr>) = Done c'" and c': "c' = OK (BSubject None) (?c\<lparr>g_ext := ?x\<rparr>)"
    by (simp add: handle_Me_def keyed_def incoming_def)
  have w: "g_writes c' = g_writes ?c @ [WJSON ?r]" "g_status c' < 400"
    by (simp_all add: c' OK_def keyed_def incoming_def requestID_def)
  have u: "valid_utf8 (resp_Message ?r)" by (simp add: valid_utf8_Cons byte_def)
  have ext: "g_ext c' = ?x" by (simp add: c' OK_def)
  have l: "evolves {} ?x (g_ext c')" unfolding ext by (rule evolves.same)
  have ok: "fst (im_Complete demo_manager ''k'' (de_Owner ?d) (?r\<lparr>resp_Body := id (resp_Body ?r), resp_RequestID := []\<rparr>) (g_ext c')) = None"
    by (simp add: ext demo_manager_def demo_settle_def decision_def)
  have live: "evolves {''k''} ?y1 (g_ext (keyed ?y1))" by (simp add: evolves.same)
  have "\<exists>c3. IdempotencyExecution (Some demo_manager) id [''/api/v1/me''] h' (keyed ?y1) = Done c3
      \<and> g_writes c3 = [WJSON (?r\<lparr>resp_Body := id (resp_Body ?r), resp_RequestID := requestID (keyed ?y1)\<rparr>)]
      \<and> g_status c3 = 200 \<and> g_svc c3 = g_svc (keyed ?y1)"
    by (rule repeated_request_is_replayed [where h' = h' and m = demo_manager and key = "''k''" and decoded = id
      and later = "evolves {}" and alive = "evolves {''k''}" and paths = "[''/api/v1/me'']" and c = ?c and h = handle_Me,
      OF _ keyed_idempotent b a h w u l ok keyed_idempotent keyed_ext(3) keyed_ext(2) live])
      (rule demo_store)
  then show "\<exists>c3. IdempotencyExecution (Some demo_manager) id [''/api/v1/me''] h' (keyed ?y1) = Done c3 \<and> g_status c3 = 200"
    by blast
qed

end
