(* ===== verification/HttpUnified.thy ===== *)
theory HttpUnified
  imports HttpLaws HttpDemo
begin

text \<open>
  The response format of the API: whatever happens to a request, it is answered by one JSON document of
  the unified shape, under the request's own id. As a contract of a middleware (locale \<open>responder\<close>): if
  the rest of the chain answers so, so does the middleware in front of it.
\<close>

section \<open>One answer\<close>

definition proper :: "int \<Rightarrow> int \<Rightarrow> bool" where
  "proper code status \<longleftrightarrow> (code = CodeOK \<and> status = 200) \<or> (code, status) \<in> set documented_codes
     \<or> (code = CodeInvalidArgument \<and> status = 415)"

text \<open>A request without an idempotency key: nothing of its answer comes from the store.\<close>

definition unkeyed :: "('p, 'x) http \<Rightarrow> bool" where
  "unkeyed c \<longleftrightarrow> g_header c ''Idempotency-Key'' = [] \<and> x_idempotency_key c = None"

definition answers :: "('p, 'x) http \<Rightarrow> ('p, 'x) http outcome \<Rightarrow> bool" where
  "answers c r \<longleftrightarrow> (\<exists>c' v. r = Done c' \<and> g_writes c' = g_writes c @ [WJSON v]
     \<and> resp_RequestID v = g_request_id c \<and> g_out c' ''X-Request-ID'' = g_out c ''X-Request-ID''
     \<and> (g_writes c = [] \<and> unkeyed c \<longrightarrow> proper (resp_Code v) (g_status c')))"

text \<open>What the rest of the chain sees of a request.\<close>

definition via :: "('p, 'x) http \<Rightarrow> ('p, 'x) http \<Rightarrow> bool" where
  "via c d \<longleftrightarrow> g_Method d = g_Method c \<and> g_FullPath d = g_FullPath c \<and> g_writes d = g_writes c
     \<and> g_request_id d = g_request_id c \<and> g_out d ''X-Request-ID'' = g_out c ''X-Request-ID''
     \<and> (unkeyed c \<longrightarrow> unkeyed d)"

lemma via_refl [simp]: "via c c"
  by (simp add: via_def)

lemma via_trans: "via a b \<Longrightarrow> via b c \<Longrightarrow> via a c"
  by (simp add: via_def)

lemma unkeyed_updates [simp]:
  "unkeyed (c\<lparr>g_environment := e, x_environment := e'\<rparr>) = unkeyed c" "unkeyed (c\<lparr>g_body := b\<rparr>) = unkeyed c"
  "unkeyed (c\<lparr>g_ext := x\<rparr>) = unkeyed c" "unkeyed (c\<lparr>g_body := b, g_ext := x\<rparr>) = unkeyed c"
  "unkeyed (c\<lparr>g_subject := s, x_principal := q, x_credential := cr\<rparr>) = unkeyed c"
  "unkeyed (set_header k v c) = unkeyed c"
  by (simp_all add: unkeyed_def)

lemma via_updates [simp]:
  "via c (d\<lparr>g_environment := e, x_environment := e'\<rparr>) = via c d" "via c (d\<lparr>g_body := b\<rparr>) = via c d"
  "via c (d\<lparr>g_ext := x\<rparr>) = via c d" "via c (d\<lparr>g_body := b, g_ext := x\<rparr>) = via c d"
  "via c (d\<lparr>g_subject := s, x_principal := q, x_credential := cr\<rparr>) = via c d"
  "k \<noteq> ''X-Request-ID'' \<Longrightarrow> via c (set_header k v d) = via c d"
  by (simp_all add: via_def)

lemma via_headers: "\<forall>(k, v) \<in> set kvs. k \<noteq> ''X-Request-ID'' \<Longrightarrow> via c (fold (\<lambda>(k, v). set_header k v) kvs d) = via c d"
proof (induction kvs arbitrary: d)
  case (Cons kv kvs)
  then show ?case by (cases kv) (simp add: Cons.IH)
qed simp

lemma answers_via: "via c d \<Longrightarrow> answers d r \<Longrightarrow> answers c r"
  unfolding answers_def via_def by auto

lemma answers_put: "resp_RequestID v = g_request_id c \<Longrightarrow> (unkeyed c \<Longrightarrow> proper (resp_Code v) st) \<Longrightarrow> answers c (Done (put st (WJSON v) c))"
  by (simp add: answers_def)

lemma answers_OK: "answers c (Done (OK b c))"
  unfolding OK_def by (rule answers_put) (simp_all add: requestID_def proper_def)

lemma answers_reject: "proper code st \<Longrightarrow> answers c (Done (reject st code m c))"
  unfolding reject_def by (rule answers_put) (simp_all add: requestID_def)

lemma proper_app: "is_app e \<Longrightarrow> proper (err_code (app_error e)) (err_status (app_error e))"
  by (cases e) (auto simp: app_error_def is_app_as is_app_def proper_def)

lemma answers_Fail: "is_app e \<Longrightarrow> answers c (Done (Fail e c))"
  unfolding Fail_def Let_def by (intro answers_reject proper_app)

lemma answers_after:
  assumes "answers c r" and "\<And>d. g_writes d \<noteq> [] \<Longrightarrow> \<exists>d'. k d = Done d' \<and> g_writes d' = g_writes d
    \<and> g_status d' = g_status d \<and> g_out d' = g_out d"
  shows "answers c (after k r)"
proof -
  from assms(1) obtain d v where d: "r = Done d" "g_writes d = g_writes c @ [WJSON v]"
    "resp_RequestID v = g_request_id c" "g_out d ''X-Request-ID'' = g_out c ''X-Request-ID''"
    "g_writes c = [] \<and> unkeyed c \<longrightarrow> proper (resp_Code v) (g_status d)"
    by (auto simp: answers_def)
  moreover from d(2) obtain d' where "k d = Done d'" "g_writes d' = g_writes d" "g_status d' = g_status d" "g_out d' = g_out d"
    using assms(2) [of d] by auto
  ultimately show ?thesis by (simp add: answers_def)
qed

section \<open>Every middleware\<close>

locale responder =
  fixes m :: "(('p, 'x) http \<Rightarrow> ('p, 'x) http outcome) \<Rightarrow> ('p, 'x) http \<Rightarrow> ('p, 'x) http outcome"
  assumes answer: "g_Method c = ''POST'' \<Longrightarrow> (\<And>d. via c d \<Longrightarrow> answers d (h d)) \<Longrightarrow> answers c (m h c)"
begin

lemma transmits: "(\<And>d. g_Method d = ''POST'' \<Longrightarrow> g_FullPath d = p \<Longrightarrow> answers d (h d)) \<Longrightarrow>
    g_Method c = ''POST'' \<Longrightarrow> g_FullPath c = p \<Longrightarrow> answers c (m h c)"
  by (rule answer) (simp_all add: via_def)

end

lemma responderI:
  "(\<And>h c. g_Method c = ''POST'' \<Longrightarrow> (\<And>d. via c d \<Longrightarrow> answers c (h d)) \<Longrightarrow> answers c (m h c)) \<Longrightarrow> responder m"
  unfolding responder_def by (blast intro: answers_via)

lemma responder_chain:
  "(\<And>m. m \<in> set ms \<Longrightarrow> responder m) \<Longrightarrow> (\<And>d. g_Method d = ''POST'' \<Longrightarrow> g_FullPath d = p \<Longrightarrow> answers d (h d)) \<Longrightarrow>
     g_Method c = ''POST'' \<Longrightarrow> g_FullPath c = p \<Longrightarrow> answers c (chain ms h c)"
proof (induction ms arbitrary: c)
  case Nil
  then show ?case by (simp add: chain_Nil)
next
  case (Cons m ms)
  have m: "responder m" by (rule Cons.prems(1)) simp
  show ?case unfolding chain_Cons
    by (rule responder.transmits [OF m _ Cons.prems(3,4)], rule Cons.IH) (use Cons.prems in auto)
qed

interpretation idempotency_key_answers: responder "IdempotencyKey ok" for ok
proof (rule responderI)
  fix h and c :: "('p, 'x) http"
  assume h: "\<And>d. via c d \<Longrightarrow> answers c (h d)"
  have "via c (set_header ''Idempotency-Key'' k (c\<lparr>x_idempotency_key := Some k\<rparr>))" if "g_header c ''Idempotency-Key'' \<noteq> []" for k
    using that by (simp add: via_def unkeyed_def set_header_def)
  then show "answers c (IdempotencyKey ok h c)"
    by (auto simp: IdempotencyKey_def Let_def intro!: answers_Fail h)
qed

interpretation environment_answers: responder "Environment profile" for profile
  by (rule responderI) (simp add: Environment_def)

interpretation logger_answers: responder RequestLogger
  by (rule responderI) (auto simp: RequestLogger_def intro!: answers_after)

interpretation recovery_answers: responder Recovery
proof (rule responderI)
  fix h and c :: "('p, 'x) http"
  assume "\<And>d. via c d \<Longrightarrow> answers c (h d)"
  then have "answers c (h c)" by simp
  then show "answers c (Recovery h c)" by (auto simp: Recovery_def answers_def)
qed

interpretation metrics_answers: responder "HTTPMetrics enabled" for enabled
  by (rule responderI) (auto simp: HTTPMetrics_def Let_def intro!: answers_after)

interpretation headers_answers: responder SecurityHeaders
  by (rule responderI) (auto simp: SecurityHeaders_def security_headers_def via_headers simp del: fold_simps)

interpretation cors_answers: responder "HttpMiddleware.CORS cfg" for cfg
proof (rule responderI)
  fix h and c :: "('p, 'x) http"
  assume "g_Method c = ''POST''" "\<And>d. via c d \<Longrightarrow> answers c (h d)"
  moreover have "proper CodeForbidden 403" by (simp add: proper_def documented_codes_def)
  ultimately show "answers c (HttpMiddleware.CORS cfg h c)"
    unfolding HttpMiddleware.CORS_def Let_def
    by (auto simp: via_headers intro!: answers_reject simp del: fold_simps)
qed

interpretation body_answers: responder "MaxBody limit" for limit
  by (rule responderI) (simp add: MaxBody_def)

interpretation timeout_answers: responder Timeout
  by (rule responderI) (auto simp: Timeout_def intro!: answers_after)

interpretation json_answers: responder "RequireJSON parse" for parse
  by (rule responderI) (auto simp: RequireJSON_def proper_def intro!: answers_reject)

interpretation limit_answers: responder "HttpMiddleware.RateLimit limiter rule dimension key" for limiter rule dimension key
  by (rule responderI) (auto simp: HttpMiddleware.RateLimit_def Let_def split: sum.split prod.split
      intro!: answers_via [OF _ answers_Fail])

interpretation authentication_answers: responder "Authentication verify cfg" for verify cfg
  by (rule responderI) (auto simp: Authentication_def HttpMiddleware.JWT_def Let_def intro!: answers_Fail
      split: option.split sum.split)

interpretation authorization_answers: responder "HttpMiddleware.Authorization enabled enforce" for enabled enforce
  by (rule responderI) (auto simp: HttpMiddleware.Authorization_def intro!: answers_Fail split: option.split)

text \<open>A stored answer only comes back to a request with a key.\<close>

lemma answers_stored: "\<not> unkeyed c \<Longrightarrow> resp_RequestID v = g_request_id c \<Longrightarrow> answers c (Done (put st (WJSON v) c))"
  by (simp add: answers_def)

interpretation execution_answers: responder "IdempotencyExecution manager decoded paths" for manager decoded paths
proof (rule responderI)
  fix h and c :: "('p, 'a) http"
  assume h: "\<And>d. via c d \<Longrightarrow> answers c (h d)"
  have refused: "answers c (Done (Fail e c'))" if "via c c'" "is_app e" for e c'
    using that by (blast intro: answers_via answers_Fail)
  have stored: "answers c (Done (put st (WJSON v) c'))"
    if "x_idempotency_key c \<noteq> None" "g_writes c' = g_writes c" "g_out c' = g_out c" "resp_RequestID v = g_request_id c" for st v c'
    using that by (auto simp: answers_def unkeyed_def)
  have ran: "answers c (after (\<lambda>c'. Done (persist_result m decoded k owner n c')) (h d))" if "via c d" for m k owner n d
    using h [OF that] by (rule answers_after) (simp add: persist_result_def split: option.split)
  show "answers c (IdempotencyExecution manager decoded paths h c)"
    using h [of c] unfolding IdempotencyExecution_def idempotencyFingerprint_def reject_def
    by (auto simp: Let_def requestID_def split: option.split sum.split prod.split idem_state.split
        intro!: refused stored ran)
qed

section \<open>Handlers\<close>

lemma via_svc [simp]: "via c (d\<lparr>g_svc := s\<rparr>) = via c d"
  by (simp add: via_def unkeyed_def)

lemma answers_respond: "fails_with is_app (fst (operation (service_ctx c) (g_svc c))) \<Longrightarrow> answers c (respond operation view c)"
  by (auto simp: respond_def split: prod.split sum.split intro: answers_via [OF _ answers_Fail] answers_via [OF _ answers_OK])

lemma answers_bind: "(\<And>r. answers c (k r c)) \<Longrightarrow> answers c (bind_json dec k c)"
  by (auto simp: bind_json_def split: sum.split intro: answers_Fail)

lemma updates_documented:
  assumes "foreign_faults E"
  shows "fails_with is_app (fst (UpdateRuleSet E c t a i name d st e s))"
    and "fails_with is_app (fst (PublishRuleVersion E c t a i v re ve s))"
    and "fails_with is_app (fst (BatchEvaluate Es c inputs s))"
  using service_documented(2) [OF assms, of c t a i name d st e s] service_documented(3,9) [OF assms]
    service_documented(8) [OF assms, of c t a i v re ve s]
  by (auto simp: UpdateRuleSet_def PublishRuleVersion_def BatchEvaluate_def split: prod.split sum.split)

lemma handler_answers:
  assumes "(p, h) \<in> set (api_routes E)" and "\<And>i. foreign_faults (he_service E i)"
  shows "answers c (h c)"
proof -
  note d = service_documented [OF assms(2)] updates_documented [OF assms(2)]
  have "answers c (handle_Version E c)" "answers c (handle_Me c)"
    by (simp_all add: handle_Version_def handle_Me_def answers_OK)
  moreover have "answers c (handle_CreateRuleSet E c)" "answers c (handle_UpdateRuleSet E c)"
    "answers c (handle_GetRuleSet E c)" "answers c (handle_ListRuleSets E c)"
    "answers c (handle_CreateRuleVersion E c)" "answers c (handle_ValidateRuleVersion E c)"
    "answers c (handle_PublishRuleVersion E c)" "answers c (handle_GetRuleVersion E c)"
    "answers c (handle_ListRuleVersions E c)" "answers c (handle_Evaluate E c)" "answers c (handle_BatchEvaluate E c)"
    unfolding handle_CreateRuleSet_def handle_UpdateRuleSet_def handle_GetRuleSet_def handle_ListRuleSets_def
      handle_CreateRuleVersion_def handle_ValidateRuleVersion_def handle_PublishRuleVersion_def
      handle_GetRuleVersion_def handle_ListRuleVersions_def handle_Evaluate_def handle_BatchEvaluate_def
    by (intro answers_bind answers_respond d)+
  ultimately show ?thesis using assms(1) unfolding api_routes_def by auto
qed

lemma map_of_group:
  "distinct (map fst xs) \<Longrightarrow> (p, h) \<in> set xs \<Longrightarrow> map_of (map (\<lambda>(p, h). ((m, pre @ p), g h)) xs) (m, pre @ p) = Some (g h)"
  by (induction xs) (auto simp: image_iff)

lemma api_route:
  assumes "(p, h) \<in> set (api_routes E)"
  shows "map_of (routes E) (''POST'', ''/api/v1'' @ p) = Some (chain (api_chain E) h)"
proof -
  have "\<exists>others. routes E = others @ map (\<lambda>(p, h). ((''POST'', ''/api/v1'' @ p), chain (api_chain E) h)) (api_routes E)
      \<and> (\<forall>((m, path), h) \<in> set others. take 4 path \<noteq> ''/api'')"
    unfolding routes_def append_assoc [symmetric] by (intro exI conjI, rule refl) (auto simp: pprof_routes_def)
  then obtain others where r: "routes E = others @ map (\<lambda>(p, h). ((''POST'', ''/api/v1'' @ p), chain (api_chain E) h)) (api_routes E)"
    and o: "\<forall>((m, path), h) \<in> set others. take 4 path \<noteq> ''/api''" by blast
  have "distinct (map fst (api_routes E))" by (simp add: api_routes_def)
  from map_of_group [OF this assms] have "map_of (map (\<lambda>(p, h). ((''POST'', ''/api/v1'' @ p), chain (api_chain E) h)) (api_routes E))
      (''POST'', ''/api/v1'' @ p) = Some (chain (api_chain E) h)" .
  moreover have "map_of others (''POST'', ''/api/v1'' @ p) = None"
    using o by (fastforce simp: map_of_eq_None_iff)
  ultimately show ?thesis by (simp add: r map_add_def)
qed

section \<open>The server\<close>

lemma engine_responders:
  assumes "he_otel E = (\<lambda>h. h)" and "m \<in> set (tl (engine_chain E))"
  shows "responder m"
proof -
  have "responder (\<lambda>h :: ('p, 'x) http \<Rightarrow> _. h)" by (rule responderI) simp
  with assms show ?thesis
    unfolding engine_chain_def list.sel set_simps
    by (elim insertE emptyE) (simp_all add: idempotency_key_answers.responder_axioms
      environment_answers.responder_axioms logger_answers.responder_axioms recovery_answers.responder_axioms
      metrics_answers.responder_axioms headers_answers.responder_axioms cors_answers.responder_axioms
      body_answers.responder_axioms timeout_answers.responder_axioms json_answers.responder_axioms)
qed

lemma api_responders: "m \<in> set (api_chain E) \<Longrightarrow> responder m"
  unfolding api_chain_def set_simps
  by (elim insertE emptyE) (simp_all add: limit_answers.responder_axioms authentication_answers.responder_axioms
    authorization_answers.responder_axioms execution_answers.responder_axioms)

text \<open>C25. Every POST to a route of the API is answered by exactly one JSON document of the unified
  shape, whatever the limiter, the verifier, the policy, the idempotency store, the database and the
  application service answer. It carries the id of the request, which is also the \<open>X-Request-ID\<close>
  header, is always valid, and is the client's own where that is valid. A request without an
  idempotency key is answered with status 200 exactly with code 0, and otherwise with a documented pair
  of code and status (or 415 for a wrong content type). \<open>otelgin\<close> only adds a span; the errors of the
  database driver are assumed not to be application errors; the random source fills 16 bytes.\<close>

theorem unified_responses:
  fixes E :: "('c, 'p, 'x) http_env"
  assumes otel: "he_otel E = (\<lambda>h. h)" and faults: "\<And>i. foreign_faults (he_service E i)"
    and random: "\<And>v. he_random E = Inr v \<Longrightarrow> length v = 16" "- (2 ^ 63) \<le> he_now E" "he_now E < 2 ^ 63"
    and fresh: "g_writes c = []" "x_idempotency_key c = None"
    and route: "(p, h) \<in> set (api_routes E)" "g_Method c = ''POST''" "g_FullPath c = ''/api/v1'' @ p"
  shows "\<exists>c' v. serve E c = Done c' \<and> g_writes c' = [WJSON v]
    \<and> Valid (resp_RequestID v) \<and> g_out c' ''X-Request-ID'' = Some (resp_RequestID v)
    \<and> (Valid (g_header c ''X-Request-ID'') \<longrightarrow> resp_RequestID v = g_header c ''X-Request-ID'')
    \<and> (g_header c ''Idempotency-Key'' = [] \<longrightarrow>
         (if g_status c' = 200 then resp_Code v = CodeOK
          else (resp_Code v, g_status c') \<in> set ((CodeInvalidArgument, 415) # documented_codes)))"
proof -
  let ?given = "g_header c ''X-Request-ID''"
  define i where "i = (if \<not> Valid ?given then Generate (he_random E) (he_now E) else ?given)"
  define d where "d = set_header ''X-Request-ID'' i (c\<lparr>g_request_id := i, x_request_id := Some i\<rparr>)"
  have valid: "Valid i" using Generate_Valid [of "he_random E" "he_now E"] random by (auto simp: i_def)
  have api: "answers d (dispatch E d)" if "g_Method d = ''POST''" "g_FullPath d = ''/api/v1'' @ p" for d
  proof -
    have "answers d (chain (api_chain E) h d)"
      by (rule responder_chain [OF api_responders _ that], assumption) (rule handler_answers [OF route(1) faults])
    then show ?thesis unfolding dispatch_def that api_route [OF route(1)] by simp
  qed
  have "serve E c = chain (tl (engine_chain E)) (dispatch E) d"
    by (simp add: serve_def engine_chain_def chain_Cons RequestID_def Let_def d_def i_def)
  moreover have "answers d (chain (tl (engine_chain E)) (dispatch E) d)"
    by (rule responder_chain [OF engine_responders [OF otel] api]) (simp_all add: d_def route set_header_def)
  ultimately obtain c' v where r: "serve E c = Done c'" "g_writes c' = [WJSON v]" "resp_RequestID v = i"
    "g_out c' ''X-Request-ID'' = Some i" "unkeyed d \<longrightarrow> proper (resp_Code v) (g_status c')"
    using fresh by (auto simp: answers_def d_def set_header_def)
  have "unkeyed d \<longleftrightarrow> g_header c ''Idempotency-Key'' = []" using fresh by (simp add: d_def unkeyed_def set_header_def)
  with r(5) have "g_header c ''Idempotency-Key'' = [] \<longrightarrow> (if g_status c' = 200 then resp_Code v = CodeOK
      else (resp_Code v, g_status c') \<in> set ((CodeInvalidArgument, 415) # documented_codes))"
    by (auto simp: proper_def documented_codes_def)
  moreover have "Valid ?given \<longrightarrow> i = ?given" by (simp add: i_def)
  ultimately show ?thesis using r(1-4) valid by simp
qed

lemma unified_responses_witness:
  "\<exists>c' v. serve (demo_server None idle_limiter) (incoming ''POST'' ''/api/v1/rule-sets/create'' demo_headers demo_s0 ()) = Done c'
     \<and> g_writes c' = [WJSON v] \<and> resp_RequestID v = ''r-1''"
proof -
  let ?E = "demo_server None idle_limiter :: (string, string, unit) http_env"
  let ?c = "incoming ''POST'' ''/api/v1/rule-sets/create'' demo_headers demo_s0 ()"
  have e: "he_otel ?E = (\<lambda>h. h)" "he_random ?E = Inr (replicate 16 CHR ''r'')" "he_now ?E = 7" "he_service ?E = (\<lambda>_. demo_env ''s'')"
    by (simp_all add: demo_server_def)
  have c: "g_writes ?c = []" "x_idempotency_key ?c = None" "g_Method ?c = ''POST''" "g_FullPath ?c = ''/api/v1'' @ ''/rule-sets/create''"
    "g_header ?c ''X-Request-ID'' = ''r-1''"
    by (simp_all add: incoming_def header_of_def demo_headers_def)
  have route: "(''/rule-sets/create'', handle_CreateRuleSet ?E) \<in> set (api_routes ?E)" by (simp add: api_routes_def)
  have "Valid ''r-1''" by (rule Valid_bytes) (simp_all add: allowedCharacter_def byte_def)
  with unified_responses [OF e(1) _ _ _ _ c(1,2) route c(3,4)] c(5) foreign_demo show ?thesis
    unfolding e by fastforce
qed

end
