(* ===== verification/GrpcServer.thy ===== *)
theory GrpcServer
  imports HttpServer
begin

text \<open>
  \<open>internal/transport/grpc\<close>: the methods of \<open>ruleServer\<close>, the health service, the interceptors and the
  chain \<open>NewServer\<close> builds from them. A method is a function from the context of the call and the state
  behind it; the messages of a request have the fields of the HTTP bodies and are represented by them.
  The interceptors of the platform library are arguments.
\<close>

section \<open>Status and messages\<close>

datatype grpc_code =
    C_OK | C_Canceled | C_Unknown | C_InvalidArgument | C_DeadlineExceeded | C_NotFound | C_AlreadyExists
  | C_PermissionDenied | C_ResourceExhausted | C_FailedPrecondition | C_Aborted | C_OutOfRange
  | C_Unimplemented | C_Internal | C_Unavailable | C_DataLoss | C_Unauthenticated

datatype grpc_error = GrpcStatus (gs_code: grpc_code) (gs_message: string)

text \<open>The strings of \<open>codes.Code.String\<close>.\<close>

fun code_string :: "grpc_code \<Rightarrow> string" where
  "code_string C_OK = ''OK''"
| "code_string C_Canceled = ''Canceled''"
| "code_string C_Unknown = ''Unknown''"
| "code_string C_InvalidArgument = ''InvalidArgument''"
| "code_string C_DeadlineExceeded = ''DeadlineExceeded''"
| "code_string C_NotFound = ''NotFound''"
| "code_string C_AlreadyExists = ''AlreadyExists''"
| "code_string C_PermissionDenied = ''PermissionDenied''"
| "code_string C_ResourceExhausted = ''ResourceExhausted''"
| "code_string C_FailedPrecondition = ''FailedPrecondition''"
| "code_string C_Aborted = ''Aborted''"
| "code_string C_OutOfRange = ''OutOfRange''"
| "code_string C_Unimplemented = ''Unimplemented''"
| "code_string C_Internal = ''Internal''"
| "code_string C_Unavailable = ''Unavailable''"
| "code_string C_DataLoss = ''DataLoss''"
| "code_string C_Unauthenticated = ''Unauthenticated''"

record PageResult =
  pr_Total :: int
  pr_Page :: int
  pr_PageSize :: int

record PbEvaluation =
  pe_Matched :: bool
  pe_MatchedRule :: string
  pe_ResultJson :: string
  pe_EvaluatedVersionNumber :: int
  pe_Checksum :: string

record PbBatchResult =
  pbr_Index :: int
  pbr_Response :: "PbEvaluation option"
  pbr_ErrorCode :: string
  pbr_ErrorMessage :: string

datatype grpc_response =
    GRuleSet PbRuleSet
  | GRuleSetDetail PbRuleSet "PbRuleVersion option"
  | GRuleSets "PbRuleSet list" PageResult
  | GRuleVersion PbRuleVersion
  | GValidation bool "ValidationIssue list" string
  | GPublication PbRuleSet PbRuleVersion
  | GRuleVersions "PbRuleVersion list" PageResult
  | GEvaluation PbEvaluation
  | GBatch "PbBatchResult list"
  | GHealth bool
  | GHealthList "(string \<times> bool) list"

section \<open>Errors and pages (\<open>rule_server.go\<close>)\<close>

definition code_mapping :: "(int \<times> grpc_code) list" where
  "code_mapping =
     [(CodeInvalidArgument, C_InvalidArgument), (CodeNotFound, C_NotFound),
      (CodeUnauthorized, C_Unauthenticated), (CodeForbidden, C_PermissionDenied),
      (CodeConflict, C_Aborted), (CodeRequestInProgress, C_Aborted),
      (CodeDependencyUnavailable, C_Unavailable), (CodeRequestTimeout, C_DeadlineExceeded),
      (CodeTooManyRequests, C_ResourceExhausted)]"

definition ruleError :: "go_error \<Rightarrow> grpc_error" where
  "ruleError err =
     (case errors_as err of
        None \<Rightarrow> GrpcStatus C_Internal ''internal server error''
      | Some appErr \<Rightarrow>
          GrpcStatus (case map_of code_mapping (err_code appErr) of Some code \<Rightarrow> code | None \<Rightarrow> C_Internal)
            (err_message appErr))"

text \<open>The page of a request carries two \<open>uint32\<close>.\<close>

definition grpcPage :: "(int \<times> int) option \<Rightarrow> int \<times> int" where
  "grpcPage v = (case v of None \<Rightarrow> (0, 0) | Some (page, size') \<Rightarrow> (i64 (u32 page), i64 (u32 size')))"

definition grpcPageResult :: "int \<Rightarrow> int \<Rightarrow> int \<Rightarrow> PageResult" where
  "grpcPageResult count page size' = \<lparr>pr_Total = u64 count, pr_Page = u32 page, pr_PageSize = u32 size'\<rparr>"

section \<open>Calls\<close>

text \<open>What a call's context carries, and the metadata it came with.\<close>

record grpc_ctx =
  gc_metadata :: "string \<Rightarrow> string list"
  gc_principal :: "principal option"
  gc_request_id :: "string option"
  gc_environment :: "string option"
  gc_idempotency_key :: "string option"
  gc_err :: "go_error option"

text \<open>The state behind a call, the response header it sets, and the observations of the metrics.\<close>

record ('p, 'x) grpc_world =
  gw_svc :: "'p svc_state"
  gw_ext :: 'x
  gw_header :: "(string \<times> string) list"
  gw_metrics :: "(string \<times> grpc_code) list"

type_synonym ('p, 'x, 'r) call =
  "grpc_ctx \<Rightarrow> ('p, 'x) grpc_world \<Rightarrow> (('p, 'x) grpc_world \<times> (grpc_error + 'r)) outcome"

type_synonym ('p, 'x, 'r) interceptor = "('p, 'x, 'r) call \<Rightarrow> ('p, 'x, 'r) call"

definition grpc_service_ctx :: "grpc_ctx \<Rightarrow> ctx" where
  "grpc_service_ctx c = \<lparr>ctx_principal = gc_principal c, ctx_err = gc_err c\<rparr>"

definition invoke ::
  "(ctx \<Rightarrow> 'p svc_state \<Rightarrow> (go_error + 'v) \<times> 'p svc_state) \<Rightarrow> ('v \<Rightarrow> grpc_response) \<Rightarrow> ('p, 'x, grpc_response) call" where
  "invoke operation view c w =
     (case operation (grpc_service_ctx c) (gw_svc w) of
        (Inl err, s) \<Rightarrow> Done (w\<lparr>gw_svc := s\<rparr>, Inl (ruleError err))
      | (Inr v, s) \<Rightarrow> Done (w\<lparr>gw_svc := s\<rparr>, Inr (view v)))"

section \<open>Methods\<close>

type_synonym ('c, 'p) service = "nat \<Rightarrow> ('c, 'p) svc_env"

definition grpc_CreateRuleSet :: "('c, 'p) service \<Rightarrow> CreateRuleSetRequest \<Rightarrow> ('p, 'x, grpc_response) call" where
  "grpc_CreateRuleSet S r = invoke (\<lambda>x. CreateRuleSet (S 0) x (qcs_TenantID r) (qcs_ApplicationID r)
     (qcs_Code r) (qcs_Name r) (qcs_Description r)) (\<lambda>v. GRuleSet (ToProtoRuleSet v))"

definition grpc_UpdateRuleSet :: "('c, 'p) service \<Rightarrow> UpdateRuleSetRequest \<Rightarrow> ('p, 'x, grpc_response) call" where
  "grpc_UpdateRuleSet S r = invoke (\<lambda>x. UpdateRuleSet (S 0) x (qus_TenantID r) (qus_ApplicationID r)
     (qus_ID r) (qus_Name r) (qus_Description r) (qus_Status r) (qus_Version r))
     (\<lambda>v. GRuleSet (ToProtoRuleSet v))"

definition grpc_GetRuleSet :: "('c, 'p) service \<Rightarrow> GetRuleSetRequest \<Rightarrow> ('p, 'x, grpc_response) call" where
  "grpc_GetRuleSet S r = invoke (\<lambda>x. GetRuleSet (S 0) x (qgs_TenantID r) (qgs_ApplicationID r) (qgs_ID r)
     (qgs_Code r)) (\<lambda>(v, published). GRuleSetDetail (ToProtoRuleSet v) (map_option ToProtoRuleVersion published))"

text \<open>The page of a list request is a message of its own that may be absent.\<close>

definition grpc_ListRuleSets ::
  "('c, 'p) service \<Rightarrow> PageRequest \<Rightarrow> (int \<times> int) option \<Rightarrow> ('p, 'x, grpc_response) call" where
  "grpc_ListRuleSets S r page = invoke (\<lambda>x. ListRuleSets (S 0) x (qp_TenantID r) (qp_ApplicationID r)
     (qp_Status r) (qp_Keyword r) (fst (grpcPage page)) (snd (grpcPage page)))
     (\<lambda>values. GRuleSets (map ToProtoRuleSet (Items values))
        (grpcPageResult (Total values) (PageNumber values) (PageSize values)))"

definition grpc_CreateRuleVersion ::
  "('c, 'p) service \<Rightarrow> CreateRuleVersionRequest \<Rightarrow> ('p, 'x, grpc_response) call" where
  "grpc_CreateRuleVersion S r = invoke (\<lambda>x. CreateRuleVersion (S 0) x (qcv_TenantID r) (qcv_ApplicationID r)
     (qcv_RuleSetID r) (qcv_Definition r) (qcv_IdempotencyKey r) (qcv_RuleSetVersion r))
     (\<lambda>(v, _). GRuleVersion (ToProtoRuleVersion v))"

definition grpc_ValidateRuleVersion ::
  "('c, 'p) service \<Rightarrow> ValidateRuleVersionRequest \<Rightarrow> ('p, 'x, grpc_response) call" where
  "grpc_ValidateRuleVersion S r = invoke (\<lambda>x. ValidateRuleVersion (S 0) x (qvv_TenantID r)
     (qvv_ApplicationID r) (qvv_Definition r)) (\<lambda>(checksum, issues). GValidation (issues = []) issues checksum)"

definition grpc_PublishRuleVersion ::
  "('c, 'p) service \<Rightarrow> PublishRuleVersionRequest \<Rightarrow> ('p, 'x, grpc_response) call" where
  "grpc_PublishRuleVersion S r = invoke (\<lambda>x. PublishRuleVersion (S 0) x (qpv_TenantID r) (qpv_ApplicationID r)
     (qpv_RuleSetID r) (qpv_RuleVersionID r) (qpv_RuleSetVersion r) (qpv_RuleVersionVersion r))
     (\<lambda>(ruleSet, v). GPublication (ToProtoRuleSet ruleSet) (ToProtoRuleVersion v))"

definition grpc_GetRuleVersion :: "('c, 'p) service \<Rightarrow> GetRuleVersionRequest \<Rightarrow> ('p, 'x, grpc_response) call" where
  "grpc_GetRuleVersion S r = invoke (\<lambda>x. GetRuleVersion (S 0) x (qgv_TenantID r) (qgv_ApplicationID r)
     (qgv_RuleSetID r) (qgv_ID r)) (\<lambda>v. GRuleVersion (ToProtoRuleVersion v))"

definition grpc_ListRuleVersions ::
  "('c, 'p) service \<Rightarrow> ListRuleVersionsRequest \<Rightarrow> (int \<times> int) option \<Rightarrow> ('p, 'x, grpc_response) call" where
  "grpc_ListRuleVersions S r page = invoke (\<lambda>x. ListRuleVersions (S 0) x (qlv_TenantID r) (qlv_ApplicationID r)
     (qlv_RuleSetID r) (qlv_Status r) (fst (grpcPage page)) (snd (grpcPage page)))
     (\<lambda>values. GRuleVersions (map ToProtoRuleVersion (Items values))
        (grpcPageResult (Total values) (PageNumber values) (PageSize values)))"

definition pb_evaluation :: "Evaluation \<Rightarrow> RuleVersion \<Rightarrow> PbEvaluation" where
  "pb_evaluation e v =
     \<lparr>pe_Matched = Matched e, pe_MatchedRule = MatchedRule e, pe_ResultJson = ResultJSON e,
      pe_EvaluatedVersionNumber = rv_VersionNumber v, pe_Checksum = rv_Checksum v\<rparr>"

definition grpc_Evaluate :: "('c, 'p) service \<Rightarrow> EvaluateRequest \<Rightarrow> ('p, 'x, grpc_response) call" where
  "grpc_Evaluate S r = invoke (\<lambda>x. Evaluate (S 0) x (qev_TenantID r) (qev_ApplicationID r) (qev_RuleSetID r)
     (qev_RuleSetCode r) (qev_VersionNumber r) (qev_Facts r)) (\<lambda>(e, v). GEvaluation (pb_evaluation e v))"

text \<open>\<open>int32(index)\<close>\<close>

definition i32 :: "int \<Rightarrow> int" where
  "i32 x = (x + 2 ^ 31) mod 2 ^ 32 - 2 ^ 31"

definition pb_batch_item :: "BatchEvaluationResult \<Rightarrow> PbBatchResult" where
  "pb_batch_item result =
     (case be_Outcome result of
        Inl err \<Rightarrow> \<lparr>pbr_Index = i32 (int (be_Index result)), pbr_Response = None,
          pbr_ErrorCode = code_string (gs_code (ruleError err)), pbr_ErrorMessage = gs_message (ruleError err)\<rparr>
      | Inr (e, v) \<Rightarrow> \<lparr>pbr_Index = i32 (int (be_Index result)), pbr_Response = Some (pb_evaluation e v),
          pbr_ErrorCode = [], pbr_ErrorMessage = []\<rparr>)"

definition grpc_BatchEvaluate :: "('c, 'p) service \<Rightarrow> BatchEvaluateRequest \<Rightarrow> ('p, 'x, grpc_response) call" where
  "grpc_BatchEvaluate S r = invoke (\<lambda>x. BatchEvaluate S x (map evaluation_input (qbe_Requests r)))
     (\<lambda>results. GBatch (map pb_batch_item results))"

text \<open>The health service.\<close>

definition grpc_Check ::
  "(string \<times> go_error option) option \<Rightarrow> (string \<times> go_error option) option \<Rightarrow> bool \<Rightarrow> ('p, 'x, grpc_response) call" where
  "grpc_Check db redis redis_first c w = Done (w, Inr (GHealth (snd (Ready_status db redis redis_first))))"

definition grpc_List :: "('p, 'x, grpc_response) call" where
  "grpc_List c w = Done (w, Inr (GHealthList [([], True)]))"

section \<open>Interceptors\<close>

definition chosen_id :: "go_error + string \<Rightarrow> int \<Rightarrow> string list \<Rightarrow> string" where
  "chosen_id random now values =
     (let given = (if values \<noteq> [] \<and> Valid (hd values) then hd values else []) in
      if given = [] then Generate random now else given)"

definition requestIDInterceptor :: "go_error + string \<Rightarrow> int \<Rightarrow> ('p, 'x, 'r) interceptor" where
  "requestIDInterceptor random now h c w =
     (let id' = chosen_id random now (gc_metadata c ''x-request-id'') in
      h (c\<lparr>gc_request_id := Some id'\<rparr>) (w\<lparr>gw_header := gw_header w @ [(''x-request-id'', id')]\<rparr>))"

definition idempotencyInterceptor :: "(string \<Rightarrow> bool) \<Rightarrow> ('p, 'x, 'r) interceptor" where
  "idempotencyInterceptor ok h c w =
     (case gc_metadata c ''idempotency-key'' of
        [] \<Rightarrow> h c w
      | key # _ \<Rightarrow>
          if \<not> ok key then Done (w, Inl (GrpcStatus C_InvalidArgument ''invalid idempotency-key''))
          else h (c\<lparr>gc_idempotency_key := Some key\<rparr>) w)"

definition environmentInterceptor :: "string \<Rightarrow> ('p, 'x, 'r) interceptor" where
  "environmentInterceptor profile h c w = h (c\<lparr>gc_environment := Some profile\<rparr>) w"

definition authenticateGRPC ::
  "(string \<Rightarrow> go_error + principal) \<Rightarrow> Auth \<Rightarrow> string \<Rightarrow> grpc_ctx \<Rightarrow> grpc_error + grpc_ctx" where
  "authenticateGRPC verify cfg method c =
     (let values = gc_metadata c ''authorization'' in
      if psk_Enabled (auth_PSK cfg) \<and> MatchesAny method (psk_GRPCMethods (auth_PSK cfg)) then
        (if values = [] \<or> \<not> VerifyPSK (hd values) (psk_Key (auth_PSK cfg))
         then Inl (GrpcStatus C_Unauthenticated ''missing or invalid PSK'')
         else Inr (c\<lparr>gc_principal := Some psk_principal\<rparr>))
      else if MatchesAny method (auth_SkipGRPCMethods cfg) then Inr c
      else if values = [] then Inl (GrpcStatus C_Unauthenticated ''missing bearer token'')
      else (let (scheme, raw, ok) = Cut (hd values) (CHR '' '') in
        if \<not> ok \<or> \<not> EqualFold scheme ''Bearer''
        then Inl (GrpcStatus C_Unauthenticated ''invalid bearer token'')
        else (case verify raw of
            Inl err \<Rightarrow> Inl (GrpcStatus C_Unauthenticated ''invalid or expired token'')
          | Inr identity \<Rightarrow> Inr (c\<lparr>gc_principal := Some identity\<rparr>))))"

definition authInterceptor ::
  "(string \<Rightarrow> go_error + principal) \<Rightarrow> Auth \<Rightarrow> string \<Rightarrow> ('p, 'x, 'r) interceptor" where
  "authInterceptor verify cfg method h c w =
     (case authenticateGRPC verify cfg method c of
        Inl err \<Rightarrow> Done (w, Inl err)
      | Inr authCtx \<Rightarrow> h authCtx w)"

definition recoveryInterceptor :: "('p, 'x, 'r) interceptor" where
  "recoveryInterceptor h c w =
     (case h c w of
        Done r \<Rightarrow> Done r
      | Panic (w', _) \<Rightarrow> Done (w', Inl (GrpcStatus C_Internal ''internal server error'')))"

definition status_code :: "grpc_error + 'r \<Rightarrow> grpc_code" where
  "status_code r = (case r of Inl e \<Rightarrow> gs_code e | Inr _ \<Rightarrow> C_OK)"

definition metricsInterceptor :: "bool \<Rightarrow> string \<Rightarrow> ('p, 'x, 'r) interceptor" where
  "metricsInterceptor enabled method h c w =
     (case h c w of
        Panic r \<Rightarrow> Panic r
      | Done (w', r) \<Rightarrow>
          Done (if enabled then w'\<lparr>gw_metrics := gw_metrics w' @ [(method, status_code r)]\<rparr> else w', r))"

text \<open>The interceptors of streaming calls: the same steps on the context of a stream, whose \<open>SetHeader\<close>
  may fail.\<close>

definition environmentStreamInterceptor :: "string \<Rightarrow> ('p, 'x, unit) interceptor" where
  "environmentStreamInterceptor profile h c w = h (c\<lparr>gc_environment := Some profile\<rparr>) w"

definition requestIDStreamInterceptor ::
  "go_error option \<Rightarrow> go_error + string \<Rightarrow> int \<Rightarrow> ('p, 'x, unit) interceptor" where
  "requestIDStreamInterceptor setHeader random now h c w =
     (let id' = chosen_id random now (gc_metadata c ''x-request-id'') in
      case setHeader of
        Some err \<Rightarrow> Done (w, Inl (GrpcStatus C_Internal ''set request metadata''))
      | None \<Rightarrow> h (c\<lparr>gc_request_id := Some id'\<rparr>) (w\<lparr>gw_header := gw_header w @ [(''x-request-id'', id')]\<rparr>))"

definition idempotencyStreamInterceptor :: "(string \<Rightarrow> bool) \<Rightarrow> ('p, 'x, unit) interceptor" where
  "idempotencyStreamInterceptor ok h c w =
     (case gc_metadata c ''idempotency-key'' of
        [] \<Rightarrow> h c w
      | key # _ \<Rightarrow>
          if \<not> ok key then Done (w, Inl (GrpcStatus C_InvalidArgument ''invalid idempotency-key''))
          else h (c\<lparr>gc_idempotency_key := Some key\<rparr>) w)"

definition authStreamInterceptor ::
  "(string \<Rightarrow> go_error + principal) \<Rightarrow> Auth \<Rightarrow> string \<Rightarrow> ('p, 'x, unit) interceptor" where
  "authStreamInterceptor verify cfg method h c w =
     (case authenticateGRPC verify cfg method c of
        Inl err \<Rightarrow> Done (w, Inl err)
      | Inr authCtx \<Rightarrow> h authCtx w)"

definition recoveryStreamInterceptor :: "('p, 'x, unit) interceptor" where
  "recoveryStreamInterceptor h c w =
     (case h c w of
        Done r \<Rightarrow> Done r
      | Panic (w', _) \<Rightarrow> Done (w', Inl (GrpcStatus C_Internal ''internal server error'')))"

definition metricsStreamInterceptor :: "bool \<Rightarrow> string \<Rightarrow> ('p, 'x, unit) interceptor" where
  "metricsStreamInterceptor enabled method h c w =
     (case h c w of
        Panic r \<Rightarrow> Panic r
      | Done (w', r) \<Rightarrow>
          Done (if enabled then w'\<lparr>gw_metrics := gw_metrics w' @ [(method, status_code r)]\<rparr> else w', r))"

section \<open>Server\<close>

definition rule_method :: "string \<Rightarrow> string" where
  "rule_method name = ''/platform.rule.v1.RuleService/'' @ name"

definition rule_requirements :: "(string \<times> Requirement) list" where
  "rule_requirements =
     [(''CreateRuleSet'', requirement ''rule.set'' ''create''),
      (''UpdateRuleSet'', requirement ''rule.set'' ''update''),
      (''GetRuleSet'', requirement ''rule.set'' ''read''),
      (''ListRuleSets'', requirement ''rule.set'' ''list''),
      (''CreateRuleVersion'', requirement ''rule.version'' ''create''),
      (''ValidateRuleVersion'', requirement ''rule.version'' ''validate''),
      (''PublishRuleVersion'', requirement ''rule.version'' ''publish''),
      (''GetRuleVersion'', requirement ''rule.version'' ''read''),
      (''ListRuleVersions'', requirement ''rule.version'' ''list''),
      (''Evaluate'', requirement ''rule.evaluation'' ''execute''),
      (''BatchEvaluate'', requirement ''rule.evaluation'' ''execute'')]"

definition ruleGRPCRequirement :: "bool \<Rightarrow> string \<Rightarrow> Requirement option" where
  "ruleGRPCRequirement enabled method =
     (if \<not> enabled then None
      else map_of (map (\<lambda>(name, r). (rule_method name, r)) rule_requirements) method)"

record ('p, 'x) grpc_env =
  ge_cfg :: Config
  ge_random :: "go_error + string"
  ge_now :: int
  ge_idem_valid :: "string \<Rightarrow> bool"
  ge_verify :: "string \<Rightarrow> go_error + principal"
  ge_authz :: "(string \<Rightarrow> Requirement option) \<Rightarrow> string \<Rightarrow> ('p, 'x, grpc_response) interceptor"
  ge_idempotency :: "string list \<Rightarrow> string \<Rightarrow> ('p, 'x, grpc_response) interceptor"

text \<open>\<open>grpc.ChainUnaryInterceptor\<close> of \<open>NewServer\<close>: the first interceptor is the outermost.\<close>

definition unary_chain :: "('p, 'x) grpc_env \<Rightarrow> string \<Rightarrow> ('p, 'x, grpc_response) interceptor list" where
  "unary_chain E method =
     [environmentInterceptor (rt_ActiveProfile (cfg_Runtime (ge_cfg E))),
      requestIDInterceptor (ge_random E) (ge_now E), idempotencyInterceptor (ge_idem_valid E),
      recoveryInterceptor, authInterceptor (ge_verify E) (cfg_Auth (ge_cfg E)) method,
      ge_authz E (ruleGRPCRequirement (authz_Enabled (cfg_Authorization (ge_cfg E)))) method,
      ge_idempotency E (idem_GRPCMethods (cfg_Idempotency (ge_cfg E))) method,
      metricsInterceptor (obs_MetricsEnabled (cfg_Observability (ge_cfg E))) method]"

definition unary :: "('p, 'x) grpc_env \<Rightarrow> string \<Rightarrow> ('p, 'x, grpc_response) interceptor" where
  "unary E method h = foldr (\<lambda>i k. i k) (unary_chain E method) h"

definition stream_chain ::
  "('p, 'x) grpc_env \<Rightarrow> go_error option \<Rightarrow> string \<Rightarrow> ('p, 'x, unit) interceptor list" where
  "stream_chain E setHeader method =
     [environmentStreamInterceptor (rt_ActiveProfile (cfg_Runtime (ge_cfg E))),
      requestIDStreamInterceptor setHeader (ge_random E) (ge_now E),
      idempotencyStreamInterceptor (ge_idem_valid E), recoveryStreamInterceptor,
      authStreamInterceptor (ge_verify E) (cfg_Auth (ge_cfg E)) method,
      metricsStreamInterceptor (obs_MetricsEnabled (cfg_Observability (ge_cfg E))) method]"

definition stream :: "('p, 'x) grpc_env \<Rightarrow> go_error option \<Rightarrow> string \<Rightarrow> ('p, 'x, unit) interceptor" where
  "stream E setHeader method h = foldr (\<lambda>i k. i k) (stream_chain E setHeader method) h"

end
