(* ===== verification/GrpcClaims.thy ===== *)
theory GrpcClaims
  imports GrpcServer HttpClaims
begin

text \<open>
  The gRPC server: its methods give the answers of the HTTP handlers, its requirements are theirs, only
  authenticated callers reach the rules, and a panic never leaves the chain.
\<close>

section \<open>Operations of the two transports\<close>

datatype rule_call =
    CallCreateRuleSet CreateRuleSetRequest
  | CallUpdateRuleSet UpdateRuleSetRequest
  | CallGetRuleSet GetRuleSetRequest
  | CallListRuleSets PageRequest
  | CallCreateRuleVersion CreateRuleVersionRequest
  | CallValidateRuleVersion ValidateRuleVersionRequest
  | CallPublishRuleVersion PublishRuleVersionRequest
  | CallGetRuleVersion GetRuleVersionRequest
  | CallListRuleVersions ListRuleVersionsRequest
  | CallEvaluate EvaluateRequest
  | CallBatchEvaluate BatchEvaluateRequest

fun http_path :: "rule_call \<Rightarrow> string" where
  "http_path (CallCreateRuleSet r) = ''/rule-sets/create''"
| "http_path (CallUpdateRuleSet r) = ''/rule-sets/update''"
| "http_path (CallGetRuleSet r) = ''/rule-sets/get''"
| "http_path (CallListRuleSets r) = ''/rule-sets/list''"
| "http_path (CallCreateRuleVersion r) = ''/rule-versions/create''"
| "http_path (CallValidateRuleVersion r) = ''/rule-versions/validate''"
| "http_path (CallPublishRuleVersion r) = ''/rule-versions/publish''"
| "http_path (CallGetRuleVersion r) = ''/rule-versions/get''"
| "http_path (CallListRuleVersions r) = ''/rule-versions/list''"
| "http_path (CallEvaluate r) = ''/rules/evaluate''"
| "http_path (CallBatchEvaluate r) = ''/rules/evaluate-batch''"

fun grpc_name :: "rule_call \<Rightarrow> string" where
  "grpc_name (CallCreateRuleSet r) = ''CreateRuleSet''"
| "grpc_name (CallUpdateRuleSet r) = ''UpdateRuleSet''"
| "grpc_name (CallGetRuleSet r) = ''GetRuleSet''"
| "grpc_name (CallListRuleSets r) = ''ListRuleSets''"
| "grpc_name (CallCreateRuleVersion r) = ''CreateRuleVersion''"
| "grpc_name (CallValidateRuleVersion r) = ''ValidateRuleVersion''"
| "grpc_name (CallPublishRuleVersion r) = ''PublishRuleVersion''"
| "grpc_name (CallGetRuleVersion r) = ''GetRuleVersion''"
| "grpc_name (CallListRuleVersions r) = ''ListRuleVersions''"
| "grpc_name (CallEvaluate r) = ''Evaluate''"
| "grpc_name (CallBatchEvaluate r) = ''BatchEvaluate''"

text \<open>The page of a gRPC request has unsigned 32 bit fields: only such pages can be asked for.\<close>

fun representable :: "rule_call \<Rightarrow> bool" where
  "representable (CallListRuleSets r) \<longleftrightarrow>
     0 \<le> qp_Page r \<and> qp_Page r < 2 ^ 32 \<and> 0 \<le> qp_PageSize r \<and> qp_PageSize r < 2 ^ 32"
| "representable (CallListRuleVersions r) \<longleftrightarrow>
     0 \<le> qlv_Page r \<and> qlv_Page r < 2 ^ 32 \<and> 0 \<le> qlv_PageSize r \<and> qlv_PageSize r < 2 ^ 32"
| "representable _ \<longleftrightarrow> True"

fun grpc_run :: "('c, 'p) service \<Rightarrow> rule_call \<Rightarrow> ('p, 'x, grpc_response) call" where
  "grpc_run S (CallCreateRuleSet r) = grpc_CreateRuleSet S r"
| "grpc_run S (CallUpdateRuleSet r) = grpc_UpdateRuleSet S r"
| "grpc_run S (CallGetRuleSet r) = grpc_GetRuleSet S r"
| "grpc_run S (CallListRuleSets r) = grpc_ListRuleSets S r (Some (qp_Page r, qp_PageSize r))"
| "grpc_run S (CallCreateRuleVersion r) = grpc_CreateRuleVersion S r"
| "grpc_run S (CallValidateRuleVersion r) = grpc_ValidateRuleVersion S r"
| "grpc_run S (CallPublishRuleVersion r) = grpc_PublishRuleVersion S r"
| "grpc_run S (CallGetRuleVersion r) = grpc_GetRuleVersion S r"
| "grpc_run S (CallListRuleVersions r) = grpc_ListRuleVersions S r (Some (qlv_Page r, qlv_PageSize r))"
| "grpc_run S (CallEvaluate r) = grpc_Evaluate S r"
| "grpc_run S (CallBatchEvaluate r) = grpc_BatchEvaluate S r"

text \<open>The HTTP body binds to the request of the call.\<close>

fun decodes :: "bindings \<Rightarrow> string \<times> go_error option \<Rightarrow> rule_call \<Rightarrow> bool" where
  "decodes b raw (CallCreateRuleSet r) \<longleftrightarrow> bd_CreateRuleSet b raw = Inr r"
| "decodes b raw (CallUpdateRuleSet r) \<longleftrightarrow> bd_UpdateRuleSet b raw = Inr r"
| "decodes b raw (CallGetRuleSet r) \<longleftrightarrow> bd_GetRuleSet b raw = Inr r"
| "decodes b raw (CallListRuleSets r) \<longleftrightarrow> bd_ListRuleSets b raw = Inr r"
| "decodes b raw (CallCreateRuleVersion r) \<longleftrightarrow> bd_CreateRuleVersion b raw = Inr r"
| "decodes b raw (CallValidateRuleVersion r) \<longleftrightarrow> bd_ValidateRuleVersion b raw = Inr r"
| "decodes b raw (CallPublishRuleVersion r) \<longleftrightarrow> bd_PublishRuleVersion b raw = Inr r"
| "decodes b raw (CallGetRuleVersion r) \<longleftrightarrow> bd_GetRuleVersion b raw = Inr r"
| "decodes b raw (CallListRuleVersions r) \<longleftrightarrow> bd_ListRuleVersions b raw = Inr r"
| "decodes b raw (CallEvaluate r) \<longleftrightarrow> bd_Evaluate b raw = Inr r"
| "decodes b raw (CallBatchEvaluate r) \<longleftrightarrow> bd_BatchEvaluate b raw = Inr r"

section \<open>Agreement of answers\<close>

definition sets_agree :: "PbRuleSet \<Rightarrow> RuleSetView \<Rightarrow> bool" where
  "sets_agree g v \<longleftrightarrow>
     pb_Id g = sv_ID v \<and> pb_TenantId g = sv_TenantID v \<and> pb_ApplicationId g = sv_ApplicationID v \<and>
     pb_Code g = sv_Code v \<and> pb_Name g = sv_Name v \<and> pb_Description g = sv_Description v \<and>
     pb_Status g = sv_Status v \<and> pb_PublishedVersionNumber g = sv_PublishedVersionNumber v \<and>
     pb_Version g = sv_Version v \<and> pb_CreatedAt g = sv_CreatedAt v \<and> pb_UpdatedAt g = sv_UpdatedAt v \<and>
     pb_CreatedBy g = sv_CreatedBy v \<and> pb_UpdatedBy g = sv_UpdatedBy v"

definition versions_agree :: "PbRuleVersion \<Rightarrow> RuleVersionView \<Rightarrow> bool" where
  "versions_agree g v \<longleftrightarrow>
     pv_Id g = vv_ID v \<and> pv_TenantId g = vv_TenantID v \<and> pv_ApplicationId g = vv_ApplicationID v \<and>
     pv_RuleSetId g = vv_RuleSetID v \<and> pv_VersionNumber g = vv_VersionNumber v \<and>
     pv_Status g = vv_Status v \<and> pv_DefinitionJson g = vv_Definition v \<and> pv_Checksum g = vv_Checksum v \<and>
     pv_PublishedAt g = vv_PublishedAt v \<and> pv_Version g = vv_Version v \<and>
     pv_CreatedAt g = vv_CreatedAt v \<and> pv_UpdatedAt g = vv_UpdatedAt v \<and>
     pv_CreatedBy g = vv_CreatedBy v \<and> pv_UpdatedBy g = vv_UpdatedBy v"

definition evaluations_agree :: "PbEvaluation \<Rightarrow> EvaluateResponse \<Rightarrow> bool" where
  "evaluations_agree g v \<longleftrightarrow>
     pe_Matched g = er_Matched v \<and> pe_MatchedRule g = er_MatchedRule v \<and> pe_ResultJson g = er_Result v \<and>
     pe_EvaluatedVersionNumber g = er_EvaluatedVersionNumber v \<and> pe_Checksum g = er_Checksum v"

text \<open>The status code that belongs to an application code.\<close>

definition grpc_of :: "int \<Rightarrow> grpc_code" where
  "grpc_of code = (case map_of code_mapping code of Some g \<Rightarrow> g | None \<Rightarrow> C_Internal)"

definition items_agree :: "PbBatchResult \<Rightarrow> BatchEvaluateResult \<Rightarrow> bool" where
  "items_agree g v \<longleftrightarrow> pbr_Index g = i32 (br_Index v) \<and> pbr_ErrorMessage g = br_ErrorMessage v \<and>
     (case (pbr_Response g, br_Response v) of
        (Some x, Some y) \<Rightarrow> evaluations_agree x y \<and> br_ErrorCode v = CodeOK \<and> pbr_ErrorCode g = []
      | (None, None) \<Rightarrow> pbr_ErrorCode g = code_string (grpc_of (br_ErrorCode v))
      | _ \<Rightarrow> False)"

fun bodies_agree :: "grpc_response \<Rightarrow> body \<Rightarrow> bool" where
  "bodies_agree (GRuleSet g) b \<longleftrightarrow> (\<exists>v. b = BRuleSet v \<and> sets_agree g v)"
| "bodies_agree (GRuleSetDetail g p) b \<longleftrightarrow> (\<exists>d. b = BRuleSetDetail d \<and>
     sets_agree g (sd_RuleSet d) \<and> rel_option versions_agree p (sd_PublishedVersion d))"
| "bodies_agree (GRuleSets gs p) b \<longleftrightarrow> (\<exists>d. b = BRuleSetPage d \<and>
     list_all2 sets_agree gs (sp_Items d) \<and> pr_Total p = u64 (sp_Total d) \<and> pr_Page p = sp_Page d \<and>
     pr_PageSize p = sp_PageSize d)"
| "bodies_agree (GRuleVersion g) b \<longleftrightarrow>
     (\<exists>v. b = BRuleVersion v \<and> versions_agree g v) \<or>
     (\<exists>d. b = BCreateRuleVersion d \<and> versions_agree g (cb_RuleVersion d))"
| "bodies_agree (GValidation ok issues checksum) b \<longleftrightarrow> (\<exists>d. b = BValidateRuleVersion d \<and>
     ok = vb_Valid d \<and> checksum = vb_Checksum d \<and>
     map (\<lambda>i. (Path i, Code i, Message i)) issues
       = map (\<lambda>i. (ib_Path i, ib_Code i, ib_Message i)) (vb_Issues d))"
| "bodies_agree (GPublication g v) b \<longleftrightarrow> (\<exists>d. b = BPublishRuleVersion d \<and>
     sets_agree g (pub_RuleSet d) \<and> versions_agree v (pub_RuleVersion d))"
| "bodies_agree (GRuleVersions gs p) b \<longleftrightarrow> (\<exists>d. b = BRuleVersionPage d \<and>
     list_all2 versions_agree gs (vp_Items d) \<and> pr_Total p = u64 (vp_Total d) \<and> pr_Page p = vp_Page d \<and>
     pr_PageSize p = vp_PageSize d)"
| "bodies_agree (GEvaluation g) b \<longleftrightarrow> (\<exists>v. b = BEvaluate v \<and> evaluations_agree g v)"
| "bodies_agree (GBatch gs) b \<longleftrightarrow> (\<exists>d. b = BBatchEvaluate d \<and> list_all2 items_agree gs (bs_Results d))"
| "bodies_agree (GHealth ok) b \<longleftrightarrow> False"
| "bodies_agree (GHealthList hs) b \<longleftrightarrow> False"

definition answers_agree :: "grpc_error + grpc_response \<Rightarrow> Response \<Rightarrow> bool" where
  "answers_agree g v \<longleftrightarrow>
     (case g of
        Inr x \<Rightarrow> resp_Code v = CodeOK \<and> bodies_agree x (resp_Body v)
      | Inl e \<Rightarrow> resp_Body v = BNil \<and> gs_message e = resp_Message v \<and> gs_code e = grpc_of (resp_Code v))"

text \<open>One call on each transport: the same state afterwards, and one response that agrees.\<close>

definition transports_match ::
  "('p, 'x) http \<Rightarrow> ('p, 'x) http outcome \<Rightarrow> (('p, 'y) grpc_world \<times> (grpc_error + grpc_response)) outcome \<Rightarrow> bool" where
  "transports_match c h g \<longleftrightarrow>
     (\<exists>c' w r v. h = Done c' \<and> g = Done (w, r) \<and> g_svc c' = gw_svc w \<and>
        g_writes c' = g_writes c @ [WJSON v] \<and> answers_agree r v)"

lemma sets_agree_views: "sets_agree (ToProtoRuleSet v) (ruleSetView v)"
  by (simp add: sets_agree_def ToProtoRuleSet_def ruleSetView_def)

lemma versions_agree_views: "versions_agree (ToProtoRuleVersion v) (ruleVersionView v)"
  by (simp add: versions_agree_def ToProtoRuleVersion_def ruleVersionView_def)

lemma evaluations_agree_views: "evaluations_agree (pb_evaluation e v) (evaluationResponse e v)"
  by (simp add: evaluations_agree_def pb_evaluation_def evaluationResponse_def)

lemmas views_agree = sets_agree_views versions_agree_views evaluations_agree_views

lemma ruleError_code: "gs_code (ruleError e) = grpc_of (err_code (app_error e))"
  "gs_message (ruleError e) = err_message (app_error e)"
  by (simp_all add: ruleError_def app_error_def grpc_of_def code_mapping_def code_defs Internal_def split: option.split)

lemma items_agree_views: "items_agree (pb_batch_item r) (batch_item r)"
proof (cases "be_Outcome r")
  case (Inl e)
  then show ?thesis
    using ruleError_code [of e]
    by (auto simp: items_agree_def pb_batch_item_def batch_item_def app_error_def Internal_def split: option.splits)
next
  case (Inr p)
  then show ?thesis
    by (cases p) (simp add: items_agree_def pb_batch_item_def batch_item_def evaluations_agree_views CodeOK_def)
qed

lemma lists_agree: "(\<And>x. R (f x) (g x)) \<Longrightarrow> list_all2 R (map f xs) (map g xs)"
  by (simp add: list_all2_conv_all_nth)

text \<open>The one lemma behind all operations: both transports hand the service the same call.\<close>

lemma invoke_respond:
  assumes "service_ctx c = grpc_service_ctx x" and "g_svc c = gw_svc w"
    and "\<And>v s. op1 (service_ctx c) (g_svc c) = (Inr v, s) \<Longrightarrow> bodies_agree (view1 v) (view2 v)"
  shows "transports_match c (respond op1 view2 c) (invoke op1 view1 x w)"
proof -
  obtain r s where r: "op1 (service_ctx c) (g_svc c) = (r, s)" by (meson surj_pair)
  have i: "invoke op1 view1 x w = (case r of Inl e \<Rightarrow> Done (w\<lparr>gw_svc := s\<rparr>, Inl (ruleError e))
      | Inr v \<Rightarrow> Done (w\<lparr>gw_svc := s\<rparr>, Inr (view1 v)))"
    using r assms(1,2) by (simp add: invoke_def split: sum.split)
  show ?thesis
  proof (cases r)
    case (Inl e)
    then show ?thesis
      using r i ruleError_code [of e]
      by (auto simp: transports_match_def respond_def Fail_def Let_def reject_def answers_agree_def)
  next
    case (Inr v)
    then show ?thesis
      using r i assms(3) [of v s]
      by (auto simp: transports_match_def respond_def OK_def answers_agree_def)
  qed
qed

lemma representable_page:
  assumes "0 \<le> page" "page < 2 ^ 32" "0 \<le> size0" "size0 < 2 ^ 32"
  shows "grpcPage (Some (page, size0)) = (page, size0)"
    "normalizePage page size0 = (p, n) \<Longrightarrow> u32 p = p \<and> u32 n = n"
  using assms by (auto simp: grpcPage_def u32_id i64_def normalizePage_def u32_def split: if_splits)

lemma list_pages:
  "ListRuleSets E c t a st kw page size0 s = (Inr values, s') \<Longrightarrow>
     normalizePage page size0 = (PageNumber values, PageSize values)"
  "ListRuleVersions E c t a rs st page size0 s = (Inr versions, s'') \<Longrightarrow>
     normalizePage page size0 = (PageNumber versions, PageSize versions)"
  by (auto simp: ListRuleSets_def ListRuleVersions_def andThen_Inr map_sum_Inr split: prod.splits)

lemma bind_decoded: "dec (g_body c) = Inr r \<Longrightarrow> bind_json dec k c = k r c"
  by (simp add: bind_json_def)

text \<open>C30. HTTP and gRPC are one service: for each of the eleven operations, from the same caller and the
  same state, the route's handler on a body that binds to a request and the gRPC method on that request
  leave the same state and give the same answer, field by field: the same values, or the same error
  message with the status code that belongs to the application code.\<close>

theorem transports_agree:
  assumes "decodes (he_bindings E) (g_body c) rc" and "representable rc"
    and "service_ctx c = grpc_service_ctx x" and "g_svc c = gw_svc w"
  shows "\<exists>h. map_of (api_routes E) (http_path rc) = Some h \<and>
    transports_match c (h c) (grpc_run (he_service E) rc x w)"
  using assms(1,2)
proof (cases rc)
  case (CallListRuleSets r)
  then have "0 \<le> qp_Page r" "qp_Page r < 2 ^ 32" "0 \<le> qp_PageSize r" "qp_PageSize r < 2 ^ 32"
    using assms(2) by simp_all
  note page = representable_page [OF this]
  show ?thesis
    using assms CallListRuleSets
    by (auto simp: api_routes_def handle_ListRuleSets_def bind_decoded grpc_ListRuleSets_def page(1) grpcPageResult_def
        intro!: invoke_respond lists_agree views_agree dest!: list_pages(1) page(2))
next
  case (CallListRuleVersions r)
  then have "0 \<le> qlv_Page r" "qlv_Page r < 2 ^ 32" "0 \<le> qlv_PageSize r" "qlv_PageSize r < 2 ^ 32"
    using assms(2) by simp_all
  note page = representable_page [OF this]
  show ?thesis
    using assms CallListRuleVersions
    by (auto simp: api_routes_def handle_ListRuleVersions_def bind_decoded grpc_ListRuleVersions_def page(1)
        grpcPageResult_def intro!: invoke_respond lists_agree views_agree dest!: list_pages(2) page(2))
qed (use assms(3,4) in \<open>auto simp: api_routes_def handle_CreateRuleSet_def handle_UpdateRuleSet_def
    handle_GetRuleSet_def handle_CreateRuleVersion_def handle_ValidateRuleVersion_def
    handle_PublishRuleVersion_def handle_GetRuleVersion_def handle_Evaluate_def handle_BatchEvaluate_def
    grpc_CreateRuleSet_def grpc_UpdateRuleSet_def grpc_GetRuleSet_def grpc_CreateRuleVersion_def
    grpc_ValidateRuleVersion_def grpc_PublishRuleVersion_def grpc_GetRuleVersion_def grpc_Evaluate_def
    grpc_BatchEvaluate_def bind_decoded option.rel_map views_agree
    intro!: invoke_respond lists_agree items_agree_views option.rel_refl\<close>)

definition demo_call :: grpc_ctx where
  "demo_call = \<lparr>gc_metadata = (\<lambda>k. if k = ''authorization'' then [''Bearer token''] else []), gc_principal = None,
     gc_request_id = None, gc_environment = None, gc_idempotency_key = None, gc_err = None\<rparr>"

definition demo_start :: "string svc_state \<Rightarrow> (string, unit) grpc_world" where
  "demo_start s = \<lparr>gw_svc = s, gw_ext = (), gw_header = [], gw_metrics = []\<rparr>"

definition demo_create :: rule_call where
  "demo_create = CallCreateRuleSet \<lparr>qcs_TenantID = ''t'', qcs_ApplicationID = ''a'', qcs_Code = ''code'',
     qcs_Name = ''n'', qcs_Description = []\<rparr>"

lemma transports_agree_witness:
  "\<exists>h. map_of (api_routes (demo_server None idle_limiter)) ''/rule-sets/create'' = Some h \<and>
    transports_match ((incoming ''POST'' ''/api/v1/rule-sets/create'' [] demo_s0 ())\<lparr>x_principal := ctx_principal demo_ctx\<rparr>)
      (h ((incoming ''POST'' ''/api/v1/rule-sets/create'' [] demo_s0 ())\<lparr>x_principal := ctx_principal demo_ctx\<rparr>))
      (grpc_run (\<lambda>_. demo_env ''s'') demo_create (demo_call\<lparr>gc_principal := ctx_principal demo_ctx\<rparr>) (demo_start demo_s0))"
proof -
  let ?E = "demo_server None idle_limiter :: (string, string, unit) http_env"
  let ?c = "(incoming ''POST'' ''/api/v1/rule-sets/create'' [] demo_s0 ())\<lparr>x_principal := ctx_principal demo_ctx\<rparr>"
  let ?x = "demo_call\<lparr>gc_principal := ctx_principal demo_ctx\<rparr>"
  have "decodes (he_bindings ?E) (g_body ?c) demo_create" "representable demo_create"
    by (simp_all add: demo_create_def demo_server_def demo_bindings_def)
  moreover have "service_ctx ?c = grpc_service_ctx ?x" "g_svc ?c = gw_svc (demo_start demo_s0)"
    by (simp_all add: service_ctx_def grpc_service_ctx_def incoming_def demo_call_def demo_start_def)
  ultimately show ?thesis
    using transports_agree [of ?E ?c demo_create ?x "demo_start demo_s0"]
    by (simp add: demo_create_def demo_server_def)
qed

lemma map_of_methods: "map_of (map (\<lambda>(name, r). (rule_method name, r)) rs) (rule_method n) = map_of rs n"
  by (induction rs) (auto simp: rule_method_def)

lemma requirement_known: "ruleGRPCRequirement True (rule_method (grpc_name rc)) \<noteq> None"
  by (cases rc) (simp_all add: ruleGRPCRequirement_def map_of_methods rule_requirements_def)

text \<open>C31. Both transports ask the authorization service for the same permission: for each operation the
  requirement of its route is the requirement of its method, every rule operation has one, no other
  gRPC method has, and with authorization disabled none is asked for.\<close>

theorem requirements_agree:
  "ruleHTTPRequirement (''/api/v1'' @ http_path rc) = ruleGRPCRequirement True (rule_method (grpc_name rc))
    \<and> ruleGRPCRequirement True (rule_method (grpc_name rc)) \<noteq> None
    \<and> (ruleGRPCRequirement True method \<noteq> None \<longleftrightarrow> (\<exists>call. method = rule_method (grpc_name call)))
    \<and> ruleGRPCRequirement False method = None"
proof -
  have known: "ruleGRPCRequirement True (rule_method n) = map_of rule_requirements n" for n
    by (simp add: ruleGRPCRequirement_def map_of_methods)
  have "ruleHTTPRequirement (''/api/v1'' @ http_path rc) = ruleGRPCRequirement True (rule_method (grpc_name rc))
      \<and> ruleGRPCRequirement True (rule_method (grpc_name rc)) \<noteq> None" for rc
    by (cases rc) (simp_all add: ruleHTTPRequirement_def known rule_requirements_def)
  moreover have "\<exists>call. method = rule_method (grpc_name call)" if "ruleGRPCRequirement True method \<noteq> None"
  proof -
    from that obtain n r where n: "method = rule_method n" "(n, r) \<in> set rule_requirements"
      by (auto simp: ruleGRPCRequirement_def dest!: map_of_SomeD)
    from n(2) have "\<exists>call. grpc_name call = n"
      unfolding rule_requirements_def by (elim set_ConsD [elim_format] disjE) (auto intro: grpc_name.simps)
    with n(1) show ?thesis by auto
  qed
  ultimately show ?thesis by (auto simp: ruleGRPCRequirement_def)
qed

section \<open>Who reaches the rules\<close>

definition svc_of :: "(('p, 'x) grpc_world \<times> 'r) outcome \<Rightarrow> 'p svc_state" where
  "svc_of r = gw_svc (fst (final r))"

lemma svc_of_simps [simp]: "svc_of (Done r) = gw_svc (fst r)" "svc_of (Panic r) = gw_svc (fst r)"
  by (simp_all add: svc_of_def)

text \<open>The contract of an interceptor towards the rule service: it leaves the state alone, or the state is
  what the rest of the chain made of it when it ran once on a context the relation allows.\<close>

definition passes ::
  "(grpc_ctx \<Rightarrow> grpc_ctx \<Rightarrow> bool) \<Rightarrow> ('p, 'x, 'r) call \<Rightarrow> grpc_ctx \<Rightarrow> ('p, 'x) grpc_world
     \<Rightarrow> (('p, 'x) grpc_world \<times> (grpc_error + 'r)) outcome \<Rightarrow> bool" where
  "passes sees h c w r \<longleftrightarrow> svc_of r = gw_svc w \<or>
     (\<exists>c' w'. sees c c' \<and> gw_svc w' = gw_svc w \<and> svc_of r = svc_of (h c' w'))"

locale gate =
  fixes i :: "(grpc_ctx \<Rightarrow> ('p, 'x) grpc_world \<Rightarrow> (('p, 'x) grpc_world \<times> (grpc_error + 'r)) outcome)
      \<Rightarrow> grpc_ctx \<Rightarrow> ('p, 'x) grpc_world \<Rightarrow> (('p, 'x) grpc_world \<times> (grpc_error + 'r)) outcome"
    and sees :: "grpc_ctx \<Rightarrow> grpc_ctx \<Rightarrow> bool"
  assumes once: "passes sees h c w (i h c w)"
begin

lemma change: "svc_of (i h c w) \<noteq> gw_svc w \<Longrightarrow> \<exists>c' w'. sees c c' \<and> svc_of (h c' w') \<noteq> gw_svc w'"
  using once [of h c w] unfolding passes_def by metis

end

lemma gate_comp: "gate i s \<Longrightarrow> gate j t \<Longrightarrow> gate (\<lambda>h. i (j h)) (s OO t)"
proof
  fix h c and w :: "('a, 'b) grpc_world"
  assume i: "gate i s" and j: "gate j t"
  show "passes (s OO t) h c w (i (j h) c w)"
  proof (cases "svc_of (i (j h) c w) = gw_svc w")
    case False
    then obtain c1 w1 where c1: "s c c1" "gw_svc w1 = gw_svc w" "svc_of (i (j h) c w) = svc_of (j h c1 w1)"
      using gate.once [OF i, of "j h" c w] by (auto simp: passes_def)
    with False gate.once [OF j, of h c1 w1] show ?thesis by (auto simp: passes_def)
  qed (simp add: passes_def)
qed

lemma gate_weaken: "gate i s \<Longrightarrow> (\<And>c c'. s c c' \<Longrightarrow> t c c') \<Longrightarrow> gate i t"
  unfolding gate_def passes_def by meson

lemma passes_Done: "gw_svc (fst r) = gw_svc w \<Longrightarrow> passes sees h c w (Done r)"
  by (simp add: passes_def)

lemma passes_call: "sees c c' \<Longrightarrow> gw_svc w' = gw_svc w \<Longrightarrow> passes sees h c w (h c' w')"
  by (auto simp: passes_def)

lemma passes_same: "sees c c \<Longrightarrow> svc_of r = svc_of (h c w) \<Longrightarrow> passes sees h c w r"
  by (auto simp: passes_def)

definition kept :: "grpc_ctx \<Rightarrow> grpc_ctx \<Rightarrow> bool" where
  "kept c c' \<longleftrightarrow> gc_metadata c' = gc_metadata c \<and> gc_principal c' = gc_principal c"

lemma kept_updates [simp]:
  "kept c c" "kept c (c\<lparr>gc_request_id := a\<rparr>)" "kept c (c\<lparr>gc_environment := e\<rparr>)" "kept c (c\<lparr>gc_idempotency_key := k\<rparr>)"
  by (simp_all add: kept_def)

interpretation environment_gate: gate "environmentInterceptor profile" kept for profile
  by unfold_locales (auto simp: environmentInterceptor_def intro: passes_call)

interpretation request_id_gate: gate "requestIDInterceptor random now" kept for random now
  by unfold_locales (auto simp: requestIDInterceptor_def Let_def intro: passes_call)

interpretation idempotency_key_gate: gate "idempotencyInterceptor ok" kept for ok
  by unfold_locales (auto simp: idempotencyInterceptor_def split: list.split intro: passes_call passes_Done)

interpretation recovery_gate: gate recoveryInterceptor kept
  by unfold_locales (rule passes_same [OF kept_updates(1)],
    auto simp: recoveryInterceptor_def split: outcome.split)

interpretation metrics_gate: gate "metricsInterceptor enabled m" kept for enabled m
  by unfold_locales (rule passes_same [OF kept_updates(1)],
    auto simp: metricsInterceptor_def split: outcome.split)

interpretation auth_gate: gate "authInterceptor verify cfg m" "\<lambda>c c'. authenticateGRPC verify cfg m c = Inr c'"
  for verify cfg m
  by unfold_locales (auto simp: authInterceptor_def split: sum.split intro: passes_call passes_Done)

lemma run_no_caller: "gc_principal c = None \<Longrightarrow> svc_of (grpc_run S rc c w) = gw_svc w"
proof (cases rc)
  case (CallBatchEvaluate r)
  assume "gc_principal c = None"
  then show ?thesis
    using CallBatchEvaluate
    by (auto simp: grpc_BatchEvaluate_def invoke_def grpc_service_ctx_def BatchEvaluate_def
        dest: evaluate_all_no_caller split: prod.split sum.split)
qed (simp_all add: grpc_CreateRuleSet_def grpc_UpdateRuleSet_def grpc_GetRuleSet_def grpc_ListRuleSets_def
    grpc_CreateRuleVersion_def grpc_ValidateRuleVersion_def grpc_PublishRuleVersion_def grpc_GetRuleVersion_def
    grpc_ListRuleVersions_def grpc_Evaluate_def invoke_def grpc_service_ctx_def CreateRuleSet_def UpdateRuleSet_def
    update_prepare_def GetRuleSet_def ListRuleSets_def CreateRuleVersion_def ValidateRuleVersion_def
    PublishRuleVersion_def publish_prepare_def GetRuleVersion_def ListRuleVersions_def Evaluate_def)

text \<open>Whom the credentials of a call establish.\<close>

definition grpc_accepted ::
  "(string \<Rightarrow> go_error + principal) \<Rightarrow> Auth \<Rightarrow> string \<Rightarrow> string list \<Rightarrow> principal \<Rightarrow> bool" where
  "grpc_accepted verify cfg method values p \<longleftrightarrow> values \<noteq> [] \<and>
     (psk_Enabled (auth_PSK cfg) \<and> MatchesAny method (psk_GRPCMethods (auth_PSK cfg))
        \<and> VerifyPSK (hd values) (psk_Key (auth_PSK cfg)) \<and> p = psk_principal
      \<or> (\<exists>scheme raw. Cut (hd values) (CHR '' '') = (scheme, raw, True) \<and> EqualFold scheme ''Bearer''
           \<and> verify raw = Inr p))"

lemma authenticate_accepted:
  assumes "authenticateGRPC verify cfg method c = Inr c'" and "gc_principal c = None" and "gc_principal c' = Some p"
  shows "grpc_accepted verify cfg method (gc_metadata c ''authorization'') p"
  using assms by (auto simp: authenticateGRPC_def Let_def grpc_accepted_def split: if_splits prod.splits sum.splits)

text \<open>\<open>platformauthz.UnaryServerInterceptor\<close> and \<open>platformidempotency.UnaryServerInterceptor\<close>: the first lets a
  call with a requirement through when its caller is granted it, both leave the rules alone.\<close>

definition enforces :: "('p, 'x) grpc_env \<Rightarrow> (grpc_ctx \<Rightarrow> Requirement \<Rightarrow> bool) \<Rightarrow> bool" where
  "enforces G granted \<longleftrightarrow> (\<forall>resolver method. gate (ge_authz G resolver method)
     (\<lambda>c c'. kept c c' \<and> (\<forall>req. resolver method = Some req \<longrightarrow> granted c req)))"

text \<open>C32. Over gRPC, too, the rules change only for an authenticated caller: when a call of an operation
  changes the tables or the cache, its metadata carries the pre-shared key of a method configured for
  it, or a bearer token that verifies, and with authorization enabled that caller was granted the
  method's requirement.\<close>

theorem grpc_changes_are_authorized:
  fixes G :: "('p, 'x) grpc_env"
  assumes authz: "enforces G granted" and idem: "\<And>names m. gate (ge_idempotency G names m) kept"
    and fresh: "gc_principal c = None"
    and changed: "svc_of (unary G (rule_method (grpc_name rc)) (grpc_run S rc) c w) \<noteq> gw_svc w"
  shows "\<exists>p. grpc_accepted (ge_verify G) (cfg_Auth (ge_cfg G)) (rule_method (grpc_name rc))
        (gc_metadata c ''authorization'') p
    \<and> (authz_Enabled (cfg_Authorization (ge_cfg G)) \<longrightarrow>
        (\<exists>c' req. gc_principal c' = Some p \<and> granted c' req
           \<and> ruleGRPCRequirement True (rule_method (grpc_name rc)) = Some req))"
proof -
  let ?m = "rule_method (grpc_name rc)"
  let ?on = "authz_Enabled (cfg_Authorization (ge_cfg G))"
  have g: "gate (ge_authz G (ruleGRPCRequirement ?on) ?m)
      (\<lambda>c c'. kept c c' \<and> (\<forall>req. ruleGRPCRequirement ?on ?m = Some req \<longrightarrow> granted c req))"
    using authz by (simp add: enforces_def)
  note gates = gate_comp [OF environment_gate.gate_axioms gate_comp [OF request_id_gate.gate_axioms
    gate_comp [OF idempotency_key_gate.gate_axioms gate_comp [OF recovery_gate.gate_axioms
    gate_comp [OF auth_gate.gate_axioms gate_comp [OF g gate_comp [OF idem metrics_gate.gate_axioms]]]]]]]
  from changed obtain c1 c2 c3 a b e1 e2 d and w' :: "('p, 'x) grpc_world"
      where k: "kept c c1" "kept c1 c2" "kept c2 c3" "kept c3 a"
      "authenticateGRPC (ge_verify G) (cfg_Auth (ge_cfg G)) ?m a = Inr b" "kept b e1"
      "\<forall>req. ruleGRPCRequirement ?on ?m = Some req \<longrightarrow> granted b req" "kept e1 e2" "kept e2 d"
      "svc_of (grpc_run S rc d w') \<noteq> gw_svc w'"
    unfolding unary_def unary_chain_def by (auto dest!: gate.change [OF gates])
  then have s: "gc_metadata a = gc_metadata c" "gc_principal a = None" "gc_principal d = gc_principal b"
    using fresh by (simp_all add: kept_def)
  from s(3) k(10) obtain p where p: "gc_principal b = Some p"
    using run_no_caller by (metis not_None_eq)
  from authenticate_accepted [OF k(5) s(2) p] s(1)
  have "grpc_accepted (ge_verify G) (cfg_Auth (ge_cfg G)) ?m (gc_metadata c ''authorization'') p" by simp
  moreover have "?on \<longrightarrow> (\<exists>c' req. gc_principal c' = Some p \<and> granted c' req \<and> ruleGRPCRequirement True ?m = Some req)"
    using k(7) p requirement_known by (metis not_None_eq)
  ultimately show ?thesis by blast
qed

definition demo_grpc :: "(string, unit) grpc_env" where
  "demo_grpc =
     \<lparr>ge_cfg = production_config, ge_random = Inr (replicate 16 CHR ''r''), ge_now = 7,
      ge_idem_valid = (\<lambda>_. True), ge_verify = demo_verify,
      ge_authz = (\<lambda>resolver method h c w. if resolver method \<noteq> None \<and> gc_principal c = None
        then Done (w, Inl (GrpcStatus C_PermissionDenied ''denied'')) else h c w),
      ge_idempotency = (\<lambda>names method h. h)\<rparr>"

lemma demo_enforces: "enforces demo_grpc (\<lambda>c req. gc_principal c \<noteq> None)"
  unfolding enforces_def
proof (intro allI)
  fix resolver m
  show "gate (ge_authz demo_grpc resolver m)
      (\<lambda>c c'. kept c c' \<and> (\<forall>req. resolver m = Some req \<longrightarrow> gc_principal c \<noteq> None))"
    by unfold_locales (auto simp: demo_grpc_def intro: passes_Done passes_call)
qed

lemma demo_idempotency_gate: "gate (ge_idempotency demo_grpc names m) kept"
  by unfold_locales (auto simp: demo_grpc_def intro: passes_call)

lemma production_skip: "auth_SkipGRPCMethods (cfg_Auth production_config) = [''/grpc.health.v1.Health/*'']"
  by (simp add: production_config_def default_config_def complete_config_def decode_parts str_def
      strs_def num_def flag_def setting_Cons default_values stringToStringSlice_def TrimSpace_visible
      HasPrefix_def)

lemma rule_methods_not_skipped:
  "\<not> MatchesAny (rule_method n) (auth_SkipGRPCMethods (cfg_Auth production_config))"
proof -
  have "meta_free ''/grpc.health.v1.Health/''" by (simp add: meta_free_def GoPath.bslash_def)
  from Match_star_end [OF this, of "rule_method n"] show ?thesis
    unfolding production_skip MatchesAny_iff by (simp add: rule_method_def)
qed

lemma demo_authenticates:
  "gc_metadata c = gc_metadata demo_call \<Longrightarrow>
     authenticateGRPC demo_verify (cfg_Auth production_config) (rule_method n) c
       = Inr (c\<lparr>gc_principal := ctx_principal demo_ctx\<rparr>)"
  using rule_methods_not_skipped [of n]
  by (simp add: authenticateGRPC_def demo_call_def Cut_def EqualFold_def ascii_upper_def byte_def demo_verify_def
      demo_ctx_def del: MatchesAny.simps)

lemma demo_ctx_some: "ctx_principal demo_ctx \<noteq> None"
  by (simp add: demo_ctx_def)

lemma demo_grpc_serves:
  "svc_of (unary demo_grpc (rule_method (grpc_name demo_create)) (grpc_run (\<lambda>_. demo_env ''s'') demo_create)
     demo_call (demo_start demo_s0)) = demo_s1"
proof -
  have m: "gc_metadata demo_call ''idempotency-key'' = []" by (simp add: demo_call_def)
  have g: "ge_cfg demo_grpc = production_config" "ge_verify demo_grpc = demo_verify"
      "ge_authz demo_grpc resolver m h c w = (if resolver m \<noteq> None \<and> gc_principal c = None
        then Done (w, Inl (GrpcStatus C_PermissionDenied ''denied'')) else h c w)"
      "ge_idempotency demo_grpc names m h = h" for resolver m h c w names
    by (simp_all add: demo_grpc_def)
  have x: "grpc_service_ctx (demo_call\<lparr>gc_environment := e, gc_request_id := i, gc_principal := ctx_principal demo_ctx\<rparr>) = demo_ctx" for e i
    by (simp add: grpc_service_ctx_def demo_call_def demo_ctx_def)
  show ?thesis
    unfolding unary_def unary_chain_def
    by (simp add: g environmentInterceptor_def requestIDInterceptor_def Let_def idempotencyInterceptor_def m
        recoveryInterceptor_def authInterceptor_def demo_authenticates metricsInterceptor_def)
      (simp add: demo_create_def grpc_CreateRuleSet_def invoke_def x demo_start_def demo_creates demo_ctx_some)
qed

lemma grpc_changes_are_authorized_witness:
  "\<exists>p. grpc_accepted demo_verify (cfg_Auth production_config) (rule_method ''CreateRuleSet'') [''Bearer token''] p"
proof -
  have "gc_principal demo_call = None" by (simp add: demo_call_def)
  moreover have "svc_of (unary demo_grpc (rule_method (grpc_name demo_create)) (grpc_run (\<lambda>_. demo_env ''s'') demo_create)
      demo_call (demo_start demo_s0)) \<noteq> gw_svc (demo_start demo_s0)"
    using demo_grpc_serves demo_changes by (simp add: demo_start_def)
  ultimately show ?thesis
    using grpc_changes_are_authorized [OF demo_enforces demo_idempotency_gate,
        where c = demo_call and rc = demo_create and w = "demo_start demo_s0"]
    by (auto simp: demo_grpc_def demo_create_def demo_call_def)
qed

section \<open>Panics\<close>

definition answers :: "('p, 'x, 'r) call \<Rightarrow> bool" where
  "answers h \<longleftrightarrow> (\<forall>c w. \<exists>w' r. h c w = Done (w', r))"

lemma answers_recovery: "answers (recoveryInterceptor h)" "answers (recoveryStreamInterceptor k)"
  unfolding answers_def recoveryInterceptor_def recoveryStreamInterceptor_def by (auto split: outcome.split)

lemma answers_outside:
  "answers h \<Longrightarrow> answers (environmentInterceptor profile h)"
  "answers h \<Longrightarrow> answers (requestIDInterceptor random now h)"
  "answers h \<Longrightarrow> answers (idempotencyInterceptor ok h)"
  unfolding answers_def environmentInterceptor_def requestIDInterceptor_def idempotencyInterceptor_def Let_def
  by (auto split: list.split)

lemma answers_outside_stream:
  "answers h \<Longrightarrow> answers (environmentStreamInterceptor profile h)"
  "answers h \<Longrightarrow> answers (requestIDStreamInterceptor setHeader random now h)"
  "answers h \<Longrightarrow> answers (idempotencyStreamInterceptor ok h)"
  unfolding answers_def environmentStreamInterceptor_def requestIDStreamInterceptor_def
    idempotencyStreamInterceptor_def Let_def
  by (auto split: list.split option.split)

definition returns :: "('p, 'x) handler \<Rightarrow> bool" where
  "returns h \<longleftrightarrow> (\<forall>c. \<exists>d. h c = Done d)"

lemma returns_Recovery: "returns (Recovery h)"
  by (simp add: returns_def Recovery_def split: outcome.split)

lemma returns_logger:
  assumes "returns h"
  shows "returns (RequestLogger h)"
  unfolding returns_def
proof
  fix c
  from assms obtain d where "h c = Done d" by (auto simp: returns_def)
  then show "\<exists>d. RequestLogger h c = Done d" by (simp add: RequestLogger_def)
qed

lemma returns_outside:
  assumes "returns h"
  shows "returns (RequestID random now h)" "returns (IdempotencyKey ok h)" "returns (Environment profile h)"
  using assms by (simp_all add: returns_def RequestID_def IdempotencyKey_def Environment_def Let_def)

text \<open>C33. No panic of a handler or of a third-party interceptor leaves the server: as long as the tracing
  middleware, the only foreign part outside the recovery, returns when the rest returns, every HTTP
  request, every unary call and every stream is answered, whatever their handlers do.\<close>

theorem panics_contained:
  assumes otel: "\<And>h. returns h \<Longrightarrow> returns (he_otel E h)"
  shows "(\<exists>c'. serve E c = Done c') \<and> (\<exists>w' r. unary G method h x w = Done (w', r))
    \<and> (\<exists>w' r. stream G setHeader method k y v = Done (w', r))"
proof -
  have "returns (serve E)"
    unfolding serve_def engine_chain_def chain_def
    by (simp add: otel returns_Recovery returns_logger returns_outside)
  moreover have "answers (unary G method h)" "answers (stream G setHeader method k)"
    unfolding unary_def unary_chain_def stream_def stream_chain_def
    by (simp_all add: answers_recovery answers_outside answers_outside_stream)
  ultimately show ?thesis by (simp add: answers_def returns_def)
qed

lemma panics_contained_witness:
  "\<exists>c'. serve (demo_server None idle_limiter) (incoming ''POST'' ''/api/v1/me'' demo_headers demo_s0 ()) = Done c'"
proof -
  have "returns h \<Longrightarrow> returns (he_otel (demo_server None idle_limiter) h)" for h :: "(string, unit) handler"
    by (simp add: demo_server_def)
  then show ?thesis by (rule panics_contained [THEN conjunct1])
qed

end
