(* ===== verification/GrpcClient.thy ===== *)
theory GrpcClient
  imports GrpcServer
begin

text \<open>
  \<open>internal/grpcclient\<close>: the client interceptors (deadline, metadata, metrics, circuit breaker, retry), the
  transport credentials and \<open>Dial\<close>. An invoker is a call on the wire: a function of the outgoing context
  and the state of the outside world. The circuit breaker of \<open>gobreaker\<close>, files, certificates and the
  connection are arguments.
\<close>

section \<open>Calls\<close>

text \<open>An error of a call: a gRPC status, or any other error, whose \<open>status.Code\<close> is \<open>Unknown\<close>.\<close>

datatype call_error = StatusErr grpc_error | OtherErr go_error

definition err_grpc_code :: "call_error option \<Rightarrow> grpc_code" where
  "err_grpc_code err =
     (case err of None \<Rightarrow> C_OK | Some (StatusErr e) \<Rightarrow> gs_code e | Some (OtherErr e) \<Rightarrow> C_Unknown)"

record out_ctx =
  oc_deadline :: "int option"
  oc_metadata :: "(string \<times> string) list"
  oc_request_id :: "string option"
  oc_idempotency_key :: "string option"

text \<open>The outside world of a client, and the observations of its metrics.\<close>

record 'x out_world =
  ow_ext :: 'x
  ow_metrics :: "(string \<times> string \<times> string) list"

type_synonym 'x invoker = "out_ctx \<Rightarrow> 'x out_world \<Rightarrow> call_error option \<times> 'x out_world"
type_synonym 'x client_interceptor = "'x invoker \<Rightarrow> 'x invoker"

text \<open>Waiting for a timer or for the end of the context, whichever comes first.\<close>

type_synonym 'x timer = "Duration \<Rightarrow> 'x out_world \<Rightarrow> go_error option \<times> 'x out_world"

section \<open>Retry\<close>

definition retryGRPCMethod :: "out_ctx \<Rightarrow> string \<Rightarrow> string list \<Rightarrow> bool" where
  "retryGRPCMethod c method patterns \<longleftrightarrow>
     oc_idempotency_key c \<noteq> None \<or> (\<exists>pattern \<in> set patterns. Match pattern method = Inr True)"

text \<open>\<open>cfg.InitialBackoff << (attempt - 1)\<close>, capped.\<close>

definition grpc_delay :: "Retry \<Rightarrow> nat \<Rightarrow> Duration" where
  "grpc_delay cfg attempt =
     (let delay = i64 (retry_InitialBackoff cfg * 2 ^ (attempt - 1)) in
      if retry_MaxBackoff cfg < delay then retry_MaxBackoff cfg else delay)"

definition waitRetry :: "'x timer \<Rightarrow> Retry \<Rightarrow> nat \<Rightarrow> 'x out_world \<Rightarrow> go_error option \<times> 'x out_world" where
  "waitRetry timer cfg attempt = timer (grpc_delay cfg attempt)"

text \<open>The loop over the attempts: \<open>n\<close> are left, the next one has the number \<open>attempt\<close>.\<close>

primrec retry_loop ::
  "'x timer \<Rightarrow> Retry \<Rightarrow> 'x invoker \<Rightarrow> out_ctx \<Rightarrow> nat \<Rightarrow> nat \<Rightarrow> call_error option \<Rightarrow> 'x out_world
     \<Rightarrow> call_error option \<times> 'x out_world" where
  "retry_loop timer cfg invoker c 0 attempt err w = (err, w)"
| "retry_loop timer cfg invoker c (Suc n) attempt err w =
     (case invoker c w of (err', w') \<Rightarrow>
        if err_grpc_code err' \<noteq> C_Unavailable \<and> err_grpc_code err' \<noteq> C_ResourceExhausted then (err', w')
        else if int attempt < retry_MaxAttempts cfg then
          (case waitRetry timer cfg attempt w' of
             (Some e, w'') \<Rightarrow> (Some (OtherErr e), w'')
           | (None, w'') \<Rightarrow> retry_loop timer cfg invoker c n (Suc attempt) err' w'')
        else retry_loop timer cfg invoker c n (Suc attempt) err' w')"

definition retryInterceptor :: "'x timer \<Rightarrow> Retry \<Rightarrow> string \<Rightarrow> 'x client_interceptor" where
  "retryInterceptor timer cfg method invoker c w =
     (if \<not> retryGRPCMethod c method (retry_Methods cfg) then invoker c w
      else retry_loop timer cfg invoker c (nat (retry_MaxAttempts cfg)) 1 None w)"

section \<open>Breaker, metrics, deadline, metadata\<close>

record 'e breaker_settings =
  bst_Name :: string
  bst_Timeout :: Duration
  bst_ReadyToTrip :: "int \<Rightarrow> bool"
  bst_IsExcluded :: "'e option \<Rightarrow> bool"

definition grpc_breaker_settings :: "string \<Rightarrow> Breaker \<Rightarrow> call_error breaker_settings" where
  "grpc_breaker_settings name cfg =
     \<lparr>bst_Name = name, bst_Timeout = breaker_OpenTimeout cfg,
      bst_ReadyToTrip = (\<lambda>consecutive. breaker_FailureThreshold cfg \<le> consecutive),
      bst_IsExcluded = (\<lambda>err. let code = err_grpc_code err in
        code \<noteq> C_Unavailable \<and> code \<noteq> C_ResourceExhausted \<and> code \<noteq> C_DeadlineExceeded)\<rparr>"

text \<open>\<open>Execute\<close> of a breaker with given settings: it runs the request or refuses to.\<close>

type_synonym 'x breaker_execute =
  "call_error breaker_settings \<Rightarrow> ('x out_world \<Rightarrow> call_error option \<times> 'x out_world) \<Rightarrow> 'x out_world
     \<Rightarrow> call_error option \<times> 'x out_world"

definition breakerInterceptor :: "'x breaker_execute \<Rightarrow> string \<Rightarrow> Breaker \<Rightarrow> 'x client_interceptor" where
  "breakerInterceptor execute name cfg invoker c = execute (grpc_breaker_settings name cfg) (invoker c)"

definition client_metricsInterceptor :: "bool \<Rightarrow> string \<Rightarrow> 'x client_interceptor" where
  "client_metricsInterceptor enabled name invoker c w =
     (case invoker c w of (err, w') \<Rightarrow>
        (err, if enabled
              then w'\<lparr>ow_metrics := ow_metrics w' @ [(''grpc'', name, code_string (err_grpc_code err))]\<rparr> else w'))"

definition timeoutInterceptor :: "int \<Rightarrow> Duration \<Rightarrow> 'x client_interceptor" where
  "timeoutInterceptor now timeout invoker c =
     (case oc_deadline c of
        Some d \<Rightarrow> invoker c
      | None \<Rightarrow> invoker (c\<lparr>oc_deadline := Some (now + timeout)\<rparr>))"

definition metadata_pairs :: "string \<Rightarrow> string \<Rightarrow> out_ctx \<Rightarrow> (string \<times> string) list" where
  "metadata_pairs token psk c =
     (if token \<noteq> [] then [(''authorization'', ''Bearer '' @ token)]
      else if psk \<noteq> [] then [(''authorization'', ''PSK '' @ psk)] else [])
     @ (case oc_request_id c of Some i \<Rightarrow> [(''x-request-id'', i)] | None \<Rightarrow> [])
     @ (case oc_idempotency_key c of Some key \<Rightarrow> [(''idempotency-key'', key)] | None \<Rightarrow> [])"

definition metadataInterceptor :: "string \<Rightarrow> string \<Rightarrow> 'x client_interceptor" where
  "metadataInterceptor token psk invoker c =
     (let pairs = metadata_pairs token psk c in
      if pairs \<noteq> [] then invoker (c\<lparr>oc_metadata := oc_metadata c @ pairs\<rparr>) else invoker c)"

section \<open>Transport credentials\<close>

record TLSConfig =
  tlsc_Enabled :: bool
  tlsc_ServerName :: string
  tlsc_CAFile :: string
  tlsc_CertFile :: string
  tlsc_KeyFile :: string
  tlsc_AllowInsecureToken :: bool

text \<open>Files and certificates: reading a file, whether PEM text holds a certificate, loading a pair.\<close>

record tls_files =
  tf_ReadFile :: "string \<Rightarrow> go_error + string"
  tf_CertsFromPEM :: "string \<Rightarrow> bool"
  tf_LoadX509KeyPair :: "string \<Rightarrow> string \<Rightarrow> go_error + string"

datatype tls_auth = NoClientCert | RequireAndVerifyClientCert

text \<open>\<open>tls.Config\<close> with minimum version 1.2: the roots, the client roots, the certificate.\<close>

record tls_settings =
  ts_ServerName :: string
  ts_RootCAs :: "string option"
  ts_ClientCAs :: "string option"
  ts_ClientAuth :: tls_auth
  ts_Certificate :: "string option"

datatype transport = Insecure | TLS tls_settings

definition read_pool :: "tls_files \<Rightarrow> string \<Rightarrow> string \<Rightarrow> string \<Rightarrow> go_error + string" where
  "read_pool F read_message parse_message file =
     (case tf_ReadFile F file of
        Inl err \<Rightarrow> Inl (Wrap read_message err)
      | Inr pem \<Rightarrow> if \<not> tf_CertsFromPEM F pem then Inl (Plain parse_message) else Inr pem)"

definition transportCredentials :: "tls_files \<Rightarrow> TLSConfig \<Rightarrow> go_error + transport" where
  "transportCredentials F cfg =
     (if \<not> tlsc_Enabled cfg then Inr Insecure
      else case (if tlsc_CAFile cfg = [] then Inr None
                 else map_sum id Some (read_pool F ''read grpc CA'' ''parse grpc CA'' (tlsc_CAFile cfg))) of
        Inl err \<Rightarrow> Inl err
      | Inr roots \<Rightarrow>
          (let config = \<lparr>ts_ServerName = tlsc_ServerName cfg, ts_RootCAs = roots, ts_ClientCAs = None,
             ts_ClientAuth = NoClientCert, ts_Certificate = None\<rparr> in
           if tlsc_CertFile cfg = [] \<and> tlsc_KeyFile cfg = [] then Inr (TLS config)
           else if tlsc_CertFile cfg = [] \<or> tlsc_KeyFile cfg = []
           then Inl (Plain ''grpc client certificate and key must be configured together'')
           else (case tf_LoadX509KeyPair F (tlsc_CertFile cfg) (tlsc_KeyFile cfg) of
               Inl err \<Rightarrow> Inl (Wrap ''load grpc client certificate'' err)
             | Inr certificate \<Rightarrow> Inr (TLS (config\<lparr>ts_Certificate := Some certificate\<rparr>)))))"

text \<open>\<open>serverCredentials\<close> of the gRPC server\<close>

definition serverCredentials :: "tls_files \<Rightarrow> GRPCTLS \<Rightarrow> go_error + transport" where
  "serverCredentials F cfg =
     (case tf_LoadX509KeyPair F (gtls_CertFile cfg) (gtls_KeyFile cfg) of
        Inl err \<Rightarrow> Inl (Wrap ''load grpc certificate'' err)
      | Inr certificate \<Rightarrow>
          (let config = \<lparr>ts_ServerName = [], ts_RootCAs = None, ts_ClientCAs = None,
             ts_ClientAuth = NoClientCert, ts_Certificate = Some certificate\<rparr> in
           if gtls_ClientCAFile cfg = [] then Inr (TLS config)
           else (case read_pool F ''read grpc client CA'' ''parse grpc client CA'' (gtls_ClientCAFile cfg) of
               Inl err \<Rightarrow> Inl err
             | Inr pem \<Rightarrow> Inr (TLS (config\<lparr>ts_ClientCAs := Some pem, ts_ClientAuth := RequireAndVerifyClientCert\<rparr>)))))"

section \<open>Dial\<close>

record GRPCClientConfig =
  gcc_Target :: string
  gcc_Timeout :: Duration
  gcc_Token :: string
  gcc_PSK :: string
  gcc_TLS :: TLSConfig
  gcc_Name :: string
  gcc_Retry :: Retry
  gcc_Breaker :: Breaker
  gcc_Metrics :: "bool option"

text \<open>The outside of a client: the clock, timers, the breaker, files, and \<open>grpc.NewClient\<close>, which is given
  the target, the credentials and a call's way through the interceptors.\<close>

record ('x, 'conn) client_env =
  ce_now :: int
  ce_timer :: "'x timer"
  ce_execute :: "'x breaker_execute"
  ce_files :: tls_files
  ce_NewClient :: "string \<Rightarrow> transport \<Rightarrow> (string \<Rightarrow> 'x client_interceptor) \<Rightarrow> go_error + 'conn"

definition client_chain :: "('x, 'conn) client_env \<Rightarrow> GRPCClientConfig \<Rightarrow> string \<Rightarrow> 'x client_interceptor list" where
  "client_chain V cfg method =
     [timeoutInterceptor (ce_now V) (gcc_Timeout cfg), metadataInterceptor (gcc_Token cfg) (gcc_PSK cfg)]
     @ (case gcc_Metrics cfg of Some enabled \<Rightarrow> [client_metricsInterceptor enabled (gcc_Name cfg)] | None \<Rightarrow> [])
     @ (if breaker_Enabled (gcc_Breaker cfg)
        then [breakerInterceptor (ce_execute V) (gcc_Name cfg) (gcc_Breaker cfg)] else [])
     @ (if 1 < retry_MaxAttempts (gcc_Retry cfg) then [retryInterceptor (ce_timer V) (gcc_Retry cfg) method] else [])"

definition Dial :: "('x, 'conn) client_env \<Rightarrow> GRPCClientConfig \<Rightarrow> go_error + 'conn" where
  "Dial V cfg =
     (if gcc_Target cfg = [] then Inl (Plain ''grpc client target is required'')
      else if gcc_Timeout cfg \<le> 0 then Inl (Plain ''grpc client timeout must be positive'')
      else case transportCredentials (ce_files V) (gcc_TLS cfg) of
        Inl err \<Rightarrow> Inl err
      | Inr transport \<Rightarrow>
          if gcc_Token cfg \<noteq> [] \<and> \<not> tlsc_Enabled (gcc_TLS cfg) \<and> \<not> tlsc_AllowInsecureToken (gcc_TLS cfg)
          then Inl (Plain ''refusing to send grpc bearer token without TLS'')
          else if gcc_PSK cfg \<noteq> [] \<and> gcc_Token cfg \<noteq> []
          then Inl (Plain ''grpc client bearer token and PSK are mutually exclusive'')
          else if gcc_PSK cfg \<noteq> [] \<and> \<not> tlsc_Enabled (gcc_TLS cfg) \<and> \<not> tlsc_AllowInsecureToken (gcc_TLS cfg)
          then Inl (Plain ''refusing to send grpc PSK without TLS'')
          else ce_NewClient V (gcc_Target cfg) transport
            (\<lambda>method invoker. foldr (\<lambda>i k. i k) (client_chain V cfg method) invoker))"

end
