(* ===== verification/Outbound.thy ===== *)
theory Outbound
  imports GrpcClient
begin

text \<open>
  \<open>internal/outbound\<close>: the HTTP client with its retry loop and circuit breaker, and the registry of the
  configured upstreams. URLs, connections, files and the breaker of \<open>gobreaker\<close> are arguments; a
  response is its status and its content.
\<close>

section \<open>HTTP client\<close>

record http_response =
  hr_StatusCode :: int
  hr_Content :: string

record http_request =
  hq_Method :: string
  hq_URL :: string
  hq_Header :: "string \<Rightarrow> string"
  hq_Body :: string

record url =
  url_Scheme :: string
  url_Host :: string
  url_Rest :: string

text \<open>What a breaker is told went wrong: a status worth a retry, or an error.\<close>

datatype http_failure = StatusError http_response | Failure go_error

record HTTPClient =
  hc_name :: string
  hc_baseURL :: url
  hc_transport :: tls_settings
  hc_cfg :: HTTPUpstream
  hc_breaker :: "http_failure breaker_settings option"
  hc_metrics :: "bool option"

text \<open>The outside: URLs (parsing, resolving a reference against a base), building and sending a request
  with the timeout of the client, draining an unused response, waiting, the breaker, and what
  converting a float beyond the range of \<open>int64\<close> gives on the machine.\<close>

record 'x http_client_env =
  hx_parse :: "string \<Rightarrow> go_error + url"
  hx_resolve :: "url \<Rightarrow> url \<Rightarrow> string"
  hx_new_request :: "string \<Rightarrow> string \<Rightarrow> go_error option"
  hx_do :: "tls_settings \<Rightarrow> Duration \<Rightarrow> http_request \<Rightarrow> 'x out_world \<Rightarrow> (go_error + http_response) \<times> 'x out_world"
  hx_discard :: "http_response \<Rightarrow> 'x out_world \<Rightarrow> 'x out_world"
  hx_timer :: "'x timer"
  hx_execute :: "http_failure breaker_settings \<Rightarrow> ('x out_world \<Rightarrow> (http_failure + http_response) \<times> 'x out_world)
     \<Rightarrow> 'x out_world \<Rightarrow> (http_failure + http_response) \<times> 'x out_world"
  hx_files :: tls_files
  hx_overflow :: int

definition httpTransport :: "tls_files \<Rightarrow> ClientTLS \<Rightarrow> go_error + tls_settings" where
  "httpTransport F cfg =
     (case (if ctls_CAFile cfg = [] then Inr None
            else map_sum id Some (read_pool F ''read outbound HTTP CA'' ''parse outbound HTTP CA'' (ctls_CAFile cfg))) of
        Inl err \<Rightarrow> Inl err
      | Inr roots \<Rightarrow>
          (let config = \<lparr>ts_ServerName = ctls_ServerName cfg, ts_RootCAs = roots, ts_ClientCAs = None,
             ts_ClientAuth = NoClientCert, ts_Certificate = None\<rparr> in
           if ctls_CertFile cfg = [] then Inr config
           else (case tf_LoadX509KeyPair F (ctls_CertFile cfg) (ctls_KeyFile cfg) of
               Inl err \<Rightarrow> Inl (Wrap ''load outbound HTTP client certificate'' err)
             | Inr certificate \<Rightarrow> Inr (config\<lparr>ts_Certificate := Some certificate\<rparr>))))"

definition http_breaker_settings :: "string \<Rightarrow> Breaker \<Rightarrow> http_failure breaker_settings" where
  "http_breaker_settings name cfg =
     \<lparr>bst_Name = name, bst_Timeout = breaker_OpenTimeout cfg,
      bst_ReadyToTrip = (\<lambda>consecutive. breaker_FailureThreshold cfg \<le> consecutive),
      bst_IsExcluded = (\<lambda>err. case err of Some (Failure e) \<Rightarrow> errors_is e ContextCanceled | _ \<Rightarrow> False)\<rparr>"

definition NewHTTPClient :: "'x http_client_env \<Rightarrow> string \<Rightarrow> HTTPUpstream \<Rightarrow> bool option \<Rightarrow> go_error + HTTPClient" where
  "NewHTTPClient X name cfg metrics =
     (if cauth_Type (hup_Auth cfg) \<noteq> [] \<and> \<not> ctls_Enabled (hup_TLS cfg)
      then Inl (Plain ''refusing to send outbound HTTP credentials without TLS'')
      else case hx_parse X (hup_BaseURL cfg) of
        Inl err \<Rightarrow> Inl (Plain ''parse outbound HTTP base URL'')
      | Inr baseURL \<Rightarrow>
          if url_Scheme baseURL = [] \<or> url_Host baseURL = [] then Inl (Plain ''parse outbound HTTP base URL'')
          else case httpTransport (hx_files X) (hup_TLS cfg) of
            Inl err \<Rightarrow> Inl err
          | Inr transport \<Rightarrow>
              Inr \<lparr>hc_name = name, hc_baseURL = baseURL, hc_transport = transport, hc_cfg = cfg,
                hc_breaker = (if breaker_Enabled (hup_Breaker cfg)
                  then Some (http_breaker_settings name (hup_Breaker cfg)) else None),
                hc_metrics = metrics\<rparr>)"

definition retryableMethod :: "out_ctx \<Rightarrow> string \<Rightarrow> bool" where
  "retryableMethod c m \<longleftrightarrow>
     m \<in> {''GET'', ''HEAD'', ''OPTIONS'', ''PUT'', ''DELETE''} \<or> oc_idempotency_key c \<noteq> None"

definition retryableHTTPStatus :: "int \<Rightarrow> bool" where
  "retryableHTTPStatus status \<longleftrightarrow> status = 429 \<or> status = 502 \<or> status = 503 \<or> status = 504"

definition applyHTTPAuth :: "ClientAuth \<Rightarrow> (string \<Rightarrow> string) \<Rightarrow> string \<Rightarrow> string" where
  "applyHTTPAuth auth header =
     (if cauth_Type auth = ''bearer'' then header(''Authorization'' := ''Bearer '' @ cauth_Token auth)
      else if cauth_Type auth = ''psk'' then header(''Authorization'' := ''PSK '' @ cauth_Token auth)
      else header)"

text \<open>\<open>time.Duration(float64(retry.InitialBackoff) * math.Pow(2, float64(attempt-1)))\<close>: the nearest float,
  scaled exactly by a power of two and truncated.\<close>

definition float_of_duration :: "Duration \<Rightarrow> int" where
  "float_of_duration d =
     (case round64 (d < 0) (nat \<bar>d\<bar>) 1 of
        Some f \<Rightarrow> (if f_neg f then - int (f_num f div f_den f) else int (f_num f div f_den f))
      | None \<Rightarrow> 0)"

definition http_delay :: "int \<Rightarrow> Retry \<Rightarrow> nat \<Rightarrow> Duration" where
  "http_delay overflow retry attempt =
     (let scaled = float_of_duration (retry_InitialBackoff retry) * 2 ^ (attempt - 1);
          delay = (if - (2 ^ 63) \<le> scaled \<and> scaled \<le> max_i64 then scaled else overflow) in
      if retry_MaxBackoff retry < delay then retry_MaxBackoff retry else delay)"

definition waitBackoff :: "'x http_client_env \<Rightarrow> Retry \<Rightarrow> nat \<Rightarrow> 'x out_world \<Rightarrow> go_error option \<times> 'x out_world" where
  "waitBackoff X retry attempt = hx_timer X (http_delay (hx_overflow X) retry attempt)"

text \<open>A header is a function from canonical names to values; the values a caller gives for one name are one.\<close>

definition build_request :: "HTTPClient \<Rightarrow> string \<Rightarrow> string \<Rightarrow> string \<Rightarrow> (string \<Rightarrow> string) \<Rightarrow> http_request" where
  "build_request client m target body headers =
     (let header = (if body \<noteq> [] \<and> headers ''Content-Type'' = []
                    then headers(''Content-Type'' := ''application/json'') else headers) in
      \<lparr>hq_Method = m, hq_URL = target,
       hq_Header = applyHTTPAuth (hup_Auth (hc_cfg client)) header, hq_Body = body\<rparr>)"

text \<open>The loop over the attempts: \<open>n\<close> are left, the next one has the number \<open>attempt\<close>.\<close>

primrec http_loop ::
  "'x http_client_env \<Rightarrow> HTTPClient \<Rightarrow> http_request \<Rightarrow> int \<Rightarrow> nat \<Rightarrow> nat \<Rightarrow> 'x out_world
     \<Rightarrow> (go_error + http_response) \<times> 'x out_world" where
  "http_loop X client request maxAttempts 0 attempt w = (Inl (Plain ''outbound HTTP attempts exhausted''), w)"
| "http_loop X client request maxAttempts (Suc n) attempt w =
     (case hx_new_request X (hq_Method request) (hq_URL request) of
        Some err \<Rightarrow> (Inl (Wrap ''create outbound HTTP request'' err), w)
      | None \<Rightarrow>
     (case hx_do X (hc_transport client) (hup_Timeout (hc_cfg client)) request w of (r, w1) \<Rightarrow>
        let again = (\<lambda>w2. if int attempt < maxAttempts
              then (case waitBackoff X (hup_Retry (hc_cfg client)) attempt w2 of
                  (Some err, w3) \<Rightarrow> (Inl err, w3)
                | (None, w3) \<Rightarrow> http_loop X client request maxAttempts n (Suc attempt) w3)
              else http_loop X client request maxAttempts n (Suc attempt) w2) in
        case r of
          Inr response \<Rightarrow>
            if \<not> retryableHTTPStatus (hr_StatusCode response) \<or> int attempt = maxAttempts
            then (Inr response, w1) else again (hx_discard X response w1)
        | Inl err \<Rightarrow>
            if int attempt = maxAttempts then (Inl (Wrap ''call outbound HTTP service'' err), w1) else again w1))"

definition doWithRetry ::
  "'x http_client_env \<Rightarrow> HTTPClient \<Rightarrow> out_ctx \<Rightarrow> string \<Rightarrow> string \<Rightarrow> string \<Rightarrow> (string \<Rightarrow> string) \<Rightarrow> 'x out_world
     \<Rightarrow> (go_error + http_response) \<times> 'x out_world" where
  "doWithRetry X client c m requestPath body headers w =
     (case hx_parse X requestPath of
        Inl err \<Rightarrow> (Inl (Plain ''outbound HTTP path must be relative''), w)
      | Inr reference \<Rightarrow>
          if url_Scheme reference \<noteq> [] \<or> url_Host reference \<noteq> []
          then (Inl (Plain ''outbound HTTP path must be relative''), w)
          else (let target = hx_resolve X (hc_baseURL client) reference;
                    maxAttempts = (if retryableMethod c m then retry_MaxAttempts (hup_Retry (hc_cfg client)) else 1) in
            http_loop X client (build_request client m target body headers) maxAttempts (nat maxAttempts) 1 w))"

definition execute ::
  "'x http_client_env \<Rightarrow> HTTPClient \<Rightarrow> out_ctx \<Rightarrow> string \<Rightarrow> string \<Rightarrow> string \<Rightarrow> (string \<Rightarrow> string) \<Rightarrow> 'x out_world
     \<Rightarrow> (go_error + http_response) \<times> 'x out_world" where
  "execute X client c m requestPath body headers w =
     (case hc_breaker client of
        None \<Rightarrow> doWithRetry X client c m requestPath body headers w
      | Some breaker \<Rightarrow>
          (case hx_execute X breaker (\<lambda>w. case doWithRetry X client c m requestPath body headers w of
               (Inr response, w') \<Rightarrow>
                 (if retryableHTTPStatus (hr_StatusCode response) then Inl (StatusError response) else Inr response, w')
             | (Inl err, w') \<Rightarrow> (Inl (Failure err), w')) w of
             (Inl (StatusError response), w') \<Rightarrow> (Inr response, w')
           | (Inl (Failure err), w') \<Rightarrow> (Inl err, w')
           | (Inr response, w') \<Rightarrow> (Inr response, w')))"

definition client_Do ::
  "'x http_client_env \<Rightarrow> HTTPClient \<Rightarrow> out_ctx \<Rightarrow> string \<Rightarrow> string \<Rightarrow> string \<Rightarrow> (string \<Rightarrow> string) \<Rightarrow> 'x out_world
     \<Rightarrow> (go_error + http_response) \<times> 'x out_world" where
  "client_Do X client c m requestPath body headers w =
     (case execute X client c m requestPath body headers w of (r, w') \<Rightarrow>
        let status = (case r of Inr response \<Rightarrow> int_str (hr_StatusCode response) | Inl err \<Rightarrow> ''error'') in
        (r, if hc_metrics client = Some True
            then w'\<lparr>ow_metrics := ow_metrics w' @ [(''http'', hc_name client, status)]\<rparr> else w'))"

section \<open>Registry\<close>

record 'conn Registry =
  reg_http :: "string \<rightharpoonup> HTTPClient"
  reg_grpc :: "(string \<times> 'conn) list"

text \<open>Closing every connection, in the order of that iteration; the first error is kept.\<close>

definition registry_close :: "('conn \<Rightarrow> go_error option) \<Rightarrow> 'conn Registry \<Rightarrow> go_error option" where
  "registry_close close_conn registry = fold (\<lambda>(name, connection) closeErr.
     case close_conn connection of
       Some err \<Rightarrow> if closeErr = None then Some (Wrap (''close outbound gRPC client '' @ name) err) else closeErr
     | None \<Rightarrow> closeErr) (reg_grpc registry) None"

definition grpc_client_config :: "string \<Rightarrow> GRPCUpstream \<Rightarrow> bool option \<Rightarrow> GRPCClientConfig" where
  "grpc_client_config name upstream metrics =
     \<lparr>gcc_Target = gup_Target upstream, gcc_Timeout = gup_Timeout upstream,
      gcc_Token = (if cauth_Type (gup_Auth upstream) = ''bearer'' then cauth_Token (gup_Auth upstream) else []),
      gcc_PSK = (if cauth_Type (gup_Auth upstream) = ''psk'' then cauth_Token (gup_Auth upstream) else []),
      gcc_TLS = \<lparr>tlsc_Enabled = ctls_Enabled (gup_TLS upstream), tlsc_ServerName = ctls_ServerName (gup_TLS upstream),
        tlsc_CAFile = ctls_CAFile (gup_TLS upstream), tlsc_CertFile = ctls_CertFile (gup_TLS upstream),
        tlsc_KeyFile = ctls_KeyFile (gup_TLS upstream), tlsc_AllowInsecureToken = False\<rparr>,
      gcc_Name = name, gcc_Retry = gup_Retry upstream, gcc_Breaker = gup_Breaker upstream, gcc_Metrics = metrics\<rparr>"

fun add_http :: "'x http_client_env \<Rightarrow> bool option \<Rightarrow> (string \<times> HTTPUpstream) list \<Rightarrow> 'conn Registry
    \<Rightarrow> (go_error \<times> 'conn Registry) + 'conn Registry" where
  "add_http X metrics [] registry = Inr registry"
| "add_http X metrics ((name, upstream) # rest) registry =
     (case NewHTTPClient X name upstream metrics of
        Inl err \<Rightarrow> Inl (Wrap (''create outbound HTTP client '' @ name) err, registry)
      | Inr client \<Rightarrow> add_http X metrics rest (registry\<lparr>reg_http := (reg_http registry)(name \<mapsto> client)\<rparr>))"

fun add_grpc :: "('x, 'conn) client_env \<Rightarrow> bool option \<Rightarrow> (string \<times> GRPCUpstream) list \<Rightarrow> 'conn Registry
    \<Rightarrow> (go_error \<times> 'conn Registry) + 'conn Registry" where
  "add_grpc V metrics [] registry = Inr registry"
| "add_grpc V metrics ((name, upstream) # rest) registry =
     (case Dial V (grpc_client_config name upstream metrics) of
        Inl err \<Rightarrow> Inl (Wrap (''create outbound gRPC client '' @ name) err, registry)
      | Inr connection \<Rightarrow> add_grpc V metrics rest (registry\<lparr>reg_grpc := reg_grpc registry @ [(name, connection)]\<rparr>))"

text \<open>The result, and the connections closed when it is an error. The upstreams come in the order of the
  iteration over the two maps.\<close>

definition NewRegistry ::
  "'x http_client_env \<Rightarrow> ('x, 'conn) client_env \<Rightarrow> bool option \<Rightarrow> Outbound
     \<Rightarrow> (go_error + 'conn Registry) \<times> 'conn list" where
  "NewRegistry X V metrics cfg =
     (case (case add_http X metrics (outb_HTTP cfg) \<lparr>reg_http = Map.empty, reg_grpc = []\<rparr> of
              Inl failed \<Rightarrow> Inl failed
            | Inr registry \<Rightarrow> add_grpc V metrics (outb_GRPC cfg) registry) of
        Inl (err, registry) \<Rightarrow> (Inl err, map snd (reg_grpc registry))
      | Inr registry \<Rightarrow> (Inr registry, []))"

definition registry_HTTP :: "'conn Registry \<Rightarrow> string \<Rightarrow> HTTPClient option" where
  "registry_HTTP registry name = reg_http registry name"

definition registry_GRPC :: "'conn Registry \<Rightarrow> string \<Rightarrow> 'conn option" where
  "registry_GRPC registry name = map_of (reg_grpc registry) name"

end
