(* ===== verification/Application.thy ===== *)
theory Application
  imports Outbound ServerConfig
begin

text \<open>
  The application around the service: migrations (\<open>internal/migration\<close>), the wiring of \<open>internal/app\<close>
  (database, Redis, locker, application verifier, authorizer, event bus), the starting and stopping of
  servers, scheduler and tracing, and the two commands. The migrator, the SQL driver, \<open>net/url\<close> and the
  platform libraries are arguments.
\<close>

section \<open>Migrations\<close>

text \<open>\<open>url.QueryEscape\<close>\<close>

definition unreserved :: "char \<Rightarrow> bool" where
  "unreserved c \<longleftrightarrow> (CHR ''a'' \<le> c \<and> c \<le> CHR ''z'') \<or> (CHR ''A'' \<le> c \<and> c \<le> CHR ''Z'') \<or> is_digit c
     \<or> c \<in> set ''-_.~''"

definition hex_digit :: "nat \<Rightarrow> char" where
  "hex_digit n = ''0123456789ABCDEF'' ! n"

definition QueryEscape :: "string \<Rightarrow> string" where
  "QueryEscape s = concat (map (\<lambda>c. if unreserved c then [c] else if c = CHR '' '' then ''+''
     else [CHR ''%'', hex_digit (byte c div 16), hex_digit (byte c mod 16)]) s)"

text \<open>\<open>strings.IndexByte\<close> and \<open>strings.LastIndex\<close> of one byte\<close>

definition IndexByte :: "string \<Rightarrow> char \<Rightarrow> int" where
  "IndexByte s c = (if c \<in> set s then int (length (takeWhile (\<lambda>x. x \<noteq> c) s)) else - 1)"

definition LastIndexByte :: "string \<Rightarrow> char \<Rightarrow> int" where
  "LastIndexByte s c =
     (if c \<in> set s then int (length s) - 1 - int (length (takeWhile (\<lambda>x. x \<noteq> c) (rev s))) else - 1)"

text \<open>A parsed URL: its scheme, path and query parameters can be set and the text written again.\<close>

record 'u url_ops =
  uo_Parse :: "string \<Rightarrow> go_error + 'u"
  uo_SetPath :: "string \<Rightarrow> 'u \<Rightarrow> 'u"
  uo_QuerySet :: "string \<Rightarrow> string \<Rightarrow> 'u \<Rightarrow> 'u"
  uo_QueryDel :: "string \<Rightarrow> 'u \<Rightarrow> 'u"
  uo_Encode :: "'u \<Rightarrow> 'u"
  uo_String :: "'u \<Rightarrow> string"

definition mysql_database :: "string \<Rightarrow> string \<Rightarrow> go_error + string" where
  "mysql_database databaseURL databaseName =
     (if databaseName = [] then Inr databaseURL
      else let queryIndex = IndexByte databaseURL (CHR ''?'');
               pathEnd = (if 0 \<le> queryIndex then nat queryIndex else length databaseURL);
               slash = LastIndexByte (take pathEnd databaseURL) (CHR ''/'') in
        if slash < 0 then Inl (Plain ''mysql migration URL is missing database path'')
        else Inr (take (nat slash + 1) databaseURL @ databaseName @ drop pathEnd databaseURL))"

definition withMigrationOptions ::
  "'u url_ops \<Rightarrow> string \<Rightarrow> string \<Rightarrow> string \<Rightarrow> string \<Rightarrow> go_error + string" where
  "withMigrationOptions U databaseURL databaseName table schema =
     (if databaseName = [] \<and> table = [] \<and> schema = [] then Inr databaseURL
      else if HasPrefix databaseURL ''mysql://'' then
        (case mysql_database databaseURL databaseName of
           Inl err \<Rightarrow> Inl err
         | Inr url' \<Rightarrow>
             if table = [] then Inr url'
             else Inr (url' @ (if CHR ''?'' \<in> set url' then ''&'' else ''?'') @ ''x-migrations-table='' @ QueryEscape table))
      else
        (case uo_Parse U databaseURL of
           Inl err \<Rightarrow> Inl (Wrap ''parse migration database URL'' err)
         | Inr parsed \<Rightarrow>
             (let p1 = (if databaseName \<noteq> [] then uo_SetPath U (''/'' @ databaseName) parsed else parsed);
                  p2 = (if table \<noteq> [] then uo_QuerySet U ''x-migrations-table'' table p1 else p1);
                  p3 = (if schema \<noteq> [] then uo_QuerySet U ''search_path'' schema p2 else p2)
              in Inr (uo_String U (uo_Encode U p3)))))"

text \<open>A connection to the database for creating the schema, and what was done on it: the statements with
  their arguments, and how the transaction ended.\<close>

record schema_db =
  sd_Begin :: "go_error option"
  sd_Exec :: "string \<Rightarrow> go_error option"
  sd_Commit :: "go_error option"

datatype tx_end = NotBegun | Committed | CommitFailed | RolledBack

definition lock_statement :: string where
  "lock_statement = ''SELECT pg_advisory_xact_lock(hashtext($1))''"

definition schema_statement :: "string \<Rightarrow> string" where
  "schema_statement schema =
     ''CREATE SCHEMA IF NOT EXISTS '' @ [CHR 0x22] @ schema @ [CHR 0x22]"

definition createSchema ::
  "schema_db \<Rightarrow> string \<Rightarrow> go_error option \<times> (string \<times> string list) list \<times> tx_end" where
  "createSchema db schema =
     (let lock = (lock_statement, [''rule-service:schema:'' @ schema]);
          create = (schema_statement schema, []) in
      case sd_Begin db of
        Some err \<Rightarrow> (Some (Wrap ''begin schema creation'' err), [], NotBegun)
      | None \<Rightarrow>
          (case sd_Exec db lock_statement of
             Some err \<Rightarrow> (Some (Wrap ''lock schema creation'' err), [lock], RolledBack)
           | None \<Rightarrow>
               (case sd_Exec db (schema_statement schema) of
                  Some err \<Rightarrow> (Some (Wrap ''execute schema creation'' err), [lock, create], RolledBack)
                | None \<Rightarrow>
                    (case sd_Commit db of
                       Some err \<Rightarrow> (Some (Wrap ''commit schema creation'' err), [lock, create], CommitFailed)
                     | None \<Rightarrow> (None, [lock, create], Committed)))))"

definition ensureSchema ::
  "'u url_ops \<Rightarrow> (string \<Rightarrow> go_error + schema_db) \<Rightarrow> Migration \<Rightarrow> string
     \<Rightarrow> go_error option \<times> (string \<times> string list) list \<times> tx_end" where
  "ensureSchema U open' cfg databaseURL =
     (if \<not> mig_CreateSchema cfg \<or> mig_Schema cfg = [] \<or> HasPrefix (mig_DatabaseURL cfg) ''mysql://''
      then (None, [], NotBegun)
      else if \<not> validMigrationTable (mig_Schema cfg) then (Some (Plain ''invalid migration schema''), [], NotBegun)
      else (case uo_Parse U databaseURL of
          Inl err \<Rightarrow> (Some (Wrap ''parse database URL for schema creation'' err), [], NotBegun)
        | Inr parsed \<Rightarrow>
            (case open' (uo_String U (uo_Encode U (uo_QueryDel U ''x-migrations-table'' parsed))) of
               Inl err \<Rightarrow> (Some (Wrap ''open database to create schema'' err), [], NotBegun)
             | Inr db \<Rightarrow>
                 (case createSchema db (mig_Schema cfg) of
                    (err, statements, ended) \<Rightarrow>
                      (map_option (Wrap (''create migration schema '' @ mig_Schema cfg)) err, statements, ended)))))"

text \<open>A migrator: the error of a direction (\<open>ErrNoChange\<close> told apart) and of closing its two ends.\<close>

datatype migrate_call = Steps int | Down | Up
datatype migrate_error = ErrNoChange | MigrateErr go_error

record migrator =
  mg_run :: "migrate_call \<Rightarrow> migrate_error option"
  mg_close_source :: "go_error option"
  mg_close_database :: "go_error option"

record 'u migration_env =
  me_url :: "'u url_ops"
  me_Abs :: "string \<Rightarrow> go_error + string"
  me_open :: "string \<Rightarrow> go_error + schema_db"
  me_New :: "string \<Rightarrow> string \<Rightarrow> go_error + migrator"
  me_source :: "string \<Rightarrow> string"

text \<open>\<open>errors.Join\<close> keeps every error; the order is that of the arguments.\<close>

definition direction_call :: "string \<Rightarrow> int \<Rightarrow> migrate_call" where
  "direction_call direction steps =
     (if steps \<noteq> 0 then Steps steps else if direction = ''down'' then Down else Up)"

definition migration_Run ::
  "'u migration_env \<Rightarrow> Migration \<Rightarrow> string \<Rightarrow> int \<Rightarrow> go_error list \<times> (string \<times> string list) list \<times> tx_end" where
  "migration_Run M cfg direction steps =
     (if mig_DatabaseURL cfg = [] then ([Plain ''migration.database_url is required''], [], NotBegun)
      else case me_Abs M (mig_Path cfg) of
        Inl err \<Rightarrow> ([Wrap ''resolve migration path'' err], [], NotBegun)
      | Inr absPath \<Rightarrow>
     (case withMigrationOptions (me_url M) (mig_DatabaseURL cfg) (mig_DatabaseName cfg) (mig_Table cfg) (mig_Schema cfg) of
        Inl err \<Rightarrow> ([err], [], NotBegun)
      | Inr databaseURL \<Rightarrow>
     (case ensureSchema (me_url M) (me_open M) cfg databaseURL of
        (Some err, statements, ended) \<Rightarrow> ([err], statements, ended)
      | (None, statements, ended) \<Rightarrow>
     (case me_New M (me_source M absPath) databaseURL of
        Inl err \<Rightarrow> ([Wrap ''create migrator'' err], statements, ended)
      | Inr m \<Rightarrow>
          ((case mg_run m (direction_call direction steps) of
              Some (MigrateErr err) \<Rightarrow> [Wrap ''run migration'' err]
            | _ \<Rightarrow> [])
           @ (case mg_close_source m of Some err \<Rightarrow> [Wrap ''close migration source'' err] | None \<Rightarrow> [])
           @ (case mg_close_database m of Some err \<Rightarrow> [Wrap ''close migration database'' err] | None \<Rightarrow> []),
           statements, ended)))))"

definition runStartupMigration :: "'u migration_env \<Rightarrow> Config \<Rightarrow> go_error list" where
  "runStartupMigration M cfg =
     (if \<not> mig_AutoUp (cfg_Migration cfg) then []
      else case migration_Run M (cfg_Migration cfg) ''up'' 0 of
        ([], _) \<Rightarrow> []
      | (errs, _) \<Rightarrow> map (Wrap ''startup database migration'') errs)"

section \<open>Wiring\<close>

definition newDatabase :: "'l db_lib \<Rightarrow> Config \<Rightarrow> go_error + 'l sql_db option" where
  "newDatabase lib cfg =
     (if \<not> dbc_Enabled (cfg_Database cfg) then Inr None
      else case fst (Open lib (cfg_Database cfg)) of Inl err \<Rightarrow> Inl err | Inr db \<Rightarrow> Inr (Some db))"

text \<open>A Redis client: what pinging it and instrumenting it give; the result says whether it was closed.\<close>

definition cache_Open :: "(Redis \<Rightarrow> 'r) \<Rightarrow> ('r \<Rightarrow> go_error option) \<Rightarrow> Redis \<Rightarrow> (go_error + 'r) \<times> 'r list" where
  "cache_Open new_client ping cfg =
     (let client = new_client cfg in
      case ping client of
        Some err \<Rightarrow> (Inl (Wrap ''ping redis'' err), [client])
      | None \<Rightarrow> (Inr client, []))"

definition newRedis ::
  "(Redis \<Rightarrow> 'r) \<Rightarrow> ('r \<Rightarrow> go_error option) \<Rightarrow> ('r \<Rightarrow> go_error option) \<Rightarrow> bool \<Rightarrow> Config
     \<Rightarrow> (go_error + 'r option) \<times> 'r list" where
  "newRedis new_client ping instrument tracing cfg =
     (if \<not> redis_Enabled (cfg_Redis cfg) then (Inr None, [])
      else case cache_Open new_client ping (cfg_Redis cfg) of
        (Inl err, closed) \<Rightarrow> (Inl err, closed)
      | (Inr client, closed) \<Rightarrow>
          (case (if tracing then instrument client else None) of
             Some err \<Rightarrow> (Inl (Wrap ''instrument redis tracing'' err), closed @ [client])
           | None \<Rightarrow> (Inr (Some client), closed)))"

text \<open>The verifier of applications: one that accepts everything, or one that asks the service behind a
  connection.\<close>

datatype 'conn verifier = AcceptAll | GRPCVerifier 'conn Duration

definition newApplicationVerifier :: "Config \<Rightarrow> 'conn Registry option \<Rightarrow> go_error + 'conn verifier" where
  "newApplicationVerifier cfg registry =
     (if \<not> dbc_Enabled (cfg_Database cfg) then Inr AcceptAll
      else case registry of
        None \<Rightarrow> Inl (Plain ''rule service requires outbound registry'')
      | Some r \<Rightarrow>
          (case registry_GRPC r ''application'' of
             None \<Rightarrow> Inl (Plain ''rule service requires outbound.grpc.application'')
           | Some connection \<Rightarrow> Inr (GRPCVerifier connection 2000000000)))"

definition verifier_Verify :: "('conn \<Rightarrow> string \<Rightarrow> string \<Rightarrow> go_error option) \<Rightarrow> 'conn verifier \<Rightarrow> string \<Rightarrow> string \<Rightarrow> go_error option" where
  "verifier_Verify ask v tenantID applicationID =
     (case v of AcceptAll \<Rightarrow> None | GRPCVerifier connection timeout \<Rightarrow> ask connection tenantID applicationID)"

text \<open>The authorizer over the connection to the authorization service, if there is one.\<close>

datatype 'conn authorizer = GRPCAuthorizer "'conn option" Duration

definition authorization_New :: "'conn Registry \<Rightarrow> 'conn authorizer" where
  "authorization_New registry =
     (case registry_GRPC registry ''authorization'' of
        None \<Rightarrow> GRPCAuthorizer None 2000000000
      | Some connection \<Rightarrow> GRPCAuthorizer (Some connection) 2000000000)"

end
