(* ===== verification/Runtime.thy ===== *)
theory Runtime
  imports Application
begin

text \<open>
  What runs: the event runtime of \<open>rule_eventbus.go\<close> with its two background loops, the servers, the
  scheduler and tracing as they start and stop, and the two commands. The event bus, the outbox
  dispatcher and cleaner, listeners, the cron runner and the trace exporter are arguments.
\<close>

section \<open>Event runtime\<close>

record bus_config =
  bc_URLs :: "string list"
  bc_ClientName :: string
  bc_StreamName :: string
  bc_Subjects :: "string list"
  bc_Storage :: string
  bc_MaxAge :: Duration
  bc_DuplicateWindow :: Duration
  bc_ConnectTimeout :: Duration
  bc_PublishTimeout :: Duration

text \<open>Opening the bus, building dispatcher and cleaner, closing the bus.\<close>

record event_env =
  ev_NewBus :: "bus_config \<Rightarrow> go_error option"
  ev_NewDispatcher :: "int \<Rightarrow> Duration \<Rightarrow> Duration \<Rightarrow> go_error option"
  ev_NewCleaner :: "Duration \<Rightarrow> int \<Rightarrow> go_error option"
  ev_Close :: "go_error option"

text \<open>The runtime: whether it has a store, a bus that is open or closed, whether it can be cancelled and its
  loops were started.\<close>

datatype bus_state = NoBus | BusOpen | BusClosed

record ruleEventRuntime =
  er_store :: bool
  er_bus :: bus_state
  er_held :: bool
  er_cancel :: bool
  er_cancelled :: bool
  er_loops :: bool

definition newRuleOutboxStore :: "(string \<Rightarrow> go_error + 's) \<Rightarrow> 'd option \<Rightarrow> go_error + 's option" where
  "newRuleOutboxStore new_store db =
     (case db of None \<Rightarrow> Inr None | Some d \<Rightarrow> map_sum id Some (new_store ''rule_outbox_events''))"

definition newRuleEventRuntime :: "'s option \<Rightarrow> ruleEventRuntime" where
  "newRuleEventRuntime store =
     \<lparr>er_store = (store \<noteq> None), er_bus = NoBus, er_held = False, er_cancel = False, er_cancelled = False,
      er_loops = False\<rparr>"

definition bus_config_of :: "Config \<Rightarrow> bus_config" where
  "bus_config_of cfg = (let b = cfg_EventBus cfg in
     \<lparr>bc_URLs = bus_URLs b, bc_ClientName = app_Name (cfg_App cfg), bc_StreamName = ''PLATFORM_EVENTS'',
      bc_Subjects = [''platform.>''], bc_Storage = bus_Storage b, bc_MaxAge = bus_MaxAge b,
      bc_DuplicateWindow = bus_DuplicateWindow b, bc_ConnectTimeout = bus_ConnectTimeout b,
      bc_PublishTimeout = bus_PublishTimeout b\<rparr>)"

text \<open>\<open>er_bus\<close> is the state of the bus that was opened, \<open>er_held\<close> whether \<open>r.bus\<close> refers to it.\<close>

definition runtime_start :: "event_env \<Rightarrow> Config \<Rightarrow> ruleEventRuntime \<Rightarrow> go_error option \<times> ruleEventRuntime" where
  "runtime_start V cfg r = (let b = cfg_EventBus cfg in
     if \<not> bus_Enabled b then (None, r)
     else if \<not> er_store r then (Some (Plain ''enabled event bus requires database outbox''), r)
     else case ev_NewBus V (bus_config_of cfg) of
       Some err \<Rightarrow> (Some err, r)
     | None \<Rightarrow>
    (case ev_NewDispatcher V (bus_DispatchBatchSize b) (bus_DispatchLease b) (bus_DispatchRetryDelay b) of
       Some err \<Rightarrow> (Some err, r\<lparr>er_bus := BusClosed\<rparr>)
     | None \<Rightarrow>
    (case ev_NewCleaner V (bus_PublishedRetention b) (bus_CleanupBatchSize b) of
       Some err \<Rightarrow> (Some err, r\<lparr>er_bus := BusClosed, er_held := True, er_cancel := True, er_cancelled := True\<rparr>)
     | None \<Rightarrow> (None, r\<lparr>er_bus := BusOpen, er_held := True, er_cancel := True, er_loops := True\<rparr>))))"

text \<open>\<open>stop\<close> cancels the context and waits on the wait group until both loops have returned; a loop returns
  once its context is cancelled (\<open>background_loop\<close>), so after the wait none is left (\<open>er_loops\<close>).\<close>

definition runtime_stop :: "event_env \<Rightarrow> ruleEventRuntime \<Rightarrow> go_error option \<times> ruleEventRuntime" where
  "runtime_stop V r =
     (let r1 = (if er_cancel r then r\<lparr>er_cancelled := True, er_loops := False\<rparr> else r) in
      if er_held r1 then (ev_Close V, r1\<lparr>er_bus := BusClosed\<rparr>) else (None, r1))"

text \<open>A background loop: it runs once, then waits for the next tick or the end of its context. \<open>waits\<close> are
  the outcomes of the waits so far; the result says whether the loop has ended.\<close>

datatype wake = Tick | Cancelled

fun background_loop ::
  "('w \<Rightarrow> go_error option \<times> 'w) \<Rightarrow> wake list \<Rightarrow> go_error list \<Rightarrow> 'w \<Rightarrow> bool \<times> go_error list \<times> 'w" where
  "background_loop run_once waits logged w =
     (case run_once w of (err, w') \<Rightarrow>
        let logged' = (case err of
              Some e \<Rightarrow> if errors_is e ContextCanceled then logged else logged @ [e]
            | None \<Rightarrow> logged) in
        case waits of
          [] \<Rightarrow> (False, logged', w')
        | Cancelled # rest \<Rightarrow> (True, logged', w')
        | Tick # rest \<Rightarrow> background_loop run_once rest logged' w')"

declare background_loop.simps [simp del]

section \<open>Servers, scheduler, tracing\<close>

definition http_start :: "(string \<Rightarrow> go_error option) \<Rightarrow> Config \<Rightarrow> go_error option" where
  "http_start listen cfg = map_option (Wrap ''listen http'') (listen (http_Address (cfg_HTTP cfg)))"

text \<open>Starting the gRPC server: the error, and whether it serves.\<close>

definition grpc_start :: "(string \<Rightarrow> go_error option) \<Rightarrow> Config \<Rightarrow> go_error option \<times> bool" where
  "grpc_start listen cfg =
     (if \<not> grpc_Enabled (cfg_GRPC cfg) then (None, False)
      else case listen (grpc_Address (cfg_GRPC cfg)) of
        Some err \<Rightarrow> (Some (Wrap ''listen grpc'' err), False)
      | None \<Rightarrow> (None, True))"

text \<open>Stopping waits for the running calls or for the end of the context, whichever comes first.\<close>

datatype stopping = Drained | Deadline go_error

definition grpc_stop_server :: "stopping \<Rightarrow> go_error option \<times> bool" where
  "grpc_stop_server s = (case s of Drained \<Rightarrow> (None, False) | Deadline err \<Rightarrow> (Some err, True))"

text \<open>Building the gRPC server: its credentials when TLS is on.\<close>

definition grpc_credentials :: "tls_files \<Rightarrow> Config \<Rightarrow> go_error + transport" where
  "grpc_credentials F cfg =
     (if gtls_Enabled (grpc_TLS (cfg_GRPC cfg)) then serverCredentials F (grpc_TLS (cfg_GRPC cfg)) else Inr Insecure)"

text \<open>The scheduler: the jobs it was given; one run of the sample job observes its status.\<close>

definition scheduler_New :: "(string \<Rightarrow> go_error option) \<Rightarrow> (string \<Rightarrow> go_error option) \<Rightarrow> Cron \<Rightarrow> go_error + string list" where
  "scheduler_New load_location add_func cfg =
     (case load_location (cron_Timezone cfg) of
        Some err \<Rightarrow> Inl err
      | None \<Rightarrow>
          if cron_SampleSpec cfg = [] then Inr []
          else case add_func (cron_SampleSpec cfg) of Some err \<Rightarrow> Inl err | None \<Rightarrow> Inr [''sample''])"

definition ObserveCron :: "bool \<Rightarrow> string \<Rightarrow> string \<Rightarrow> (string \<times> string) list \<Rightarrow> (string \<times> string) list" where
  "ObserveCron enabled job status observed = (if \<not> enabled then observed else observed @ [(job, status)])"

definition sample_job ::
  "bool \<Rightarrow> 'x redsync option \<Rightarrow> (string \<times> string) list \<times> 'x \<Rightarrow> (string \<times> string) list \<times> 'x" where
  "sample_job enabled locker s =
     (case runSample locker (snd s) of (err, logs, x) \<Rightarrow>
        (ObserveCron enabled ''sample'' (if err \<noteq> None then ''error'' else ''success'') (fst s), x))"

definition NewTracing :: "(string \<Rightarrow> go_error option) \<Rightarrow> Config \<Rightarrow> go_error + bool" where
  "NewTracing new_exporter cfg =
     (if \<not> obs_TracingEnabled (cfg_Observability cfg) then Inr False
      else case new_exporter (obs_TracingEndpoint (cfg_Observability cfg)) of
        Some err \<Rightarrow> Inl (Wrap ''create OTLP trace exporter'' err)
      | None \<Rightarrow> Inr True)"

section \<open>Commands\<close>

text \<open>The exit code of \<open>cmd/migrate\<close>, given what loading the configuration returns.\<close>

definition migrate_main :: "'u migration_env \<Rightarrow> (string \<Rightarrow> string \<Rightarrow> go_error + Config) \<Rightarrow> string \<Rightarrow> string \<Rightarrow> string \<Rightarrow> int \<Rightarrow> int" where
  "migrate_main M load configPath profile direction steps =
     (if direction \<noteq> ''up'' \<and> direction \<noteq> ''down'' then 2
      else case load configPath profile of
        Inl err \<Rightarrow> 1
      | Inr cfg \<Rightarrow> if fst (migration_Run M (cfg_Migration cfg) direction steps) \<noteq> [] then 1 else 0)"

end
