(* ===== verification/ClientClaims.thy ===== *)
theory ClientClaims
  imports Outbound ConfigClaims
begin

text \<open>
  The two clients: what their retry loops do, attempt by attempt, how long they wait, and that
  credentials are only sent by clients configured for TLS.
\<close>

section \<open>Retry loops\<close>

text \<open>The state in which attempt \<open>k + 1\<close> starts: the attempts before it were made, failed in a way worth a
  retry, and the pause after each was waited out. \<open>None\<close> when that many attempts are not made.\<close>

primrec start_of ::
  "('w \<Rightarrow> 'r \<times> 'w) \<Rightarrow> ('r \<Rightarrow> bool) \<Rightarrow> (nat \<Rightarrow> 'r \<Rightarrow> 'w \<Rightarrow> go_error option \<times> 'w) \<Rightarrow> nat \<Rightarrow> 'w \<Rightarrow> 'w option" where
  "start_of try' stop pause 0 w = Some w"
| "start_of try' stop pause (Suc k) w =
     (case start_of try' stop pause k w of
        None \<Rightarrow> None
      | Some u \<Rightarrow>
          (case try' u of (r, u1) \<Rightarrow>
             if stop r then None
             else (case pause (Suc k) r u1 of (None, u2) \<Rightarrow> Some u2 | (Some e, u2) \<Rightarrow> None)))"

text \<open>The result of a run of at most \<open>limit\<close> attempts from the state \<open>w\<close>: that of attempt \<open>k + 1\<close>, which is
  final or the last one allowed, or the end of the context during the pause after it.\<close>

definition ends_after ::
  "('w \<Rightarrow> 'r \<times> 'w) \<Rightarrow> ('r \<Rightarrow> bool) \<Rightarrow> (nat \<Rightarrow> 'r \<Rightarrow> 'w \<Rightarrow> go_error option \<times> 'w) \<Rightarrow> ('r \<Rightarrow> 'o) \<Rightarrow> (go_error \<Rightarrow> 'o)
     \<Rightarrow> nat \<Rightarrow> nat \<Rightarrow> 'w \<Rightarrow> 'o \<times> 'w \<Rightarrow> bool" where
  "ends_after try' stop pause out failed limit k w result \<longleftrightarrow>
     (\<exists>u r u1. start_of try' stop pause k w = Some u \<and> try' u = (r, u1) \<and>
        (if stop r \<or> Suc k = limit then result = (out r, u1)
         else \<exists>e u2. pause (Suc k) r u1 = (Some e, u2) \<and> result = (failed e, u2)))"

lemma ends_afterI:
  "start_of try' stop pause k w = Some u \<Longrightarrow> try' u = (r, u1) \<Longrightarrow> stop r \<or> Suc k = limit \<Longrightarrow>
     ends_after try' stop pause out failed limit k w (out r, u1)"
  "start_of try' stop pause k w = Some u \<Longrightarrow> try' u = (r, u1) \<Longrightarrow> \<not> stop r \<Longrightarrow> Suc k \<noteq> limit \<Longrightarrow>
     pause (Suc k) r u1 = (Some e, u2) \<Longrightarrow> ends_after try' stop pause out failed limit k w (failed e, u2)"
  unfolding ends_after_def by (rule exI [of _ u], rule exI [of _ r], rule exI [of _ u1], simp)+

text \<open>The law of a retry loop, one attempt at a time.\<close>

locale retrying =
  fixes loop :: "nat \<Rightarrow> nat \<Rightarrow> 'w \<Rightarrow> 'o \<times> 'w" and try' :: "'w \<Rightarrow> 'r \<times> 'w" and stop :: "'r \<Rightarrow> bool"
    and pause :: "nat \<Rightarrow> 'r \<Rightarrow> 'w \<Rightarrow> go_error option \<times> 'w" and out :: "'r \<Rightarrow> 'o" and failed :: "go_error \<Rightarrow> 'o"
    and limit :: nat
  assumes step: "n + a = limit \<Longrightarrow> loop (Suc n) a w = (case try' w of (r, w1) \<Rightarrow>
      if stop r \<or> a = limit then (out r, w1)
      else (case pause a r w1 of (Some e, w2) \<Rightarrow> (failed e, w2) | (None, w2) \<Rightarrow> loop n (Suc a) w2))"
begin

lemma continues:
  "start_of try' stop pause k w = Some u \<Longrightarrow> n + Suc k = limit \<Longrightarrow>
     \<exists>j < limit. ends_after try' stop pause out failed limit j w (loop (Suc n) (Suc k) u)"
proof (induction n arbitrary: k u)
  case 0
  obtain r u1 where t: "try' u = (r, u1)" by (meson surj_pair)
  have "loop (Suc 0) (Suc k) u = (out r, u1)" using step [of 0 "Suc k" u] 0 t by simp
  then show ?case using 0 t ends_afterI(1) [of try' stop pause k w u r u1 limit] by (intro exI [of _ k]) auto
next
  case (Suc n)
  obtain r u1 where t: "try' u = (r, u1)" by (meson surj_pair)
  obtain p u2 where p: "pause (Suc k) r u1 = (p, u2)" by (meson surj_pair)
  note l = step [of "Suc n" "Suc k" u]
  show ?case
  proof (cases "stop r")
    case True
    then have "loop (Suc (Suc n)) (Suc k) u = (out r, u1)" using l Suc.prems t by simp
    with True Suc.prems t ends_afterI(1) [of try' stop pause k w u r u1 limit] show ?thesis by (intro exI [of _ k]) auto
  next
    case go: False
    show ?thesis
    proof (cases p)
      case (Some e)
      then have "loop (Suc (Suc n)) (Suc k) u = (failed e, u2)" using l Suc.prems t p go by simp
      with Some go Suc.prems t p ends_afterI(2) [of try' stop pause k w u r u1 limit e u2] show ?thesis by (intro exI [of _ k]) auto
    next
      case None
      then have "loop (Suc (Suc n)) (Suc k) u = loop (Suc n) (Suc (Suc k)) u2" using l Suc.prems t p go by simp
      moreover have "start_of try' stop pause (Suc k) w = Some u2" using Suc.prems(1) t p go None by simp
      ultimately show ?thesis using Suc.IH [of "Suc k" u2] Suc.prems(2) by simp
    qed
  qed
qed

lemma runs: "0 < limit \<Longrightarrow> \<exists>j < limit. ends_after try' stop pause out failed limit j w (loop limit 1 w)"
  using continues [of 0 w w "limit - 1"] by simp

end

section \<open>The gRPC client\<close>

definition grpc_stop :: "call_error option \<Rightarrow> bool" where
  "grpc_stop err \<longleftrightarrow> err_grpc_code err \<noteq> C_Unavailable \<and> err_grpc_code err \<noteq> C_ResourceExhausted"

interpretation grpc_retry: retrying "\<lambda>n a. retry_loop timer cfg invoker c n a err" "invoker c" grpc_stop
  "\<lambda>a r. timer (grpc_delay cfg a)" "\<lambda>r. r" "\<lambda>e. Some (OtherErr e)" "nat (retry_MaxAttempts cfg)"
  for timer cfg invoker c err
proof unfold_locales
  fix n a w
  assume limit: "n + a = nat (retry_MaxAttempts cfg)"
  have any: "retry_loop timer cfg invoker c (Suc m) b e v = retry_loop timer cfg invoker c (Suc m) b e' v" for m b e e' v
    by simp
  show "retry_loop timer cfg invoker c (Suc n) a err w = (case invoker c w of (r, w1) \<Rightarrow>
      if grpc_stop r \<or> a = nat (retry_MaxAttempts cfg) then (r, w1)
      else (case timer (grpc_delay cfg a) w1 of (Some e, w2) \<Rightarrow> (Some (OtherErr e), w2)
        | (None, w2) \<Rightarrow> retry_loop timer cfg invoker c n (Suc a) err w2))"
  proof (cases n)
    case 0
    with limit show ?thesis by (auto simp: grpc_stop_def split: prod.split)
  next
    case (Suc m)
    then have "int a < retry_MaxAttempts cfg" "a \<noteq> nat (retry_MaxAttempts cfg)" using limit by auto
    then show ?thesis
      using any [of m "Suc a"] Suc
      by (auto simp: grpc_stop_def waitRetry_def simp del: retry_loop.simps(2) split: prod.split option.split
          simp: retry_loop.simps(2) [of _ _ _ _ "Suc m" a])
  qed
qed

section \<open>Waiting\<close>

lemma bitlen_bound: "n < 2 ^ k \<Longrightarrow> bitlen n \<le> k"
proof (induction k arbitrary: n)
  case 0
  then show ?case by (simp add: bitlen.simps)
next
  case (Suc k)
  then have "n div 2 < 2 ^ k" by simp
  from Suc.IH [OF this] show ?case by (simp add: bitlen.simps [of n])
qed

text \<open>Durations below \<open>2^53\<close> nanoseconds (104 days) are exact floats.\<close>

lemma float_of_duration_exact:
  assumes "0 < d" and "d < 2 ^ 53"
  shows "float_of_duration d = d"
proof -
  let ?n = "nat d"
  have n: "?n \<noteq> 0" "?n < 2 ^ 53" using assms by (auto simp: nat_less_iff)
  have "bitlen (Suc 0) = 1" by (simp add: bitlen.simps [of "Suc 0"] bitlen.simps [of 0])
  then have l: "floor_log2 ?n 1 \<le> 52"
    using bitlen_bound [OF n(2)] by (simp add: floor_log2_def Let_def)
  define k where "k = max (- 1074) (floor_log2 ?n 1 - 52)"
  have k: "k \<le> 0" using l by (simp add: k_def)
  have q: "round_half_even (?n * 2 ^ nat (- k)) (1 * 2 ^ nat k) = ?n * 2 ^ nat (- k)"
    using k by (simp add: round_half_even_def Let_def)
  show ?thesis
  proof (cases "?n * 2 ^ nat (- k) = 2 ^ 53")
    case False
    have "round64 False ?n 1 = Some (F64 False (?n * 2 ^ nat (- k)) k)"
      using n False k unfolding round64_def Let_def k_def [symmetric] q by simp
    then show ?thesis using k assms by (simp add: float_of_duration_def f_num_def f_den_def)
  next
    case True
    have "round64 False ?n 1 = Some (F64 False (2 ^ 52) (k + 1))"
      using n True k unfolding round64_def Let_def k_def [symmetric] q by simp
    moreover have "int (2 ^ 52 * 2 ^ nat (k + 1) div 2 ^ nat (- (k + 1))) = d"
    proof -
      obtain m where m: "nat (- k) = Suc m" using True n(2) by (cases "nat (- k)") auto
      then have "?n * 2 ^ m = 2 ^ 52" using True by simp
      then have "2 ^ 52 div 2 ^ m = ?n" by (metis nonzero_mult_div_cancel_right power_not_zero zero_neq_numeral)
      moreover have "nat (- (k + 1)) = m" "nat (k + 1) = 0" using m by auto
      ultimately show ?thesis using assms by simp
    qed
    ultimately show ?thesis using assms by (simp add: float_of_duration_def f_num_def f_den_def)
  qed
qed

definition policy_ok :: "Retry \<Rightarrow> bool" where
  "policy_ok cfg \<longleftrightarrow> 1 \<le> retry_MaxAttempts cfg \<and> retry_MaxAttempts cfg \<le> 5 \<and>
     0 < retry_InitialBackoff cfg \<and> retry_InitialBackoff cfg \<le> retry_MaxBackoff cfg"

lemma validated_policy: "validateClientPolicy name auth cfg breaker tls = None \<Longrightarrow> policy_ok cfg"
  by (auto simp: validateClientPolicy_def policy_ok_def)

text \<open>C34. The two clients wait the same: for a retry policy the configuration accepts, with a first
  backoff below \<open>2^53\<close> nanoseconds (104 days), the pause after attempt \<open>k\<close> is the first backoff doubled
  \<open>k - 1\<close> times, capped by the maximum, for the gRPC client, which shifts an \<open>int64\<close>, and for the HTTP
  client, which multiplies a float; it is positive, never above the maximum, and never decreases.\<close>

theorem backoff_bounds:
  assumes valid: "validateClientPolicy name auth cfg breaker tls = None"
    and small: "retry_InitialBackoff cfg < 2 ^ 53" and k: "1 \<le> k" "int k \<le> retry_MaxAttempts cfg"
  shows "grpc_delay cfg k = min (retry_InitialBackoff cfg * 2 ^ (k - 1)) (retry_MaxBackoff cfg)
    \<and> http_delay overflow cfg k = grpc_delay cfg k
    \<and> 0 < grpc_delay cfg k \<and> grpc_delay cfg k \<le> retry_MaxBackoff cfg
    \<and> (int k < retry_MaxAttempts cfg \<longrightarrow> grpc_delay cfg k \<le> grpc_delay cfg (Suc k))"
proof -
  note ok = validated_policy [OF valid, unfolded policy_ok_def]
  let ?d = "retry_InitialBackoff cfg"
  have range: "?d * 2 ^ (j - 1) < 2 ^ 57" if "1 \<le> j" "int j \<le> retry_MaxAttempts cfg" for j :: nat
  proof -
    have "j - 1 \<le> 4" using that ok by linarith
    then have "(2::int) ^ (j - 1) \<le> 2 ^ 4" by (rule power_increasing) simp
    then have "?d * 2 ^ (j - 1) \<le> ?d * 2 ^ 4" using ok by (intro mult_left_mono) auto
    with small show ?thesis by simp
  qed
  have grpc: "grpc_delay cfg j = min (?d * 2 ^ (j - 1)) (retry_MaxBackoff cfg)"
    if "1 \<le> j" "int j \<le> retry_MaxAttempts cfg" for j
  proof -
    have "0 < ?d * 2 ^ (j - 1)" using ok by simp
    then have "i64 (?d * 2 ^ (j - 1)) = ?d * 2 ^ (j - 1)"
      using range [OF that] by (intro i64_id) (auto simp: max_i64_def)
    then show ?thesis by (auto simp: grpc_delay_def Let_def)
  qed
  have "http_delay overflow cfg k = grpc_delay cfg k"
  proof -
    have "0 < ?d * 2 ^ (k - 1)" using ok by simp
    moreover have "float_of_duration ?d = ?d" using ok small by (intro float_of_duration_exact) auto
    ultimately show ?thesis
      using range [OF k] unfolding grpc [OF k] by (auto simp: http_delay_def Let_def max_i64_def)
  qed
  moreover have "?d * 2 ^ (k - 1) \<le> ?d * 2 ^ (Suc k - 1)"
    using ok by (intro mult_left_mono power_increasing) auto
  then have "int k < retry_MaxAttempts cfg \<longrightarrow> grpc_delay cfg k \<le> grpc_delay cfg (Suc k)"
    using grpc [of "Suc k"] grpc [OF k] by auto
  ultimately show ?thesis using grpc [OF k] ok by auto
qed

definition demo_retry :: Retry where
  "demo_retry = \<lparr>retry_MaxAttempts = 3, retry_InitialBackoff = 100000000, retry_MaxBackoff = 150000000,
     retry_Methods = [''/svc/Get'']\<rparr>"

definition no_breaker :: Breaker where
  "no_breaker = \<lparr>breaker_Enabled = False, breaker_FailureThreshold = 0, breaker_OpenTimeout = 0\<rparr>"

definition no_auth :: ClientAuth where
  "no_auth = \<lparr>cauth_Type = [], cauth_Token = []\<rparr>"

definition no_tls :: ClientTLS where
  "no_tls = \<lparr>ctls_Enabled = False, ctls_ServerName = [], ctls_CAFile = [], ctls_CertFile = [], ctls_KeyFile = []\<rparr>"

lemma demo_literal: "Match ''/svc/Get'' name = Inr (name = ''/svc/Get'')"
  by (rule Match_literal) (simp add: meta_free_def GoPath.bslash_def)

lemma demo_policy: "validateClientPolicy ''svc'' no_auth demo_retry no_breaker no_tls = None"
  by (simp add: validateClientPolicy_def refuse_def no_auth_def demo_retry_def no_breaker_def no_tls_def
      bad_method_def bad_pattern_def demo_literal HasPrefix_def CountByte_def)

lemma backoff_bounds_witness: "grpc_delay demo_retry 1 = 100000000 \<and> grpc_delay demo_retry 2 = 150000000"
  using backoff_bounds [OF demo_policy, of 1 0] backoff_bounds [OF demo_policy, of 2 0]
  by (simp add: demo_retry_def)

text \<open>Without the bound the shift overflows: a first backoff of \<open>2^62\<close> nanoseconds is not waited at all
  after the third attempt.\<close>

lemma shift_overflows: "grpc_delay (demo_retry\<lparr>retry_InitialBackoff := 2 ^ 62, retry_MaxBackoff := 2 ^ 62\<rparr>) 3 = 0"
  by (simp add: grpc_delay_def i64_def)

text \<open>C35. The gRPC client retries within its policy: a call with an idempotency key, or to a method the
  policy lists, is invoked again only after \<open>Unavailable\<close> or \<open>ResourceExhausted\<close>, after the pause of its
  attempt, at most \<open>MaxAttempts\<close> times in all (never more than 5), and its error is that of the last
  attempt or that of the context that ended during a pause; every other call is invoked once.\<close>

theorem grpc_retries:
  assumes valid: "validateClientPolicy name auth cfg breaker tls = None"
  shows "nat (retry_MaxAttempts cfg) \<le> 5 \<and>
    (if retryGRPCMethod c m (retry_Methods cfg)
     then \<exists>k < nat (retry_MaxAttempts cfg). ends_after (invoker c) grpc_stop (\<lambda>a r. timer (grpc_delay cfg a))
         (\<lambda>r. r) (\<lambda>e. Some (OtherErr e)) (nat (retry_MaxAttempts cfg)) k w (retryInterceptor timer cfg m invoker c w)
     else retryInterceptor timer cfg m invoker c w = invoker c w)"
proof -
  note ok = validated_policy [OF valid, unfolded policy_ok_def]
  then have pos: "0 < nat (retry_MaxAttempts cfg)" and five: "nat (retry_MaxAttempts cfg) \<le> 5" by linarith+
  note runs = grpc_retry.runs [OF pos, where timer = timer and invoker = invoker and c = c and w = w and err = None]
  show ?thesis
  proof (cases "retryGRPCMethod c m (retry_Methods cfg)")
    case True
    then show ?thesis using runs five unfolding retryInterceptor_def by simp
  next
    case False
    then show ?thesis using five by (simp add: retryInterceptor_def)
  qed
qed

text \<open>A server that is unavailable once and then answers, counting the calls.\<close>

definition flaky :: "nat invoker" where
  "flaky c w = (if ow_ext w = 0 then Some (StatusErr (GrpcStatus C_Unavailable ''try again'')) else None,
     w\<lparr>ow_ext := Suc (ow_ext w)\<rparr>)"

definition patient :: "'x timer" where
  "patient d w = (None, w)"

definition idle :: "nat out_world" where
  "idle = \<lparr>ow_ext = 0, ow_metrics = []\<rparr>"

definition out_start :: out_ctx where
  "out_start = \<lparr>oc_deadline = None, oc_metadata = [], oc_request_id = None, oc_idempotency_key = Some ''k''\<rparr>"

lemma grpc_retries_witness:
  "\<exists>k < 3. ends_after (flaky out_start) grpc_stop (\<lambda>a r. patient (grpc_delay demo_retry a)) (\<lambda>r. r)
      (\<lambda>e. Some (OtherErr e)) 3 k idle (retryInterceptor patient demo_retry ''/svc/Set'' flaky out_start idle)
    \<and> retryInterceptor patient demo_retry ''/svc/Set'' flaky out_start idle = (None, idle\<lparr>ow_ext := 2\<rparr>)"
proof -
  have m: "retryGRPCMethod out_start ''/svc/Set'' (retry_Methods demo_retry)" "nat (retry_MaxAttempts demo_retry) = 3"
    by (simp_all add: retryGRPCMethod_def out_start_def demo_retry_def)
  have "retryInterceptor patient demo_retry ''/svc/Set'' flaky out_start idle = (None, idle\<lparr>ow_ext := 2\<rparr>)"
    by (simp add: retryInterceptor_def m eval_nat_numeral flaky_def idle_def err_grpc_code_def waitRetry_def patient_def)
  then show ?thesis
    using grpc_retries [OF demo_policy, where c = out_start and m = "''/svc/Set''" and timer = patient
        and invoker = flaky and w = idle] m by auto
qed

section \<open>The HTTP client\<close>

definition http_stop :: "go_error + http_response \<Rightarrow> bool" where
  "http_stop r \<longleftrightarrow> (case r of Inr response \<Rightarrow> \<not> retryableHTTPStatus (hr_StatusCode response) | Inl err \<Rightarrow> False)"

definition http_pause ::
  "'x http_client_env \<Rightarrow> Retry \<Rightarrow> nat \<Rightarrow> go_error + http_response \<Rightarrow> 'x out_world \<Rightarrow> go_error option \<times> 'x out_world" where
  "http_pause X retry a r w = hx_timer X (http_delay (hx_overflow X) retry a)
     (case r of Inr response \<Rightarrow> hx_discard X response w | Inl err \<Rightarrow> w)"

lemma http_retry:
  assumes "hx_new_request X (hq_Method request) (hq_URL request) = None" and "0 < limit"
  shows "retrying (\<lambda>n a. http_loop X client request (int limit) n a)
    (hx_do X (hc_transport client) (hup_Timeout (hc_cfg client)) request) http_stop
    (http_pause X (hup_Retry (hc_cfg client))) (map_sum (Wrap ''call outbound HTTP service'') id) Inl limit"
proof
  fix n a and w :: "'a out_world"
  assume l: "n + a = limit"
  then show "http_loop X client request (int limit) (Suc n) a w =
      (case hx_do X (hc_transport client) (hup_Timeout (hc_cfg client)) request w of (r, w1) \<Rightarrow>
        if http_stop r \<or> a = limit then (map_sum (Wrap ''call outbound HTTP service'') id r, w1)
        else (case http_pause X (hup_Retry (hc_cfg client)) a r w1 of (Some e, w2) \<Rightarrow> (Inl e, w2)
          | (None, w2) \<Rightarrow> http_loop X client request (int limit) n (Suc a) w2))"
    using assms(1)
    by (auto simp: http_stop_def http_pause_def waitBackoff_def Let_def split: prod.split sum.split option.split)
qed

text \<open>C36. The HTTP client retries within its policy: a relative path is resolved against the base URL, and
  the request is sent again only after a transport error or the status 429, 502, 503 or 504, after the
  pause of its attempt, at most \<open>MaxAttempts\<close> times when the method is idempotent or the context carries
  an idempotency key, and once otherwise; the answer is that of the last attempt, an exhausted retry
  giving its response or its error, or the end of the context during a pause.\<close>

theorem http_retries:
  assumes valid: "validateClientPolicy name auth (hup_Retry (hc_cfg client)) breaker tls = None"
    and path: "hx_parse X requestPath = Inr reference" "url_Scheme reference = []" "url_Host reference = []"
    and request: "hx_new_request X m (hx_resolve X (hc_baseURL client) reference) = None"
  shows "\<exists>limit k. 1 \<le> limit \<and> limit \<le> 5 \<and> k < limit
    \<and> limit = (if retryableMethod c m then nat (retry_MaxAttempts (hup_Retry (hc_cfg client))) else 1)
    \<and> ends_after (hx_do X (hc_transport client) (hup_Timeout (hc_cfg client))
          (build_request client m (hx_resolve X (hc_baseURL client) reference) body headers)) http_stop
        (http_pause X (hup_Retry (hc_cfg client))) (map_sum (Wrap ''call outbound HTTP service'') id) Inl
        limit k w (doWithRetry X client c m requestPath body headers w)"
proof -
  note ok = validated_policy [OF valid, unfolded policy_ok_def]
  define limit where
    "limit = (if retryableMethod c m then nat (retry_MaxAttempts (hup_Retry (hc_cfg client))) else 1)"
  have l: "1 \<le> limit" "limit \<le> 5" using ok unfolding limit_def by auto
  let ?r = "build_request client m (hx_resolve X (hc_baseURL client) reference) body headers"
  have "hx_new_request X (hq_Method ?r) (hq_URL ?r) = None" using request by (simp add: build_request_def Let_def)
  from retrying.runs [OF http_retry [OF this]] l(1) have "\<exists>k < limit. ends_after
      (hx_do X (hc_transport client) (hup_Timeout (hc_cfg client)) ?r) http_stop
      (http_pause X (hup_Retry (hc_cfg client))) (map_sum (Wrap ''call outbound HTTP service'') id) Inl
      limit k w (http_loop X client ?r (int limit) limit 1 w)" by simp
  moreover have "doWithRetry X client c m requestPath body headers w = http_loop X client ?r (int limit) limit 1 w"
    using path ok by (simp add: doWithRetry_def limit_def Let_def)
  ultimately show ?thesis using l limit_def by metis
qed

text \<open>An upstream, its client, and a world that answers 503 once.\<close>

definition demo_http_upstream :: HTTPUpstream where
  "demo_http_upstream = \<lparr>hup_BaseURL = ''https://rules'', hup_Timeout = 1000000000,
     hup_Auth = \<lparr>cauth_Type = ''bearer'', cauth_Token = ''t''\<rparr>, hup_Retry = demo_retry, hup_Breaker = no_breaker,
     hup_TLS = no_tls\<lparr>ctls_Enabled := True\<rparr>\<rparr>"

definition no_files :: tls_files where
  "no_files = \<lparr>tf_ReadFile = (\<lambda>f. Inl (Plain ''no such file'')), tf_CertsFromPEM = (\<lambda>p. False),
     tf_LoadX509KeyPair = (\<lambda>c k. Inl (Plain ''no such file''))\<rparr>"

definition demo_client_env :: "nat http_client_env" where
  "demo_client_env =
     \<lparr>hx_parse = (\<lambda>s. if HasPrefix s ''https://'' then Inr \<lparr>url_Scheme = ''https'', url_Host = drop 8 s, url_Rest = []\<rparr>
        else if HasPrefix s ''http://'' then Inr \<lparr>url_Scheme = ''http'', url_Host = drop 7 s, url_Rest = []\<rparr>
        else Inr \<lparr>url_Scheme = [], url_Host = [], url_Rest = s\<rparr>),
      hx_resolve = (\<lambda>base reference. url_Scheme base @ ''://'' @ url_Host base @ url_Rest reference),
      hx_new_request = (\<lambda>m u. None),
      hx_do = (\<lambda>t timeout r w. (Inr \<lparr>hr_StatusCode = (if ow_ext w = 0 then 503 else 200), hr_Content = []\<rparr>,
        w\<lparr>ow_ext := Suc (ow_ext w)\<rparr>)),
      hx_discard = (\<lambda>r w. w), hx_timer = patient, hx_execute = (\<lambda>b f. f), hx_files = no_files,
      hx_overflow = 0\<rparr>"

definition demo_client :: "string \<Rightarrow> HTTPClient" where
  "demo_client scheme =
     \<lparr>hc_name = ''rules'', hc_baseURL = \<lparr>url_Scheme = scheme, url_Host = ''rules'', url_Rest = []\<rparr>,
      hc_transport = \<lparr>ts_ServerName = [], ts_RootCAs = None, ts_ClientCAs = None, ts_ClientAuth = NoClientCert,
        ts_Certificate = None\<rparr>,
      hc_cfg = demo_http_upstream\<lparr>hup_BaseURL := scheme @ ''://rules''\<rparr>, hc_breaker = None, hc_metrics = None\<rparr>"

lemma http_retries_witness:
  "\<exists>k < 3. ends_after (hx_do demo_client_env (hc_transport (demo_client ''https'')) 1000000000
      (build_request (demo_client ''https'') ''GET'' ''https://rules/x'' [] (\<lambda>k. []))) http_stop
    (http_pause demo_client_env demo_retry) (map_sum (Wrap ''call outbound HTTP service'') id) Inl 3 k idle
    (doWithRetry demo_client_env (demo_client ''https'') out_start ''GET'' ''/x'' [] (\<lambda>k. []) idle)"
proof -
  let ?c = "demo_client ''https''"
  have r: "hup_Retry (hc_cfg ?c) = demo_retry" by (simp add: demo_client_def demo_http_upstream_def)
  have "validateClientPolicy ''svc'' no_auth (hup_Retry (hc_cfg ?c)) no_breaker no_tls = None"
    unfolding r by (rule demo_policy)
  moreover have "hx_parse demo_client_env ''/x'' = Inr \<lparr>url_Scheme = [], url_Host = [], url_Rest = ''/x''\<rparr>"
    by (simp add: demo_client_env_def HasPrefix_def)
  moreover have "hx_new_request demo_client_env ''GET'' u = None" for u by (simp add: demo_client_env_def)
  moreover have "hx_resolve demo_client_env (hc_baseURL ?c) \<lparr>url_Scheme = [], url_Host = [], url_Rest = ''/x''\<rparr> = ''https://rules/x''"
    by (simp add: demo_client_env_def demo_client_def)
  moreover have "hup_Timeout (hc_cfg ?c) = 1000000000" by (simp add: demo_client_def demo_http_upstream_def)
  moreover have "nat (retry_MaxAttempts demo_retry) = 3" "retryableMethod out_start ''GET''"
    by (simp_all add: demo_retry_def retryableMethod_def)
  ultimately show ?thesis
    using http_retries [of "''svc''" no_auth ?c no_breaker no_tls demo_client_env "''/x''" _ "''GET''" out_start "[]" "\<lambda>k. []" idle] r
    by simp blast
qed

section \<open>Credentials and the registry\<close>

text \<open>The whole way of a client's call.\<close>

lemma add_http_spec:
  "add_http X metrics ups registry = Inr registry' \<Longrightarrow> reg_grpc registry' = reg_grpc registry \<and>
     (\<forall>u \<in> set ups. \<exists>client. NewHTTPClient X (fst u) (snd u) metrics = Inr client)"
  by (induction X metrics ups registry rule: add_http.induct) (auto split: sum.splits)

lemma add_http_lookup:
  "add_http X metrics ups registry = Inr registry' \<Longrightarrow> distinct (map fst ups) \<Longrightarrow> reg_http registry' name =
     (case map_of ups name of
        Some up \<Rightarrow> (case NewHTTPClient X name up metrics of Inr client \<Rightarrow> Some client | Inl e \<Rightarrow> None)
      | None \<Rightarrow> reg_http registry name)"
proof (induction X metrics ups registry rule: add_http.induct)
  case (2 X metrics n up rest registry)
  from 2(2) obtain client where c: "NewHTTPClient X n up metrics = Inr client"
    "add_http X metrics rest (registry\<lparr>reg_http := (reg_http registry)(n \<mapsto> client)\<rparr>) = Inr registry'"
    by (auto split: sum.splits)
  have "map_of rest n = None" using 2(3) by (simp add: map_of_eq_None_iff)
  then show ?case using "2.IH" [OF c] 2(3) c(1) by (auto split: option.split)
qed simp

lemma add_grpc_spec:
  "add_grpc V metrics ups registry = Inr registry' \<Longrightarrow> reg_http registry' = reg_http registry \<and>
     (\<exists>conns. reg_grpc registry' = reg_grpc registry @ conns \<and>
      list_all2 (\<lambda>u c. fst u = fst c \<and> Dial V (grpc_client_config (fst u) (snd u) metrics) = Inr (snd c)) ups conns)"
proof (induction V metrics ups registry rule: add_grpc.induct)
  case (2 V metrics n up rest registry)
  from 2(2) obtain connection where c: "Dial V (grpc_client_config n up metrics) = Inr connection"
    "add_grpc V metrics rest (registry\<lparr>reg_grpc := reg_grpc registry @ [(n, connection)]\<rparr>) = Inr registry'"
    by (auto split: sum.splits)
  from "2.IH" [OF c] obtain conns where i: "reg_http registry' = reg_http registry"
    "reg_grpc registry' = reg_grpc registry @ (n, connection) # conns"
    "list_all2 (\<lambda>u c. fst u = fst c \<and> Dial V (grpc_client_config (fst u) (snd u) metrics) = Inr (snd c)) rest conns"
    by auto
  then show ?case using c(1) by (intro conjI exI [of _ "(n, connection) # conns"]) simp_all
qed simp

text \<open>The first upstream that fails ends the loop, with the clients and connections made before it.\<close>

lemma add_grpc_failed:
  "add_grpc V metrics ups registry = Inl (err, registry') \<Longrightarrow>
     \<exists>pre u rest conns e. ups = pre @ u # rest \<and> reg_grpc registry' = reg_grpc registry @ conns \<and>
       list_all2 (\<lambda>u c. fst u = fst c \<and> Dial V (grpc_client_config (fst u) (snd u) metrics) = Inr (snd c)) pre conns \<and>
       Dial V (grpc_client_config (fst u) (snd u) metrics) = Inl e \<and>
       err = Wrap (''create outbound gRPC client '' @ fst u) e"
proof (induction V metrics ups registry rule: add_grpc.induct)
  case (2 V metrics n up rest registry)
  show ?case
  proof (cases "Dial V (grpc_client_config n up metrics)")
    case (Inl e)
    with 2(2) show ?thesis
      by (intro exI [of _ "[]"] exI [of _ "(n, up)"] exI [of _ rest] exI [of _ "[]"] exI [of _ e]) auto
  next
    case (Inr connection)
    with 2(2) "2.IH" [OF Inr] obtain pre u rest' conns e where i: "rest = pre @ u # rest'"
      "reg_grpc registry' = reg_grpc registry @ (n, connection) # conns"
      "list_all2 (\<lambda>u c. fst u = fst c \<and> Dial V (grpc_client_config (fst u) (snd u) metrics) = Inr (snd c)) pre conns"
      "Dial V (grpc_client_config (fst u) (snd u) metrics) = Inl e" "err = Wrap (''create outbound gRPC client '' @ fst u) e"
      by auto
    then show ?thesis
      using Inr by (intro exI [of _ "(n, up) # pre"] exI [of _ u] exI [of _ rest'] exI [of _ "(n, connection) # conns"] exI [of _ e]) auto
  qed
qed simp

lemma add_http_failed:
  "add_http X metrics ups registry = Inl (err, registry') \<Longrightarrow> reg_grpc registry' = reg_grpc registry \<and>
     (\<exists>pre u rest e. ups = pre @ u # rest \<and> (\<forall>u \<in> set pre. \<exists>client. NewHTTPClient X (fst u) (snd u) metrics = Inr client) \<and>
        NewHTTPClient X (fst u) (snd u) metrics = Inl e \<and> err = Wrap (''create outbound HTTP client '' @ fst u) e)"
proof (induction X metrics ups registry rule: add_http.induct)
  case (2 X metrics n up rest registry)
  show ?case
  proof (cases "NewHTTPClient X n up metrics")
    case (Inl e)
    with 2(2) show ?thesis
      by (intro conjI exI [of _ "[]"] exI [of _ "(n, up)"] exI [of _ rest] exI [of _ e]) auto
  next
    case (Inr client)
    with 2(2) "2.IH" [OF Inr] obtain pre u rest' e where i: "reg_grpc registry' = reg_grpc registry" "rest = pre @ u # rest'"
      "\<forall>u \<in> set pre. \<exists>client. NewHTTPClient X (fst u) (snd u) metrics = Inr client"
      "NewHTTPClient X (fst u) (snd u) metrics = Inl e" "err = Wrap (''create outbound HTTP client '' @ fst u) e"
      by auto
    then show ?thesis
      using Inr by (intro conjI exI [of _ "(n, up) # pre"] exI [of _ u] exI [of _ rest'] exI [of _ e]) auto
  qed
qed simp

lemma Dial_Inr:
  assumes "Dial V cfg = Inr conn"
  shows "\<exists>t. transportCredentials (ce_files V) (gcc_TLS cfg) = Inr t \<and>
      ce_NewClient V (gcc_Target cfg) t (\<lambda>m invoker. foldr (\<lambda>i k. i k) (client_chain V cfg m) invoker) = Inr conn \<and>
      (gcc_Token cfg \<noteq> [] \<or> gcc_PSK cfg \<noteq> [] \<longrightarrow>
        tlsc_AllowInsecureToken (gcc_TLS cfg) \<or> tlsc_Enabled (gcc_TLS cfg) \<and> t \<noteq> Insecure)"
proof -
  have "t \<noteq> Insecure" if "transportCredentials F tls = Inr t" "tlsc_Enabled tls" for F tls t
    using that by (auto simp: transportCredentials_def Let_def split: if_splits sum.splits)
  with assms show ?thesis by (auto simp: Dial_def split: if_splits sum.splits)
qed

lemma upstream_tls:
  "NewHTTPClient X name up metrics = Inr client \<Longrightarrow> cauth_Type (hup_Auth up) \<noteq> [] \<Longrightarrow> ctls_Enabled (hup_TLS up)"
  by (auto simp: NewHTTPClient_def split: if_splits)

lemma NewRegistry_Inr:
  assumes "distinct (map fst (outb_HTTP cfg))" "distinct (map fst (outb_GRPC cfg))"
    and "NewRegistry X V metrics cfg = (Inr registry, closed)"
  shows "closed = []"
    and "registry_HTTP registry name \<noteq> None \<longleftrightarrow> name \<in> fst ` set (outb_HTTP cfg)"
    and "registry_GRPC registry name \<noteq> None \<longleftrightarrow> name \<in> fst ` set (outb_GRPC cfg)"
    and "(name, hup) \<in> set (outb_HTTP cfg) \<Longrightarrow> cauth_Type (hup_Auth hup) \<noteq> [] \<Longrightarrow> ctls_Enabled (hup_TLS hup)"
    and "(name, up) \<in> set (outb_GRPC cfg) \<Longrightarrow> \<exists>conn t. registry_GRPC registry name = Some conn
      \<and> ce_NewClient V (gup_Target up) t (\<lambda>m invoker.
           foldr (\<lambda>i k. i k) (client_chain V (grpc_client_config name up metrics) m) invoker) = Inr conn
      \<and> (gcc_Token (grpc_client_config name up metrics) \<noteq> []
          \<or> gcc_PSK (grpc_client_config name up metrics) \<noteq> [] \<longrightarrow> t \<noteq> Insecure)"
proof -
  from assms(3) obtain registry0 where r: "closed = []"
      "add_http X metrics (outb_HTTP cfg) \<lparr>reg_http = Map.empty, reg_grpc = []\<rparr> = Inr registry0"
      "add_grpc V metrics (outb_GRPC cfg) registry0 = Inr registry"
    by (auto simp: NewRegistry_def split: sum.splits)
  note h = add_http_spec [OF r(2)]
  from add_grpc_spec [OF r(3)] h obtain conns where g: "reg_http registry = reg_http registry0"
      "reg_grpc registry = conns" "list_all2 (\<lambda>u c. fst u = fst c \<and>
         Dial V (grpc_client_config (fst u) (snd u) metrics) = Inr (snd c)) (outb_GRPC cfg) conns"
    by auto
  have names: "map fst conns = map fst (outb_GRPC cfg)"
    using g(3) by (auto simp: list_all2_conv_all_nth intro: nth_equalityI)
  show "closed = []" by (rule r(1))
  show "registry_HTTP registry name \<noteq> None \<longleftrightarrow> name \<in> fst ` set (outb_HTTP cfg)"
  proof (cases "map_of (outb_HTTP cfg) name")
    case None
    with add_http_lookup [OF r(2) assms(1), of name] g(1) show ?thesis
      by (simp add: registry_HTTP_def map_of_eq_None_iff)
  next
    case (Some up)
    then have "(name, up) \<in> set (outb_HTTP cfg)" by (rule map_of_SomeD)
    moreover from this h obtain client where "NewHTTPClient X name up metrics = Inr client" by force
    ultimately show ?thesis
      using add_http_lookup [OF r(2) assms(1), of name] g(1) Some by (force simp: registry_HTTP_def)
  qed
  show "registry_GRPC registry name \<noteq> None \<longleftrightarrow> name \<in> fst ` set (outb_GRPC cfg)"
    using names g(2) by (simp add: registry_GRPC_def map_of_eq_None_iff) (metis list.set_map)
  show "ctls_Enabled (hup_TLS hup)" if "(name, hup) \<in> set (outb_HTTP cfg)" "cauth_Type (hup_Auth hup) \<noteq> []"
    using that h upstream_tls by fastforce
  show "\<exists>conn t. registry_GRPC registry name = Some conn
      \<and> ce_NewClient V (gup_Target up) t (\<lambda>m invoker.
           foldr (\<lambda>i k. i k) (client_chain V (grpc_client_config name up metrics) m) invoker) = Inr conn
      \<and> (gcc_Token (grpc_client_config name up metrics) \<noteq> []
          \<or> gcc_PSK (grpc_client_config name up metrics) \<noteq> [] \<longrightarrow> t \<noteq> Insecure)"
    if u: "(name, up) \<in> set (outb_GRPC cfg)"
  proof -
    from u g(3) obtain conn where c: "(name, conn) \<in> set conns" "Dial V (grpc_client_config name up metrics) = Inr conn"
      by (fastforce simp: list_all2_conv_all_nth in_set_conv_nth)
    have "registry_GRPC registry name = Some conn"
      using c(1) g(2) names assms(2) by (simp add: registry_GRPC_def)
    with Dial_Inr [OF c(2)] show ?thesis by (auto simp: grpc_client_config_def)
  qed
qed

text \<open>C37. A registry that could be built has a client for exactly the configured upstreams, under their
  names; an upstream with credentials is configured for TLS, and a gRPC connection that authenticates
  its calls was dialed with TLS credentials and never insecurely. When the registry cannot be built,
  the error names the first upstream that failed, all upstreams before it did not fail, and exactly
  the connections dialed before it are closed: none when it was an HTTP upstream, as these come first,
  and one for each gRPC upstream before it when it was a gRPC upstream.\<close>

theorem registry_complete:
  assumes distinct: "distinct (map fst (outb_HTTP cfg))" "distinct (map fst (outb_GRPC cfg))"
    and new: "NewRegistry X V metrics cfg = (result, closed)"
  shows "case result of
      Inr registry \<Rightarrow> closed = []
        \<and> (\<forall>name. registry_HTTP registry name \<noteq> None \<longleftrightarrow> name \<in> fst ` set (outb_HTTP cfg))
        \<and> (\<forall>name. registry_GRPC registry name \<noteq> None \<longleftrightarrow> name \<in> fst ` set (outb_GRPC cfg))
        \<and> (\<forall>(name, up) \<in> set (outb_HTTP cfg). cauth_Type (hup_Auth up) \<noteq> [] \<longrightarrow> ctls_Enabled (hup_TLS up))
        \<and> (\<forall>(name, up) \<in> set (outb_GRPC cfg). \<exists>conn t. registry_GRPC registry name = Some conn
            \<and> ce_NewClient V (gup_Target up) t (\<lambda>m invoker.
                 foldr (\<lambda>i k. i k) (client_chain V (grpc_client_config name up metrics) m) invoker) = Inr conn
            \<and> (gcc_Token (grpc_client_config name up metrics) \<noteq> []
                \<or> gcc_PSK (grpc_client_config name up metrics) \<noteq> [] \<longrightarrow> t \<noteq> Insecure))
    | Inl err \<Rightarrow>
        (closed = [] \<and> (\<exists>pre u rest e. outb_HTTP cfg = pre @ u # rest \<and>
           (\<forall>u \<in> set pre. \<exists>client. NewHTTPClient X (fst u) (snd u) metrics = Inr client) \<and>
           NewHTTPClient X (fst u) (snd u) metrics = Inl e \<and>
           err = Wrap (''create outbound HTTP client '' @ fst u) e)) \<or>
        ((\<forall>u \<in> set (outb_HTTP cfg). \<exists>client. NewHTTPClient X (fst u) (snd u) metrics = Inr client) \<and>
         (\<exists>pre u rest e. outb_GRPC cfg = pre @ u # rest \<and>
           list_all2 (\<lambda>u c. Dial V (grpc_client_config (fst u) (snd u) metrics) = Inr c) pre closed \<and>
           Dial V (grpc_client_config (fst u) (snd u) metrics) = Inl e \<and>
           err = Wrap (''create outbound gRPC client '' @ fst u) e))"
proof (cases result)
  case (Inl err)
  from new Inl consider
      (http) reg where "add_http X metrics (outb_HTTP cfg) \<lparr>reg_http = Map.empty, reg_grpc = []\<rparr> = Inl (err, reg)"
        "closed = map snd (reg_grpc reg)"
    | (grpc) registry reg where
        "add_http X metrics (outb_HTTP cfg) \<lparr>reg_http = Map.empty, reg_grpc = []\<rparr> = Inr registry"
        "add_grpc V metrics (outb_GRPC cfg) registry = Inl (err, reg)" "closed = map snd (reg_grpc reg)"
    by (auto simp: NewRegistry_def split: sum.splits)
  then show ?thesis
  proof cases
    case http
    from add_http_failed [OF http(1)] http(2) show ?thesis unfolding Inl sum.case by (intro disjI1 conjI) simp_all
  next
    case grpc
    note h = add_http_spec [OF grpc(1)]
    from add_grpc_failed [OF grpc(2)] obtain pre u rest conns e
      where d: "outb_GRPC cfg = pre @ u # rest" "reg_grpc reg = reg_grpc registry @ conns"
        "list_all2 (\<lambda>u c. fst u = fst c \<and> Dial V (grpc_client_config (fst u) (snd u) metrics) = Inr (snd c)) pre conns"
        "Dial V (grpc_client_config (fst u) (snd u) metrics) = Inl e" "err = Wrap (''create outbound gRPC client '' @ fst u) e"
      by blast
    from d(3) have "list_all2 (\<lambda>u c. Dial V (grpc_client_config (fst u) (snd u) metrics) = Inr c) pre (map snd conns)"
      unfolding list_all2_map2 by (rule list_all2_mono) auto
    then have "list_all2 (\<lambda>u c. Dial V (grpc_client_config (fst u) (snd u) metrics) = Inr c) pre closed"
      using h d(2) grpc(3) by simp
    then show ?thesis using h d(1,4,5) unfolding Inl sum.case
      by (intro disjI2 conjI exI [of _ pre] exI [of _ u] exI [of _ rest] exI [of _ e]) auto
  qed
next
  case (Inr registry)
  note spec = NewRegistry_Inr [OF distinct new [unfolded Inr]]
  show ?thesis unfolding Inr sum.case using spec by blast
qed

definition demo_outbound :: Outbound where
  "demo_outbound = \<lparr>outb_HTTP = [(''rules'', demo_http_upstream)], outb_GRPC = []\<rparr>"

definition demo_dial :: "(nat, string) client_env" where
  "demo_dial = \<lparr>ce_now = 0, ce_timer = patient, ce_execute = (\<lambda>b f. f), ce_files = no_files,
     ce_NewClient = (\<lambda>target t chain. Inr target)\<rparr>"

lemma demo_new_client:
  assumes "HasPrefix ''https://rules'' ''https://''"
  shows "NewHTTPClient demo_client_env ''rules'' demo_http_upstream None = Inr (demo_client ''https'')"
  using assms
  by (simp add: NewHTTPClient_def demo_http_upstream_def demo_client_def demo_client_env_def httpTransport_def no_tls_def
      no_breaker_def Let_def)

text \<open>A registry whose second gRPC upstream has no target.\<close>

definition demo_plain :: "string \<Rightarrow> GRPCUpstream" where
  "demo_plain target = \<lparr>gup_Target = target, gup_Timeout = 1, gup_Auth = \<lparr>cauth_Type = [], cauth_Token = []\<rparr>,
     gup_Retry = demo_retry, gup_Breaker = no_breaker, gup_TLS = no_tls\<rparr>"

definition demo_broken :: Outbound where
  "demo_broken = demo_outbound\<lparr>outb_GRPC := [(''first'', demo_plain ''a:1''), (''second'', demo_plain [])]\<rparr>"

lemma demo_plain_dials: "Dial demo_dial (grpc_client_config name (demo_plain target) None) =
    (if target = [] then Inl (Plain ''grpc client target is required'') else Inr target)"
  by (simp add: Dial_def grpc_client_config_def demo_plain_def no_tls_def transportCredentials_def demo_dial_def)

lemma registry_complete_witness:
  "(\<exists>registry. NewRegistry demo_client_env demo_dial None demo_outbound = (Inr registry, [])
     \<and> registry_HTTP registry ''rules'' \<noteq> None \<and> registry_GRPC registry ''rules'' = None)
   \<and> (\<exists>err. NewRegistry demo_client_env demo_dial None demo_broken = (Inl err, [''a:1''])
     \<and> (\<exists>pre u rest. outb_GRPC demo_broken = pre @ u # rest
         \<and> list_all2 (\<lambda>u c. Dial demo_dial (grpc_client_config (fst u) (snd u) None) = Inr c) pre [''a:1'']))"
proof -
  have n: "NewRegistry demo_client_env demo_dial None demo_outbound
      = (Inr \<lparr>reg_http = [''rules'' \<mapsto> demo_client ''https''], reg_grpc = []\<rparr>, [])"
    by (simp add: NewRegistry_def demo_outbound_def demo_new_client HasPrefix_def)
  have "distinct (map fst (outb_HTTP demo_outbound))" "distinct (map fst (outb_GRPC demo_outbound))"
    by (simp_all add: demo_outbound_def)
  note ok = registry_complete [OF this n]
  have b: "NewRegistry demo_client_env demo_dial None demo_broken =
      (Inl (Wrap ''create outbound gRPC client second'' (Plain ''grpc client target is required'')), [''a:1''])"
    by (simp add: NewRegistry_def demo_broken_def demo_outbound_def demo_new_client demo_plain_dials HasPrefix_def)
  have "distinct (map fst (outb_HTTP demo_broken))" "distinct (map fst (outb_GRPC demo_broken))"
    by (simp_all add: demo_broken_def demo_outbound_def)
  note failed = registry_complete [OF this b, unfolded sum.case]
  have "\<exists>pre u rest. outb_GRPC demo_broken = pre @ u # rest
      \<and> list_all2 (\<lambda>u c. Dial demo_dial (grpc_client_config (fst u) (snd u) None) = Inr c) pre [''a:1'']"
    using failed by blast
  with ok n b show ?thesis by (simp add: demo_outbound_def)
qed

text \<open>TLS in the configuration does not make an \<open>http\<close> URL encrypted: with \<open>tls.enabled\<close> and such a base URL
  the client is built, and its requests carry the token.\<close>

lemma credentials_over_plain_http:
  "NewHTTPClient demo_client_env ''rules'' (demo_http_upstream\<lparr>hup_BaseURL := ''http://rules''\<rparr>) None = Inr (demo_client ''http'')
   \<and> url_Scheme (hc_baseURL (demo_client ''http'')) = ''http''
   \<and> hq_Header (build_request (demo_client ''http'') ''GET'' target body headers) ''Authorization'' = ''Bearer t''"
  by (simp add: NewHTTPClient_def demo_http_upstream_def demo_client_def demo_client_env_def httpTransport_def no_tls_def
      no_breaker_def Let_def HasPrefix_def build_request_def applyHTTPAuth_def)

text \<open>A request that is retried because of its idempotency key does not carry the key, unless the caller set
  the header itself; over gRPC the metadata interceptor adds it.\<close>

lemma key_not_sent:
  "k \<noteq> ''Authorization'' \<Longrightarrow> k \<noteq> ''Content-Type'' \<Longrightarrow> hq_Header (build_request client m target body headers) k = headers k"
  "oc_idempotency_key c = Some key \<Longrightarrow> (''idempotency-key'', key) \<in> set (metadata_pairs token psk c)"
  by (simp_all add: build_request_def applyHTTPAuth_def Let_def metadata_pairs_def)

end
