(* ===== verification/ApplicationClaims.thy ===== *)
theory ApplicationClaims
  imports Runtime ClientClaims AuthClaims
begin

text \<open>
  The application as it is put together: a validated configuration gives a wired application, migrations
  only ever create the schema they were configured for, and the event runtime neither leaks its bus nor
  stops on errors.
\<close>

section \<open>Wiring\<close>

lemma validated_upstreams:
  assumes "Validate order c = None"
  shows "dbc_Enabled (cfg_Database c) \<Longrightarrow> map_of (outb_GRPC (cfg_Outbound c)) ''application'' \<noteq> None"
    and "authz_Enabled (cfg_Authorization c) \<Longrightarrow> map_of (outb_GRPC (cfg_Outbound c)) ''authorization'' \<noteq> None"
    and "production c \<Longrightarrow> authz_Enabled (cfg_Authorization c)"
    and "\<forall>u \<in> set (outb_HTTP (cfg_Outbound c)). validate_http_upstream u = None"
    and "\<forall>u \<in> set (outb_GRPC (cfg_Outbound c)). validate_grpc_upstream u = None"
  using assms by (simp_all add: Validate_def)

lemma upstream_policy:
  "validate_http_upstream (name, hup) = None \<Longrightarrow> policy_ok (hup_Retry hup)"
  "validate_grpc_upstream (name, up) = None \<Longrightarrow> policy_ok (gup_Retry up)"
  using validated_policy by (auto simp: validate_http_upstream_def validate_grpc_upstream_def)

text \<open>C38. A validated configuration is wired completely: once its registry is built, the rule service gets a
  verifier that asks the application service whenever there is a database (never the one that accepts
  every application), the authorizer has its connection whenever authorization is enabled, which
  production requires, and every client of the registry retries under an accepted policy.\<close>

theorem validated_is_wired:
  assumes valid: "Validate order cfg = None"
    and distinct: "distinct (map fst (outb_HTTP (cfg_Outbound cfg)))" "distinct (map fst (outb_GRPC (cfg_Outbound cfg)))"
    and new: "NewRegistry X V metrics (cfg_Outbound cfg) = (Inr registry, closed)"
  shows "(if dbc_Enabled (cfg_Database cfg)
        then \<exists>conn. newApplicationVerifier cfg (Some registry) = Inr (GRPCVerifier conn 2000000000)
          \<and> registry_GRPC registry ''application'' = Some conn
        else newApplicationVerifier cfg (Some registry) = Inr AcceptAll)
    \<and> (authz_Enabled (cfg_Authorization cfg) \<longrightarrow>
        (\<exists>conn. authorization_New registry = GRPCAuthorizer (Some conn) 2000000000))
    \<and> (production cfg \<longrightarrow> authz_Enabled (cfg_Authorization cfg))
    \<and> (\<forall>(name, up) \<in> set (outb_HTTP (cfg_Outbound cfg)). policy_ok (hup_Retry up))
    \<and> (\<forall>(name, up) \<in> set (outb_GRPC (cfg_Outbound cfg)). policy_ok (gup_Retry up))"
proof -
  note v = validated_upstreams [OF valid]
  have known: "registry_GRPC registry name \<noteq> None" if "map_of (outb_GRPC (cfg_Outbound cfg)) name \<noteq> None" for name
    using that NewRegistry_Inr(3) [OF distinct new, of name] by (simp add: map_of_eq_None_iff)
  have "\<exists>conn. newApplicationVerifier cfg (Some registry) = Inr (GRPCVerifier conn 2000000000)
      \<and> registry_GRPC registry ''application'' = Some conn" if "dbc_Enabled (cfg_Database cfg)"
    using known [OF v(1) [OF that]] that by (auto simp: newApplicationVerifier_def)
  moreover have "\<exists>conn. authorization_New registry = GRPCAuthorizer (Some conn) 2000000000"
    if "authz_Enabled (cfg_Authorization cfg)"
    using known [OF v(2) [OF that]] by (auto simp: authorization_New_def)
  ultimately show ?thesis
    using v(3-5) upstream_policy by (auto simp: newApplicationVerifier_def)
qed

definition wired_config :: Config where
  "wired_config = production_config
     \<lparr>cfg_Database := (cfg_Database production_config)\<lparr>dbc_Enabled := True, dbc_DSN := ''postgres://db/rules''\<rparr>,
      cfg_Outbound := \<lparr>outb_HTTP = [],
        outb_GRPC = [(''authorization'', demo_upstream), (''application'', demo_upstream)]\<rparr>\<rparr>"

lemma wired_config_valid: "Validate rate_order wired_config = None"
proof -
  have t: "isDBType (dbc_Type (cfg_Database production_config))"
    by (simp add: production_config_def default_config_def complete_config_def decode_parts str_def setting_Cons
        default_values isDBType_def)
  show ?thesis
    using production_config_valid t by (simp add: Validate_def wired_config_def demo_upstream_valid production_def)
qed

lemma demo_dials: "Dial demo_dial (grpc_client_config name demo_upstream None) = Inr ''dns:///authorization''"
  by (simp add: Dial_def grpc_client_config_def demo_upstream_def demo_dial_def transportCredentials_def)

lemma validated_is_wired_witness:
  "\<exists>registry. NewRegistry demo_client_env demo_dial None (cfg_Outbound wired_config) = (Inr registry, [])
     \<and> newApplicationVerifier wired_config (Some registry) = Inr (GRPCVerifier ''dns:///authorization'' 2000000000)
     \<and> (\<exists>conn. authorization_New registry = GRPCAuthorizer (Some conn) 2000000000)"
proof -
  let ?r = "\<lparr>reg_http = Map.empty, reg_grpc = [(''authorization'', ''dns:///authorization''),
    (''application'', ''dns:///authorization'')]\<rparr>"
  have n: "NewRegistry demo_client_env demo_dial None (cfg_Outbound wired_config) = (Inr ?r, [])"
    by (simp add: NewRegistry_def wired_config_def demo_dials)
  have "distinct (map fst (outb_HTTP (cfg_Outbound wired_config)))" "distinct (map fst (outb_GRPC (cfg_Outbound wired_config)))"
    "dbc_Enabled (cfg_Database wired_config)" "authz_Enabled (cfg_Authorization wired_config)"
    by (simp_all add: wired_config_def production_config_def)
  with validated_is_wired [OF wired_config_valid _ _ n] n show ?thesis
    by (auto simp: registry_GRPC_def)
qed

section \<open>Migrations\<close>

lemma schema_chars: "validMigrationTable s \<Longrightarrow> c \<in> set s \<Longrightarrow> lower_or_digit c \<or> c = CHR ''_''"
  by (cases s) (auto simp: validMigrationTable_def lower_or_digit_def list_all_iff)

text \<open>C39. Creating the schema is safe and all or nothing: statements are only run when the configuration
  asks for a schema, whose name then consists of lower-case letters, digits and underscores, so that it
  cannot leave the quotes of the statement; they are the advisory lock and then that one statement; and
  success means that there was nothing to do or that the transaction with both was committed.\<close>

theorem schema_created_safely:
  assumes "ensureSchema U open' cfg databaseURL = (err, statements, ended)"
  shows "(\<exists>rest. [(lock_statement, [''rule-service:schema:'' @ mig_Schema cfg]), (schema_statement (mig_Schema cfg), [])]
        = statements @ rest)
    \<and> (statements \<noteq> [] \<longrightarrow> mig_CreateSchema cfg \<and> mig_Schema cfg \<noteq> []
        \<and> (\<forall>c \<in> set (mig_Schema cfg). lower_or_digit c \<or> c = CHR ''_''))
    \<and> (err = None \<longleftrightarrow> ended = Committed \<or>
        \<not> mig_CreateSchema cfg \<or> mig_Schema cfg = [] \<or> HasPrefix (mig_DatabaseURL cfg) ''mysql://'')
    \<and> (ended = Committed \<longrightarrow> length statements = 2)"
  using assms schema_chars [of "mig_Schema cfg"]
  by (auto simp: ensureSchema_def createSchema_def Let_def split: if_splits sum.splits option.splits)

definition demo_urls :: "string url_ops" where
  "demo_urls = \<lparr>uo_Parse = Inr, uo_SetPath = (\<lambda>p u. u), uo_QuerySet = (\<lambda>k v u. u), uo_QueryDel = (\<lambda>k u. u),
     uo_Encode = (\<lambda>u. u), uo_String = (\<lambda>u. u)\<rparr>"

definition demo_migration :: Migration where
  "demo_migration = \<lparr>mig_AutoUp = True, mig_CreateSchema = True, mig_Path = ''migrations'',
     mig_DatabaseURL = ''postgres://db/rules'', mig_Table = ''schema_migrations'', mig_Schema = ''rules'',
     mig_DatabaseName = ''rules''\<rparr>"

lemma schema_created_safely_witness:
  "\<exists>statements ended. ensureSchema demo_urls (\<lambda>u. Inr \<lparr>sd_Begin = None, sd_Exec = (\<lambda>s. None), sd_Commit = None\<rparr>)
     demo_migration ''postgres://db/rules'' = (None, statements, ended) \<and> ended = Committed \<and> length statements = 2"
proof -
  let ?e = "ensureSchema demo_urls (\<lambda>u. Inr \<lparr>sd_Begin = None, sd_Exec = (\<lambda>s. None), sd_Commit = None\<rparr>)
     demo_migration ''postgres://db/rules''"
  obtain err statements ended where e: "?e = (err, statements, ended)" by (cases ?e) blast
  moreover have "err = None"
    using e by (simp add: ensureSchema_def demo_migration_def demo_urls_def createSchema_def HasPrefix_def
        validMigrationTable_def lower_or_digit_def Let_def)
  moreover have "mig_CreateSchema demo_migration" "mig_Schema demo_migration \<noteq> []"
    "\<not> HasPrefix (mig_DatabaseURL demo_migration) ''mysql://''"
    by (simp_all add: demo_migration_def HasPrefix_def)
  ultimately show ?thesis using schema_created_safely [OF e] by blast
qed

lemma takeWhile_before: "c \<notin> set s \<Longrightarrow> takeWhile (\<lambda>x. x \<noteq> c) (s @ c # t) = s"
  by (induction s) auto

lemma IndexByte_first: "c \<notin> set s \<Longrightarrow> IndexByte (s @ c # t) c = int (length s)"
  by (simp add: IndexByte_def takeWhile_before)

lemma LastIndexByte_last: "c \<notin> set t \<Longrightarrow> LastIndexByte (s @ c # t) c = int (length s)"
  using takeWhile_before [of c "rev t" "rev s"] by (simp add: LastIndexByte_def)

text \<open>A MySQL migration URL keeps everything but its database: the path after the last slash before the
  query becomes the configured database, user, host and query stay as they are, and the migrations
  table is added, escaped, as the last parameter of the query.\<close>

lemma mysql_options:
  assumes url: "databaseURL = pre @ CHR ''/'' # old @ query" and mysql: "HasPrefix databaseURL ''mysql://''"
    and old: "CHR ''/'' \<notin> set old" "CHR ''?'' \<notin> set (pre @ old)" and query: "query = [] \<or> hd query = CHR ''?''"
    and name: "databaseName \<noteq> []" "CHR ''?'' \<notin> set databaseName"
  shows "withMigrationOptions U databaseURL databaseName table schema = Inr (pre @ CHR ''/'' # databaseName @ query
    @ (if table = [] then []
       else (if query = [] then ''?'' else ''&'') @ ''x-migrations-table='' @ QueryEscape table))"
proof -
  let ?p = "pre @ CHR ''/'' # old"
  have end': "(if 0 \<le> IndexByte databaseURL (CHR ''?'') then nat (IndexByte databaseURL (CHR ''?''))
      else length databaseURL) = length ?p"
  proof (cases query)
    case Nil
    then show ?thesis using url old by (simp add: IndexByte_def)
  next
    case (Cons q qs)
    then have "databaseURL = ?p @ CHR ''?'' # qs" using url query by simp
    then show ?thesis using old IndexByte_first [of "CHR ''?''" ?p qs] by simp
  qed
  have slash: "LastIndexByte (take (length ?p) databaseURL) (CHR ''/'') = int (length pre)"
    using url old LastIndexByte_last [of "CHR ''/''" old pre] by simp
  have "mysql_database databaseURL databaseName = Inr (pre @ CHR ''/'' # databaseName @ query)"
    using name(1) url unfolding mysql_database_def Let_def end' slash by simp
  moreover have "CHR ''?'' \<in> set (pre @ CHR ''/'' # databaseName @ query) \<longleftrightarrow> query \<noteq> []"
    using old query name(2) by (cases query) auto
  ultimately show ?thesis using mysql name(1) by (simp add: withMigrationOptions_def)
qed

lemma mysql_options_witness:
  "withMigrationOptions demo_urls ''mysql://u@tcp(db:3306)/old?tls=true'' ''rules'' ''migrations'' []
    = Inr ''mysql://u@tcp(db:3306)/rules?tls=true&x-migrations-table=migrations''"
proof -
  have e: "QueryEscape ''migrations'' = ''migrations''" by (simp add: QueryEscape_def unreserved_def)
  have "''mysql://u@tcp(db:3306)/old?tls=true'' = ''mysql://u@tcp(db:3306)'' @ CHR ''/'' # ''old'' @ ''?tls=true''"
    "HasPrefix ''mysql://u@tcp(db:3306)/old?tls=true'' ''mysql://''" "CHR ''/'' \<notin> set ''old''"
    "CHR ''?'' \<notin> set (''mysql://u@tcp(db:3306)'' @ ''old'')" "''?tls=true'' = [] \<or> hd ''?tls=true'' = CHR ''?''"
    "''rules'' \<noteq> []" "CHR ''?'' \<notin> set ''rules''"
    by (simp_all add: HasPrefix_def)
  from mysql_options [OF this, of demo_urls "''migrations''" "[]"] show ?thesis by (simp add: e)
qed

text \<open>Without a path the check for it is passed: the last slash is the one of the scheme, and the host is
  replaced by the database.\<close>

lemma mysql_host_lost:
  "withMigrationOptions demo_urls ''mysql://u@tcp(db)'' ''rules'' [] [] = Inr ''mysql://rules''"
  by (simp add: withMigrationOptions_def mysql_database_def Let_def HasPrefix_def IndexByte_def LastIndexByte_def)

section \<open>Event runtime\<close>

text \<open>C40. The event runtime neither leaks nor gives up: a start that fails leaves no open bus and no running
  loop, one that succeeds with the bus enabled leaves the bus open and the loops running, and after a
  stop the bus is closed and no loop runs; and a loop runs its task once and once more for every tick,
  whatever errors the task returns, until it is cancelled, when it ends.\<close>

theorem event_runtime:
  assumes "runtime_start V cfg (newRuleEventRuntime store) = (err, r)"
  shows "(if err = None \<and> bus_Enabled (cfg_EventBus cfg)
        then er_bus r = BusOpen \<and> er_loops r \<and> store \<noteq> None else er_bus r \<noteq> BusOpen \<and> \<not> er_loops r)
    \<and> er_bus (snd (runtime_stop V r)) \<noteq> BusOpen \<and> \<not> er_loops (snd (runtime_stop V r))
    \<and> (\<exists>logged'. background_loop run_once (replicate n Tick) logged w
         = (False, logged', ((\<lambda>x. snd (run_once x)) ^^ Suc n) w))
    \<and> (\<exists>logged'. background_loop run_once (replicate n Tick @ Cancelled # rest) logged w
         = (True, logged', ((\<lambda>x. snd (run_once x)) ^^ Suc n) w))"
proof -
  have loop: "\<exists>logged'. background_loop run_once (replicate n Tick @ waits) logged w
      = (waits \<noteq> [], logged', ((\<lambda>x. snd (run_once x)) ^^ Suc n) w)"
    if "waits = [] \<or> (\<exists>rest. waits = Cancelled # rest)" for waits
    using that
  proof (induction n arbitrary: logged w)
    case 0
    then show ?case by (auto simp: background_loop.simps [of run_once] Let_def split: prod.split)
  next
    case (Suc n)
    obtain e w' where e: "run_once w = (e, w')" by (meson surj_pair)
    have step: "((\<lambda>x. snd (run_once x)) ^^ Suc (Suc n)) w = ((\<lambda>x. snd (run_once x)) ^^ Suc n) w'"
      using e by (simp add: funpow_Suc_right del: funpow.simps(2))
    show ?case
      unfolding step using Suc.IH [OF Suc.prems, of _ w'] e by (simp add: background_loop.simps [of run_once "Tick # _"] Let_def del: funpow.simps)
  qed
  have "\<exists>logged'. background_loop run_once (replicate n Tick) logged w
      = (False, logged', ((\<lambda>x. snd (run_once x)) ^^ Suc n) w)" using loop [of "[]"] by simp
  moreover have "\<exists>logged'. background_loop run_once (replicate n Tick @ Cancelled # rest) logged w
      = (True, logged', ((\<lambda>x. snd (run_once x)) ^^ Suc n) w)" using loop [of "Cancelled # rest"] by simp
  moreover have "(if err = None \<and> bus_Enabled (cfg_EventBus cfg)
        then er_bus r = BusOpen \<and> er_loops r \<and> store \<noteq> None else er_bus r \<noteq> BusOpen \<and> \<not> er_loops r)
    \<and> er_bus (snd (runtime_stop V r)) \<noteq> BusOpen \<and> \<not> er_loops (snd (runtime_stop V r))"
    using assms
    by (auto simp: runtime_start_def runtime_stop_def newRuleEventRuntime_def Let_def split: if_splits option.splits)
  ultimately show ?thesis by blast
qed

definition demo_events :: event_env where
  "demo_events = \<lparr>ev_NewBus = (\<lambda>c. None), ev_NewDispatcher = (\<lambda>n l d. None), ev_NewCleaner = (\<lambda>r n. None), ev_Close = None\<rparr>"

definition event_config :: Config where
  "event_config = default_config\<lparr>cfg_EventBus := (cfg_EventBus default_config)\<lparr>bus_Enabled := True\<rparr>\<rparr>"

lemma event_runtime_witness:
  "\<exists>r. runtime_start demo_events event_config (newRuleEventRuntime (Some ())) = (None, r) \<and> er_bus r = BusOpen \<and> er_loops r
     \<and> er_bus (snd (runtime_stop demo_events r)) \<noteq> BusOpen \<and> \<not> er_loops (snd (runtime_stop demo_events r))"
proof -
  have e: "bus_Enabled (cfg_EventBus event_config)" by (simp add: event_config_def)
  obtain err r where s: "runtime_start demo_events event_config (newRuleEventRuntime (Some ())) = (err, r)"
    by (meson surj_pair)
  moreover have "err = None"
    using s e by (simp add: runtime_start_def newRuleEventRuntime_def demo_events_def Let_def)
  ultimately show ?thesis using event_runtime [OF s, of "\<lambda>w. (None, w)" 0 "[]" "()" "[]"] e by auto
qed

end
