(* ===== verification/Operations.thy ===== *)
theory Operations
  imports Runtime
begin

text \<open>
  What surrounds the service at run time: the logger (\<open>internal/logging\<close>), the metrics registry
  (\<open>internal/observability\<close>), the context values of \<open>internal/environment\<close> and
  \<open>internal/idempotency\<close>, the hooks of the scheduler, the small constructors of \<open>internal/app\<close>, and the
  command \<open>cmd/api\<close>. Directories, Unicode tables, libraries and the running application are arguments.
\<close>

section \<open>Paths and levels of the standard library\<close>

text \<open>\<open>filepath.Clean\<close> on a stack of elements, and \<open>filepath.Dir\<close>\<close>

fun clean_step :: "bool \<Rightarrow> string \<Rightarrow> string list \<Rightarrow> string list" where
  "clean_step rooted element st =
     (if element = [] \<or> element = ''.'' then st
      else if element = ''..'' then
        (case st of
           [] \<Rightarrow> if rooted then [] else [''..'']
         | e # rest \<Rightarrow> if e = ''..'' then ''..'' # st else rest)
      else element # st)"

definition Clean :: "string \<Rightarrow> string" where
  "Clean path =
     (let rooted = HasPrefix path ''/'';
          elements = rev (fold (clean_step rooted) (SplitByte path (CHR ''/'')) []);
          out = (if rooted then ''/'' else []) @ sep_by ''/'' elements
      in if out = [] then ''.'' else out)"

definition Dir :: "string \<Rightarrow> string" where
  "Dir path = Clean (rev (dropWhile (\<lambda>c. c \<noteq> CHR ''/'') (rev path)))"

text \<open>\<open>strconv.Atoi\<close> of a signed number\<close>

definition Atoi :: "string \<Rightarrow> int option" where
  "Atoi s =
     (let ds = (if s \<noteq> [] \<and> hd s \<in> {CHR ''+'', CHR ''-''} then tl s else s);
          n = (if s \<noteq> [] \<and> hd s = CHR ''-'' then - int (digits_val ds) else int (digits_val ds))
      in if ds = [] \<or> \<not> list_all is_digit ds \<or> i64 n \<noteq> n then None else Some n)"

definition ToUpper :: "(string \<Rightarrow> string) \<Rightarrow> string \<Rightarrow> string" where
  "ToUpper uni s = (if is_ascii s then map ascii_upper s else uni s)"

text \<open>\<open>slog.Level.UnmarshalText\<close>: a name with an optional offset.\<close>

definition parse_level :: "(string \<Rightarrow> string) \<Rightarrow> string \<Rightarrow> go_error + int" where
  "parse_level upper s =
     (let sign = (\<lambda>c. c = CHR ''+'' \<or> c = CHR ''-'');
          name = ToUpper upper (takeWhile (\<lambda>c. \<not> sign c) s); rest = dropWhile (\<lambda>c. \<not> sign c) s
      in case (if rest = [] then Some 0 else Atoi rest) of
           None \<Rightarrow> Inl (Plain ''slog: level string: invalid offset'')
         | Some offset \<Rightarrow>
             (case map_of [(''DEBUG'', -4), (''INFO'', 0), (''WARN'', 4), (''ERROR'', 8)] name of
                None \<Rightarrow> Inl (Plain ''slog: level string: unknown name'')
              | Some level \<Rightarrow> Inr (i64 (level + offset))))"

section \<open>Logging (\<open>internal/logging\<close>)\<close>

record rotator =
  rot_Filename :: string
  rot_MaxSize :: int
  rot_MaxBackups :: int
  rot_MaxAge :: int
  rot_Compress :: bool

text \<open>A logger writes to the standard output and to its rotated file.\<close>

record logger =
  lg_Rotator :: rotator
  lg_Level :: int
  lg_Text :: bool

definition logging_New ::
  "(string \<Rightarrow> go_error option) \<Rightarrow> (string \<Rightarrow> string) \<Rightarrow> (string \<Rightarrow> string) \<Rightarrow> Log \<Rightarrow> go_error + logger" where
  "logging_New mkdir lower upper cfg =
     (case mkdir (Dir (log_File cfg)) of
        Some err \<Rightarrow> Inl (Wrap ''create log directory'' err)
      | None \<Rightarrow>
          (case parse_level upper (ToLower lower (log_Level cfg)) of
             Inl err \<Rightarrow> Inl (Wrap ''parse log level'' err)
           | Inr level \<Rightarrow> Inr
               \<lparr>lg_Rotator = \<lparr>rot_Filename = log_File cfg, rot_MaxSize = log_MaxSizeMB cfg,
                  rot_MaxBackups = log_MaxBackups cfg, rot_MaxAge = log_MaxAgeDays cfg,
                  rot_Compress = log_Compress cfg\<rparr>,
                lg_Level = level, lg_Text = (log_Format cfg = ''text'')\<rparr>))"

text \<open>\<open>newLogger\<close>: the logger, the attributes of every entry, and the file its stop hook closes.\<close>

definition newLogger ::
  "(string \<Rightarrow> go_error option) \<Rightarrow> (string \<Rightarrow> string) \<Rightarrow> (string \<Rightarrow> string) \<Rightarrow> Config
     \<Rightarrow> go_error + logger \<times> (string \<times> string) list \<times> rotator" where
  "newLogger mkdir lower upper cfg =
     map_sum id (\<lambda>l. (l, [(''service'', app_Name (cfg_App cfg)),
         (''environment'', rt_ActiveProfile (cfg_Runtime cfg))], lg_Rotator l))
       (logging_New mkdir lower upper (cfg_Log cfg))"

section \<open>Metrics (\<open>internal/observability\<close>)\<close>

text \<open>Collectors by what identifies them in a registry; vectors with their labels.\<close>

datatype collector =
    GoCollector
  | ProcessCollector
  | DBStats string
  | CounterVec string "string list"
  | HistogramVec string "string list"
  | Gauge string

fun collector_name :: "collector \<Rightarrow> string" where
  "collector_name GoCollector = ''go''"
| "collector_name ProcessCollector = ''process''"
| "collector_name (DBStats db) = ''go_sql:'' @ db"
| "collector_name (CounterVec n ls) = n"
| "collector_name (HistogramVec n ls) = n"
| "collector_name (Gauge n) = n"

record Metrics =
  met_enabled :: bool
  met_registry :: "collector list"
  met_HTTPRequests :: collector
  met_HTTPDuration :: collector
  met_CronRuns :: collector
  met_CronDuration :: collector
  met_GRPCRequests :: collector
  met_GRPCDuration :: collector
  met_OutboundRequests :: collector
  met_OutboundDuration :: collector

text \<open>\<open>MustRegister\<close> panics on a collector the registry already has.\<close>

fun MustRegister :: "collector list \<Rightarrow> collector list \<Rightarrow> collector list outcome" where
  "MustRegister [] registry = Done registry"
| "MustRegister (c # cs) registry =
     (if collector_name c \<in> collector_name ` set registry then Panic registry
      else MustRegister cs (registry @ [c]))"

definition registerRedisMetrics :: "collector list \<Rightarrow> collector list outcome" where
  "registerRedisMetrics registry = MustRegister (map Gauge
     [''redis_pool_hits_total'', ''redis_pool_misses_total'', ''redis_pool_timeouts_total'',
      ''redis_pool_connections'', ''redis_pool_idle_connections'']) registry"

definition NewMetrics :: "Config \<Rightarrow> bool \<Rightarrow> bool \<Rightarrow> Metrics outcome" where
  "NewMetrics cfg db client =
     (let metrics = \<lparr>met_enabled = obs_MetricsEnabled (cfg_Observability cfg), met_registry = [],
            met_HTTPRequests = CounterVec ''http_requests_total'' [''method'', ''route'', ''status''],
            met_HTTPDuration = HistogramVec ''http_request_duration_seconds'' [''method'', ''route''],
            met_CronRuns = CounterVec ''cron_runs_total'' [''job'', ''status''],
            met_CronDuration = HistogramVec ''cron_run_duration_seconds'' [''job''],
            met_GRPCRequests = CounterVec ''grpc_server_requests_total'' [''method'', ''code''],
            met_GRPCDuration = HistogramVec ''grpc_server_duration_seconds'' [''method''],
            met_OutboundRequests = CounterVec ''outbound_requests_total'' [''protocol'', ''client'', ''status''],
            met_OutboundDuration = HistogramVec ''outbound_request_duration_seconds'' [''protocol'', ''client'']\<rparr>;
          base = MustRegister [GoCollector, ProcessCollector, met_HTTPRequests metrics, met_HTTPDuration metrics,
            met_CronRuns metrics, met_CronDuration metrics, met_GRPCRequests metrics, met_GRPCDuration metrics,
            met_OutboundRequests metrics, met_OutboundDuration metrics] [];
          with_db = after (\<lambda>registry. if db then MustRegister [DBStats ''primary''] registry else Done registry) base
      in case after (\<lambda>registry. if client then registerRedisMetrics registry else Done registry) with_db of
           Panic registry \<Rightarrow> Panic (metrics\<lparr>met_registry := registry\<rparr>)
         | Done registry \<Rightarrow> Done (metrics\<lparr>met_registry := registry\<rparr>))"

text \<open>Registration succeeds, one collector after the other, exactly when no name repeats.\<close>

lemma MustRegister_Done:
  "distinct (map collector_name (registry @ cs)) \<Longrightarrow> MustRegister cs registry = Done (registry @ cs)"
  by (induction cs arbitrary: registry) auto

lemma MustRegister_Panic:
  "distinct (map collector_name registry) \<Longrightarrow> \<not> distinct (map collector_name (registry @ cs)) \<Longrightarrow>
     \<exists>r. MustRegister cs registry = Panic r"
proof (induction cs arbitrary: registry)
  case (Cons c cs)
  then show ?case by (cases "collector_name c \<in> collector_name ` set registry") auto
qed simp

text \<open>With or without a database and a Redis client the registry is complete and starting never panics.\<close>

lemma NewMetrics_Done:
  "\<exists>m. NewMetrics cfg db client = Done m \<and> met_enabled m = obs_MetricsEnabled (cfg_Observability cfg) \<and>
     {met_HTTPRequests m, met_HTTPDuration m, met_CronRuns m, met_CronDuration m, met_GRPCRequests m,
      met_GRPCDuration m, met_OutboundRequests m, met_OutboundDuration m} \<subseteq> set (met_registry m)"
  by (cases db; cases client; simp add: NewMetrics_def registerRedisMetrics_def MustRegister_Done Let_def)

section \<open>Values of a request context (\<open>internal/environment\<close>, \<open>internal/idempotency\<close>)\<close>

text \<open>Every package has a key type of its own, so no package sees the value of another.\<close>

datatype context_key = EnvironmentKey | IdempotencyContextKey

type_synonym context_values = "context_key \<Rightarrow> string option"

definition environment_WithContext :: "context_values \<Rightarrow> string \<Rightarrow> context_values" where
  "environment_WithContext ctx profile = ctx(EnvironmentKey \<mapsto> profile)"

definition environment_FromContext :: "context_values \<Rightarrow> string \<times> bool" where
  "environment_FromContext ctx =
     (case ctx EnvironmentKey of None \<Rightarrow> ([], False) | Some profile \<Rightarrow> (profile, True))"

text \<open>The idempotency manager gets its settings from the configuration.\<close>

record manager_settings =
  ms_Enabled :: bool
  ms_Service :: string
  ms_ProcessingTTL :: Duration
  ms_ResultTTL :: Duration
  ms_FailureTTL :: Duration

definition idempotency_New :: "('r option \<Rightarrow> manager_settings \<Rightarrow> 'm) \<Rightarrow> 'r option \<Rightarrow> Config \<Rightarrow> 'm" where
  "idempotency_New new_manager client cfg = new_manager client
     \<lparr>ms_Enabled = idem_Enabled (cfg_Idempotency cfg), ms_Service = app_Name (cfg_App cfg),
      ms_ProcessingTTL = idem_ProcessingTTL (cfg_Idempotency cfg),
      ms_ResultTTL = idem_ResultTTL (cfg_Idempotency cfg), ms_FailureTTL = idem_FailureTTL (cfg_Idempotency cfg)\<rparr>"

section \<open>Hooks and constructors\<close>

text \<open>The hooks of the scheduler: whether the runner is started; a stop waits for the running jobs or for
  the end of its context.\<close>

definition scheduler_start :: "Cron \<Rightarrow> bool \<Rightarrow> bool" where
  "scheduler_start cfg running = (if cron_Enabled cfg then True else running)"

definition scheduler_stop :: "stopping \<Rightarrow> bool \<Rightarrow> go_error option \<times> bool" where
  "scheduler_stop s running = ((case s of Drained \<Rightarrow> None | Deadline err \<Rightarrow> Some err), False)"

definition newLocker :: "('r \<Rightarrow> 'l) \<Rightarrow> 'r option \<Rightarrow> 'l option" where
  "newLocker NewLocker client = (case client of None \<Rightarrow> None | Some c \<Rightarrow> Some (NewLocker c))"

record ('repo, 'tx, 'app) service_parts =
  sp_repository :: 'repo
  sp_transactor :: 'tx
  sp_applications :: 'app

definition NewService ::
  "'repo option \<Rightarrow> 'tx option \<Rightarrow> 'app option \<Rightarrow> go_error + ('repo, 'tx, 'app) service_parts" where
  "NewService repository transactor applications =
     (case (repository, transactor, applications) of
        (Some r, Some t, Some a) \<Rightarrow> Inr \<lparr>sp_repository = r, sp_transactor = t, sp_applications = a\<rparr>
      | _ \<Rightarrow> Inl (Plain ''rule repository, transactor, and application verifier are required''))"

text \<open>What the modules of the database and of Redis log when they are disabled.\<close>

definition disabled_warnings :: "'d option \<Rightarrow> 'r option \<Rightarrow> string list" where
  "disabled_warnings db client =
     (case db of None \<Rightarrow> [''database is disabled''] | Some d \<Rightarrow> [])
     @ (case client of None \<Rightarrow> [''redis is disabled''] | Some c \<Rightarrow> [])"

section \<open>The server command (\<open>cmd/api\<close>)\<close>

text \<open>What the command prints on the standard output and its exit code; \<open>run\<close> is the application with a
  configuration, until it ends.\<close>

definition api_main ::
  "Info \<Rightarrow> (string \<Rightarrow> string \<Rightarrow> go_error + Config) \<Rightarrow> (Config \<Rightarrow> int) \<Rightarrow> string \<Rightarrow> string \<Rightarrow> bool \<Rightarrow> string \<times> int" where
  "api_main info load run configPath profile showVersion =
     (if showVersion then
        (''version='' @ bi_Version info @ '' commit='' @ bi_Commit info @ '' build_time='' @ bi_BuildTime info @ [CHR 0x0A], 0)
      else case load configPath profile of
        Inl err \<Rightarrow> ([], 1)
      | Inr cfg \<Rightarrow> ([], run cfg))"

text \<open>The command only runs the application with a configuration that was loaded.\<close>

lemma api_main_runs: "api_main info load run configPath profile False = ([], code) \<Longrightarrow>
    code = 1 \<or> (\<exists>cfg. load configPath profile = Inr cfg \<and> code = run cfg)"
  by (simp add: api_main_def split: sum.splits)

lemma context_roundtrip: "environment_FromContext (environment_WithContext ctx profile) = (profile, True)"
  by (simp add: environment_FromContext_def environment_WithContext_def)

text \<open>The levels of the documentation, in any case, and the directory of the default log file.\<close>

lemma ToLower_upper_case: "ToLower lower ''INFO'' = ''info''" "ToLower lower ''WARN'' = ''warn''"
  by (simp_all add: ToLower_def is_ascii_def ascii_lower_def byte_def char_of_def bit_0)

lemma ToUpper_lower_case: "ToUpper upper ''info'' = ''INFO''" "ToUpper upper ''warn'' = ''WARN''"
  by (simp_all add: ToUpper_def is_ascii_def ascii_upper_def byte_def char_of_def bit_0)

lemma level_names: "parse_level upper (ToLower lower ''INFO'') = Inr 0" "parse_level upper ''warn+2'' = Inr 6"
  by (simp_all add: parse_level_def ToLower_upper_case ToUpper_lower_case Atoi_def i64_def is_digit_def digits_val_def
      char_digit_def)

lemma log_directory: "Dir ''logs/app.log'' = ''logs''"
  unfolding Dir_def Clean_def HasPrefix_def by (simp add: Let_def)

lemma clean_parents: "Clean ''/a/../../b//c'' = ''/b/c''"
  unfolding Clean_def HasPrefix_def by (simp add: Let_def)

end
