(* ===== verification/Spec2Isabelle.thy ===== *)
theory Spec2Isabelle
  imports LifecycleClaims Refinement EndToEnd OptimisticLocking ServiceErrors GoPath AuthClaims HttpClaims HttpReplay HttpUnified GrpcClaims ApplicationClaims Operations
begin

text \<open>
  Verification of rule-service, a Go service that stores, versions, publishes and evaluates rules.

  \<^bold>\<open>The program.\<close> A client creates rule sets (\<open>internal/rule/service.go\<close>), adds versions of a rule
  definition to a set under an idempotency key, publishes a version, and evaluates facts against the
  version in force. Definitions are JSON documents of named CEL conditions with JSON results
  (\<open>internal/rule/engine.go\<close>). Everything is stored in three SQL tables (\<open>internal/rule/repository.go\<close>):
  \<open>rule_sets\<close>, \<open>rule_versions\<close> and \<open>rule_outbox_events\<close>. Updates and publications are optimistic: they name
  the version of the row they were prepared against. Compiled definitions are cached in the process by
  the checksum of their canonical text. Two transports, HTTP (\<open>internal/transport/http\<close>) and gRPC
  (\<open>internal/transport/grpc\<close>), authenticate, authorize and rate-limit the callers and replay repeated
  requests. Around them are the configuration (\<open>internal/config\<close>), tokens (\<open>internal/auth\<close>), outbound
  clients (\<open>internal/outbound\<close>, \<open>internal/grpcclient\<close>), migrations and the wiring of \<open>internal/app\<close>.

  \<^bold>\<open>How it is modelled.\<close> A Go string is a HOL \<open>string\<close>, a list of bytes; \<open>int\<close> and \<open>int64\<close> are \<open>int\<close>
  with the wrap-around written out by \<open>i64\<close> and \<open>i32\<close> where it can occur; an error is a
  \<open>go_error\<close> and a fallible call returns \<open>go_error + 'a\<close>; a nilable pointer is an \<open>option\<close>. Stateful code
  passes its state explicitly: the tables and the cache (\<open>svc_state\<close>), the request context (\<open>ctx\<close> for a
  service call, \<open>http\<close> for gin's, \<open>grpc_ctx\<close> for gRPC), and one value for everything behind the libraries.
  A panic is a value of the handler's outcome. What is not under \<open>src/\<close> is an argument of the definitions
  that use it: the CEL library (\<open>cel_engine\<close>), the database server and driver (\<open>dbenv\<close>), clock, UUIDs and
  the application service (\<open>svc_env\<close>), the platform library's verifier, authorizer and idempotency
  manager, gin's binding, the JWT library, viper, Redis, redsync, gobreaker, \<open>net/url\<close>, the migrator,
  the event bus. What the program uses of Go's standard library is modelled.

  \<^bold>\<open>The theories\<close>, in the order they build on each other:
  \<^item> \<open>Prelude\<close>: machine integers, decimal numbers, lemma collections, facts on lists.
  \<^item> Go's library: \<open>GoStrings\<close> (UTF-8, \<open>strings\<close>, \<open>unicode\<close>), \<open>GoJson\<close> and \<open>GoFloat\<close> (\<open>encoding/json\<close>,
    \<open>float64\<close> through an \<open>any\<close>), \<open>GoSha256\<close> (\<open>crypto/sha256\<close>), \<open>GoPath\<close> (\<open>path.Match\<close>); the laws of JSON are
    in \<open>JsonLaws\<close>, \<open>JsonText\<close>, \<open>JsonQuote\<close>: parsing inverts printing, and unquoting inverts quoting.
  \<^item> \<open>AppError\<close> (\<open>internal/apperror\<close>), \<open>RuleModel\<close> (\<open>model.go\<close>, \<open>proto.go\<close>).
  \<^item> \<open>RuleEngine\<close> (\<open>engine.go\<close>) with \<open>EngineLaws\<close>: the shape of compiled definitions, that a canonical text
    compiles to itself, and that evaluation returns the first match.
  \<^item> \<open>RuleRepository\<close> (\<open>repository.go\<close>, \<open>database/transaction.go\<close>, the constraints of the migrations) with
    \<open>RepositoryLaws\<close> (each statement, inverted) and \<open>DbInvariant\<close> (the invariant of the tables).
  \<^item> \<open>RuleService\<close> (\<open>service.go\<close>) with \<open>ServiceLaws\<close> (each operation, inverted), \<open>ServiceClaims\<close> (replays),
    \<open>Isolation\<close> (tenants), \<open>ServiceErrors\<close> (documented errors, batches, pages).
  \<^item> \<open>Lifecycle\<close>: the service as a step relation in which the reads and the commit of an update or a
    publication are separate steps, so that calls of other clients come between them, and every step has
    its own clock, faults and answers. \<open>LifecycleClaims\<close> states what holds in every reachable world;
    \<open>OptimisticLocking\<close> that no update is lost; \<open>Refinement\<close> that the service implements an abstract
    library of rule books; \<open>EndToEnd\<close> that a rule gets from its creation to its evaluation. \<open>Fixtures\<close> and \<open>DemoRun\<close> are the concrete inputs and run of the witnesses.
  \<^item> \<open>ConfigModel\<close>, \<open>ServerConfig\<close>, \<open>ConfigDefaults\<close>, \<open>ConfigClaims\<close> (\<open>internal/config\<close>), \<open>TokenAuth\<close>,
    \<open>AuthClaims\<close> (\<open>internal/auth\<close>): defaults, profiles, every check of \<open>Validate\<close>, and what a validated
    configuration guarantees to the components that are built from it.
  \<^item> \<open>Support\<close>: \<open>internal/requestid\<close>, \<open>buildinfo\<close>, \<open>health\<close>, \<open>ratelimit\<close>, \<open>cache\<close>, \<open>scheduler\<close>, \<open>database\<close>.
  \<^item> \<open>HttpModel\<close>, \<open>HttpMiddleware\<close>, \<open>HttpServer\<close> (\<open>internal/transport/http\<close>): a middleware is a function from
    the rest of the chain to a handler, and \<open>serve\<close> composes them as \<open>NewServer\<close> does. \<open>HttpLaws\<close>,
    \<open>HttpClaims\<close>, \<open>HttpReplay\<close> prove what reaches the service, \<open>HttpUnified\<close> what comes back;
    \<open>HttpDemo\<close> is a concrete server.
  \<^item> \<open>GrpcServer\<close>, \<open>GrpcClaims\<close> (\<open>internal/transport/grpc\<close>): the methods, the interceptors and their chains;
    both transports give the same answers and ask for the same permissions.
  \<^item> \<open>GrpcClient\<close>, \<open>Outbound\<close>, \<open>ClientClaims\<close> (\<open>internal/grpcclient\<close>, \<open>internal/outbound\<close>): retry loops, breakers,
    credentials, the registry of upstreams.
  \<^item> \<open>Application\<close>, \<open>Runtime\<close>, \<open>ApplicationClaims\<close> (\<open>internal/app\<close>, \<open>internal/migration\<close>,
    \<open>internal/authorization\<close>, \<open>cmd/migrate\<close>): migrations, the event runtime, servers.
  \<^item> \<open>Operations\<close> (\<open>internal/logging\<close>, \<open>internal/observability\<close>, \<open>internal/environment\<close>,
    \<open>internal/idempotency\<close>, \<open>cmd/api\<close>): the logger, the metrics registry, hooks and small constructors.

  \<^bold>\<open>Interfaces.\<close> Five contracts are locales, each interpreted on the model. \<open>versioned_store\<close>
  (\<open>OptimisticLocking\<close>): rows with a version and commits that name the one they expect; rule sets under
  update and publication meet it. \<open>guard\<close> (\<open>HttpLaws\<close>): a middleware leaves the service alone and runs the
  rest of the chain at most once, on a context that a relation describes; every middleware of the router
  meets it, and guards compose to the whole chain. \<open>responder\<close> (\<open>HttpUnified\<close>): if the rest of the
  chain answers with one unified document, so does the middleware; met by every middleware as well. \<open>gate\<close> (\<open>GrpcClaims\<close>): the same for unary
  interceptors. \<open>retrying\<close> (\<open>ClientClaims\<close>): an operation that is called again until it stops or its
  attempts are used up; the loop of the gRPC client meets it.

  \<^bold>\<open>Recursion and fuel.\<close> Loops are structural, or have a termination proof. Fuel is used twice: the JSON
  parser gets \<open>2 * length s + 2\<close>, and \<open>parse_fuel\<close> shows that more changes nothing, so a refusal is never the
  fuel running out; \<open>shortest\<close> tries 1 to 17 digits, and 17 always identify a \<open>float64\<close>. A background loop
  runs over the list of ticks until it is cancelled.

  \<^bold>\<open>What is proved.\<close> Over every interleaving: the tables stay consistent (\<open>tables_consistent\<close>), the service
  refines the library of rule books (\<open>refines_library\<close>), no update is lost (\<open>no_lost_update\<close>), versions are
  immutable (\<open>versions_immutable\<close>), what is published compiles to its checksum (\<open>published_compiles\<close>), and
  an evaluation runs a published definition of its tenant, cached or not (\<open>evaluation_runs_published\<close>).
  Conversely, when the services answer, a rule gets from its creation to its evaluation exactly when the
  JSON column prints back a text that compiles to the submitted definition, and is refused at its
  publication otherwise (\<open>published_rule_evaluates\<close>).
  For single operations: atomic publication of exactly the requested version with exactly one event, replay of a repeated key, isolation
  of tenants, documented errors, pages and batches. For the engine: canonical texts, first match, shape
  and issues. For the transports: only authenticated and authorized callers change anything, every API
  request gets one unified answer, repeated requests are replayed, panics are contained, and the two transports agree. For configuration and
  authentication: what validation guarantees, and tokens round trip. For the clients and the
  application: bounded retries and pauses, the registry, safe migrations, the event runtime.

  \<^bold>\<open>Assumptions about other code\<close> are hypotheses of the theorems that need them: an idempotency manager
  that accepted a result from the owner of a key replays it, the JWT library truncates times to whole
  seconds and reads back the tokens it signed until they expire, the canonical texts that a checksum
  compares do not collide under SHA-256. What a database, a clock or
  another service answers is otherwise arbitrary: a statement may fail at any point, a failed commit may
  have been applied, and a JSON column may print back any text.

  \<^bold>\<open>Not modelled.\<close> \<open>docs/docs.go\<close> is generated. The log calls of most packages are output only and left out.
  The dependency injection container of \<open>fx\<close> decides the order in which \<open>app.New\<close> runs the constructors
  and hooks, which is not modelled; what each of them does is. The outbox dispatcher and
  cleaner belong to the platform library: the outbox of the model only grows. A read with the database
  disabled dereferences a nil \<open>*sqlx.DB\<close>: the model has the enabled database. Concurrent transactions are
  serializable in the model: the statements of one transaction run without another's between them, which
  the row locks of \<open>CreateRuleVersion\<close> and the conditional updates of the others provide. Version
  counters are unbounded where the tables have BIGINT columns. The two reads of a publication or an
  evaluation (a rule set, then one of its versions) are one step of the model. Of gin the trailing-slash
  redirects and the recovery from a broken connection, which writes no answer, are left out; of
  \<open>http.Header\<close> the multiple values of a name and the canonical spelling of names. The loops of the event
  runtime end with the wait of its stop.
\<close>

end
